(* ===== verification/TEAL_Errors.thy ===== *)
theory TEAL_Errors
  imports Main
begin

text \<open>
  The error descriptors of \<^verbatim>\<open>errors/errors-list.ts\<close>, one datatype per category and one
  constructor per descriptor, with their numbers. A thrown \<^verbatim>\<open>RuntimeError\<close> is its descriptor: the
  message arguments (line numbers, offending values) are not kept. \<^verbatim>\<open>JsError\<close> stands for the
  errors the JavaScript engine or a plain \<^verbatim>\<open>throw new Error\<close> raise, and \<^verbatim>\<open>Hang\<close> for a loop that
  does not return: the theorems on the loops show where it cannot occur.
\<close>

datatype (plugins only: size code) teal_error =
    ASSERT_STACK_LENGTH | ASSERT_ARR_LENGTH | INVALID_OP_ARG | INVALID_TYPE
  | UINT64_OVERFLOW | UINT64_UNDERFLOW | ZERO_DIV | REJECTED_BY_LOGIC
  | INDEX_OUT_OF_BOUND | TEAL_ENCOUNTERED_ERR | CONCAT_ERROR | LONG_INPUT_ERROR
  | SUBSTRING_END_BEFORE_START | SUBSTRING_RANGE_BEYOND | INVALID_UINT8
  | ASSERT_LENGTH | INVALID_ADDR | PRAGMA_VERSION_ERROR | INVALID_BASE64
  | INVALID_BASE32 | DECODE_ERROR | UNKOWN_DECODE_TYPE | INVALID_SCHEMA
  | LABEL_NOT_FOUND | INVALID_LABEL | UNKNOWN_TRANSACTION_FIELD | UNKNOWN_GLOBAL_FIELD
  | UNKNOWN_ASSET_FIELD | UNKNOWN_OPCODE | MAX_COST_EXCEEDED | MAX_LEN_EXCEEDED
  | PRAGMA_NOT_AT_FIRST_LINE | SET_BIT_VALUE_ERROR | SET_BIT_INDEX_ERROR
  | SET_BIT_INDEX_BYTES_ERROR | SCRATCH_EXIST_ERROR | BYTES_LEN_EXCEEDED
  | ADDR_NOT_FOUND_IN_TXN_ACCOUNT | INVALID_APP_REFERENCE | INVALID_ASA_REFERENCE
  | CALL_STACK_EMPTY | UINT128_OVERFLOW | EXP_ERROR | GROUP_INDEX_EXIST_ERROR
  | EXTRACT_RANGE_ERROR | CURVE_NOT_SUPPORTED | ITXN_BEGIN_WITHOUT_ITXN_SUBMIT
  | ITXN_FIELD_WITHOUT_ITXN_BEGIN | ITXN_FIELD_ERR | ITXN_SUBMIT_WITHOUT_ITXN_BEGIN
  | NO_INNER_TRANSACTION_AVAILABLE | ADDR_NOT_VALID | LOGS_COUNT_EXCEEDED_THRESHOLD
  | LOGS_LENGTH_EXCEEDED_THRESHOLD | UNKNOWN_APP_FIELD | EXECUTION_MODE_NOT_VALID
  | PROGRAM_VERSION_MISMATCH | UNKNOWN_ACCT_FIELD | ITXN_NEXT_WITHOUT_ITXN_BEGIN
  | UNKNOWN_ENCODING | INVALID_BASE64URL | ISSUE_ITXN_WHEN_CLEAR_PROGRAM
  | BYTES_REPLACE_ERROR | UNKNOWN_JSON_TYPE | INVALID_JSON_PARSING | UNKNOWN_KEY_JSON
  | MAX_BYTE_ARRAY_EXCEEDED | PROGRAM_LENGTH_EXCEEDED | UNSUPPORTED_VRF_STANDARD
  | INVALID_PUB_KEY_LENGTH | INVALID_PROOF_LENGTH | UNKNOWN_VRF_TYPE
  | EXTRA_PAGES_EXCEEDED | UNKNOWN_BLOCK_FIELD | LABELS_LENGTH_INVALID

datatype (plugins only: size code) general_error =
    LOGIC_SIGNATURE_NOT_FOUND | LOGIC_SIGNATURE_VALIDATION_FAILED | INVALID_ROUND
  | INVALID_SECRET_KEY | ACCOUNT_DOES_NOT_EXIST | APP_NOT_FOUND
  | INVALID_APPROVAL_PROGRAM | INVALID_CLEAR_PROGRAM | INVALID_PROGRAM
  | MULTIPLE_FILES_WITH_SAME_NAME_IN_DIR | FILE_NOT_FOUND_IN_DIR
  | INVALID_TX_ACCOUNTS_LEN | INVALID_APP_ARGS_LEN | MAX_REFERENCES_EXCEEDED
  | MAX_INNER_TRANSACTIONS_EXCEEDED | INVALID_AUTH_ACCOUNT | ACCOUNT_ADDR_MISMATCH
  | MAX_SCHEMA_ENTRIES_EXCEEDED | APP_NAME_ALREADLY_USED | TOO_MANY_INNER_TXN
  | INVALID_MULTISIG | PRODUCE_BLOCK | INVALID_BLOCK | ROUND_NOT_AVAILABLE
  | CONFIG_FILE_NOT_FOUND | NETWORK_ACCOUNT_NOT_FOUND | INVALID_NETWORK

datatype (plugins only: size code) transaction_error =
    TRANSACTION_TYPE_ERROR | INSUFFICIENT_ACCOUNT_BALANCE | INSUFFICIENT_ACCOUNT_ASSETS
  | INVALID_TRANSACTION_PARAMS | ASA_NOT_OPTIN | ACCOUNT_ASSET_FROZEN
  | FEES_NOT_ENOUGH | INVALID_CLOSE_REMAINDER_TO | INNER_APP_CALL_INVALID_VERSION
  | INNER_APP_DEEP_EXCEEDED | INNER_APP_SELF_CALL | TRANSACTION_ALREADY_IN_LEDGER

datatype (plugins only: size code) asa_error =
    PARAM_PARSE_ERROR | PARAM_ERROR_NO_NAMED_OPT_IN_ACCOUNT | ASSET_NOT_FOUND
  | MANAGER_ERROR | FREEZE_ERROR | CLAWBACK_ERROR | BLANK_ADDRESS_ERROR
  | ASSET_TOTAL_ERROR | CANNOT_CLOSE_ASSET_BY_CLAWBACK | CANNOT_CLOSE_ASSET_BY_CREATOR
  | ASA_FILE_IS_UNDEFINED | ASA_DEFINITION_NO_FOUND_IN_ASA_FILE

datatype js_error = TypeError | RangeError | SyntaxError | PlainError string

datatype error =
    TEAL teal_error
  | GENERAL general_error
  | TRANSACTION transaction_error
  | ASA asa_error
  | JsError js_error
  | Hang

primrec teal_error_number :: "teal_error \<Rightarrow> nat" where
    "teal_error_number ASSERT_STACK_LENGTH = 1000"
  | "teal_error_number ASSERT_ARR_LENGTH = 1001"
  | "teal_error_number INVALID_OP_ARG = 1002"
  | "teal_error_number INVALID_TYPE = 1003"
  | "teal_error_number UINT64_OVERFLOW = 1004"
  | "teal_error_number UINT64_UNDERFLOW = 1005"
  | "teal_error_number ZERO_DIV = 1006"
  | "teal_error_number REJECTED_BY_LOGIC = 1007"
  | "teal_error_number INDEX_OUT_OF_BOUND = 1008"
  | "teal_error_number TEAL_ENCOUNTERED_ERR = 1009"
  | "teal_error_number CONCAT_ERROR = 1010"
  | "teal_error_number LONG_INPUT_ERROR = 1011"
  | "teal_error_number SUBSTRING_END_BEFORE_START = 1012"
  | "teal_error_number SUBSTRING_RANGE_BEYOND = 1013"
  | "teal_error_number INVALID_UINT8 = 1014"
  | "teal_error_number ASSERT_LENGTH = 1015"
  | "teal_error_number INVALID_ADDR = 1016"
  | "teal_error_number PRAGMA_VERSION_ERROR = 1017"
  | "teal_error_number INVALID_BASE64 = 1018"
  | "teal_error_number INVALID_BASE32 = 1019"
  | "teal_error_number DECODE_ERROR = 1020"
  | "teal_error_number UNKOWN_DECODE_TYPE = 1021"
  | "teal_error_number INVALID_SCHEMA = 1022"
  | "teal_error_number LABEL_NOT_FOUND = 1023"
  | "teal_error_number INVALID_LABEL = 1024"
  | "teal_error_number UNKNOWN_TRANSACTION_FIELD = 1025"
  | "teal_error_number UNKNOWN_GLOBAL_FIELD = 1026"
  | "teal_error_number UNKNOWN_ASSET_FIELD = 1027"
  | "teal_error_number UNKNOWN_OPCODE = 1028"
  | "teal_error_number MAX_COST_EXCEEDED = 1029"
  | "teal_error_number MAX_LEN_EXCEEDED = 1030"
  | "teal_error_number PRAGMA_NOT_AT_FIRST_LINE = 1031"
  | "teal_error_number SET_BIT_VALUE_ERROR = 1032"
  | "teal_error_number SET_BIT_INDEX_ERROR = 1033"
  | "teal_error_number SET_BIT_INDEX_BYTES_ERROR = 1034"
  | "teal_error_number SCRATCH_EXIST_ERROR = 1035"
  | "teal_error_number BYTES_LEN_EXCEEDED = 1036"
  | "teal_error_number ADDR_NOT_FOUND_IN_TXN_ACCOUNT = 1037"
  | "teal_error_number INVALID_APP_REFERENCE = 1038"
  | "teal_error_number INVALID_ASA_REFERENCE = 1039"
  | "teal_error_number CALL_STACK_EMPTY = 1040"
  | "teal_error_number UINT128_OVERFLOW = 1041"
  | "teal_error_number EXP_ERROR = 1042"
  | "teal_error_number GROUP_INDEX_EXIST_ERROR = 1043"
  | "teal_error_number EXTRACT_RANGE_ERROR = 1044"
  | "teal_error_number CURVE_NOT_SUPPORTED = 1045"
  | "teal_error_number ITXN_BEGIN_WITHOUT_ITXN_SUBMIT = 1046"
  | "teal_error_number ITXN_FIELD_WITHOUT_ITXN_BEGIN = 1047"
  | "teal_error_number ITXN_FIELD_ERR = 1048"
  | "teal_error_number ITXN_SUBMIT_WITHOUT_ITXN_BEGIN = 1049"
  | "teal_error_number NO_INNER_TRANSACTION_AVAILABLE = 1049"
  | "teal_error_number ADDR_NOT_VALID = 1050"
  | "teal_error_number LOGS_COUNT_EXCEEDED_THRESHOLD = 1051"
  | "teal_error_number LOGS_LENGTH_EXCEEDED_THRESHOLD = 1052"
  | "teal_error_number UNKNOWN_APP_FIELD = 1053"
  | "teal_error_number EXECUTION_MODE_NOT_VALID = 1054"
  | "teal_error_number PROGRAM_VERSION_MISMATCH = 1055"
  | "teal_error_number UNKNOWN_ACCT_FIELD = 1056"
  | "teal_error_number ITXN_NEXT_WITHOUT_ITXN_BEGIN = 1057"
  | "teal_error_number UNKNOWN_ENCODING = 1058"
  | "teal_error_number INVALID_BASE64URL = 1059"
  | "teal_error_number ISSUE_ITXN_WHEN_CLEAR_PROGRAM = 1060"
  | "teal_error_number BYTES_REPLACE_ERROR = 1061"
  | "teal_error_number UNKNOWN_JSON_TYPE = 1062"
  | "teal_error_number INVALID_JSON_PARSING = 1063"
  | "teal_error_number UNKNOWN_KEY_JSON = 1064"
  | "teal_error_number MAX_BYTE_ARRAY_EXCEEDED = 1065"
  | "teal_error_number PROGRAM_LENGTH_EXCEEDED = 1066"
  | "teal_error_number UNSUPPORTED_VRF_STANDARD = 1067"
  | "teal_error_number INVALID_PUB_KEY_LENGTH = 1068"
  | "teal_error_number INVALID_PROOF_LENGTH = 1069"
  | "teal_error_number UNKNOWN_VRF_TYPE = 1070"
  | "teal_error_number EXTRA_PAGES_EXCEEDED = 1071"
  | "teal_error_number UNKNOWN_BLOCK_FIELD = 1072"
  | "teal_error_number LABELS_LENGTH_INVALID = 1073"

primrec general_error_number :: "general_error \<Rightarrow> nat" where
    "general_error_number LOGIC_SIGNATURE_NOT_FOUND = 1300"
  | "general_error_number LOGIC_SIGNATURE_VALIDATION_FAILED = 1301"
  | "general_error_number INVALID_ROUND = 1302"
  | "general_error_number INVALID_SECRET_KEY = 1304"
  | "general_error_number ACCOUNT_DOES_NOT_EXIST = 1305"
  | "general_error_number APP_NOT_FOUND = 1306"
  | "general_error_number INVALID_APPROVAL_PROGRAM = 1307"
  | "general_error_number INVALID_CLEAR_PROGRAM = 1308"
  | "general_error_number INVALID_PROGRAM = 1309"
  | "general_error_number MULTIPLE_FILES_WITH_SAME_NAME_IN_DIR = 1310"
  | "general_error_number FILE_NOT_FOUND_IN_DIR = 1311"
  | "general_error_number INVALID_TX_ACCOUNTS_LEN = 1312"
  | "general_error_number INVALID_APP_ARGS_LEN = 1313"
  | "general_error_number MAX_REFERENCES_EXCEEDED = 1314"
  | "general_error_number MAX_INNER_TRANSACTIONS_EXCEEDED = 1315"
  | "general_error_number INVALID_AUTH_ACCOUNT = 1316"
  | "general_error_number ACCOUNT_ADDR_MISMATCH = 1317"
  | "general_error_number MAX_SCHEMA_ENTRIES_EXCEEDED = 1318"
  | "general_error_number APP_NAME_ALREADLY_USED = 1319"
  | "general_error_number TOO_MANY_INNER_TXN = 1320"
  | "general_error_number INVALID_MULTISIG = 1321"
  | "general_error_number PRODUCE_BLOCK = 1322"
  | "general_error_number INVALID_BLOCK = 1323"
  | "general_error_number ROUND_NOT_AVAILABLE = 1324"
  | "general_error_number CONFIG_FILE_NOT_FOUND = 1325"
  | "general_error_number NETWORK_ACCOUNT_NOT_FOUND = 1326"
  | "general_error_number INVALID_NETWORK = 1327"

primrec transaction_error_number :: "transaction_error \<Rightarrow> nat" where
    "transaction_error_number TRANSACTION_TYPE_ERROR = 1400"
  | "transaction_error_number INSUFFICIENT_ACCOUNT_BALANCE = 1401"
  | "transaction_error_number INSUFFICIENT_ACCOUNT_ASSETS = 1402"
  | "transaction_error_number INVALID_TRANSACTION_PARAMS = 1403"
  | "transaction_error_number ASA_NOT_OPTIN = 1404"
  | "transaction_error_number ACCOUNT_ASSET_FROZEN = 1405"
  | "transaction_error_number FEES_NOT_ENOUGH = 1406"
  | "transaction_error_number INVALID_CLOSE_REMAINDER_TO = 1407"
  | "transaction_error_number INNER_APP_CALL_INVALID_VERSION = 1408"
  | "transaction_error_number INNER_APP_DEEP_EXCEEDED = 1409"
  | "transaction_error_number INNER_APP_SELF_CALL = 1410"
  | "transaction_error_number TRANSACTION_ALREADY_IN_LEDGER = 1411"

primrec asa_error_number :: "asa_error \<Rightarrow> nat" where
    "asa_error_number PARAM_PARSE_ERROR = 1500"
  | "asa_error_number PARAM_ERROR_NO_NAMED_OPT_IN_ACCOUNT = 1501"
  | "asa_error_number ASSET_NOT_FOUND = 1502"
  | "asa_error_number MANAGER_ERROR = 1504"
  | "asa_error_number FREEZE_ERROR = 1505"
  | "asa_error_number CLAWBACK_ERROR = 1506"
  | "asa_error_number BLANK_ADDRESS_ERROR = 1507"
  | "asa_error_number ASSET_TOTAL_ERROR = 1508"
  | "asa_error_number CANNOT_CLOSE_ASSET_BY_CLAWBACK = 1509"
  | "asa_error_number CANNOT_CLOSE_ASSET_BY_CREATOR = 1510"
  | "asa_error_number ASA_FILE_IS_UNDEFINED = 1511"
  | "asa_error_number ASA_DEFINITION_NO_FOUND_IN_ASA_FILE = 1511"

text \<open>The code a \<^verbatim>\<open>RuntimeError\<close> carries in its \<^verbatim>\<open>number\<close> field; other errors have none.\<close>

fun error_number :: "error \<Rightarrow> nat option" where
    "error_number (TEAL e) = Some (teal_error_number e)"
  | "error_number (GENERAL e) = Some (general_error_number e)"
  | "error_number (TRANSACTION e) = Some (transaction_error_number e)"
  | "error_number (ASA e) = Some (asa_error_number e)"
  | "error_number (JsError _) = None"
  | "error_number Hang = None"

text \<open>\<^verbatim>\<open>RUNTIME_ERROR_RANGES\<close>: the range of numbers of each category.\<close>

fun error_range :: "error \<Rightarrow> (nat \<times> nat) option" where
    "error_range (TEAL _) = Some (1000, 1099)"
  | "error_range (GENERAL _) = Some (1300, 1399)"
  | "error_range (TRANSACTION _) = Some (1400, 1499)"
  | "error_range (ASA _) = Some (1500, 1599)"
  | "error_range (JsError _) = None"
  | "error_range Hang = None"

end
