(* ===== verification/TEAL_Prelude.thy ===== *)
theory TEAL_Prelude
  imports TEAL_Errors "HOL-Library.Word" "HOL-Library.AList" "HOL-Library.Signed_Division"
begin

text \<open>
  Shared vocabulary of the development: bytes, the state-and-exception monad in which the
  simulator's methods are written, Hoare triples for it, the interface of a JavaScript \<^verbatim>\<open>Map\<close>
  and its model as an insertion-ordered association list, and the \<^verbatim>\<open>Number(bigint)\<close> conversion.
\<close>

type_synonym byte = "8 word"
type_synonym bytes = "8 word list"

named_theorems exec_simps \<open>evaluation rules of the monad\<close>
named_theorems ok_intros \<open>syntax-directed rules for the triples\<close>

section \<open>Exceptions over a state that survives them\<close>

text \<open>
  A JavaScript method that throws leaves the objects it has already updated as they are, and the
  simulator catches errors in two places (the clear-state program and a failing opt-in). So the
  state is returned beside the error too.
\<close>

type_synonym ('s, 'a) exec = "'s \<Rightarrow> (error + 'a) \<times> 's"

definition returnM :: "'a \<Rightarrow> ('s, 'a) exec" where
  "returnM a = (\<lambda>s. (Inr a, s))"

definition throwM :: "error \<Rightarrow> ('s, 'a) exec" where
  "throwM e = (\<lambda>s. (Inl e, s))"

definition bindM :: "('s, 'a) exec \<Rightarrow> ('a \<Rightarrow> ('s, 'b) exec) \<Rightarrow> ('s, 'b) exec" where
  "bindM m f = (\<lambda>s. case m s of (Inl e, s') \<Rightarrow> (Inl e, s') | (Inr a, s') \<Rightarrow> f a s')"

definition seqM :: "('s, 'a) exec \<Rightarrow> ('s, 'b) exec \<Rightarrow> ('s, 'b) exec" where
  "seqM m n = bindM m (\<lambda>_. n)"

definition getM :: "('s \<Rightarrow> 'a) \<Rightarrow> ('s, 'a) exec" where
  "getM f = (\<lambda>s. (Inr (f s), s))"

definition modifyM :: "('s \<Rightarrow> 's) \<Rightarrow> ('s, unit) exec" where
  "modifyM f = (\<lambda>s. (Inr (), f s))"

text \<open>\<^verbatim>\<open>if (!c) throw e\<close>\<close>
definition assertM :: "bool \<Rightarrow> error \<Rightarrow> ('s, unit) exec" where
  "assertM c e = (if c then returnM () else throwM e)"

definition liftM :: "error + 'a \<Rightarrow> ('s, 'a) exec" where
  "liftM r = (\<lambda>s. (r, s))"

text \<open>\<^verbatim>\<open>x ?? throw e\<close>\<close>
definition someM :: "error \<Rightarrow> 'a option \<Rightarrow> ('s, 'a) exec" where
  "someM e x = (case x of None \<Rightarrow> throwM e | Some a \<Rightarrow> returnM a)"

definition catchM :: "('s, 'a) exec \<Rightarrow> (error \<Rightarrow> ('s, 'a) exec) \<Rightarrow> ('s, 'a) exec" where
  "catchM m h = (\<lambda>s. case m s of (Inl e, s') \<Rightarrow> h e s' | (Inr a, s') \<Rightarrow> (Inr a, s'))"

primrec forM :: "'a list \<Rightarrow> ('a \<Rightarrow> ('s, unit) exec) \<Rightarrow> ('s, unit) exec" where
    "forM [] f = returnM ()"
  | "forM (x # xs) f = seqM (f x) (forM xs f)"

lemma bindM_apply [exec_simps]:
  "bindM m f s = (case m s of (Inl e, s') \<Rightarrow> (Inl e, s') | (Inr a, s') \<Rightarrow> f a s')"
  by (simp add: bindM_def)

lemma monad_apply [exec_simps]:
  "returnM a s = (Inr a, s)"
  "throwM e s = (Inl e, s)"
  "seqM m n s = bindM m (\<lambda>_. n) s"
  "getM f s = (Inr (f s), s)"
  "modifyM g s = (Inr (), g s)"
  "assertM c e s = (if c then Inr () else Inl e, s)"
  "liftM r s = (r, s)"
  "someM e None s = (Inl e, s)"
  "someM e (Some a) s = (Inr a, s)"
  by (simp_all add: returnM_def throwM_def seqM_def getM_def modifyM_def assertM_def liftM_def
      someM_def)

lemma bindM_assoc: "bindM (bindM m f) g = bindM m (\<lambda>x. bindM (f x) g)"
  by (rule ext) (simp add: bindM_def split: prod.splits sum.splits)

lemma bindM_Inr: "bindM m f s = (Inr b, t) \<longleftrightarrow> (\<exists>a s'. m s = (Inr a, s') \<and> f a s' = (Inr b, t))"
  by (auto simp: bindM_def split: prod.splits sum.splits)

section \<open>Triples\<close>

text \<open>
  \<^term>\<open>okM P m Q E\<close>: run from a state satisfying \<^term>\<open>P\<close>, the method returns a value and a state
  related by \<^term>\<open>Q\<close>, or throws in a state satisfying \<^term>\<open>E\<close>.
\<close>

definition okM ::
  "('s \<Rightarrow> bool) \<Rightarrow> ('s, 'a) exec \<Rightarrow> ('a \<Rightarrow> 's \<Rightarrow> bool) \<Rightarrow> (error \<Rightarrow> 's \<Rightarrow> bool) \<Rightarrow> bool" where
  "okM P m Q E \<longleftrightarrow> (\<forall>s. P s \<longrightarrow> (case m s of (Inl e, s') \<Rightarrow> E e s' | (Inr a, s') \<Rightarrow> Q a s'))"

lemma okM_D:
  assumes "okM P m Q E" "P s"
  shows "m s = (Inr a, s') \<Longrightarrow> Q a s'" and "m s = (Inl e, s') \<Longrightarrow> E e s'"
  using assms by (auto simp: okM_def)

lemma okM_I:
  assumes "\<And>s a s'. P s \<Longrightarrow> m s = (Inr a, s') \<Longrightarrow> Q a s'"
    and "\<And>s e s'. P s \<Longrightarrow> m s = (Inl e, s') \<Longrightarrow> E e s'"
  shows "okM P m Q E"
  using assms by (fastforce simp: okM_def split: prod.splits sum.splits)

lemma okM_weaken:
  assumes "okM P' m Q' E'" "\<And>s. P s \<Longrightarrow> P' s" "\<And>a s. Q' a s \<Longrightarrow> Q a s" "\<And>e s. E' e s \<Longrightarrow> E e s"
  shows "okM P m Q E"
  using assms by (fastforce simp: okM_def split: prod.splits sum.splits)

lemma okM_bind [ok_intros]:
  assumes "okM P m Q E" "\<And>a. okM (Q a) (f a) R E"
  shows "okM P (bindM m f) R E"
  using assms by (fastforce simp: okM_def bindM_def split: prod.splits sum.splits)

lemma okM_seq [ok_intros]:
  assumes "okM P m (\<lambda>_. Q) E" "okM Q n R E"
  shows "okM P (seqM m n) R E"
  unfolding seqM_def using assms by (rule okM_bind)

lemma okM_return: "(\<And>s. P s \<Longrightarrow> Q a s) \<Longrightarrow> okM P (returnM a) Q E"
  by (simp add: okM_def returnM_def)

lemma okM_throw: "(\<And>s. P s \<Longrightarrow> E e s) \<Longrightarrow> okM P (throwM e) Q E"
  by (simp add: okM_def throwM_def)

lemma okM_modify: "(\<And>s. P s \<Longrightarrow> Q () (f s)) \<Longrightarrow> okM P (modifyM f) Q E"
  by (simp add: okM_def modifyM_def)

lemma okM_get: "(\<And>s. P s \<Longrightarrow> Q (f s) s) \<Longrightarrow> okM P (getM f) Q E"
  by (simp add: okM_def getM_def)

lemma okM_assert:
  "(\<And>s. P s \<Longrightarrow> c \<Longrightarrow> Q () s) \<Longrightarrow> (\<And>s. P s \<Longrightarrow> \<not> c \<Longrightarrow> E e s) \<Longrightarrow> okM P (assertM c e) Q E"
  by (simp add: okM_def assertM_def returnM_def throwM_def)

lemma okM_lift:
  "(\<And>s a. P s \<Longrightarrow> r = Inr a \<Longrightarrow> Q a s) \<Longrightarrow> (\<And>s e. P s \<Longrightarrow> r = Inl e \<Longrightarrow> E e s) \<Longrightarrow> okM P (liftM r) Q E"
  by (simp add: okM_def liftM_def split: sum.splits)

lemma okM_some:
  "(\<And>s a. P s \<Longrightarrow> x = Some a \<Longrightarrow> Q a s) \<Longrightarrow> (\<And>s. P s \<Longrightarrow> x = None \<Longrightarrow> E e s) \<Longrightarrow> okM P (someM e x) Q E"
  by (simp add: okM_def someM_def returnM_def throwM_def split: option.splits)

lemma okM_if [ok_intros]:
  assumes "b \<Longrightarrow> okM P m Q E" "\<not> b \<Longrightarrow> okM P n Q E"
  shows "okM P (if b then m else n) Q E"
  using assms by simp

section \<open>Maps of the language\<close>

text \<open>
  What the code relies on of a JavaScript \<^verbatim>\<open>Map\<close>: \<^verbatim>\<open>get\<close>, \<^verbatim>\<open>set\<close>, \<^verbatim>\<open>delete\<close> and the iteration over
  its entries, in which every key occurs once. The lemmas on sums over the entries carry the
  accounting results of the ledger.
\<close>

locale js_map =
  fixes get :: "'m \<Rightarrow> 'k \<Rightarrow> 'v option"
    and put :: "'k \<Rightarrow> 'v \<Rightarrow> 'm \<Rightarrow> 'm"
    and del :: "'k \<Rightarrow> 'm \<Rightarrow> 'm"
    and ents :: "'m \<Rightarrow> ('k \<times> 'v) list"
    and wf :: "'m \<Rightarrow> bool"
  assumes get_ents: "wf m \<Longrightarrow> get m k = Some v \<longleftrightarrow> (k, v) \<in> set (ents m)"
    and keys_once: "wf m \<Longrightarrow> distinct (List.map fst (ents m))"
    and get_put: "get (put k v m) k' = (if k' = k then Some v else get m k')"
    and get_del: "get (del k m) k' = (if k' = k then None else get m k')"
    and wf_put: "wf m \<Longrightarrow> wf (put k v m)"
    and wf_del: "wf m \<Longrightarrow> wf (del k m)"
begin

definition total :: "('k \<Rightarrow> 'v \<Rightarrow> int) \<Rightarrow> 'm \<Rightarrow> int" where
  "total f m = (\<Sum>(k, v) \<leftarrow> ents m. f k v)"

lemma total_set: "wf m \<Longrightarrow> total f m = (\<Sum>(k, v) \<in> set (ents m). f k v)"
  unfolding total_def
  by (rule sum_list_distinct_conv_sum_set) (metis keys_once distinct_map)

lemma ents_Some: "wf m \<Longrightarrow> set (ents m) = {(k, v). get m k = Some v}"
  by (auto simp: get_ents)

lemma total_split:
  assumes "wf m" "get m k = Some v"
  shows "total f m = f k v + (\<Sum>(k', v') \<in> {(k', v'). k' \<noteq> k \<and> get m k' = Some v'}. f k' v')"
proof -
  let ?R = "{(k', v'). k' \<noteq> k \<and> get m k' = Some v'}"
  have eq: "set (ents m) = insert (k, v) ?R"
    unfolding ents_Some [OF assms(1)] using assms(2) by auto
  have "finite (insert (k, v) ?R)"
    unfolding eq [symmetric] by (rule List.finite_set)
  then have "finite ?R" by (simp only: finite_insert)
  moreover have "(k, v) \<notin> ?R" by simp
  ultimately have "sum h (insert (k, v) ?R) = h (k, v) + sum h ?R" for h :: "'k \<times> 'v \<Rightarrow> int"
    by (rule sum.insert)
  then show ?thesis
    unfolding total_set [OF assms(1)] eq by (simp only: prod.case)
qed

lemma total_absent:
  assumes "wf m" "get m k = None"
  shows "total f m = (\<Sum>(k', v') \<in> {(k', v'). k' \<noteq> k \<and> get m k' = Some v'}. f k' v')"
proof -
  have "set (ents m) = {(k', v'). k' \<noteq> k \<and> get m k' = Some v'}"
    using assms by (auto simp: ents_Some)
  then show ?thesis using assms by (simp add: total_set)
qed

lemma total_put:
  assumes "wf m"
  shows "total f (put k v m) = total f m + f k v - (case get m k of None \<Rightarrow> 0 | Some u \<Rightarrow> f k u)"
proof -
  have "{(k', v'). k' \<noteq> k \<and> get (put k v m) k' = Some v'} = {(k', v'). k' \<noteq> k \<and> get m k' = Some v'}"
    by (auto simp: get_put)
  then show ?thesis
    using total_split [OF wf_put [OF assms], of k v k v f] total_split [OF assms, of k _ f]
      total_absent [OF assms, of k f]
    by (cases "get m k") (simp_all add: get_put)
qed

lemma total_del:
  assumes "wf m"
  shows "total f (del k m) = total f m - (case get m k of None \<Rightarrow> 0 | Some u \<Rightarrow> f k u)"
proof -
  have "{(k', v'). k' \<noteq> k \<and> get (del k m) k' = Some v'} = {(k', v'). k' \<noteq> k \<and> get m k' = Some v'}"
    by (auto simp: get_del)
  then show ?thesis
    using total_absent [OF wf_del [OF assms], of k k f] total_split [OF assms, of k _ f]
      total_absent [OF assms, of k f]
    by (cases "get m k") (simp_all add: get_del)
qed

end

text \<open>
  The model of a \<^verbatim>\<open>Map\<close>: \<^term>\<open>AList.update\<close> replaces the value of a present key where it stands and
  appends a new key at the end, which is the insertion order the language specifies.
\<close>

type_synonym ('k, 'v) jsmap = "('k \<times> 'v) list"

definition wf_map :: "('k, 'v) jsmap \<Rightarrow> bool" where
  "wf_map m \<longleftrightarrow> distinct (List.map fst m)"

lemma wf_map_Nil [simp]: "wf_map []"
  by (simp add: wf_map_def)

lemma wf_map_update [simp]: "wf_map m \<Longrightarrow> wf_map (AList.update k v m)"
  by (simp add: wf_map_def distinct_update)

lemma wf_map_delete [simp]: "wf_map m \<Longrightarrow> wf_map (AList.delete k m)"
  by (simp add: wf_map_def distinct_delete)

lemma map_of_update [simp]: "map_of (AList.update k v m) k' = (if k' = k then Some v else map_of m k')"
  by (simp add: update_conv')

lemma map_of_delete [simp]: "map_of (AList.delete k m) k' = (if k' = k then None else map_of m k')"
  by (simp add: delete_conv')

interpretation jm: js_map map_of AList.update AList.delete "\<lambda>m. m" wf_map
  by unfold_locales
    (simp_all, auto simp: wf_map_def)

section \<open>Numbers\<close>

fun bit_length :: "nat \<Rightarrow> nat" where
  "bit_length n = (if n = 0 then 0 else Suc (bit_length (n div 2)))"

declare bit_length.simps [simp del]

lemma bit_length_less: "n < 2 ^ bit_length n"
proof (induction n rule: bit_length.induct)
  case (1 n)
  then show ?case
    by (cases "n = 0") (subst bit_length.simps, simp, subst bit_length.simps, force)
qed

lemma bit_length_ge: "n \<noteq> 0 \<Longrightarrow> 2 ^ (bit_length n - 1) \<le> n"
proof (induction n rule: bit_length.induct)
  case (1 n)
  show ?case
  proof (cases "n div 2 = 0")
    case True
    with 1 show ?thesis by (simp add: bit_length.simps [of n] bit_length.simps [of 0])
  next
    case False
    from 1 False have "2 ^ (bit_length (n div 2) - 1) \<le> n div 2" by simp
    moreover have "bit_length (n div 2) = Suc (bit_length (n div 2) - 1)"
      using False by (simp add: bit_length.simps [of "n div 2"])
    ultimately have "2 ^ bit_length (n div 2) \<le> 2 * (n div 2)"
      by (metis mult_le_mono2 power_Suc)
    then show ?thesis using 1 by (simp add: bit_length.simps [of n])
  qed
qed

text \<open>
  \<^verbatim>\<open>Number(x)\<close> for a bigint \<^verbatim>\<open>x\<close> of moderate size: the nearest IEEE double, ties to even. A double
  has 53 significant bits, so integers up to \<open>2 ^ 53\<close> are kept.
\<close>

definition round_half_even :: "nat \<Rightarrow> nat \<Rightarrow> nat" where
  "round_half_even n e =
     (let q = n div 2 ^ e; r = n mod 2 ^ e; h = 2 ^ e div 2
      in (if r > h \<or> (r = h \<and> odd q) then q + 1 else q) * 2 ^ e)"

definition js_Number :: "int \<Rightarrow> int" where
  "js_Number x =
     (if \<bar>x\<bar> \<le> 2 ^ 53 then x
      else sgn x * int (round_half_even (nat \<bar>x\<bar>) (bit_length (nat \<bar>x\<bar>) - 53)))"

lemma js_Number_exact [simp]: "\<bar>x\<bar> \<le> 2 ^ 53 \<Longrightarrow> js_Number x = x"
  by (simp add: js_Number_def)

lemma js_Number_ge:
  assumes "0 \<le> k" "k \<le> 2 ^ 53" "k \<le> x"
  shows "k \<le> js_Number x"
proof (cases "x \<le> 2 ^ 53")
  case True
  then show ?thesis using assms by simp
next
  case False
  define n where "n = nat x"
  define e where "e = bit_length n - 53"
  have x: "x = int n" and n: "2 ^ 53 < n" using False by (simp_all add: n_def)
  have "2 ^ 53 < (2 :: nat) ^ bit_length n" using n bit_length_less [of n] by simp
  then have bl: "53 < bit_length n" by (rule power_less_imp_less_exp [rotated]) simp
  then have e: "0 < e" "bit_length n - 1 = 52 + e" by (simp_all add: e_def)
  have "2 ^ 52 * 2 ^ e \<le> n"
    using bit_length_ge [of n] n unfolding e(2) by (simp add: power_add)
  then have q: "2 ^ 52 \<le> n div 2 ^ e"
    by (simp add: less_eq_div_iff_mult_less_eq)
  have "(2 :: nat) ^ 1 \<le> 2 ^ e" using e by (intro power_increasing) auto
  then have "2 ^ 52 * 2 \<le> (n div 2 ^ e) * 2 ^ e" using q by (intro mult_le_mono) auto
  also have "\<dots> \<le> round_half_even n e"
    by (auto simp: round_half_even_def Let_def intro!: mult_le_mono)
  finally have "2 ^ 53 \<le> int (round_half_even n e)" by simp
  then show ?thesis using False assms(2) by (simp add: js_Number_def x e_def)
qed

end
