(* ===== verification/TEAL_Limits.thy ===== *)
theory TEAL_Limits
  imports TEAL_Prelude
begin

text \<open>
  The limits and prices of \<^verbatim>\<open>lib/constants.ts\<close>. They are simplification rules, so that arithmetic
  on them needs no unfolding. Fees and balances are in microalgos.
\<close>

definition MIN_UINT64 :: int where [simp]: "MIN_UINT64 = 0"
definition MAX_UINT64 :: int where [simp]: "MAX_UINT64 = 0xFFFFFFFFFFFFFFFF"
definition MAX_UINT128 :: int where [simp]: "MAX_UINT128 = 340282366920938463463374607431768211455"
definition MAX_UINT8 :: int where [simp]: "MAX_UINT8 = 255"
definition MIN_UINT8 :: int where [simp]: "MIN_UINT8 = 0"
definition MAX_UINT6 :: int where [simp]: "MAX_UINT6 = 63"
definition MAX_CONCAT_SIZE :: nat where [simp]: "MAX_CONCAT_SIZE = 4096"
definition ALGORAND_MIN_TX_FEE :: int where [simp]: "ALGORAND_MIN_TX_FEE = 1000"
definition maxStringSize :: nat where [simp]: "maxStringSize = 4096"
definition ALGORAND_ACCOUNT_MIN_BALANCE :: int where [simp]: "ALGORAND_ACCOUNT_MIN_BALANCE = 100000"
definition MaxTEALVersion :: nat where [simp]: "MaxTEALVersion = 8"
definition MinVersionSupportC2CCall :: nat where [simp]: "MinVersionSupportC2CCall = 6"

definition APPLICATION_BASE_FEE :: int where [simp]: "APPLICATION_BASE_FEE = 100000"
definition ASSET_CREATION_FEE :: int where [simp]: "ASSET_CREATION_FEE = 100000"
definition SSC_VALUE_UINT :: int where [simp]: "SSC_VALUE_UINT = 28500"
definition SSC_VALUE_BYTES :: int where [simp]: "SSC_VALUE_BYTES = 50000"
definition MAX_KEY_BYTES :: nat where [simp]: "MAX_KEY_BYTES = 64"
definition MAX_KEY_VAL_BYTES :: nat where [simp]: "MAX_KEY_VAL_BYTES = 128"

definition LOGIC_SIG_MAX_COST :: int where [simp]: "LOGIC_SIG_MAX_COST = 20000"
definition MAX_APP_PROGRAM_COST :: int where [simp]: "MAX_APP_PROGRAM_COST = 700"
definition LogicSigMaxSize :: nat where [simp]: "LogicSigMaxSize = 1000"
definition MaxAppProgramLen :: nat where [simp]: "MaxAppProgramLen = 2048"
definition ALGORAND_MAX_APP_ARGS_LEN :: nat where [simp]: "ALGORAND_MAX_APP_ARGS_LEN = 16"
definition ALGORAND_MAX_TX_ACCOUNTS_LEN :: nat where [simp]: "ALGORAND_MAX_TX_ACCOUNTS_LEN = 4"
definition ALGORAND_MAX_TX_ARRAY_LEN :: nat where [simp]: "ALGORAND_MAX_TX_ARRAY_LEN = 8"
definition MAX_INNER_TRANSACTIONS :: nat where [simp]: "MAX_INNER_TRANSACTIONS = 16"
definition ALGORAND_MAX_LOGS_COUNT :: nat where [simp]: "ALGORAND_MAX_LOGS_COUNT = 32"
definition ALGORAND_MAX_LOGS_LENGTH :: nat where [simp]: "ALGORAND_MAX_LOGS_LENGTH = 1024"

definition MAX_GLOBAL_SCHEMA_ENTRIES :: int where [simp]: "MAX_GLOBAL_SCHEMA_ENTRIES = 64"
definition MAX_LOCAL_SCHEMA_ENTRIES :: int where [simp]: "MAX_LOCAL_SCHEMA_ENTRIES = 16"
definition MAX_INPUT_BYTE_LEN :: nat where [simp]: "MAX_INPUT_BYTE_LEN = 64"
definition MAX_OUTPUT_BYTE_LEN :: nat where [simp]: "MAX_OUTPUT_BYTE_LEN = 128"
definition MaxTxnLife :: int where [simp]: "MaxTxnLife = 1000"

definition ZERO_ADDRESS :: bytes where "ZERO_ADDRESS = replicate 32 0"
definition ZERO_ADDRESS_STR :: string where
  "ZERO_ADDRESS_STR = ''AAAAAAAAAAAAAAAAAAAAAAAAAAAAAAAAAAAAAAAAAAAAAAAAAAAAY5HFKQ''"

section \<open>Prices of opcodes\<close>

text \<open>
  \<^verbatim>\<open>OpGasCost[version][opcode]\<close>: each version starts from the previous one's table and overrides
  some entries; an opcode that no table lists has no entry (the readers' default is 1).
\<close>

definition gas_v1 :: "(string, int) jsmap" where
  "gas_v1 = [(''sha256'', 7), (''sha512_256'', 9), (''keccak256'', 26), (''ed25519verify'', 1900)]"

definition gas_v2 :: "(string, int) jsmap" where
  "gas_v2 = [(''sha256'', 35), (''sha512_256'', 45), (''keccak256'', 130)]"

definition gas_v4 :: "(string, int) jsmap" where
  "gas_v4 = [(''b+'', 10), (''b-'', 10), (''b*'', 20), (''b/'', 20), (''b%'', 20),
    (''b|'', 6), (''b&'', 6), (''b^'', 6), (''b~'', 4)]"

definition gas_v5 :: "(string, int) jsmap" where
  "gas_v5 = [(''ecdsa_verify'', 1700), (''ecdsa_pk_decompress'', 650), (''ecdsa_pk_recover'', 2000)]"

definition gas_v6 :: "(string, int) jsmap" where
  "gas_v6 = [(''bsqrt'', 40)]"

definition gas_v7 :: "(string, int) jsmap" where
  "gas_v7 = [(''sha3_256'', 130), (''ed25519verify_bare'', 1900), (''ecdsa_verify'', 2500),
    (''ecdsa_pk_decompress'', 2400), (''vrf_verify'', 5700)]"

fun OpGasCost :: "nat \<Rightarrow> string \<Rightarrow> int option" where
  "OpGasCost v =
     (if v = 0 \<or> 8 < v then Map.empty
      else map_of gas_v1
        ++ (if 2 \<le> v then map_of gas_v2 else Map.empty)
        ++ (if 4 \<le> v then map_of gas_v4 else Map.empty)
        ++ (if 5 \<le> v then map_of gas_v5 else Map.empty)
        ++ (if 6 \<le> v then map_of gas_v6 else Map.empty)
        ++ (if 7 \<le> v then map_of gas_v7 else Map.empty))"

declare OpGasCost.simps [simp del]

lemmas gas_tables = gas_v1_def gas_v2_def gas_v4_def gas_v5_def gas_v6_def gas_v7_def

lemma map_add_ge1:
  assumes "\<And>x c. m x = Some c \<Longrightarrow> (1 :: int) \<le> c" "\<And>x c. n x = Some c \<Longrightarrow> 1 \<le> c"
  shows "(m ++ n) x = Some c \<Longrightarrow> 1 \<le> c"
  using assms by (auto simp: map_add_Some_iff)

lemma gas_tables_ge1:
  "map_of gas_v1 x = Some c \<Longrightarrow> 1 \<le> c" "map_of gas_v2 x = Some c \<Longrightarrow> 1 \<le> c"
  "map_of gas_v4 x = Some c \<Longrightarrow> 1 \<le> c" "map_of gas_v5 x = Some c \<Longrightarrow> 1 \<le> c"
  "map_of gas_v6 x = Some c \<Longrightarrow> 1 \<le> c" "map_of gas_v7 x = Some c \<Longrightarrow> 1 \<le> c"
  by (drule map_of_SomeD, force simp: gas_tables)+

lemma OpGasCost_ge1: "OpGasCost v x = Some c \<Longrightarrow> 1 \<le> c"
  by (auto simp: OpGasCost.simps map_add_Some_iff split: if_splits dest: gas_tables_ge1)

end
