(* ===== verification/TEAL_Values.thy ===== *)
theory TEAL_Values
  imports TEAL_Limits
begin

text \<open>
  Stack values and the TEAL stack (\<^verbatim>\<open>types.ts\<close>, \<^verbatim>\<open>lib/stack.ts\<close>). A \<^verbatim>\<open>Uint8Array\<close> is a reference:
  the opcodes \<^verbatim>\<open>setbit\<close> and \<^verbatim>\<open>setbyte\<close> write into the array they popped, and every other holder of
  the same array sees the write. So byte values are references into an explicit heap of arrays.
\<close>

datatype stack_elem = BigInt int | Bytes nat

section \<open>The heap of arrays\<close>

type_synonym heap = "bytes list"

definition deref :: "heap \<Rightarrow> nat \<Rightarrow> bytes" where
  "deref h r = (if r < length h then h ! r else [])"

definition alloc :: "bytes \<Rightarrow> heap \<Rightarrow> nat \<times> heap" where
  "alloc b h = (length h, h @ [b])"

definition heap_write :: "nat \<Rightarrow> nat \<Rightarrow> byte \<Rightarrow> heap \<Rightarrow> heap" where
  "heap_write r i b h = h[r := (deref h r)[i := b]]"

lemma deref_alloc [simp]:
  "deref (snd (alloc b h)) r = (if r = length h then b else deref h r)"
  "fst (alloc b h) = length h"
  by (auto simp: deref_def alloc_def nth_append)

lemma deref_append [simp]: "deref (h @ [b]) r = (if r = length h then b else deref h r)"
  by (auto simp: deref_def nth_append)

lemma length_heap_write [simp]: "length (heap_write r i b h) = length h"
  by (simp add: heap_write_def)

lemma deref_write:
  "deref (heap_write r i b h) r' = (if r' = r then (deref h r)[i := b] else deref h r')"
  by (auto simp: deref_def heap_write_def)

text \<open>The value a stack element stands for in a heap: what the program can observe of it.\<close>

datatype plain = PInt int | PBytes bytes

fun view :: "heap \<Rightarrow> stack_elem \<Rightarrow> plain" where
    "view h (BigInt i) = PInt i"
  | "view h (Bytes r) = PBytes (deref h r)"

fun valid_elem :: "heap \<Rightarrow> stack_elem \<Rightarrow> bool" where
    "valid_elem h (BigInt i) \<longleftrightarrow> 0 \<le> i \<and> i \<le> MAX_UINT64"
  | "valid_elem h (Bytes r) \<longleftrightarrow> r < length h"

lemma valid_elem_mono: "valid_elem h x \<Longrightarrow> length h \<le> length h' \<Longrightarrow> valid_elem h' x"
  by (cases x) auto

section \<open>The stack\<close>

text \<open>
  \<^verbatim>\<open>IStack\<close>: what the opcodes rely on. \<^term>\<open>elems\<close> is the content with the top first,
  \<^term>\<open>cap\<close> the capacity.
\<close>

locale istack =
  fixes elems :: "'s \<Rightarrow> 'a list"
    and cap :: "'s \<Rightarrow> nat"
    and push :: "'a \<Rightarrow> 's \<Rightarrow> error + 's"
    and pop :: "'s \<Rightarrow> error + 'a \<times> 's"
    and len :: "'s \<Rightarrow> nat"
  assumes len_elems: "len s = length (elems s)"
    and push_room: "length (elems s) \<noteq> cap s \<Longrightarrow>
      \<exists>s'. push x s = Inr s' \<and> elems s' = x # elems s \<and> cap s' = cap s"
    and push_full: "length (elems s) = cap s \<Longrightarrow> \<exists>e. push x s = Inl e"
    and pop_some: "elems s = x # xs \<Longrightarrow> \<exists>s'. pop s = Inr (x, s') \<and> elems s' = xs \<and> cap s' = cap s"
    and pop_none: "elems s = [] \<Longrightarrow> \<exists>e. pop s = Inl e"
begin

lemma pop_push:
  assumes "push x s = Inr s'"
  shows "\<exists>s''. pop s' = Inr (x, s'') \<and> elems s'' = elems s \<and> cap s'' = cap s"
proof -
  have room: "length (elems s) \<noteq> cap s"
    using push_full [of s x] assms by auto
  then have "elems s' = x # elems s" "cap s' = cap s"
    using push_room [OF room, of x] assms by auto
  then show ?thesis using pop_some by metis
qed

lemma push_bound:
  assumes "length (elems s) \<le> cap s" "push x s = Inr s'"
  shows "length (elems s') \<le> cap s'"
proof -
  have room: "length (elems s) \<noteq> cap s"
    using push_full [of s x] assms by auto
  then show ?thesis using push_room [OF room, of x] assms by auto
qed

lemma pop_bound:
  assumes "length (elems s) \<le> cap s" "pop s = Inr (x, s')"
  shows "length (elems s') \<le> cap s' \<and> len s = Suc (len s')"
proof (cases "elems s")
  case Nil
  then show ?thesis using pop_none [of s] assms by auto
next
  case (Cons y ys)
  then show ?thesis using pop_some [OF Cons] assms by (auto simp: len_elems)
qed

primrec pops :: "nat \<Rightarrow> 's \<Rightarrow> error + 'a list \<times> 's" where
    "pops 0 s = Inr ([], s)"
  | "pops (Suc n) s = (case pop s of Inl e \<Rightarrow> Inl e
      | Inr (x, s') \<Rightarrow> (case pops n s' of Inl e \<Rightarrow> Inl e | Inr (xs, s'') \<Rightarrow> Inr (x # xs, s'')))"

lemma pops_take:
  "n \<le> len s \<Longrightarrow> \<exists>s'. pops n s = Inr (take n (elems s), s') \<and> elems s' = drop n (elems s) \<and> cap s' = cap s"
proof (induction n arbitrary: s)
  case (Suc n)
  then obtain x xs where e: "elems s = x # xs" by (cases "elems s") (auto simp: len_elems)
  then obtain s' where s': "pop s = Inr (x, s')" "elems s' = xs" "cap s' = cap s"
    using pop_some by blast
  moreover from Suc e s' obtain s'' where
    "pops n s' = Inr (take n xs, s'') \<and> elems s'' = drop n xs \<and> cap s'' = cap s'"
    using Suc.IH [of s'] by (auto simp: len_elems)
  ultimately show ?case by (auto simp: e)
qed simp

end

text \<open>
  \<^verbatim>\<open>class Stack\<close>: an array whose end is the top, and the capacity the constructor got.
\<close>

record 'a tstack =
  store :: "'a list"
  capacity :: nat

definition new_Stack :: "'a tstack" where
  "new_Stack = \<lparr>store = [], capacity = 1000\<rparr>"

definition stack_length :: "'a tstack \<Rightarrow> nat" where
  "stack_length st = length (store st)"

definition stack_push :: "'a \<Rightarrow> 'a tstack \<Rightarrow> error + 'a tstack" where
  "stack_push item st =
     (if stack_length st = capacity st
      then Inl (JsError (PlainError ''Stack overflow''))
      else Inr (st\<lparr>store := store st @ [item]\<rparr>))"

definition stack_pop :: "'a tstack \<Rightarrow> error + 'a \<times> 'a tstack" where
  "stack_pop st =
     (if stack_length st = 0
      then Inl (JsError (PlainError ''pop from empty stack''))
      else Inr (last (store st), st\<lparr>store := butlast (store st)\<rparr>))"

definition stack_debug :: "nat \<Rightarrow> 'a tstack \<Rightarrow> 'a list" where
  "stack_debug depth st = take (min depth (stack_length st)) (rev (store st))"

definition stack_elems :: "'a tstack \<Rightarrow> 'a list" where
  "stack_elems st = rev (store st)"

interpretation ts: istack stack_elems capacity stack_push stack_pop stack_length
proof
  fix s :: "'a tstack" and x xs
  show "stack_length s = length (stack_elems s)"
    by (simp add: stack_length_def stack_elems_def)
  show "length (stack_elems s) \<noteq> capacity s \<Longrightarrow>
      \<exists>s'. stack_push x s = Inr s' \<and> stack_elems s' = x # stack_elems s \<and> capacity s' = capacity s"
    by (simp add: stack_push_def stack_length_def stack_elems_def)
  show "length (stack_elems s) = capacity s \<Longrightarrow> \<exists>e. stack_push x s = Inl e"
    by (simp add: stack_push_def stack_length_def stack_elems_def)
  show "stack_elems s = x # xs \<Longrightarrow>
      \<exists>s'. stack_pop s = Inr (x, s') \<and> stack_elems s' = xs \<and> capacity s' = capacity s"
    by (cases "store s" rule: rev_cases) (auto simp: stack_pop_def stack_length_def stack_elems_def)
  show "stack_elems s = [] \<Longrightarrow> \<exists>e. stack_pop s = Inl e"
    by (simp add: stack_pop_def stack_length_def stack_elems_def)
qed

text \<open>
  The opcode proofs describe a stack by its elements, top first. \<^term>\<open>stk xs\<close> is the stack of the
  interpreter that holds \<^term>\<open>xs\<close>.
\<close>

definition stk :: "'a list \<Rightarrow> 'a tstack" where
  "stk xs = \<lparr>store = rev xs, capacity = 1000\<rparr>"

lemma stk_simps [simp]:
  "stack_length (stk xs) = length xs"
  "stack_pop (stk (x # xs)) = Inr (x, stk xs)"
  "stack_pop (stk []) = Inl (JsError (PlainError ''pop from empty stack''))"
  "stack_elems (stk xs) = xs"
  "capacity (stk xs) = 1000"
  by (simp_all add: stk_def stack_length_def stack_pop_def stack_elems_def)

lemma stk_push [simp]:
  "stack_push x (stk xs) =
    (if length xs = 1000 then Inl (JsError (PlainError ''Stack overflow'')) else Inr (stk (x # xs)))"
  by (simp add: stk_def stack_length_def stack_push_def)

lemma stk_inject [simp]: "stk xs = stk ys \<longleftrightarrow> xs = ys"
  by (simp add: stk_def)

lemma stk_elems: "capacity st = 1000 \<Longrightarrow> stk (stack_elems st) = st"
  by (simp add: stk_def stack_elems_def)

lemma new_Stack_stk: "new_Stack = stk []"
  by (simp add: new_Stack_def stk_def)

lemma stack_debug_top: "stack_debug d (stk xs) = take d xs"
  by (simp add: stack_debug_def stack_length_def stk_def min_def)

end
