(* ===== verification/TEAL_Codec.thy ===== *)
theory TEAL_Codec
  imports TEAL_Limits
begin

text \<open>
  The conversions of \<^verbatim>\<open>lib/parsing.ts\<close> between integers, byte arrays, binary strings and the
  comma-separated strings that serve as keys of the application state, with their round trips.
\<close>

section \<open>Digits\<close>

definition digit_char :: "nat \<Rightarrow> char" where
  "digit_char d = char_of (if d < 10 then 48 + d else 87 + d)"

definition char_digit :: "char \<Rightarrow> nat" where
  "char_digit c = (let n = of_char c :: nat in
     if n \<le> 57 then n - 48 else if n \<le> 90 then n - 55 else n - 87)"

lemma char_digit_digit [simp]: "d < 36 \<Longrightarrow> char_digit (digit_char d) = d"
  by (auto simp: char_digit_def digit_char_def Let_def)

text \<open>\<^verbatim>\<open>n.toString(r)\<close> for a non-negative integer.\<close>

function to_radix :: "nat \<Rightarrow> nat \<Rightarrow> string" where
  "to_radix r n = (if r < 2 \<or> n < r then [digit_char n] else to_radix r (n div r) @ [digit_char (n mod r)])"
  by auto
termination by (relation "measure snd") auto

declare to_radix.simps [simp del]

definition of_radix :: "nat \<Rightarrow> string \<Rightarrow> nat" where
  "of_radix r s = foldl (\<lambda>a c. a * r + char_digit c) 0 s"

lemma of_radix_simps [simp]:
  "of_radix r [] = 0"
  "of_radix r (s @ [c]) = of_radix r s * r + char_digit c"
  by (simp_all add: of_radix_def)

lemma of_radix_to_radix [simp]:
  assumes "2 \<le> r" "r \<le> 36"
  shows "of_radix r (to_radix r n) = n"
proof (induction n rule: less_induct)
  case (less n)
  show ?case
  proof (cases "n < r")
    case True
    then show ?thesis
      using assms of_radix_simps(2) [of r "[]"] by (simp add: to_radix.simps [of r n])
  next
    case False
    then have "n div r < n" using assms by (intro div_less_dividend) auto
    moreover have "n mod r < 36" using assms mod_less_divisor [of r n] by linarith
    ultimately show ?thesis
      using assms False less [of "n div r"] by (simp add: to_radix.simps [of r n])
  qed
qed

section \<open>Big-endian integers\<close>

text \<open>\<^verbatim>\<open>toHex\<close>: hexadecimal digits, padded to an even number of them.\<close>

definition toHex :: "nat \<Rightarrow> string" where
  "toHex b = (let hex = to_radix 16 b in if length hex mod 2 \<noteq> 0 then CHR ''0'' # hex else hex)"

definition buffToHex :: "bytes \<Rightarrow> string" where
  "buffToHex u = ''0x'' @ concat (List.map (\<lambda>i. toHex (unat i)) u)"

text \<open>\<^verbatim>\<open>hex.slice(j, j + 2)\<close>\<close>
definition js_slice :: "'a list \<Rightarrow> nat \<Rightarrow> nat \<Rightarrow> 'a list" where
  "js_slice xs i j = take (j - i) (drop i xs)"

definition bigintToBigEndianBytes :: "nat \<Rightarrow> bytes" where
  "bigintToBigEndianBytes b =
     (let hex = toHex b
      in List.map (\<lambda>i. word_of_nat (of_radix 16 (js_slice hex (2 * i) (2 * i + 2)))) [0..<length hex div 2])"

definition bigEndianBytesToBigInt :: "bytes \<Rightarrow> nat" where
  "bigEndianBytesToBigInt bytes =
     (if length bytes = 0 then 0 else of_radix 16 (drop 2 (buffToHex bytes)))"

text \<open>The specification: positional value to base 256, and the shortest list of its digits.\<close>

definition be_value :: "bytes \<Rightarrow> nat" where
  "be_value bs = foldl (\<lambda>a b. a * 256 + unat b) 0 bs"

fun be_digits :: "nat \<Rightarrow> bytes" where
  "be_digits n = (if n < 256 then [word_of_nat n] else be_digits (n div 256) @ [word_of_nat (n mod 256)])"

declare be_digits.simps [simp del]

lemma be_value_simps [simp]:
  "be_value [] = 0"
  "be_value (bs @ [b]) = be_value bs * 256 + unat b"
  by (simp_all add: be_value_def)

lemma unat_byte_of_nat [simp]: "n < 256 \<Longrightarrow> unat (word_of_nat n :: byte) = n"
  by (simp add: unat_of_nat)

lemma unat_byte_less [simp]: "unat (b :: byte) < 256"
  using unsigned_less [of b] by simp

lemma be_value_digits [simp]: "be_value (be_digits n) = n"
proof (induction n rule: be_digits.induct)
  case (1 n)
  then show ?case
    using be_value_simps(2) [of "[]"] by (cases "n < 256") (simp_all add: be_digits.simps [of n])
qed

lemma be_digits_ne [simp]: "be_digits n \<noteq> []"
  by (subst be_digits.simps) simp

definition hex2 :: "nat \<Rightarrow> string" where
  "hex2 b = [digit_char (b div 16), digit_char (b mod 16)]"

lemma length_hex2 [simp]: "length (hex2 b) = 2"
  by (simp add: hex2_def)

lemma of_radix_hex2: "b < 256 \<Longrightarrow> of_radix 16 (s @ hex2 b) = of_radix 16 s * 256 + b"
proof -
  assume b: "b < 256"
  have "of_radix 16 ((s @ [digit_char (b div 16)]) @ [digit_char (b mod 16)]) =
      of_radix 16 s * 256 + (b div 16 * 16 + b mod 16)"
    using b by (simp only: of_radix_simps) (simp add: algebra_simps)
  then show ?thesis by (simp add: hex2_def)
qed

lemma digit_char_0: "CHR ''0'' = char_of (48 :: nat)"
  by code_simp

lemma toHex_small: "b < 256 \<Longrightarrow> toHex b = hex2 b"
  by (cases "b < 16") (simp_all add: toHex_def hex2_def to_radix.simps [of 16 b]
      to_radix.simps [of 16 "b div 16"] digit_char_def digit_char_0)

lemma toHex_step:
  assumes "256 \<le> n"
  shows "toHex n = toHex (n div 256) @ hex2 (n mod 256)"
proof -
  have "n div 16 mod 16 = n mod 256 div 16" "n mod 16 = n mod 256 mod 16" "n div 16 div 16 = n div 256"
    using mod_mult2_eq [of n 16 16] mod_mod_cancel [of 16 256 n] div_mult2_eq [of n 16 16] by simp_all
  then have "to_radix 16 n = to_radix 16 (n div 256) @ hex2 (n mod 256)"
    using assms div_le_mono [of 256 n 16]
    by (simp add: to_radix.simps [of 16 n] to_radix.simps [of 16 "n div 16"] hex2_def)
  then show ?thesis by (simp add: toHex_def Let_def)
qed

text \<open>The paired digits of the source are the digits to base 256.\<close>

lemma toHex_be_digits: "toHex n = concat (List.map (\<lambda>b. hex2 (unat b)) (be_digits n))"
proof (induction n rule: be_digits.induct)
  case (1 n)
  then show ?case
    by (cases "n < 256") (simp_all add: be_digits.simps [of n] toHex_small toHex_step)
qed

lemma js_slice_pairs:
  assumes "i < length xs" "\<And>x. x \<in> set xs \<Longrightarrow> length (f x) = 2"
  shows "js_slice (concat (List.map f xs)) (2 * i) (2 * i + 2) = f (xs ! i)"
  using assms
proof (induction xs arbitrary: i)
  case (Cons x xs)
  show ?case
  proof (cases i)
    case 0
    then show ?thesis using Cons.prems by (simp add: js_slice_def)
  next
    case (Suc j)
    then show ?thesis using Cons by (simp add: js_slice_def)
  qed
qed simp

lemma length_pairs: "(\<And>x. x \<in> set xs \<Longrightarrow> length (f x) = 2) \<Longrightarrow> length (concat (List.map f xs)) = 2 * length xs"
  by (induction xs) simp_all

lemma bigintToBigEndianBytes_eq: "bigintToBigEndianBytes n = be_digits n"
proof -
  let ?f = "\<lambda>b :: byte. hex2 (unat b)"
  have "word_of_nat (of_radix 16 (hex2 (unat b))) = b" for b :: byte
    using of_radix_hex2 [of "unat b" "[]"] by simp
  moreover have "length (toHex n) div 2 = length (be_digits n)"
    by (simp add: toHex_be_digits length_pairs)
  ultimately show ?thesis
    by (intro nth_equalityI)
      (simp_all add: bigintToBigEndianBytes_def Let_def toHex_be_digits js_slice_pairs [simplified])
qed

lemma of_radix_hex_bytes: "of_radix 16 (concat (List.map (\<lambda>b. hex2 (unat b)) bs)) = be_value bs"
  by (induction bs rule: rev_induct) (simp_all add: of_radix_hex2)

lemma bigEndianBytesToBigInt_eq: "bigEndianBytesToBigInt bs = be_value bs"
proof -
  have "concat (List.map (\<lambda>i. toHex (unat i)) bs) = concat (List.map (\<lambda>b. hex2 (unat b)) bs)"
    by (simp add: toHex_small)
  then show ?thesis
    by (simp add: bigEndianBytesToBigInt_def buffToHex_def of_radix_hex_bytes)
qed

lemma be_value_Cons: "be_value (b # bs) = unat b * 256 ^ length bs + be_value bs"
  by (induction bs rule: rev_induct) (simp_all add: be_value_def algebra_simps)

lemma be_value_less: "be_value bs < 256 ^ length bs"
proof (induction bs)
  case (Cons b bs)
  have "unat b * 256 ^ length bs + be_value bs < (unat b + 1) * 256 ^ length bs"
    using Cons by simp
  also have "\<dots> \<le> 256 * 256 ^ length bs"
    using unat_byte_less [of b] by (intro mult_right_mono) linarith+
  finally show ?case by (simp add: be_value_Cons)
qed simp

lemma be_value_append: "be_value (as @ bs) = be_value as * 256 ^ length bs + be_value bs"
  by (induction as) (simp_all add: be_value_Cons power_add algebra_simps)

lemma be_digits_length:
  assumes "n < 256 ^ k" "0 < k"
  shows "length (be_digits n) \<le> k"
  using assms
proof (induction n arbitrary: k rule: be_digits.induct)
  case (1 n)
  show ?case
  proof (cases "n < 256")
    case False
    obtain j where k: "k = Suc j" using 1(3) by (cases k) auto
    have j: "0 < j" using 1(2) False k by (cases j) auto
    have "n div 256 < 256 ^ j" using 1(2) k by (simp add: div_less_iff_less_mult mult.commute)
    then have "length (be_digits (n div 256)) \<le> j" by (rule 1(1) [OF False]) (rule j)
    then show ?thesis using False k by (simp add: be_digits.simps [of n])
  next
    case True
    then show ?thesis using 1(3) by (simp add: be_digits.simps [of n])
  qed
qed

lemma be_digits_value:
  assumes "bs = [b] \<or> (bs \<noteq> [] \<and> hd bs \<noteq> 0)"
  shows "be_digits (be_value bs) = bs"
  using assms
proof (induction bs arbitrary: b rule: rev_induct)
  case (snoc c bs)
  show ?case
  proof (cases "bs = []")
    case False
    with snoc.prems have h: "hd bs \<noteq> 0" by auto
    have "be_value bs \<noteq> 0"
      using False h by (cases bs) (auto simp: be_value_Cons unat_eq_0)
    then have "\<not> be_value bs * 256 + unat c < 256" by simp
    then show ?thesis
      using snoc.IH [of 0] False h by (simp add: be_digits.simps [of "be_value bs * 256 + unat c"])
  qed (use be_value_simps(2) [of "[]" c] in \<open>simp add: be_digits.simps [of "unat c"]\<close>)
qed simp

section \<open>Binary strings\<close>

text \<open>\<^verbatim>\<open>parseBinaryStrToBigInt\<close>, the loop over the positions included.\<close>

definition parseBinaryStrToBigInt :: "string \<Rightarrow> nat" where
  "parseBinaryStrToBigInt binary =
     fold (\<lambda>i res. if binary ! i = CHR ''1'' then res + 2 ^ (length binary - 1 - i) else res)
       [0..<length binary] 0"

lemma fold_add_if:
  "fold (\<lambda>i res. if P i then res + f i else res) xs (a :: nat) = a + (\<Sum>i \<leftarrow> xs. if P i then f i else 0)"
  by (induction xs arbitrary: a) (simp_all add: add.assoc)

lemma parseBinary_snoc:
  "parseBinaryStrToBigInt (s @ [c]) = 2 * parseBinaryStrToBigInt s + (if c = CHR ''1'' then 1 else 0)"
proof -
  have "(\<Sum>i \<leftarrow> [0..<length s]. if (s @ [c]) ! i = CHR ''1'' then 2 ^ (length (s @ [c]) - 1 - i) else 0) =
      (\<Sum>i \<leftarrow> [0..<length s]. 2 * (if s ! i = CHR ''1'' then 2 ^ (length s - 1 - i) else 0 :: nat))"
  proof (intro arg_cong [of _ _ sum_list] map_cong)
    fix i assume "i \<in> set [0..<length s]"
    then have i: "i < length s" by simp
    then have "length s - i = Suc (length s - 1 - i)" by simp
    then show "(if (s @ [c]) ! i = CHR ''1'' then 2 ^ (length (s @ [c]) - 1 - i) else 0) =
        2 * (if s ! i = CHR ''1'' then 2 ^ (length s - 1 - i) else 0 :: nat)"
      using i by (simp add: nth_append)
  qed simp
  moreover have "[0..<length (s @ [c])] = [0..<length s] @ [length s]" by simp
  ultimately show ?thesis
    unfolding parseBinaryStrToBigInt_def fold_add_if
    by (simp only: map_append sum_list_append sum_list_const_mult) (simp add: nth_append)
qed

lemma parseBinary_to_radix [simp]: "parseBinaryStrToBigInt (to_radix 2 n) = n"
proof (induction n rule: less_induct)
  case (less n)
  have one: "digit_char 1 = CHR ''1''" "digit_char 0 \<noteq> CHR ''1''"
    by code_simp+
  have base: "parseBinaryStrToBigInt [c] = (if c = CHR ''1'' then 1 else 0)" for c
    using parseBinary_snoc [of "[]" c] by (simp add: parseBinaryStrToBigInt_def)
  show ?case
  proof (cases "n < 2")
    case True
    then have "n = 0 \<or> n = 1" by auto
    then show ?thesis using one by (auto simp: to_radix.simps [of 2 n] base)
  next
    case False
    then have IH: "parseBinaryStrToBigInt (to_radix 2 (n div 2)) = n div 2" by (intro less) simp
    have "n mod 2 = 0 \<or> n mod 2 = 1" "2 * (n div 2) + n mod 2 = n" by auto
    then consider "n = 2 * (n div 2)" "n mod 2 = 0" | "n = Suc (2 * (n div 2))" "n mod 2 = 1"
      by linarith
    then show ?thesis
      using False one IH by cases (simp_all add: to_radix.simps [of 2 n] parseBinary_snoc)
  qed
qed

section \<open>Keys of the application state\<close>

text \<open>
  A state map is indexed by \<^verbatim>\<open>key.toString()\<close>, the bytes in decimal separated by commas;
  \<^verbatim>\<open>assertValidSchema\<close> reads it back with \<^verbatim>\<open>key.split(",").map(Number)\<close>. \<^verbatim>\<open>Number("")\<close> is 0.
\<close>

fun join_comma :: "string list \<Rightarrow> string" where
    "join_comma [] = []"
  | "join_comma [w] = w"
  | "join_comma (w # ws) = w @ CHR '','' # join_comma ws"

definition bytes_toString :: "bytes \<Rightarrow> string" where
  "bytes_toString bs = join_comma (List.map (\<lambda>b. to_radix 10 (unat b)) bs)"

fun split_comma :: "string \<Rightarrow> string list" where
    "split_comma [] = [[]]"
  | "split_comma (c # cs) =
      (if c = CHR '','' then [] # split_comma cs
       else (case split_comma cs of [] \<Rightarrow> [[c]] | w # ws \<Rightarrow> (c # w) # ws))"

definition key_bytes :: "string \<Rightarrow> bytes" where
  "key_bytes key = List.map (\<lambda>w. word_of_nat (of_radix 10 w)) (split_comma key)"

lemma split_comma_ne [simp]: "split_comma s \<noteq> []"
  by (induction s) (auto split: list.splits)

lemma split_comma_word: "CHR '','' \<notin> set w \<Longrightarrow> split_comma w = [w]"
  by (induction w) auto

lemma split_comma_append: "CHR '','' \<notin> set w \<Longrightarrow> split_comma (w @ CHR '','' # s) = w # split_comma s"
  by (induction w) auto

lemma split_join:
  "ws \<noteq> [] \<Longrightarrow> (\<And>w. w \<in> set ws \<Longrightarrow> CHR '','' \<notin> set w) \<Longrightarrow> split_comma (join_comma ws) = ws"
  by (induction ws rule: join_comma.induct) (auto simp: split_comma_word split_comma_append)

lemma digit_no_comma: "d < 10 \<Longrightarrow> digit_char d \<noteq> CHR '',''"
proof -
  assume "d < 10"
  then have "d \<in> set [0..<10]" by simp
  moreover have "list_all (\<lambda>d. digit_char d \<noteq> CHR '','') [0..<10]" by code_simp
  ultimately show ?thesis by (simp only: list_all_iff) blast
qed

lemma to_radix_no_comma: "CHR '','' \<notin> set (to_radix 10 n)"
proof (induction n rule: less_induct)
  case (less n)
  then show ?case
    using digit_no_comma [of n] digit_no_comma [of "n mod 10"]
    by (cases "n < 10") (auto simp: to_radix.simps [of 10 n])
qed

lemma key_bytes_toString: "bs \<noteq> [] \<Longrightarrow> key_bytes (bytes_toString bs) = bs"
proof -
  assume "bs \<noteq> []"
  then have "split_comma (bytes_toString bs) = List.map (\<lambda>b. to_radix 10 (unat b)) bs"
    unfolding bytes_toString_def by (intro split_join) (auto simp: to_radix_no_comma)
  then show ?thesis by (simp add: key_bytes_def comp_def)
qed

lemma key_bytes_empty: "key_bytes (bytes_toString []) = [0]"
  by (simp add: key_bytes_def bytes_toString_def)

lemma length_key_bytes: "length (key_bytes (bytes_toString bs)) = max 1 (length bs)"
  by (cases "bs = []") (simp_all add: key_bytes_empty key_bytes_toString max_def Suc_le_eq)

lemma join_comma_Nil: "(\<And>w. w \<in> set ws \<Longrightarrow> w \<noteq> []) \<Longrightarrow> join_comma ws = [] \<longleftrightarrow> ws = []"
  by (cases ws rule: join_comma.cases) auto

lemma to_radix_ne [simp]: "to_radix r n \<noteq> []"
  by (subst to_radix.simps) simp

lemma bytes_toString_inject: "bytes_toString as = bytes_toString bs \<longleftrightarrow> as = bs"
proof
  assume eq: "bytes_toString as = bytes_toString bs"
  have nil: "bytes_toString xs = [] \<longleftrightarrow> xs = []" for xs
    unfolding bytes_toString_def by (subst join_comma_Nil) auto
  show "as = bs"
  proof (cases "as = []")
    case True
    then have "bytes_toString bs = []" using eq nil [of "[]"] by simp
    then show ?thesis using True nil by simp
  next
    case False
    then have "bytes_toString bs \<noteq> []" using eq nil [of as] by simp
    then have "bs \<noteq> []" using nil [of bs] by simp
    then have "bs = key_bytes (bytes_toString bs)" by (rule key_bytes_toString [symmetric])
    also have "\<dots> = key_bytes (bytes_toString as)" by (simp only: eq)
    also have "\<dots> = as" by (rule key_bytes_toString [OF False])
    finally show ?thesis by (rule sym)
  qed
qed simp

section \<open>Texts\<close>

text \<open>
  A text of the code is the list of the bytes of its UTF-8 encoding here. \<^verbatim>\<open>stringToBytes\<close> is
  then the identity up to the type, and \<^verbatim>\<open>Buffer.toString("utf-8")\<close> puts U+FFFD, three bytes, in the place
  of every longest part that no encoding has.
\<close>

definition stringToBytes :: "string \<Rightarrow> bytes" where
  "stringToBytes s = List.map (\<lambda>c. word_of_nat (of_char c)) s"

text \<open>For the first byte of a character: how many bytes follow, and the range of the first of them.\<close>

definition utf8_start :: "byte \<Rightarrow> (nat \<times> nat \<times> nat) option" where
  "utf8_start b = (let n = unat b in
     if n < 128 then Some (0, 0, 0)
     else if 194 \<le> n \<and> n < 224 then Some (1, 128, 191)
     else if n = 224 then Some (2, 160, 191)
     else if n = 237 then Some (2, 128, 159)
     else if 224 < n \<and> n < 240 then Some (2, 128, 191)
     else if n = 240 then Some (3, 144, 191)
     else if n = 244 then Some (3, 128, 143)
     else if 240 < n \<and> n < 244 then Some (3, 128, 191)
     else None)"

fun utf8_more :: "nat \<Rightarrow> nat \<Rightarrow> nat \<Rightarrow> bytes \<Rightarrow> bytes \<times> bytes \<times> bool" where
    "utf8_more 0 lo hi bs = ([], bs, True)"
  | "utf8_more (Suc n) lo hi [] = ([], [], False)"
  | "utf8_more (Suc n) lo hi (b # bs) =
      (if lo \<le> unat b \<and> unat b \<le> hi
       then (case utf8_more n 128 191 bs of (t, r, ok) \<Rightarrow> (b # t, r, ok))
       else ([], b # bs, False))"

lemma utf8_more_length: "utf8_more n lo hi bs = (t, r, ok) \<Longrightarrow> length r \<le> length bs"
  by (induction n lo hi bs arbitrary: t r ok rule: utf8_more.induct)
    (auto split: if_splits prod.splits intro: le_SucI)

definition replacement_char :: bytes where
  "replacement_char = [0xEF, 0xBF, 0xBD]"

function utf8_repair :: "bytes \<Rightarrow> bytes" where
    "utf8_repair [] = []"
  | "utf8_repair (b # bs) =
      (case utf8_start b of
         None \<Rightarrow> replacement_char @ utf8_repair bs
       | Some (n, lo, hi) \<Rightarrow>
           (case utf8_more n lo hi bs of
              (t, r, ok) \<Rightarrow> (if ok then b # t else replacement_char) @ utf8_repair r))"
  by pat_completeness auto
termination
  by (relation "measure length") (auto dest: utf8_more_length [OF sym])

definition convertToString :: "bytes \<Rightarrow> string" where
  "convertToString u = List.map (\<lambda>b. char_of (unat b)) (utf8_repair u)"

lemma utf8_more_parts: "utf8_more n lo hi bs = (t, r, ok) \<Longrightarrow> bs = t @ r"
  by (induction n lo hi bs arbitrary: t r ok rule: utf8_more.induct) (auto split: if_splits prod.splits)

section \<open>Base64\<close>

text \<open>
  \<^verbatim>\<open>Buffer.from(s, "base64")\<close>: characters outside the standard and the URL-safe alphabet are
  skipped, four characters make three bytes and a last group of two or three makes one or two.
\<close>

definition b64_value :: "char \<Rightarrow> nat option" where
  "b64_value c = (let n = of_char c :: nat in
     if 65 \<le> n \<and> n \<le> 90 then Some (n - 65)
     else if 97 \<le> n \<and> n \<le> 122 then Some (n - 71)
     else if 48 \<le> n \<and> n \<le> 57 then Some (n + 4)
     else if n = 43 \<or> n = 45 then Some 62
     else if n = 47 \<or> n = 95 then Some 63 else None)"

fun b64_groups :: "nat list \<Rightarrow> bytes" where
    "b64_groups (a # b # c # d # r) =
       word_of_nat (a * 4 + b div 16) # word_of_nat (b * 16 + c div 4) # word_of_nat (c * 64 + d) # b64_groups r"
  | "b64_groups [a, b, c] = [word_of_nat (a * 4 + b div 16), word_of_nat (b * 16 + c div 4)]"
  | "b64_groups [a, b] = [word_of_nat (a * 4 + b div 16)]"
  | "b64_groups [a] = []"
  | "b64_groups [] = []"

definition base64_decode :: "string \<Rightarrow> bytes" where
  "base64_decode s = b64_groups (List.map_filter b64_value s)"

lemma length_b64_groups: "length (b64_groups vs) = length vs * 3 div 4"
  by (induction vs rule: b64_groups.induct) simp_all

lemma length_map_filter_le: "length (List.map_filter f xs) \<le> length xs"
  by (induction xs) (auto simp: map_filter_simps split: option.splits)

lemma length_base64_decode: "length (base64_decode s) \<le> length s * 3 div 4"
  unfolding base64_decode_def length_b64_groups
  by (intro div_le_mono mult_le_mono1 length_map_filter_le)

section \<open>Properties\<close>

text \<open>
  The two conversions between numbers and big-endian arrays are inverse to each other: every number
  is read back from its digits, and an array without leading zero (or of one byte) is written back from
  its number; in general the array written back is the array without its leading zeros.
\<close>

theorem big_endian_roundtrip:
  "bigEndianBytesToBigInt (bigintToBigEndianBytes n) = n \<and>
   (bs = [b] \<or> (bs \<noteq> [] \<and> hd bs \<noteq> 0) \<longrightarrow> bigintToBigEndianBytes (bigEndianBytesToBigInt bs) = bs) \<and>
   (bs \<noteq> [] \<and> hd bs \<noteq> 0 \<longrightarrow>
      bigintToBigEndianBytes (bigEndianBytesToBigInt (replicate k 0 @ bs)) = bs)"
proof -
  have "be_value (replicate k 0 @ bs) = be_value bs" by (induction k) (simp_all add: be_value_Cons)
  then show ?thesis
    using be_digits_value [of bs b] by (simp add: bigintToBigEndianBytes_eq bigEndianBytesToBigInt_eq)
qed

lemma big_endian_roundtrip_witness:
  "bigintToBigEndianBytes (bigEndianBytesToBigInt [0, 0, 1, 0]) = [1, 0] \<and>
   bigintToBigEndianBytes (bigEndianBytesToBigInt [0]) = [0]"
  using big_endian_roundtrip [of 0 "[1, 0]" 0 2] big_endian_roundtrip [of 0 "[0]" 0 0]
  by (simp add: numeral_2_eq_2)

text \<open>
  The text a byte key gets in the state maps (its decimal bytes, separated by commas) tells the keys
  apart, and the schema check recovers the key from it, except that the empty key is taken for the key
  of one zero byte.
\<close>

theorem state_key_text:
  "(bytes_toString as = bytes_toString bs \<longleftrightarrow> as = bs) \<and>
   key_bytes (bytes_toString as) = (if as = [] then [0] else as)"
  by (simp add: bytes_toString_inject key_bytes_toString key_bytes_empty)

text \<open>Parsing the binary text of a number gives the number back, whatever zeros pad it on the left.\<close>

theorem parse_binary_roundtrip:
  "parseBinaryStrToBigInt (replicate k CHR ''0'' @ to_radix 2 n) = n"
proof -
  have "parseBinaryStrToBigInt (replicate k CHR ''0'' @ s) = parseBinaryStrToBigInt s" for s
  proof (induction s rule: rev_induct)
    case Nil
    have "parseBinaryStrToBigInt (replicate k CHR ''0'') = 0"
    proof (induction k)
      case (Suc k)
      have "replicate (Suc k) CHR ''0'' = replicate k CHR ''0'' @ [CHR ''0'']"
        by (simp add: replicate_append_same)
      then show ?case using Suc by (simp only: parseBinary_snoc) simp
    qed (simp add: parseBinaryStrToBigInt_def)
    then show ?case by (simp add: parseBinaryStrToBigInt_def)
  next
    case (snoc c s)
    then show ?case by (simp add: parseBinary_snoc flip: append_assoc)
  qed
  then show ?thesis by simp
qed

end
