(* ===== verification/TEAL_Account.thy ===== *)
theory TEAL_Account
  imports TEAL_Values TEAL_Codec
begin

text \<open>
  Accounts of the ledger: \<^verbatim>\<open>account.ts\<close> (\<^verbatim>\<open>AccountStore\<close>, \<^verbatim>\<open>App\<close>, \<^verbatim>\<open>Asset\<close>), the schema check of
  \<^verbatim>\<open>lib/stateful.ts\<close> and the reconfiguration rule of \<^verbatim>\<open>lib/asa.ts\<close>. A method of an account is a
  function of the monad over the account alone: what it leaves when it throws is part of the result.
\<close>

section \<open>Data\<close>

record schema =
  numUint :: int
  numByteSlice :: int

record asset_holding =
  ah_amount :: int
  ah_asset_id :: int
  ah_creator :: string
  ah_is_frozen :: bool

record asset_params =
  ap_name :: string
  ap_creator :: string
  ap_total :: int
  ap_decimals :: int
  ap_defaultFrozen :: bool
  ap_unitName :: "string option"
  ap_url :: "string option"
  ap_metadataHash :: "bytes option"
  ap_manager :: "string option"
  ap_reserve :: "string option"
  ap_freeze :: "string option"
  ap_clawback :: "string option"

datatype md_hash = MdString string | MdBytes bytes

record asa_def =
  def_total :: int
  def_decimals :: int
  def_defaultFrozen :: "bool option"
  def_unitName :: "string option"
  def_url :: "string option"
  def_metadataHash :: "md_hash option"
  def_manager :: "string option"
  def_reserve :: "string option"
  def_freeze :: "string option"
  def_clawback :: "string option"
  def_optInAccNames :: "string list option"

text \<open>\<^verbatim>\<open>types.AssetModFields\<close>; \<^const>\<open>None\<close> is \<^verbatim>\<open>undefined\<close>.\<close>

record asset_mod =
  mod_manager :: "string option"
  mod_reserve :: "string option"
  mod_freeze :: "string option"
  mod_clawback :: "string option"

text \<open>\<^verbatim>\<open>SSCAttributesM\<close>\<close>

record app_attrs =
  approval_program :: string
  clear_state_program :: string
  app_creator :: string
  global_state :: "(string, stack_elem) jsmap"
  global_schema :: schema
  local_schema :: schema

text \<open>\<^verbatim>\<open>AppLocalStateM\<close>\<close>

record local_app =
  la_id :: int
  key_value :: "(string, stack_elem) jsmap"
  la_schema :: schema

text \<open>The fields of \<^verbatim>\<open>types.AppDefinitionFromSource\<close> that an account reads.\<close>

record app_source =
  src_globalInts :: int
  src_globalBytes :: int
  src_localInts :: int
  src_localBytes :: int
  src_approval :: string
  src_clear :: string

record account =
  address :: string
  sk :: bytes
  acc_name :: "string option"
  spend :: string
  assets :: "(int, asset_holding) jsmap"
  amount :: int
  minBalance :: int
  appsLocalState :: "(int, local_app) jsmap"
  createdApps :: "(int, app_attrs) jsmap"
  createdAssets :: "(int, asset_params) jsmap"

section \<open>Schema check\<close>

definition assertKeyValLengthValid :: "heap \<Rightarrow> bytes \<Rightarrow> stack_elem \<Rightarrow> error + unit" where
  "assertKeyValLengthValid h key v =
     (let long_key = MAX_KEY_BYTES < length key;
          long_pair = (case v of Bytes r \<Rightarrow> MAX_KEY_VAL_BYTES < length key + length (deref h r) | BigInt _ \<Rightarrow> False)
      in if long_key \<or> long_pair then Inl (TEAL INVALID_SCHEMA) else Inr ())"

fun count_state :: "heap \<Rightarrow> (string \<times> stack_elem) list \<Rightarrow> int \<Rightarrow> int \<Rightarrow> error + int \<times> int" where
    "count_state h [] nu bs = Inr (nu, bs)"
  | "count_state h ((key, v) # r) nu bs =
      (case assertKeyValLengthValid h (key_bytes key) v of
         Inl e \<Rightarrow> Inl e
       | Inr _ \<Rightarrow> (case v of Bytes _ \<Rightarrow> count_state h r nu (bs + 1) | BigInt _ \<Rightarrow> count_state h r (nu + 1) bs))"

definition assertValidSchema :: "heap \<Rightarrow> (string, stack_elem) jsmap \<Rightarrow> schema \<Rightarrow> error + unit" where
  "assertValidSchema h kv s =
     (case count_state h kv 0 0 of
        Inl e \<Rightarrow> Inl e
      | Inr (nu, bs) \<Rightarrow> if numUint s < nu \<or> numByteSlice s < bs then Inl (TEAL INVALID_SCHEMA) else Inr ())"

section \<open>Reconfiguration of an asset\<close>

definition isDefined :: "string option \<Rightarrow> bool" where
  "isDefined v \<longleftrightarrow> v \<noteq> None \<and> v \<noteq> Some ''''"

datatype asa_field = Manager | Reserve | Freeze | Clawback

fun field_of :: "asa_field \<Rightarrow> asset_params \<Rightarrow> string option" where
    "field_of Manager a = ap_manager a"
  | "field_of Reserve a = ap_reserve a"
  | "field_of Freeze a = ap_freeze a"
  | "field_of Clawback a = ap_clawback a"

fun set_field :: "asa_field \<Rightarrow> string option \<Rightarrow> asset_params \<Rightarrow> asset_params" where
    "set_field Manager v a = a\<lparr>ap_manager := v\<rparr>"
  | "set_field Reserve v a = a\<lparr>ap_reserve := v\<rparr>"
  | "set_field Freeze v a = a\<lparr>ap_freeze := v\<rparr>"
  | "set_field Clawback v a = a\<lparr>ap_clawback := v\<rparr>"

fun custom_of :: "asa_field \<Rightarrow> asset_mod \<Rightarrow> string option" where
    "custom_of Manager m = mod_manager m"
  | "custom_of Reserve m = mod_reserve m"
  | "custom_of Freeze m = mod_freeze m"
  | "custom_of Clawback m = mod_clawback m"

definition check_field :: "asset_mod \<Rightarrow> asa_field \<Rightarrow> (asset_params, unit) exec" where
  "check_field mods x = (\<lambda>asset.
     if isDefined (custom_of x mods) \<and> \<not> isDefined (field_of x asset)
     then (Inl (ASA BLANK_ADDRESS_ERROR), asset)
     else if custom_of x mods \<noteq> None \<and> isDefined (field_of x asset)
     then (Inr (), set_field x (custom_of x mods) asset)
     else (Inr (), asset))"

definition checkAndSetASAFields :: "asset_mod \<Rightarrow> (asset_params, unit) exec" where
  "checkAndSetASAFields mods = forM [Manager, Reserve, Freeze, Clawback] (check_field mods)"

section \<open>Operations of an account\<close>

definition new_AccountStore :: "int \<Rightarrow> string \<Rightarrow> bytes \<Rightarrow> string option \<Rightarrow> account" where
  "new_AccountStore balance addr key nm =
     \<lparr>address = addr, sk = key, acc_name = nm, spend = addr, assets = [], amount = balance,
      minBalance = ALGORAND_ACCOUNT_MIN_BALANCE, appsLocalState = [], createdApps = [],
      createdAssets = []\<rparr>"

definition rekeyTo :: "string \<Rightarrow> account \<Rightarrow> account" where
  "rekeyTo auth a = a\<lparr>spend := auth\<rparr>"

definition getSpendAddress :: "account \<Rightarrow> string" where
  "getSpendAddress a = (if spend a \<noteq> '''' then spend a else address a)"

definition getLocalState :: "int \<Rightarrow> bytes \<Rightarrow> account \<Rightarrow> stack_elem option" where
  "getLocalState appID key a =
     (case map_of (appsLocalState a) appID of
        None \<Rightarrow> None
      | Some la \<Rightarrow> map_of (key_value la) (bytes_toString key))"

definition setLocalState :: "heap \<Rightarrow> int \<Rightarrow> bytes \<Rightarrow> stack_elem \<Rightarrow> (account, unit) exec" where
  "setLocalState h appID key v = (\<lambda>a.
     case map_of (appsLocalState a) appID of
       None \<Rightarrow> (Inl (GENERAL APP_NOT_FOUND), a)
     | Some la \<Rightarrow>
         let la' = la\<lparr>key_value := AList.update (bytes_toString key) v (key_value la)\<rparr>;
             a' = a\<lparr>appsLocalState := AList.update appID la' (appsLocalState a)\<rparr>
         in (assertValidSchema h (key_value la') (la_schema la'), a'))"

definition getApp :: "int \<Rightarrow> account \<Rightarrow> app_attrs option" where
  "getApp appID a = map_of (createdApps a) appID"

definition getAppFromLocal :: "int \<Rightarrow> account \<Rightarrow> local_app option" where
  "getAppFromLocal appID a = map_of (appsLocalState a) appID"

definition getGlobalState :: "int \<Rightarrow> bytes \<Rightarrow> account \<Rightarrow> stack_elem option" where
  "getGlobalState appID key a =
     (case getApp appID a of
        None \<Rightarrow> None
      | Some app \<Rightarrow> map_of (global_state app) (bytes_toString key))"

definition setGlobalState :: "heap \<Rightarrow> int \<Rightarrow> bytes \<Rightarrow> stack_elem \<Rightarrow> (account, unit) exec" where
  "setGlobalState h appID key v = (\<lambda>a.
     case getApp appID a of
       None \<Rightarrow> (Inl (GENERAL APP_NOT_FOUND), a)
     | Some app \<Rightarrow>
         let app' = app\<lparr>global_state := AList.update (bytes_toString key) v (global_state app)\<rparr>;
             a' = a\<lparr>createdApps := AList.update appID app' (createdApps a)\<rparr>
         in (assertValidSchema h (global_state app') (global_schema app'), a'))"

definition getAssetDef :: "int \<Rightarrow> account \<Rightarrow> asset_params option" where
  "getAssetDef assetId a = map_of (createdAssets a) assetId"

definition getAssetHolding :: "int \<Rightarrow> account \<Rightarrow> asset_holding option" where
  "getAssetHolding assetId a = map_of (assets a) assetId"

text \<open>\<^verbatim>\<open>new Asset(assetId, def, creator, assetName).definitions\<close>\<close>

definition new_Asset :: "asa_def \<Rightarrow> string \<Rightarrow> string \<Rightarrow> asset_params" where
  "new_Asset d creator nm =
     \<lparr>ap_name = nm, ap_creator = creator, ap_total = def_total d, ap_decimals = def_decimals d,
      ap_defaultFrozen = (case def_defaultFrozen d of None \<Rightarrow> False | Some b \<Rightarrow> b),
      ap_unitName = def_unitName d, ap_url = def_url d,
      ap_metadataHash = (case def_metadataHash d of
          None \<Rightarrow> None
        | Some (MdString s) \<Rightarrow> Some (base64_decode s)
        | Some (MdBytes b) \<Rightarrow> Some b),
      ap_manager = def_manager d, ap_reserve = def_reserve d,
      ap_freeze = def_freeze d, ap_clawback = def_clawback d\<rparr>"

definition addAsset :: "int \<Rightarrow> string \<Rightarrow> asa_def \<Rightarrow> (account, asset_params) exec" where
  "addAsset assetId nm d = (\<lambda>a.
     let params = new_Asset d (address a) nm;
         holding = \<lparr>ah_amount = def_total d, ah_asset_id = assetId, ah_creator = address a,
                    ah_is_frozen = False\<rparr>
     in (Inr params,
         a\<lparr>minBalance := minBalance a + ASSET_CREATION_FEE,
           createdAssets := AList.update assetId params (createdAssets a),
           assets := AList.update assetId holding (assets a)\<rparr>))"

definition modifyAsset :: "int \<Rightarrow> asset_mod \<Rightarrow> (account, unit) exec" where
  "modifyAsset assetId mods = (\<lambda>a.
     case getAssetDef assetId a of
       None \<Rightarrow> (Inl (ASA ASSET_NOT_FOUND), a)
     | Some asset \<Rightarrow>
         (case checkAndSetASAFields mods asset of
            (res, asset') \<Rightarrow> (res, a\<lparr>createdAssets := AList.update assetId asset' (createdAssets a)\<rparr>)))"

definition closeAsset :: "int \<Rightarrow> (account, unit) exec" where
  "closeAsset assetId = (\<lambda>a.
     if map_of (assets a) assetId \<noteq> None
     then (Inr (), a\<lparr>minBalance := minBalance a - ASSET_CREATION_FEE,
                     assets := AList.delete assetId (assets a)\<rparr>)
     else (Inr (), a))"

definition setFreezeState :: "int \<Rightarrow> bool \<Rightarrow> (account, unit) exec" where
  "setFreezeState assetId state = (\<lambda>a.
     case map_of (assets a) assetId of
       None \<Rightarrow> (Inl (TRANSACTION ASA_NOT_OPTIN), a)
     | Some holding \<Rightarrow>
         (Inr (), a\<lparr>assets := AList.update assetId (holding\<lparr>ah_is_frozen := state\<rparr>) (assets a)\<rparr>))"

definition destroyAsset :: "int \<Rightarrow> (account, unit) exec" where
  "destroyAsset assetId = (\<lambda>a.
     case (map_of (assets a) assetId, getAssetDef assetId a) of
       (Some holding, Some asset) \<Rightarrow>
         if ah_amount holding \<noteq> ap_total asset
         then (Inl (ASA ASSET_TOTAL_ERROR), a)
         else (Inr (), a\<lparr>minBalance := minBalance a - ASSET_CREATION_FEE,
                         createdAssets := AList.delete assetId (createdAssets a),
                         assets := AList.delete assetId (assets a)\<rparr>)
     | _ \<Rightarrow> (Inl (ASA ASSET_NOT_FOUND), a))"

text \<open>What an application of a schema adds to the minimum balance.\<close>

definition schema_fee :: "schema \<Rightarrow> int" where
  "schema_fee s = APPLICATION_BASE_FEE + SSC_VALUE_UINT * numUint s + SSC_VALUE_BYTES * numByteSlice s"

text \<open>\<^verbatim>\<open>new App(creatorAddr, appID, appDefinition).attributes\<close>\<close>

definition new_App :: "string \<Rightarrow> app_source \<Rightarrow> app_attrs" where
  "new_App creator d =
     \<lparr>approval_program = src_approval d, clear_state_program = src_clear d, app_creator = creator,
      global_state = [],
      global_schema = \<lparr>numUint = src_globalInts d, numByteSlice = src_globalBytes d\<rparr>,
      local_schema = \<lparr>numUint = src_localInts d, numByteSlice = src_localBytes d\<rparr>\<rparr>"

definition addApp :: "int \<Rightarrow> app_source \<Rightarrow> (account, app_attrs) exec" where
  "addApp appID d = (\<lambda>a.
     let app = new_App (address a) d
     in (Inr app,
         a\<lparr>minBalance := minBalance a + (APPLICATION_BASE_FEE + SSC_VALUE_UINT * src_globalInts d
                                          + SSC_VALUE_BYTES * src_globalBytes d),
           createdApps := AList.update appID app (createdApps a)\<rparr>))"

definition optInToApp :: "int \<Rightarrow> app_attrs \<Rightarrow> (account, unit) exec" where
  "optInToApp appID params = (\<lambda>a.
     if map_of (appsLocalState a) appID \<noteq> None
     then (Inl (JsError (PlainError ''already opted in to app'')), a)
     else (Inr (), a\<lparr>minBalance := minBalance a + schema_fee (local_schema params),
                     appsLocalState := AList.update appID
                       \<lparr>la_id = appID, key_value = [], la_schema = local_schema params\<rparr>
                       (appsLocalState a)\<rparr>))"

definition optInToASA :: "int \<Rightarrow> asset_holding \<Rightarrow> (account, unit) exec" where
  "optInToASA assetIndex holding = (\<lambda>a.
     if map_of (assets a) assetIndex \<noteq> None then (Inr (), a)
     else (Inr (), a\<lparr>minBalance := minBalance a + ASSET_CREATION_FEE,
                     assets := AList.update assetIndex holding (assets a)\<rparr>))"

definition deleteApp :: "int \<Rightarrow> (account, unit) exec" where
  "deleteApp appID = (\<lambda>a.
     case map_of (createdApps a) appID of
       None \<Rightarrow> (Inl (GENERAL APP_NOT_FOUND), a)
     | Some app \<Rightarrow>
         (Inr (), a\<lparr>minBalance := minBalance a - schema_fee (global_schema app),
                    createdApps := AList.delete appID (createdApps a)\<rparr>))"

definition closeApp :: "int \<Rightarrow> (account, unit) exec" where
  "closeApp appID = (\<lambda>a.
     case map_of (appsLocalState a) appID of
       None \<Rightarrow> (Inl (GENERAL APP_NOT_FOUND), a)
     | Some la \<Rightarrow>
         (Inr (), a\<lparr>minBalance := minBalance a - schema_fee (la_schema la),
                    appsLocalState := AList.delete appID (appsLocalState a)\<rparr>))"

section \<open>The minimum balance\<close>

text \<open>
  The balance an account must keep, computed from what it holds: the base amount, one fee per asset
  holding, and the fee of the schema of every application it created or opted in to. The code
  maintains it incrementally in \<^verbatim>\<open>minBalance\<close>.
\<close>

definition required_balance :: "account \<Rightarrow> int" where
  "required_balance a =
     ALGORAND_ACCOUNT_MIN_BALANCE
     + jm.total (\<lambda>_ _. ASSET_CREATION_FEE) (assets a)
     + jm.total (\<lambda>_ app. schema_fee (global_schema app)) (createdApps a)
     + jm.total (\<lambda>_ la. schema_fee (la_schema la)) (appsLocalState a)"

definition wf_account :: "account \<Rightarrow> bool" where
  "wf_account a \<longleftrightarrow> wf_map (assets a) \<and> wf_map (appsLocalState a) \<and> wf_map (createdApps a)
     \<and> wf_map (createdAssets a)"

definition account_ok :: "account \<Rightarrow> bool" where
  "account_ok a \<longleftrightarrow> wf_account a \<and> minBalance a = required_balance a"

lemmas account_ok_defs = account_ok_def wf_account_def required_balance_def

named_theorems account_ok_intros \<open>every operation keeps the minimum balance\<close>

lemma new_AccountStore_ok [account_ok_intros]: "account_ok (new_AccountStore b addr k nm)"
  by (simp add: account_ok_defs new_AccountStore_def jm.total_def)

lemma addAsset_ok [account_ok_intros]:
  "account_ok a \<Longrightarrow> map_of (assets a) i = None \<Longrightarrow> account_ok (snd (addAsset i nm d a))"
  by (auto simp: account_ok_defs addAsset_def Let_def jm.total_put)

lemma modifyAsset_ok [account_ok_intros]: "account_ok a \<Longrightarrow> account_ok (snd (modifyAsset i m a))"
  by (auto simp: account_ok_defs modifyAsset_def split: option.splits prod.splits)

lemma closeAsset_ok [account_ok_intros]: "account_ok a \<Longrightarrow> account_ok (snd (closeAsset i a))"
  by (auto simp: account_ok_defs closeAsset_def jm.total_del)

lemma setFreezeState_ok [account_ok_intros]: "account_ok a \<Longrightarrow> account_ok (snd (setFreezeState i b a))"
  by (auto simp: account_ok_defs setFreezeState_def jm.total_put split: option.splits)

lemma destroyAsset_ok [account_ok_intros]: "account_ok a \<Longrightarrow> account_ok (snd (destroyAsset i a))"
  by (auto simp: account_ok_defs destroyAsset_def jm.total_del split: option.splits)

lemma addApp_ok [account_ok_intros]:
  "account_ok a \<Longrightarrow> map_of (createdApps a) i = None \<Longrightarrow> account_ok (snd (addApp i d a))"
  by (auto simp: account_ok_defs addApp_def Let_def jm.total_put new_App_def schema_fee_def)

lemma optInToApp_ok [account_ok_intros]: "account_ok a \<Longrightarrow> account_ok (snd (optInToApp i p a))"
  by (auto simp: account_ok_defs optInToApp_def jm.total_put)

lemma optInToASA_ok [account_ok_intros]: "account_ok a \<Longrightarrow> account_ok (snd (optInToASA i hld a))"
  by (auto simp: account_ok_defs optInToASA_def jm.total_put)

lemma deleteApp_ok [account_ok_intros]: "account_ok a \<Longrightarrow> account_ok (snd (deleteApp i a))"
  by (auto simp: account_ok_defs deleteApp_def jm.total_del split: option.splits)

lemma closeApp_ok [account_ok_intros]: "account_ok a \<Longrightarrow> account_ok (snd (closeApp i a))"
  by (auto simp: account_ok_defs closeApp_def jm.total_del split: option.splits)

lemma setLocalState_ok [account_ok_intros]: "account_ok a \<Longrightarrow> account_ok (snd (setLocalState h i k v a))"
  by (auto simp: account_ok_defs setLocalState_def Let_def jm.total_put split: option.splits)

lemma setGlobalState_ok [account_ok_intros]: "account_ok a \<Longrightarrow> account_ok (snd (setGlobalState h i k v a))"
  by (auto simp: account_ok_defs setGlobalState_def getApp_def Let_def jm.total_put split: option.splits)

lemma rekeyTo_ok [account_ok_intros]: "account_ok a \<Longrightarrow> account_ok (rekeyTo x a)"
  by (simp add: account_ok_defs rekeyTo_def)

text \<open>The operations of \<^verbatim>\<open>AccountStoreI\<close> as data, and the accounts they reach.\<close>

datatype account_op =
    AddAsset int string asa_def
  | ModifyAsset int asset_mod
  | CloseAsset int
  | SetFreezeState int bool
  | DestroyAsset int
  | AddApp int app_source
  | OptInToApp int app_attrs
  | OptInToASA int asset_holding
  | DeleteApp int
  | CloseApp int
  | SetLocalState heap int bytes stack_elem
  | SetGlobalState heap int bytes stack_elem
  | RekeyTo string

fun run_op :: "account_op \<Rightarrow> account \<Rightarrow> account" where
    "run_op (AddAsset i nm d) a = snd (addAsset i nm d a)"
  | "run_op (ModifyAsset i m) a = snd (modifyAsset i m a)"
  | "run_op (CloseAsset i) a = snd (closeAsset i a)"
  | "run_op (SetFreezeState i b) a = snd (setFreezeState i b a)"
  | "run_op (DestroyAsset i) a = snd (destroyAsset i a)"
  | "run_op (AddApp i d) a = snd (addApp i d a)"
  | "run_op (OptInToApp i p) a = snd (optInToApp i p a)"
  | "run_op (OptInToASA i hld) a = snd (optInToASA i hld a)"
  | "run_op (DeleteApp i) a = snd (deleteApp i a)"
  | "run_op (CloseApp i) a = snd (closeApp i a)"
  | "run_op (SetLocalState h i k v) a = snd (setLocalState h i k v a)"
  | "run_op (SetGlobalState h i k v) a = snd (setGlobalState h i k v a)"
  | "run_op (RekeyTo x) a = rekeyTo x a"

text \<open>New assets and applications get a counter value that no account has seen.\<close>

fun fresh_op :: "account_op \<Rightarrow> account \<Rightarrow> bool" where
    "fresh_op (AddAsset i nm d) a \<longleftrightarrow> map_of (assets a) i = None"
  | "fresh_op (AddApp i d) a \<longleftrightarrow> map_of (createdApps a) i = None"
  | "fresh_op _ a \<longleftrightarrow> True"

inductive account_reach :: "account \<Rightarrow> bool" where
    reach_new: "account_reach (new_AccountStore b addr k nm)"
  | reach_op: "account_reach a \<Longrightarrow> fresh_op op a \<Longrightarrow> account_reach (run_op op a)"

lemma run_op_ok: "account_ok a \<Longrightarrow> fresh_op op a \<Longrightarrow> account_ok (run_op op a)"
  by (cases op) (simp_all add: account_ok_intros)

lemma account_reach_ok: "account_reach a \<Longrightarrow> account_ok a"
  by (induction rule: account_reach.induct) (simp_all add: new_AccountStore_ok run_op_ok)

section \<open>What the schema check guarantees\<close>

definition uints :: "(string, stack_elem) jsmap \<Rightarrow> nat" where
  "uints kv = length (filter (\<lambda>(k, v). case v of BigInt _ \<Rightarrow> True | Bytes _ \<Rightarrow> False) kv)"

definition byteslices :: "(string, stack_elem) jsmap \<Rightarrow> nat" where
  "byteslices kv = length (filter (\<lambda>(k, v). case v of BigInt _ \<Rightarrow> False | Bytes _ \<Rightarrow> True) kv)"

definition pair_ok :: "heap \<Rightarrow> string \<Rightarrow> stack_elem \<Rightarrow> bool" where
  "pair_ok h k v \<longleftrightarrow> length (key_bytes k) \<le> MAX_KEY_BYTES \<and>
     (case v of Bytes r \<Rightarrow> length (key_bytes k) + length (deref h r) \<le> MAX_KEY_VAL_BYTES | BigInt _ \<Rightarrow> True)"

definition schema_ok :: "heap \<Rightarrow> (string, stack_elem) jsmap \<Rightarrow> schema \<Rightarrow> bool" where
  "schema_ok h kv s \<longleftrightarrow> (\<forall>(k, v) \<in> set kv. pair_ok h k v) \<and>
     int (uints kv) \<le> numUint s \<and> int (byteslices kv) \<le> numByteSlice s"

lemma assertKeyVal_ok: "assertKeyValLengthValid h (key_bytes k) v =
    (if pair_ok h k v then Inr () else Inl (TEAL INVALID_SCHEMA))"
  by (auto simp: assertKeyValLengthValid_def pair_ok_def Let_def split: stack_elem.splits)

lemma count_state_eq: "count_state h kv nu bs =
    (if \<forall>(k, v) \<in> set kv. pair_ok h k v
     then Inr (nu + int (uints kv), bs + int (byteslices kv)) else Inl (TEAL INVALID_SCHEMA))"
  by (induction h kv nu bs rule: count_state.induct)
    (auto simp: assertKeyVal_ok uints_def byteslices_def split: stack_elem.splits)

lemma assertValidSchema_eq: "assertValidSchema h kv s =
    (if schema_ok h kv s then Inr () else Inl (TEAL INVALID_SCHEMA))"
  by (auto simp: assertValidSchema_def count_state_eq schema_ok_def)

lemma setLocalState_eq:
  "setLocalState h i k v a = (case map_of (appsLocalState a) i of
      None \<Rightarrow> (Inl (GENERAL APP_NOT_FOUND), a)
    | Some la \<Rightarrow> (let la' = la\<lparr>key_value := AList.update (bytes_toString k) v (key_value la)\<rparr> in
        (if schema_ok h (key_value la') (la_schema la) then Inr () else Inl (TEAL INVALID_SCHEMA),
         a\<lparr>appsLocalState := AList.update i la' (appsLocalState a)\<rparr>)))"
  by (auto simp: setLocalState_def assertValidSchema_eq Let_def split: option.splits)

lemma getLocalState_setLocalState:
  "map_of (appsLocalState a) i \<noteq> None \<Longrightarrow>
   getLocalState j k' (snd (setLocalState h i k v a)) =
     (if j = i \<and> k' = k then Some v else getLocalState j k' a)"
  by (auto simp: getLocalState_def setLocalState_def Let_def bytes_toString_inject split: option.splits)

lemma getGlobalState_setGlobalState:
  "getApp i a \<noteq> None \<Longrightarrow>
   getGlobalState j k' (snd (setGlobalState h i k v a)) =
     (if j = i \<and> k' = k then Some v else getGlobalState j k' a)"
  by (auto simp: getGlobalState_def setGlobalState_def getApp_def Let_def bytes_toString_inject
      split: option.splits)

section \<open>Reconfiguration\<close>

lemma field_set_field: "field_of x (set_field y v a) = (if x = y then v else field_of x a)"
  by (cases x; cases y) simp_all

lemma check_field_frame: "field_of y (snd (check_field m x a)) =
    (if y = x \<and> isDefined (field_of x a) \<and> custom_of x m \<noteq> None then custom_of x m else field_of y a)"
  by (auto simp: check_field_def field_set_field isDefined_def)

lemma check_field_cases:
  "check_field m x a =
    (if isDefined (custom_of x m) \<and> \<not> isDefined (field_of x a) then Inl (ASA BLANK_ADDRESS_ERROR) else Inr (),
     snd (check_field m x a))"
  by (auto simp: check_field_def)

definition blank_clash :: "asset_mod \<Rightarrow> asset_params \<Rightarrow> asa_field \<Rightarrow> bool" where
  "blank_clash m a x \<longleftrightarrow> isDefined (custom_of x m) \<and> \<not> isDefined (field_of x a)"

lemma forM_check_field_step:
  "forM (x # xs) (check_field m) a =
    (if blank_clash m a x then (Inl (ASA BLANK_ADDRESS_ERROR), a)
     else forM xs (check_field m) (snd (check_field m x a)))"
  by (auto simp: exec_simps blank_clash_def check_field_def)

lemma check_field_other: "y \<noteq> x \<Longrightarrow> field_of y (snd (check_field m x a)) = field_of y a"
  by (simp add: check_field_frame)

lemma blank_clash_other: "y \<noteq> x \<Longrightarrow> blank_clash m (snd (check_field m x a)) y = blank_clash m a y"
  by (simp add: blank_clash_def check_field_other)

lemma forM_check_field_fst:
  "distinct xs \<Longrightarrow> fst (forM xs (check_field m) a) =
    (if \<exists>x \<in> set xs. blank_clash m a x then Inl (ASA BLANK_ADDRESS_ERROR) else Inr ())"
proof (induction xs arbitrary: a)
  case (Cons x xs)
  have "(\<exists>y \<in> set xs. blank_clash m (snd (check_field m x a)) y) \<longleftrightarrow> (\<exists>y \<in> set xs. blank_clash m a y)"
    using Cons.prems by (intro bex_cong refl blank_clash_other) auto
  then show ?case
    using Cons.IH [of "snd (check_field m x a)"] Cons.prems
    by (simp add: forM_check_field_step del: forM.simps)
qed (simp add: exec_simps)

lemma forM_check_field_blank:
  "\<not> isDefined (field_of y a) \<Longrightarrow> field_of y (snd (forM xs (check_field m) a)) = field_of y a"
proof (induction xs arbitrary: a)
  case (Cons x xs)
  have "field_of y (snd (check_field m x a)) = field_of y a"
    using Cons.prems by (auto simp: check_field_frame)
  then show ?case
    using Cons.IH [of "snd (check_field m x a)"] Cons.prems
    by (simp add: forM_check_field_step del: forM.simps)
qed (simp add: exec_simps)

lemma forM_check_field_snd:
  "distinct xs \<Longrightarrow> \<not> (\<exists>x \<in> set xs. blank_clash m a x) \<Longrightarrow>
   field_of y (snd (forM xs (check_field m) a)) =
     (if y \<in> set xs \<and> isDefined (field_of y a) \<and> custom_of y m \<noteq> None then custom_of y m else field_of y a)"
proof (induction xs arbitrary: a)
  case (Cons x xs)
  let ?a = "snd (check_field m x a)"
  have "\<not> (\<exists>y \<in> set xs. blank_clash m ?a y)"
    using Cons.prems by (metis blank_clash_other distinct.simps(2) list.set_intros(2))
  then have IH: "field_of y (snd (forM xs (check_field m) ?a)) =
     (if y \<in> set xs \<and> isDefined (field_of y ?a) \<and> custom_of y m \<noteq> None then custom_of y m else field_of y ?a)"
    using Cons.IH [of ?a] Cons.prems by simp
  show ?case
    using Cons.prems IH
    by (cases "y = x") (auto simp: forM_check_field_step check_field_frame simp del: forM.simps)
qed (simp add: exec_simps)

lemma all_asa_fields: "x \<in> set [Manager, Reserve, Freeze, Clawback]"
  by (cases x) simp_all

section \<open>Properties\<close>

text \<open>
  C24: In every account that the operations of \<^verbatim>\<open>AccountStore\<close> reach from a new one, new assets and
  applications getting fresh identifiers, the incrementally maintained \<^verbatim>\<open>minBalance\<close> is the balance
  that the account's holdings, created applications and opt-ins require, also when operations threw.
\<close>

theorem min_balance_invariant:
  assumes "account_reach a"
  shows "minBalance a = required_balance a \<and> wf_account a"
  using account_reach_ok [OF assms] by (simp add: account_ok_def)

definition sample_asa :: asa_def where
  "sample_asa = \<lparr>def_total = 10, def_decimals = 0, def_defaultFrozen = None, def_unitName = None,
     def_url = None, def_metadataHash = None, def_manager = Some ''M'', def_reserve = None,
     def_freeze = None, def_clawback = None, def_optInAccNames = None\<rparr>"

definition sample_account :: account where
  "sample_account = run_op (AddAsset 5 ''gold'' sample_asa) (new_AccountStore 0 ''A'' [] None)"

lemma min_balance_invariant_witness: "minBalance sample_account = 200000"
proof -
  have "account_reach sample_account"
    unfolding sample_account_def
    by (intro account_reach.intros) (simp add: new_AccountStore_def)
  from min_balance_invariant [OF this] have "minBalance sample_account = required_balance sample_account" ..
  then show ?thesis
    by (simp add: required_balance_def sample_account_def addAsset_def new_AccountStore_def Let_def jm.total_def)
qed

text \<open>
  C26: A write to the local state of an application the account is opted in to is read back under its key
  and changes no other key of any application; it is reported as a success exactly when the resulting
  state keeps the schema (the key and pair lengths and the numbers of integers and byte slices), and the
  pair is in the map even when the check throws.
\<close>

theorem setLocalState_correct:
  assumes "map_of (appsLocalState a) i = Some la"
  shows "fst (setLocalState h i k v a) =
      (if schema_ok h (AList.update (bytes_toString k) v (key_value la)) (la_schema la)
       then Inr () else Inl (TEAL INVALID_SCHEMA)) \<and>
    getLocalState j k' (snd (setLocalState h i k v a)) =
      (if j = i \<and> k' = k then Some v else getLocalState j k' a)"
proof
  show "fst (setLocalState h i k v a) =
      (if schema_ok h (AList.update (bytes_toString k) v (key_value la)) (la_schema la)
       then Inr () else Inl (TEAL INVALID_SCHEMA))"
    using assms by (simp add: setLocalState_eq Let_def)
  show "getLocalState j k' (snd (setLocalState h i k v a)) =
      (if j = i \<and> k' = k then Some v else getLocalState j k' a)"
    using assms by (intro getLocalState_setLocalState) simp
qed

lemma setLocalState_correct_witness:
  "let a = (new_AccountStore 0 ''A'' [] None)\<lparr>appsLocalState := [(3,
        \<lparr>la_id = 3, key_value = [], la_schema = \<lparr>numUint = 0, numByteSlice = 0\<rparr>\<rparr>)]\<rparr>
   in fst (setLocalState [] 3 [1] (BigInt 5) a) = Inl (TEAL INVALID_SCHEMA) \<and>
      getLocalState 3 [1] (snd (setLocalState [] 3 [1] (BigInt 5) a)) = Some (BigInt 5)"
  using setLocalState_correct [of "(new_AccountStore 0 ''A'' [] None)\<lparr>appsLocalState := [(3,
        \<lparr>la_id = 3, key_value = [], la_schema = \<lparr>numUint = 0, numByteSlice = 0\<rparr>\<rparr>)]\<rparr>" 3
      "\<lparr>la_id = 3, key_value = [], la_schema = \<lparr>numUint = 0, numByteSlice = 0\<rparr>\<rparr>" "[]" "[1]" "BigInt 5" 3 "[1]"]
  by (simp add: schema_ok_def uints_def)

text \<open>
  Reconfiguring an asset is rejected exactly when the change gives a non-blank address to a field
  that is blank; when accepted, every field of the asset is the given one if the field was not blank
  and a value was given, and the old one otherwise; blank fields stay blank in both cases.
\<close>

theorem reconfigure_asset:
  "fst (checkAndSetASAFields m a) =
     (if \<exists>x. isDefined (custom_of x m) \<and> \<not> isDefined (field_of x a)
      then Inl (ASA BLANK_ADDRESS_ERROR) else Inr ()) \<and>
   (\<not> isDefined (field_of y a) \<longrightarrow> field_of y (snd (checkAndSetASAFields m a)) = field_of y a) \<and>
   (fst (checkAndSetASAFields m a) = Inr () \<longrightarrow>
      field_of y (snd (checkAndSetASAFields m a)) =
        (if isDefined (field_of y a) \<and> custom_of y m \<noteq> None then custom_of y m else field_of y a))"
proof -
  let ?xs = "[Manager, Reserve, Freeze, Clawback]"
  have d: "distinct ?xs" by simp
  have ex: "(\<exists>x \<in> set ?xs. blank_clash m a x) \<longleftrightarrow> (\<exists>x. blank_clash m a x)"
    using all_asa_fields by blast
  have f: "fst (forM ?xs (check_field m) a) =
      (if \<exists>x. blank_clash m a x then Inl (ASA BLANK_ADDRESS_ERROR) else Inr ())"
    using forM_check_field_fst [OF d, of m a] unfolding ex .
  moreover have "field_of y (snd (forM ?xs (check_field m) a)) =
      (if isDefined (field_of y a) \<and> custom_of y m \<noteq> None then custom_of y m else field_of y a)"
    if "fst (forM ?xs (check_field m) a) = Inr ()"
    using forM_check_field_snd [OF d, of m a y] that f all_asa_fields [of y] ex by (auto split: if_splits)
  ultimately show ?thesis
    using forM_check_field_blank [of y a ?xs m]
    by (simp only: checkAndSetASAFields_def blank_clash_def) simp
qed

lemma reconfigure_asset_witness:
  "let a = new_Asset sample_asa ''C'' ''gold'';
       m = \<lparr>mod_manager = Some ''N'', mod_reserve = None, mod_freeze = None, mod_clawback = None\<rparr>
   in ap_manager (snd (checkAndSetASAFields m a)) = Some ''N'' \<and>
      ap_freeze (snd (checkAndSetASAFields m a)) = None"
proof -
  let ?a = "new_Asset sample_asa ''C'' ''gold''"
  let ?m = "\<lparr>mod_manager = Some ''N'', mod_reserve = None, mod_freeze = None, mod_clawback = None\<rparr>"
  have "\<not> isDefined (custom_of x ?m) \<or> isDefined (field_of x ?a)" for x
    by (cases x) (simp_all add: isDefined_def new_Asset_def sample_asa_def)
  then have ok: "fst (checkAndSetASAFields ?m ?a) = Inr ()"
    using reconfigure_asset [of ?m ?a Manager] by auto
  then show ?thesis
    using reconfigure_asset [of ?m ?a Manager] reconfigure_asset [of ?m ?a Freeze]
    by (simp add: isDefined_def new_Asset_def sample_asa_def)
qed

end
