(* ===== verification/TEAL_State.thy ===== *)
theory TEAL_State
  imports TEAL_Account
begin

text \<open>
  The instructions (\<^verbatim>\<open>interpreter/opcode-list.ts\<close>: one constructor per class, grouped by family, its
  immediate arguments beside it) and the state of a run: transactions and ledger (\<^verbatim>\<open>types.ts\<close>), the
  group context (\<^verbatim>\<open>ctx.ts\<close>) and the interpreter (\<^verbatim>\<open>interpreter/interpreter.ts\<close>), whose record
  extends the context it runs in. Then the primitives the opcodes are written with
  (\<^verbatim>\<open>interpreter/opcode.ts\<close>).
\<close>

section \<open>Instructions\<close>

datatype (plugins only: size code) arith_op =
    Add | Sub | Mul | Div | Mod
  | BitwiseOr | BitwiseAnd | BitwiseXor | BitwiseNot
  | LessThan | GreaterThan | LessThanEqualTo | GreaterThanEqualTo
  | AndOp | OrOp | EqualTo | NotEqualTo | NotOp
  | Addw | Mulw | Divw | DivModw | Exp | Expw | Shl | Shr | Sqrt
  | BitLen | Itob | Btoi

datatype math_op =
    MAdd | MSub | MMul | MDiv | MMod
  | MLessThan | MGreaterThan | MLessThanEqualTo | MGreaterThanEqualTo
  | MEqualTo | MNotEqualTo
  | MBitwiseOr | MBitwiseAnd | MBitwiseXor

datatype bytes_op =
    Len | Concat
  | Substring int int | Substring3
  | SetBit | GetBit | SetByte | GetByte
  | Extract int int | Extract3 | ExtractUintN nat
  | ByteOp math_op | ByteBitwiseInvert | ByteZero | Bsqrt
  | Replace2 int | Replace3

datatype stack_op =
    PopOp | Dup | Dup2 | Swap | Select | Dig nat | Cover int | Uncover int
  | Store nat | Load nat | Stores | Loads
  | Gload int int | Gloads int | Gloadss

datatype const_op =
    IntOp int | PushInt int
  | Byte string "error + bytes" | PushBytes bytes
  | Intcblock "int list" | Intc int
  | Bytecblock "nat list" | Bytec int
  | Arg nat | Args

datatype flow_op =
    Pragma nat | Label string
  | Branch string | Branchv4 string
  | BranchIfZero string | BranchIfZerov4 string
  | BranchIfNotZero string | BranchIfNotZerov4 string
  | Callsub string | Retsub | Switch "string list"
  | Return | Assert | Err

text \<open>The texts that are no field of a holding are told from the two fields when the opcode runs.\<close>

datatype holding_field = AssetBalance | AssetFrozen | OtherField

datatype acct_field = AcctBalance | AcctMinBalance | AcctAuthAddr

datatype ledger_op =
    AppOptedIn | AppLocalGet | AppLocalGetEx | AppGlobalGet | AppGlobalGetEx
  | AppLocalPut | AppGlobalPut | AppLocalDel | AppGlobalDel
  | Balance | MinBalance | GetAssetHolding holding_field
  | AcctParamsGet acct_field | Log | Gaid int | Gaids

text \<open>
  Fields are the texts the program gives, as in the code. The programs of \<^verbatim>\<open>Ed25519verify\<close> and the curve
  numbers are set when an instruction is parsed.
\<close>

datatype hash_alg = SHA256 | SHA512_256 | KECCAK256 | SHA3_256

datatype crypto_op =
    HashOp hash_alg | Ed25519verify string | Ed25519verify_bare
  | EcdsaVerify nat | EcdsaPkDecompress nat | EcdsaPkRecover nat
  | Bn254Add | Bn254ScalarMul | Bn254Pairing | VrfVerify string
  | Base64Decode string | Json_ref string

datatype field_op =
    Txn string "int option" | Gtxn int string "int option" | Txna string int | Gtxna int string int
  | Gtxns string "int option" | Gtxnsa string int | Txnas string | Gtxnas int string | Gtxnsas string
  | Global string | GetAssetDef string | AppParamsGet string | Block string | Addr string

datatype inner_op =
    ITxnBegin | ITxnField string | ITxnNext | ITxnSubmit
  | ITxn string int | ITxna string int | ITxnas string
  | Gitxn int string "int option" | Gitxna int string int | Gitxnas int string

datatype instr =
    Arith arith_op | BytesI bytes_op | StackI stack_op | Const const_op
  | Flow flow_op | Ledger ledger_op | Crypto crypto_op | Field field_op | Inner inner_op

section \<open>Transactions, receipts and the ledger\<close>

text \<open>
  \<^verbatim>\<open>EncTx\<close>: the encoded transaction, its nested asset parameters (\<^verbatim>\<open>apar\<close>) and state schemas (\<^verbatim>\<open>apls\<close>,
  \<^verbatim>\<open>apgs\<close>). A field that may be absent is an option; booleans are 0 and 1, as \<^verbatim>\<open>BigInt\<close> reads them. Byte
  fields are \<^verbatim>\<open>Buffer\<close>s, which the code copies before handing them to a program.
\<close>

record enc_asset =
  par_t :: "int option"
  par_dc :: "int option"
  par_df :: "int option"
  par_un :: "string option"
  par_an :: "string option"
  par_au :: "string option"
  par_am :: "bytes option"
  par_m :: "bytes option"
  par_r :: "bytes option"
  par_f :: "bytes option"
  par_c :: "bytes option"

record enc_schema =
  enc_nui :: "int option"
  enc_nbs :: "int option"

record enc_tx =
  tx_type :: string
  tx_txID :: string
  tx_snd :: bytes
  tx_fee :: "int option"
  tx_fv :: "int option"
  tx_lv :: int
  tx_note :: "bytes option"
  tx_lx :: "bytes option"
  tx_rekey :: "bytes option"
  tx_grp :: "bytes option"
  tx_rcv :: "bytes option"
  tx_amt :: "int option"
  tx_close :: "bytes option"
  tx_votekey :: "bytes option"
  tx_selkey :: "bytes option"
  tx_votefst :: "int option"
  tx_votelst :: "int option"
  tx_votekd :: "int option"
  tx_nonpart :: "int option"
  tx_caid :: "int option"
  tx_apar :: "enc_asset option"
  tx_xaid :: "int option"
  tx_aamt :: "int option"
  tx_asnd :: "bytes option"
  tx_arcv :: "bytes option"
  tx_aclose :: "bytes option"
  tx_faid :: "int option"
  tx_fadd :: "bytes option"
  tx_afrz :: "int option"
  tx_apid :: "int option"
  tx_apan :: "int option"
  tx_apaa :: "bytes list option"
  tx_apat :: "bytes list option"
  tx_apfa :: "int list option"
  tx_apas :: "int list option"
  tx_apap :: "bytes option"
  tx_apsu :: "bytes option"
  tx_apls :: "enc_schema option"
  tx_apgs :: "enc_schema option"
  tx_apep :: "int option"

definition APPLICATION_CALL :: string where "APPLICATION_CALL = ''appl''"

text \<open>\<^verbatim>\<open>BaseTxReceipt\<close>, and of \<^verbatim>\<open>AppInfo\<close> and \<^verbatim>\<open>ASAInfo\<close> the identifier of what was created.\<close>

record receipt =
  rc_txID :: string
  rc_gas :: "int option"
  rc_logs :: "nat list option"
  rc_appID :: "int option"
  rc_assetIndex :: "int option"

record asa_info =
  asa_creator :: string
  asa_assetIndex :: int
  asa_assetDef :: asset_params
  asa_txID :: string
  asa_confirmedRound :: int

record app_info =
  info_creator :: string
  info_appID :: int
  info_applicationAccount :: string
  info_txID :: string
  info_confirmedRound :: int
  info_approvalFile :: string
  info_clearFile :: string

record block =
  blk_timestamp :: int
  blk_seed :: bytes

record ledger =
  accounts :: "(string, account) jsmap"
  accountNameAddress :: "(string, string) jsmap"
  globalApps :: "(int, string) jsmap"
  assetDefs :: "(int, string) jsmap"
  assetNameInfo :: "(string, asa_info) jsmap"
  appNameMap :: "(string, app_info) jsmap"
  appCounter :: int
  assetCounter :: int
  txReceipts :: "(string, receipt) jsmap"
  blocks :: "(int, block) jsmap"

section \<open>Context and interpreter\<close>

text \<open>
  The \<^verbatim>\<open>ctx\<close> of a group, with the heap of arrays, the round, the timestamp and the blocks of the runtime it
  belongs to, and the reference of the array that the module constant \<^verbatim>\<open>ZERO_ADDRESS\<close> names. \<open>c_txAt\<close> is
  \<^verbatim>\<open>gtxs.indexOf(tx)\<close>, the position of the object \<^verbatim>\<open>tx\<close>, which is -1 for a copy of a member.
\<close>

record ctx =
  c_heap :: heap
  c_state :: ledger
  c_tx :: enc_tx
  c_txAt :: int
  c_gtxs :: "enc_tx list"
  c_args :: "nat list"
  c_round :: int
  c_timestamp :: int
  c_blocks :: "(int, block) jsmap"
  c_sharedScratchSpace :: "(int, stack_elem list) jsmap"
  c_knowableID :: "(int, int) jsmap"
  c_pooledApplCost :: int
  c_isInnerTx :: bool
  c_innerTxAppIDCallStack :: "int list"
  c_remainingTxns :: int
  c_remainingFee :: int
  c_budget :: int
  c_lastLog :: nat
  c_zeroAddress :: nat
  c_txnType :: "string option"

datatype mode = SIGNATURE | APPLICATION

record interp = ctx +
  i_stack :: "stack_elem tstack"
  i_mode :: mode
  i_tealVersion :: nat
  i_gas :: int
  i_cost :: int
  i_bytecblock :: "nat list"
  i_intcblock :: "int list"
  i_scratch :: "stack_elem list"
  i_instructions :: "instr list"
  i_instructionIndex :: nat
  i_callStack :: "nat tstack"
  i_labelMap :: "(string, nat) jsmap"
  i_program :: string
  i_currentInnerTxnGroup :: "enc_tx list"
  i_innerTxnGroups :: "enc_tx list list"

text \<open>\<^verbatim>\<open>new Interpreter()\<close> in a context.\<close>

definition new_Interpreter :: "mode \<Rightarrow> ctx \<Rightarrow> interp" where
  "new_Interpreter md c = ctx.extend c
     \<lparr>i_stack = new_Stack, i_mode = md, i_tealVersion = 1, i_gas = 0, i_cost = 0,
      i_bytecblock = [], i_intcblock = [], i_scratch = replicate 256 (BigInt 0),
      i_instructions = [], i_instructionIndex = 0, i_callStack = new_Stack, i_labelMap = [],
      i_program = [], i_currentInnerTxnGroup = [], i_innerTxnGroups = []\<rparr>"

type_synonym 'a opM = "(interp, 'a) exec"

section \<open>Third-party code\<close>

text \<open>
  The functions of \<^verbatim>\<open>algosdk\<close> and of the cryptographic and JSON packages the opcodes call. They are not part
  of the repository: every definition that uses one takes this record as a parameter. A curve is given by
  its number (0 for secp256k1, 1 for p256), points by their two coordinates; \<open>json_get\<close> is what
  parsing an object and reading one of its keys gives.
\<close>

datatype json_value = JUndefined | JString string | JNumber "int option" | JBigInt int | JObject string | JOther

record sdk =
  encodeUint64 :: "int \<Rightarrow> error + bytes"
  decodeUint64 :: "bytes \<Rightarrow> error + int"
  encodeAddress :: "bytes \<Rightarrow> string"
  decodeAddress :: "string \<Rightarrow> error + bytes"
  isValidAddress :: "string \<Rightarrow> bool"
  getApplicationAddress :: "int \<Rightarrow> string"
  hash_digest :: "hash_alg \<Rightarrow> bytes \<Rightarrow> bytes"
  sha512_hex :: "bytes \<Rightarrow> string"
  verifyBytes :: "bytes \<Rightarrow> bytes \<Rightarrow> string \<Rightarrow> error + bool"
  detached_verify :: "bytes \<Rightarrow> bytes \<Rightarrow> bytes \<Rightarrow> error + bool"
  ec_verify :: "nat \<Rightarrow> bytes \<times> bytes \<Rightarrow> bytes \<Rightarrow> bytes \<times> bytes \<Rightarrow> error + bool"
  ec_decompress :: "nat \<Rightarrow> bytes \<Rightarrow> error + bytes \<times> bytes"
  ec_recover :: "nat \<Rightarrow> bytes \<Rightarrow> bytes \<times> bytes \<Rightarrow> int \<Rightarrow> error + bytes \<times> bytes"
  bn254_add :: "bytes \<Rightarrow> error + bytes"
  bn254_mul :: "bytes \<Rightarrow> error + bytes"
  bn254_pairing :: "bytes \<Rightarrow> error + bytes"
  json_valid :: "string \<Rightarrow> bool"
  json_get :: "string \<Rightarrow> string \<Rightarrow> error + json_value"
  base32_decode :: "string \<Rightarrow> error + bytes"

text \<open>
  The documented behaviour of the 64-bit codec: 8 bytes, big-endian; decoding takes 1 to 8 bytes and
  throws on longer input.
\<close>

definition uint64_codec :: "sdk \<Rightarrow> bool" where
  "uint64_codec X \<longleftrightarrow>
     (\<forall>n. 0 \<le> n \<longrightarrow> n \<le> MAX_UINT64 \<longrightarrow>
        (\<exists>b. encodeUint64 X n = Inr b \<and> length b = 8 \<and> int (be_value b) = n)) \<and>
     (\<forall>b. b \<noteq> [] \<longrightarrow> length b \<le> 8 \<longrightarrow> decodeUint64 X b = Inr (int (be_value b))) \<and>
     (\<forall>b. 8 < length b \<longrightarrow> (\<exists>e. decodeUint64 X b = Inl e))"

section \<open>Primitives of the opcodes\<close>

definition popM :: "stack_elem opM" where
  "popM = (\<lambda>s. case stack_pop (i_stack s) of
     Inl e \<Rightarrow> (Inl e, s) | Inr (x, st) \<Rightarrow> (Inr x, s\<lparr>i_stack := st\<rparr>))"

definition pushM :: "stack_elem \<Rightarrow> unit opM" where
  "pushM x = (\<lambda>s. case stack_push x (i_stack s) of
     Inl e \<Rightarrow> (Inl e, s) | Inr st \<Rightarrow> (Inr (), s\<lparr>i_stack := st\<rparr>))"

text \<open>A new array on the heap, and the push of a reference to it.\<close>

definition newM :: "bytes \<Rightarrow> nat opM" where
  "newM b = (\<lambda>s. (Inr (length (c_heap s)), s\<lparr>c_heap := c_heap s @ [b]\<rparr>))"

definition pushBytesM :: "bytes \<Rightarrow> unit opM" where
  "pushBytesM b = bindM (newM b) (\<lambda>r. pushM (Bytes r))"

definition pushBigInt :: "int \<Rightarrow> unit opM" where
  "pushBigInt n = pushM (BigInt n)"

definition derefM :: "nat \<Rightarrow> bytes opM" where
  "derefM r = getM (\<lambda>s. deref (c_heap s) r)"

definition assertMinStackLen :: "nat \<Rightarrow> unit opM" where
  "assertMinStackLen n = (\<lambda>s.
     if stack_length (i_stack s) < n then (Inl (TEAL ASSERT_STACK_LENGTH), s) else (Inr (), s))"

definition checkOverflow :: "int \<Rightarrow> int \<Rightarrow> unit opM" where
  "checkOverflow num v =
     (if v = MAX_UINT64 then assertM (num \<le> MAX_UINT64) (TEAL UINT64_OVERFLOW)
      else if v = MAX_UINT128 then assertM (num \<le> MAX_UINT128) (TEAL UINT128_OVERFLOW)
      else returnM ())"

definition checkUnderflow :: "int \<Rightarrow> unit opM" where
  "checkUnderflow num = assertM (MIN_UINT64 \<le> num) (TEAL UINT64_UNDERFLOW)"

definition checkIndexBound :: "int \<Rightarrow> 'a list \<Rightarrow> unit opM" where
  "checkIndexBound idx arr = assertM (0 \<le> idx \<and> idx < int (length arr)) (TEAL INDEX_OUT_OF_BOUND)"

definition assertArrLength :: "'a list \<Rightarrow> unit opM" where
  "assertArrLength arr =
     assertM (length arr \<noteq> 0 \<and> int (length arr) \<le> MAX_UINT8 + 1) (TEAL ASSERT_ARR_LENGTH)"

definition assertBigInt :: "stack_elem \<Rightarrow> int opM" where
  "assertBigInt a = (case a of BigInt i \<Rightarrow> returnM i | Bytes _ \<Rightarrow> throwM (TEAL INVALID_TYPE))"

text \<open>\<^verbatim>\<open>assertBytes\<close> returns the array it got: its reference, so that writes go through.\<close>

definition assertBytes :: "stack_elem \<Rightarrow> nat opM" where
  "assertBytes b = (case b of Bytes r \<Rightarrow> returnM r | BigInt _ \<Rightarrow> throwM (TEAL INVALID_TYPE))"

definition assertBytesMax :: "stack_elem \<Rightarrow> nat \<Rightarrow> nat opM" where
  "assertBytesMax b maxlen =
     bindM (assertBytes b) (\<lambda>r. bindM (derefM r) (\<lambda>bs.
       seqM (assertM (length bs \<le> maxlen) (TEAL BYTES_LEN_EXCEEDED)) (returnM r)))"

definition assertUint8 :: "int \<Rightarrow> int opM" where
  "assertUint8 a = seqM (assertM (MIN_UINT8 \<le> a \<and> a \<le> MAX_UINT8) (TEAL INVALID_UINT8)) (returnM a)"

definition assert64BitIndex :: "int \<Rightarrow> unit opM" where
  "assert64BitIndex idx = assertM (idx \<le> MAX_UINT6) (TEAL SET_BIT_INDEX_ERROR)"

definition assertBytesIndex :: "int \<Rightarrow> bytes \<Rightarrow> unit opM" where
  "assertBytesIndex idx arr = assertM (idx < int (length arr)) (TEAL SET_BIT_INDEX_BYTES_ERROR)"

definition subString :: "bytes \<Rightarrow> int \<Rightarrow> int \<Rightarrow> bytes opM" where
  "subString b start fin =
     seqM (assertM (start \<le> fin) (TEAL SUBSTRING_END_BEFORE_START))
    (seqM (assertM (start \<le> int (length b) \<and> fin \<le> int (length b)) (TEAL SUBSTRING_RANGE_BEYOND))
    (returnM (js_slice b (nat (js_Number start)) (nat (js_Number fin)))))"

text \<open>\<^verbatim>\<open>array.slice(i, j)\<close> for any integers: a negative index counts from the end.\<close>

definition slice_index :: "'a list \<Rightarrow> int \<Rightarrow> nat" where
  "slice_index b i = nat (if i < 0 then int (length b) + i else i)"

definition js_array_slice :: "'a list \<Rightarrow> int \<Rightarrow> int \<Rightarrow> 'a list" where
  "js_array_slice b i j = js_slice b (slice_index b i) (slice_index b j)"

lemma js_array_slice_nonneg [simp]: "0 \<le> i \<Longrightarrow> 0 \<le> j \<Longrightarrow> js_array_slice b i j = js_slice b (nat i) (nat j)"
  by (simp add: js_array_slice_def slice_index_def)

definition opExtractImpl :: "bytes \<Rightarrow> int \<Rightarrow> int \<Rightarrow> bytes opM" where
  "opExtractImpl b start len =
     (let fin = start + len
      in seqM (assertM (start \<le> int (length b)) (TEAL EXTRACT_RANGE_ERROR))
        (seqM (assertM (fin \<le> int (length b)) (TEAL EXTRACT_RANGE_ERROR))
        (returnM (js_array_slice b start fin))))"

definition pushBooleanCheck :: "bool \<Rightarrow> unit opM" where
  "pushBooleanCheck ok = pushBigInt (if ok then 1 else 0)"

definition computeCost :: "int opM" where
  "computeCost = returnM 1"

text \<open>\<^verbatim>\<open>this.assertBigInt(stack.pop(), line)\<close> and its like.\<close>

definition popBigInt :: "int opM" where
  "popBigInt = bindM popM assertBigInt"

definition popBytesRef :: "nat opM" where
  "popBytesRef = bindM popM assertBytes"

definition popBytes :: "bytes opM" where
  "popBytes = bindM popBytesRef derefM"

definition popBytesMax :: "nat \<Rightarrow> bytes opM" where
  "popBytesMax n = bindM popM (\<lambda>x. bindM (assertBytesMax x n) derefM)"

section \<open>Evaluation of the primitives\<close>

lemma popM_stk [exec_simps]:
  "i_stack s = stk (x # xs) \<Longrightarrow> popM s = (Inr x, s\<lparr>i_stack := stk xs\<rparr>)"
  "i_stack s = stk [] \<Longrightarrow> popM s = (Inl (JsError (PlainError ''pop from empty stack'')), s)"
  by (simp_all add: popM_def)

lemma pushM_stk [exec_simps]:
  "i_stack s = stk xs \<Longrightarrow> pushM x s =
    (if length xs = 1000 then (Inl (JsError (PlainError ''Stack overflow'')), s)
     else (Inr (), s\<lparr>i_stack := stk (x # xs)\<rparr>))"
  by (simp add: pushM_def)

lemma assertMinStackLen_stk [exec_simps]:
  "i_stack s = stk xs \<Longrightarrow> assertMinStackLen n s =
    (if length xs < n then (Inl (TEAL ASSERT_STACK_LENGTH), s) else (Inr (), s))"
  by (simp add: assertMinStackLen_def)

lemma assertBigInt_simps [exec_simps]:
  "assertBigInt (BigInt i) s = (Inr i, s)"
  "assertBigInt (Bytes r) s = (Inl (TEAL INVALID_TYPE), s)"
  by (simp_all add: assertBigInt_def exec_simps)

lemma assertBytes_simps [exec_simps]:
  "assertBytes (Bytes r) s = (Inr r, s)"
  "assertBytes (BigInt i) s = (Inl (TEAL INVALID_TYPE), s)"
  by (simp_all add: assertBytes_def exec_simps)

lemma popBigInt_stk [exec_simps]:
  "i_stack s = stk (BigInt i # xs) \<Longrightarrow> popBigInt s = (Inr i, s\<lparr>i_stack := stk xs\<rparr>)"
  "i_stack s = stk (Bytes r # xs) \<Longrightarrow> popBigInt s = (Inl (TEAL INVALID_TYPE), s\<lparr>i_stack := stk xs\<rparr>)"
  by (simp_all add: popBigInt_def exec_simps)

lemma popBytesRef_stk [exec_simps]:
  "i_stack s = stk (Bytes r # xs) \<Longrightarrow> popBytesRef s = (Inr r, s\<lparr>i_stack := stk xs\<rparr>)"
  "i_stack s = stk (BigInt i # xs) \<Longrightarrow> popBytesRef s = (Inl (TEAL INVALID_TYPE), s\<lparr>i_stack := stk xs\<rparr>)"
  by (simp_all add: popBytesRef_def exec_simps)

lemma popBytes_stk [exec_simps]:
  "i_stack s = stk (Bytes r # xs) \<Longrightarrow> popBytes s = (Inr (deref (c_heap s) r), s\<lparr>i_stack := stk xs\<rparr>)"
  "i_stack s = stk (BigInt i # xs) \<Longrightarrow> popBytes s = (Inl (TEAL INVALID_TYPE), s\<lparr>i_stack := stk xs\<rparr>)"
  by (simp_all add: popBytes_def derefM_def exec_simps)

lemma popBytesMax_stk [exec_simps]:
  "i_stack s = stk (Bytes r # xs) \<Longrightarrow> popBytesMax n s =
    (if length (deref (c_heap s) r) \<le> n then Inr (deref (c_heap s) r) else Inl (TEAL BYTES_LEN_EXCEEDED),
     s\<lparr>i_stack := stk xs\<rparr>)"
  "i_stack s = stk (BigInt i # xs) \<Longrightarrow> popBytesMax n s = (Inl (TEAL INVALID_TYPE), s\<lparr>i_stack := stk xs\<rparr>)"
  by (simp_all add: popBytesMax_def assertBytesMax_def derefM_def exec_simps)

lemma pushBytesM_stk [exec_simps]:
  "i_stack s = stk xs \<Longrightarrow> pushBytesM b s =
    (if length xs = 1000
     then (Inl (JsError (PlainError ''Stack overflow'')), s\<lparr>c_heap := c_heap s @ [b]\<rparr>)
     else (Inr (), s\<lparr>c_heap := c_heap s @ [b], i_stack := stk (Bytes (length (c_heap s)) # xs)\<rparr>))"
  by (simp add: pushBytesM_def newM_def exec_simps)

lemma check_simps [exec_simps]:
  "checkOverflow n MAX_UINT64 s = (if n \<le> MAX_UINT64 then Inr () else Inl (TEAL UINT64_OVERFLOW), s)"
  "checkOverflow n MAX_UINT128 s = (if n \<le> MAX_UINT128 then Inr () else Inl (TEAL UINT128_OVERFLOW), s)"
  "checkUnderflow n s = (if 0 \<le> n then Inr () else Inl (TEAL UINT64_UNDERFLOW), s)"
  "computeCost s = (Inr 1, s)"
  "pushBigInt n s = pushM (BigInt n) s"
  "pushBooleanCheck b s = pushM (BigInt (if b then 1 else 0)) s"
  by (simp_all add: checkOverflow_def checkUnderflow_def computeCost_def pushBigInt_def
      pushBooleanCheck_def exec_simps)

lemma checkOverflow_num [exec_simps]:
  "checkOverflow n 0xFFFFFFFFFFFFFFFF s =
    (if n \<le> 0xFFFFFFFFFFFFFFFF then Inr () else Inl (TEAL UINT64_OVERFLOW), s)"
  "checkOverflow n 340282366920938463463374607431768211455 s =
    (if n \<le> 340282366920938463463374607431768211455 then Inr () else Inl (TEAL UINT128_OVERFLOW), s)"
  using check_simps(1,2) [of n s] by simp_all

lemma assert_simps [exec_simps]:
  "assertUint8 a s = (if 0 \<le> a \<and> a \<le> 255 then Inr a else Inl (TEAL INVALID_UINT8), s)"
  "assert64BitIndex i s = (if i \<le> 63 then Inr () else Inl (TEAL SET_BIT_INDEX_ERROR), s)"
  "assertBytesIndex i b s = (if i < int (length b) then Inr () else Inl (TEAL SET_BIT_INDEX_BYTES_ERROR), s)"
  "checkIndexBound i xs s =
    (if 0 \<le> i \<and> i < int (length xs) then Inr () else Inl (TEAL INDEX_OUT_OF_BOUND), s)"
  "assertArrLength xs s =
    (if xs \<noteq> [] \<and> length xs \<le> 256 then Inr () else Inl (TEAL ASSERT_ARR_LENGTH), s)"
  by (auto simp: assertUint8_def assert64BitIndex_def assertBytesIndex_def checkIndexBound_def
      assertArrLength_def exec_simps)

section \<open>A concrete instance\<close>

text \<open>
  A context and an implementation of the third-party functions, on which the witnesses evaluate the
  definitions. The codec is the documented one; an address is the text of its bytes.
\<close>

text \<open>A transaction with nothing but the fields every transaction has.\<close>

definition bare_tx :: "string \<Rightarrow> string \<Rightarrow> bytes \<Rightarrow> enc_tx" where
  "bare_tx tp i sender = \<lparr>tx_type = tp, tx_txID = i, tx_snd = sender, tx_fee = Some 1000, tx_fv = Some 1,
     tx_lv = 1000, tx_note = None, tx_lx = None, tx_rekey = None, tx_grp = None, tx_rcv = None,
     tx_amt = None, tx_close = None, tx_votekey = None, tx_selkey = None, tx_votefst = None,
     tx_votelst = None, tx_votekd = None, tx_nonpart = None, tx_caid = None, tx_apar = None,
     tx_xaid = None, tx_aamt = None, tx_asnd = None, tx_arcv = None, tx_aclose = None, tx_faid = None,
     tx_fadd = None, tx_afrz = None, tx_apid = None, tx_apan = None, tx_apaa = None, tx_apat = None,
     tx_apfa = None, tx_apas = None, tx_apap = None, tx_apsu = None, tx_apls = None, tx_apgs = None,
     tx_apep = None\<rparr>"

definition sample_tx :: enc_tx where
  "sample_tx = (bare_tx APPLICATION_CALL ''TX'' [1])\<lparr>tx_apid := Some 7, tx_apan := Some 0,
     tx_apat := Some [[2]], tx_apfa := Some [9], tx_apas := Some [11]\<rparr>"

definition sample_ledger :: ledger where
  "sample_ledger = \<lparr>accounts = [], accountNameAddress = [], globalApps = [], assetDefs = [],
     assetNameInfo = [], appNameMap = [], appCounter = 0, assetCounter = 0, txReceipts = [], blocks = []\<rparr>"

definition sample_ctx :: ctx where
  "sample_ctx = \<lparr>c_heap = [], c_state = sample_ledger, c_tx = sample_tx, c_txAt = 0, c_gtxs = [sample_tx],
     c_args = [], c_round = 2, c_timestamp = 5, c_blocks = [], c_sharedScratchSpace = [], c_knowableID = [], c_pooledApplCost = 0,
     c_isInnerTx = False, c_innerTxAppIDCallStack = [], c_remainingTxns = 256, c_remainingFee = 0,
     c_budget = 700, c_lastLog = 0, c_zeroAddress = 0, c_txnType = None\<rparr>"

definition sample_interp :: "bytes list \<Rightarrow> stack_elem list \<Rightarrow> interp" where
  "sample_interp h xs = (new_Interpreter APPLICATION sample_ctx)\<lparr>c_heap := h, i_stack := stk xs\<rparr>"

lemma sample_interp_simps [simp]:
  "i_stack (sample_interp h xs) = stk xs"
  "c_heap (sample_interp h xs) = h"
  by (simp_all add: sample_interp_def)

definition pad8 :: "bytes \<Rightarrow> bytes" where
  "pad8 b = replicate (8 - length b) 0 @ b"

text \<open>The functions are named, so that the evaluation of a record of them leaves them alone.\<close>

definition sample_encodeUint64 :: "int \<Rightarrow> error + bytes" where
  "sample_encodeUint64 n = (if 0 \<le> n \<and> n \<le> MAX_UINT64 then Inr (pad8 (be_digits (nat n)))
     else Inl (JsError (PlainError ''input is not a safe integer'')))"

definition sample_decodeUint64 :: "bytes \<Rightarrow> error + int" where
  "sample_decodeUint64 b = (if b \<noteq> [] \<and> length b \<le> 8 then Inr (int (be_value b))
     else Inl (JsError (PlainError ''data has unacceptable length'')))"

definition sample_decodeAddress :: "string \<Rightarrow> error + bytes" where
  "sample_decodeAddress a = Inr (key_bytes a)"

definition sample_isValidAddress :: "string \<Rightarrow> bool" where
  "sample_isValidAddress a = True"

definition sample_getApplicationAddress :: "int \<Rightarrow> string" where
  "sample_getApplicationAddress n = bytes_toString [255, word_of_int n]"

definition sample_hash :: "hash_alg \<Rightarrow> bytes \<Rightarrow> bytes" where
  "sample_hash a b = take 32 (b @ replicate 32 0)"

definition sample_hex :: "bytes \<Rightarrow> string" where
  "sample_hex b = []"

definition sample_verifyBytes :: "bytes \<Rightarrow> bytes \<Rightarrow> string \<Rightarrow> error + bool" where
  "sample_verifyBytes m sg a = Inr (sg = m @ key_bytes a)"

definition sample_detached_verify :: "bytes \<Rightarrow> bytes \<Rightarrow> bytes \<Rightarrow> error + bool" where
  "sample_detached_verify m sg k = Inr (sg = m @ k)"

definition sample_ec_verify :: "nat \<Rightarrow> bytes \<times> bytes \<Rightarrow> bytes \<Rightarrow> bytes \<times> bytes \<Rightarrow> error + bool" where
  "sample_ec_verify c p m sg = Inr (p = sg)"

definition sample_ec_point :: "nat \<Rightarrow> bytes \<Rightarrow> error + bytes \<times> bytes" where
  "sample_ec_point c b = Inr (b, b)"

definition sample_ec_recover :: "nat \<Rightarrow> bytes \<Rightarrow> bytes \<times> bytes \<Rightarrow> int \<Rightarrow> error + bytes \<times> bytes" where
  "sample_ec_recover c m sg i = Inr sg"

definition sample_no_point :: "bytes \<Rightarrow> error + bytes" where
  "sample_no_point b = Inl (JsError (PlainError ''point not on curve''))"

definition sample_json_valid :: "string \<Rightarrow> bool" where
  "sample_json_valid s = False"

definition sample_json_get :: "string \<Rightarrow> string \<Rightarrow> error + json_value" where
  "sample_json_get s k = Inr JUndefined"

definition sample_base32 :: "string \<Rightarrow> error + bytes" where
  "sample_base32 s = Inr []"

definition sample_sdk :: sdk where
  "sample_sdk = \<lparr>encodeUint64 = sample_encodeUint64, decodeUint64 = sample_decodeUint64,
     encodeAddress = bytes_toString, decodeAddress = sample_decodeAddress,
     isValidAddress = sample_isValidAddress, getApplicationAddress = sample_getApplicationAddress,
     hash_digest = sample_hash, sha512_hex = sample_hex, verifyBytes = sample_verifyBytes,
     detached_verify = sample_detached_verify, ec_verify = sample_ec_verify, ec_decompress = sample_ec_point,
     ec_recover = sample_ec_recover, bn254_add = sample_no_point, bn254_mul = sample_no_point,
     bn254_pairing = sample_no_point, json_valid = sample_json_valid, json_get = sample_json_get,
     base32_decode = sample_base32\<rparr>"

lemma sample_codec: "uint64_codec sample_sdk"
proof -
  have be0: "be_value (replicate k 0 @ bs) = be_value bs" for k bs
    by (induction k) (simp_all add: be_value_Cons)
  have "length (pad8 (be_digits (nat n))) = 8 \<and> int (be_value (pad8 (be_digits (nat n)))) = n"
    if "0 \<le> n" "n \<le> MAX_UINT64" for n
  proof -
    have "nat n < 256 ^ 8" using that by (simp add: nat_less_iff)
    then have "length (be_digits (nat n)) \<le> 8" by (rule be_digits_length) simp
    then show ?thesis using that by (simp add: pad8_def be0)
  qed
  then show ?thesis
    by (simp add: uint64_codec_def sample_sdk_def sample_encodeUint64_def sample_decodeUint64_def)
qed

end
