(* ===== verification/TEAL_Math.thy ===== *)
theory TEAL_Math
  imports TEAL_Limits
begin

text \<open>
  \<^verbatim>\<open>lib/math.ts\<close>: the integer square root of a bigint by Newton's iteration, and the exact range
  on which it is the floor of the root.
\<close>

section \<open>The floor of the root\<close>

text \<open>\<^verbatim>\<open>Math.floor(Math.sqrt(x))\<close> for a double \<open>x\<close> that is an integer below \<open>2 ^ 52\<close>.\<close>

fun isqrt :: "nat \<Rightarrow> nat" where
  "isqrt n = (if n = 0 then 0
     else let r = 2 * isqrt (n div 4) in if (r + 1) * (r + 1) \<le> n then r + 1 else r)"

declare isqrt.simps [simp del]

lemma isqrt_0 [simp]: "isqrt 0 = 0"
  by (simp add: isqrt.simps)

lemma isqrt_spec: "isqrt n * isqrt n \<le> n \<and> n < (isqrt n + 1) * (isqrt n + 1)"
proof (induction n rule: isqrt.induct)
  case (1 n)
  show ?case
  proof (cases "n = 0")
    case False
    define q where "q = isqrt (n div 4)"
    have IH: "q * q \<le> n div 4" "n div 4 < (q + 1) * (q + 1)"
      using 1 [OF False] by (simp_all add: q_def)
    have lo: "(2 * q) * (2 * q) \<le> n"
    proof -
      have "4 * (q * q) \<le> 4 * (n div 4)" using IH(1) by simp
      also have "\<dots> \<le> n" by simp
      finally show ?thesis by (simp add: algebra_simps)
    qed
    have hi: "n < (2 * q + 2) * (2 * q + 2)"
    proof -
      have "n < 4 * (n div 4 + 1)" by simp
      also have "\<dots> \<le> 4 * ((q + 1) * (q + 1))" using IH(2) by simp
      finally show ?thesis by (simp add: algebra_simps)
    qed
    show ?thesis
      using lo hi False by (simp add: isqrt.simps [of n] q_def [symmetric] Let_def)
  qed simp
qed

lemma isqrt_unique:
  assumes "r * r \<le> n" "n < (r + 1) * (r + 1)"
  shows "isqrt n = r"
proof -
  have "isqrt n < r + 1"
    using isqrt_spec [of n] assms(2) by (metis le_less_trans mult_le_mono not_le)
  moreover have "r < isqrt n + 1"
    using isqrt_spec [of n] assms(1) by (metis le_less_trans mult_le_mono not_le)
  ultimately show ?thesis by simp
qed

lemma isqrt_mono_ge: "k * k \<le> n \<Longrightarrow> k \<le> isqrt n"
  using isqrt_spec [of n] by (metis Suc_eq_plus1 le_less_trans less_Suc_eq_le mult_le_mono not_le)

lemma isqrt_less: "n < k * k \<Longrightarrow> isqrt n < k"
  using isqrt_spec [of n] by (metis le_less_trans mult_le_mono not_le)

section \<open>The code\<close>

lemma sdiv_nonneg [simp]: "0 \<le> a \<Longrightarrow> 0 \<le> b \<Longrightarrow> (a :: int) sdiv b = a div b"
  by (auto simp: signed_divide_int_def sgn_if)

lemma smod_nonneg [simp]: "0 \<le> a \<Longrightarrow> 0 \<le> b \<Longrightarrow> (a :: int) smod b = a mod b"
  by (auto simp: signed_modulo_int_def sgn_if)

text \<open>
  The loop \<^verbatim>\<open>while (x0 !== x1 && x0 !== x1 - 1n) { x0 = x1; x1 = (value / x0 + x0) >> 1n; }\<close>;
  \<^const>\<open>None\<close> would be a loop that does not end.
\<close>

definition newton_step :: "int \<Rightarrow> int \<Rightarrow> int" where
  "newton_step v x = drop_bit 1 (v sdiv x + x)"

partial_function (option) sqrt_loop :: "int \<Rightarrow> int \<Rightarrow> int \<Rightarrow> int option" where
  "sqrt_loop v x0 x1 =
     (if x0 \<noteq> x1 \<and> x0 \<noteq> x1 - 1 then sqrt_loop v x1 (newton_step v x1) else Some x0)"

definition bigintSqrt :: "int \<Rightarrow> int option" where
  "bigintSqrt value =
     (if value < 2 then Some value
      else if value < 16 then Some (int (isqrt (nat value)))
      else sqrt_loop value (- 1)
        (if value < push_bit 52 1 then int (isqrt (nat value)) - 3 else push_bit 52 1 - 2))"

section \<open>Convergence\<close>

lemma div_lessI: "0 < (x :: int) \<Longrightarrow> a < b * x \<Longrightarrow> a div x < b"
  by (rule ccontr) (smt (verit) mult_right_mono minus_mod_eq_div_mult pos_mod_sign)

lemma le_divI: "0 < (x :: int) \<Longrightarrow> b * x \<le> a \<Longrightarrow> b \<le> a div x"
  using zdiv_mono1 [of "b * x" a x] by simp

lemma newton_step_div: "0 \<le> v \<Longrightarrow> 0 < x \<Longrightarrow> newton_step v x = (v div x + x) div 2"
  by (simp add: newton_step_def drop_bit_eq_div)

lemma newton_step_ge:
  fixes r :: int
  assumes "r * r \<le> v" "0 \<le> v" "0 < x"
  shows "r \<le> newton_step v x"
proof (rule ccontr)
  assume "\<not> ?thesis"
  then have "(v div x + x) div 2 < r" using assms by (simp add: newton_step_div)
  then have "v div x \<le> 2 * r - 1 - x" by linarith
  then have "v div x + 1 \<le> 2 * r - x" by simp
  then have "(v div x + 1) * x \<le> (2 * r - x) * x" using assms(3) by (simp add: mult_right_mono)
  moreover have "v < (v div x + 1) * x"
    using assms(3) by (metis add.commute div_mult_mod_eq distrib_right mult.commute mult_1
      pos_mod_bound add_strict_left_mono)
  ultimately have "v < 2 * r * x - x * x" by (simp add: algebra_simps)
  moreover have "0 \<le> (r - x) * (r - x)" by simp
  ultimately show False using assms(1) by (simp add: algebra_simps)
qed

lemma newton_step_less:
  fixes r :: int
  assumes "v < (r + 1) * (r + 1)" "0 \<le> v" "0 \<le> r" "r < x"
  shows "newton_step v x < x"
proof -
  have "(r + 1) * (r + 1) \<le> x * x" using assms by (intro mult_mono) auto
  then have "v < x * x" using assms(1) by linarith
  then have "v div x < x" using assms by (intro div_lessI) auto
  then show ?thesis using assms by (simp add: newton_step_div)
qed

lemma newton_step_root:
  fixes r :: int
  assumes "r * r \<le> v" "v < (r + 1) * (r + 1)" "0 < r"
  shows "newton_step v r = r \<or> newton_step v r = r + 1"
proof -
  have "r \<le> v div r" using assms by (intro le_divI)
  moreover have "v div r < r + 3"
    using assms by (intro div_lessI) (auto simp: algebra_simps)
  moreover have "0 \<le> v" using assms by (metis mult_pos_pos order_less_imp_le order_trans)
  ultimately show ?thesis using assms by (simp add: newton_step_div) linarith
qed

lemma sqrt_loop_from_above:
  fixes r :: int
  assumes "r * r \<le> v" "v < (r + 1) * (r + 1)" "0 < r" "r \<le> x"
  shows "sqrt_loop v x (newton_step v x) = Some r"
  using assms(4)
proof (induction "nat (x - r)" arbitrary: x rule: less_induct)
  case less
  have v: "0 \<le> v" using assms by (metis mult_pos_pos order_less_imp_le order_trans)
  show ?case
  proof (cases "x = r")
    case True
    then show ?thesis
      using newton_step_root [OF assms(1-3)] by (subst sqrt_loop.simps) auto
  next
    case False
    with less.prems have x: "r < x" by simp
    let ?y = "newton_step v x"
    have y: "r \<le> ?y" "?y < x"
      using newton_step_ge [OF assms(1) v] newton_step_less [OF assms(2) v _ x] x assms(3) by auto
    have "sqrt_loop v x ?y = sqrt_loop v ?y (newton_step v ?y)"
      using y by (subst sqrt_loop.simps) auto
    also have "\<dots> = Some r" using less.hyps [of ?y] y x by simp
    finally show ?thesis .
  qed
qed

lemma sqrt_loop_start:
  fixes r :: int
  assumes "r * r \<le> v" "v < (r + 1) * (r + 1)" "0 < r" "0 < x" "x \<noteq> r - 1"
  shows "sqrt_loop v (- 1) x = Some r"
proof -
  have v: "0 \<le> v" using assms by (metis mult_pos_pos order_less_imp_le order_trans)
  let ?y = "newton_step v x"
  have first: "sqrt_loop v (- 1) x = sqrt_loop v x ?y"
    using assms(4) by (subst sqrt_loop.simps) auto
  show ?thesis
  proof (cases "r \<le> x")
    case True
    then show ?thesis using sqrt_loop_from_above [OF assms(1-3)] first by simp
  next
    case False
    then have x: "x \<le> r - 2" using assms(5) by linarith
    have y: "r \<le> ?y" by (rule newton_step_ge [OF assms(1) v assms(4)])
    have "sqrt_loop v x ?y = sqrt_loop v ?y (newton_step v ?y)"
      using x y by (subst sqrt_loop.simps) auto
    also have "\<dots> = Some r" by (rule sqrt_loop_from_above [OF assms(1-3) y])
    finally show ?thesis using first by simp
  qed
qed

lemma sqrt_loop_stuck:
  fixes r :: int
  assumes "r * r \<le> v" "v < r * r + 2 * r - 3" "2 \<le> r"
  shows "sqrt_loop v (- 1) (r - 1) = Some (r - 1)"
proof -
  have v: "0 \<le> v" using assms by (meson zero_le_square order_trans)
  have lo: "r \<le> newton_step v (r - 1)" using newton_step_ge [OF assms(1) v, of "r - 1"] assms(3) by simp
  have "v div (r - 1) < r + 3"
    using assms by (intro div_lessI) (auto simp: algebra_simps)
  then have "newton_step v (r - 1) \<le> r" using assms v by (simp add: newton_step_div)
  with lo have "newton_step v (r - 1) = r" by simp
  then show ?thesis
    using assms(3) by (subst sqrt_loop.simps, simp, subst sqrt_loop.simps, simp)
qed

lemma nat_isqrt_int:
  assumes "0 \<le> v"
  shows "int (isqrt (nat v)) * int (isqrt (nat v)) \<le> v"
    and "v < (int (isqrt (nat v)) + 1) * (int (isqrt (nat v)) + 1)"
proof -
  have "int (isqrt (nat v) * isqrt (nat v)) \<le> int (nat v)"
    "int (nat v) < int ((isqrt (nat v) + 1) * (isqrt (nat v) + 1))"
    using isqrt_spec [of "nat v"] by (simp_all only: of_nat_le_iff of_nat_less_iff)
  then show "int (isqrt (nat v)) * int (isqrt (nat v)) \<le> v"
    "v < (int (isqrt (nat v)) + 1) * (int (isqrt (nat v)) + 1)"
    using assms by (simp_all add: algebra_simps)
qed

lemma bigintSqrt_floor:
  assumes "0 \<le> v" "int (isqrt (nat v)) \<noteq> 2 ^ 52 - 1"
  shows "bigintSqrt v = Some (int (isqrt (nat v)))"
proof -
  let ?r = "int (isqrt (nat v))"
  note r = nat_isqrt_int [OF assms(1)]
  consider "v < 2" | "2 \<le> v" "v < 16" | "16 \<le> v" "v < 2 ^ 52" | "2 ^ 52 \<le> v" by linarith
  then show ?thesis
  proof cases
    case 1
    with assms have "nat v = 0 \<or> nat v = 1" by linarith
    moreover have "isqrt 1 = 1" by (rule isqrt_unique) simp_all
    ultimately show ?thesis using 1 assms by (auto simp: bigintSqrt_def nat_eq_iff)
  next
    case 2
    then show ?thesis by (simp add: bigintSqrt_def)
  next
    case 3
    then have "4 \<le> isqrt (nat v)" by (intro isqrt_mono_ge) simp
    then show ?thesis
      using 3 sqrt_loop_start [OF r, of "?r - 3"] by (simp add: bigintSqrt_def push_bit_eq_mult)
  next
    case 4
    then have "4 \<le> isqrt (nat v)" by (intro isqrt_mono_ge) simp
    then show ?thesis
      using 4 assms(2) sqrt_loop_start [OF r, of "2 ^ 52 - 2"]
      by (simp add: bigintSqrt_def push_bit_eq_mult)
  qed
qed

end
