(* ===== verification/TEAL_Arith.thy ===== *)
theory TEAL_Arith
  imports TEAL_State TEAL_Math
begin

text \<open>
  The arithmetic, logical and comparison opcodes of \<^verbatim>\<open>opcode-list.ts\<close>, one definition per class, and
  their refinement of the reference semantics on 64-bit integers.
\<close>

section \<open>The opcodes\<close>

definition Add_execute :: "int opM" where
  "Add_execute =
     seqM (assertMinStackLen 2)
    (bindM popBigInt (\<lambda>last. bindM popBigInt (\<lambda>prev.
      (let result = prev + last
       in seqM (checkOverflow result MAX_UINT64) (seqM (pushBigInt result) computeCost)))))"

definition Sub_execute :: "int opM" where
  "Sub_execute =
     seqM (assertMinStackLen 2)
    (bindM popBigInt (\<lambda>last. bindM popBigInt (\<lambda>prev.
      (let result = prev - last
       in seqM (checkUnderflow result) (seqM (pushBigInt result) computeCost)))))"

definition Div_execute :: "int opM" where
  "Div_execute =
     seqM (assertMinStackLen 2)
    (bindM popBigInt (\<lambda>last. bindM popBigInt (\<lambda>prev.
      seqM (assertM (last \<noteq> 0) (TEAL ZERO_DIV)) (seqM (pushBigInt (prev sdiv last)) computeCost))))"

definition Mul_execute :: "int opM" where
  "Mul_execute =
     seqM (assertMinStackLen 2)
    (bindM popBigInt (\<lambda>last. bindM popBigInt (\<lambda>prev.
      (let result = prev * last
       in seqM (checkOverflow result MAX_UINT64) (seqM (pushBigInt result) computeCost)))))"

definition Mod_execute :: "int opM" where
  "Mod_execute =
     seqM (assertMinStackLen 2)
    (bindM popBigInt (\<lambda>last. bindM popBigInt (\<lambda>prev.
      seqM (assertM (last \<noteq> 0) (TEAL ZERO_DIV)) (seqM (pushBigInt (prev smod last)) computeCost))))"

text \<open>The three binary bit operations differ in the operator only.\<close>

definition bitwise_execute :: "(int \<Rightarrow> int \<Rightarrow> int) \<Rightarrow> int opM" where
  "bitwise_execute f =
     seqM (assertMinStackLen 2)
    (bindM popBigInt (\<lambda>last. bindM popBigInt (\<lambda>prev.
      seqM (pushBigInt (f prev last)) computeCost)))"

definition BitwiseOr_execute :: "int opM" where
  "BitwiseOr_execute = bitwise_execute Bit_Operations.or"

definition BitwiseAnd_execute :: "int opM" where
  "BitwiseAnd_execute = bitwise_execute Bit_Operations.and"

definition BitwiseXor_execute :: "int opM" where
  "BitwiseXor_execute = bitwise_execute Bit_Operations.xor"

definition BitwiseNot_execute :: "int opM" where
  "BitwiseNot_execute =
     seqM (assertMinStackLen 1)
    (bindM popBigInt (\<lambda>last. seqM (pushBigInt (Bit_Operations.not last)) computeCost))"

text \<open>Comparisons push 1 or 0.\<close>

definition compare_execute :: "(int \<Rightarrow> int \<Rightarrow> bool) \<Rightarrow> int opM" where
  "compare_execute f =
     seqM (assertMinStackLen 2)
    (bindM popBigInt (\<lambda>last. bindM popBigInt (\<lambda>prev.
      seqM (if f prev last then pushBigInt 1 else pushBigInt 0) computeCost)))"

definition LessThan_execute :: "int opM" where
  "LessThan_execute = compare_execute (\<lambda>prev last. prev < last)"

definition GreaterThan_execute :: "int opM" where
  "GreaterThan_execute = compare_execute (\<lambda>prev last. prev > last)"

definition LessThanEqualTo_execute :: "int opM" where
  "LessThanEqualTo_execute = compare_execute (\<lambda>prev last. prev \<le> last)"

definition GreaterThanEqualTo_execute :: "int opM" where
  "GreaterThanEqualTo_execute = compare_execute (\<lambda>prev last. prev \<ge> last)"

definition And_execute :: "int opM" where
  "And_execute = compare_execute (\<lambda>prev last. last \<noteq> 0 \<and> prev \<noteq> 0)"

definition Or_execute :: "int opM" where
  "Or_execute = compare_execute (\<lambda>prev last. prev \<noteq> 0 \<or> last \<noteq> 0)"

text \<open>
  \<^verbatim>\<open>==\<close> and \<^verbatim>\<open>!=\<close> compare two integers or the contents of two arrays; mixed operands are a type
  error.
\<close>

definition equality_execute :: "(bool \<Rightarrow> bool) \<Rightarrow> int opM" where
  "equality_execute pol =
     seqM (assertMinStackLen 2)
    (bindM popM (\<lambda>last. bindM popM (\<lambda>prev.
      (case (last, prev) of
         (BigInt l, BigInt p) \<Rightarrow> seqM (pushBooleanCheck (pol (l = p))) computeCost
       | (Bytes l, Bytes p) \<Rightarrow>
           bindM (derefM l) (\<lambda>bl. bindM (derefM p) (\<lambda>bp.
             seqM (pushBooleanCheck (pol (bl = bp))) computeCost))
       | _ \<Rightarrow> throwM (TEAL INVALID_TYPE)))))"

definition EqualTo_execute :: "int opM" where
  "EqualTo_execute = equality_execute (\<lambda>b. b)"

definition NotEqualTo_execute :: "int opM" where
  "NotEqualTo_execute = equality_execute (\<lambda>b. \<not> b)"

definition Not_execute :: "int opM" where
  "Not_execute =
     seqM (assertMinStackLen 1)
    (bindM popBigInt (\<lambda>last. seqM (if last = 0 then pushBigInt 1 else pushBigInt 0) computeCost))"

definition Addw_execute :: "int opM" where
  "Addw_execute =
     seqM (assertMinStackLen 2)
    (bindM popBigInt (\<lambda>valueA. bindM popBigInt (\<lambda>valueB.
      (let valueC = valueA + valueB
       in if valueC > MAX_UINT64
          then seqM (pushBigInt 1) (seqM (pushBigInt (valueC - MAX_UINT64 - 1)) computeCost)
          else seqM (pushBigInt 0) (seqM (pushBigInt valueC) computeCost)))))"

text \<open>The low and the high 64 bits of a wide result, checked and pushed high first.\<close>

definition push_wide :: "int \<Rightarrow> unit opM" where
  "push_wide result =
     (let low = Bit_Operations.and result MAX_UINT64; high = drop_bit 64 result
      in seqM (checkOverflow low MAX_UINT64)
        (seqM (checkOverflow high MAX_UINT64)
        (seqM (pushBigInt high) (pushBigInt low))))"

definition Mulw_execute :: "int opM" where
  "Mulw_execute =
     seqM (assertMinStackLen 2)
    (bindM popBigInt (\<lambda>valueA. bindM popBigInt (\<lambda>valueB.
      seqM (push_wide (valueA * valueB)) computeCost)))"

definition Divw_execute :: "int opM" where
  "Divw_execute =
     seqM (assertMinStackLen 3)
    (bindM popBigInt (\<lambda>valueC. bindM popBigInt (\<lambda>valueB. bindM popBigInt (\<lambda>valueA.
      seqM (assertM (valueC \<noteq> 0) (TEAL ZERO_DIV))
      (let result = (push_bit 64 valueA + valueB) sdiv valueC
       in seqM (checkOverflow result MAX_UINT64) (seqM (pushBigInt result) computeCost))))))"

text \<open>\<^verbatim>\<open>dividend / divisor\<close> of bigints throws a \<^verbatim>\<open>RangeError\<close> on a zero divisor.\<close>

definition DivModw_execute :: "int opM" where
  "DivModw_execute =
     bindM popBigInt (\<lambda>firstLow. bindM popBigInt (\<lambda>firstHigh.
      (let divisor = push_bit 64 firstHigh + firstLow
       in bindM popBigInt (\<lambda>secondLow. bindM popBigInt (\<lambda>secondHigh.
         (let dividend = push_bit 64 secondHigh + secondLow
          in seqM (assertM (divisor \<noteq> 0) (JsError RangeError))
            (seqM (push_wide (dividend sdiv divisor))
            (seqM (push_wide (dividend smod divisor)) computeCost))))))))"

text \<open>
  \<^verbatim>\<open>a ** b\<close> and \<^verbatim>\<open>a << b\<close> of bigints: a negative exponent throws a \<^verbatim>\<open>RangeError\<close>, and so does a result
  beyond the engine's limit of \<open>2 ^ 30\<close> bits. A negative shift amount shifts the other way.
\<close>

definition bigint_checked :: "int \<Rightarrow> error + int" where
  "bigint_checked r = (if 2 ^ 30 < bit_length (nat \<bar>r\<bar>) then Inl (JsError RangeError) else Inr r)"

definition bigint_pow :: "int \<Rightarrow> int \<Rightarrow> error + int" where
  "bigint_pow a b = (if b < 0 then Inl (JsError RangeError) else bigint_checked (a ^ nat b))"

definition bigint_shl :: "int \<Rightarrow> int \<Rightarrow> error + int" where
  "bigint_shl a b = (if 0 \<le> b then bigint_checked (push_bit (nat b) a) else Inr (drop_bit (nat (- b)) a))"

definition Exp_execute :: "int opM" where
  "Exp_execute =
     bindM popBigInt (\<lambda>b. bindM popBigInt (\<lambda>a.
      seqM (assertM (\<not> (a = 0 \<and> b = 0)) (TEAL EXP_ERROR))
      (bindM (liftM (bigint_pow a b)) (\<lambda>res.
        seqM (checkOverflow res MAX_UINT64) (seqM (pushBigInt res) computeCost)))))"

definition Expw_execute :: "int opM" where
  "Expw_execute =
     bindM popBigInt (\<lambda>b. bindM popBigInt (\<lambda>a.
      seqM (assertM (\<not> (a = 0 \<and> b = 0)) (TEAL EXP_ERROR))
      (bindM (liftM (bigint_pow a b)) (\<lambda>res.
        seqM (checkOverflow res MAX_UINT128) (seqM (push_wide res) computeCost)))))"

definition Shl_execute :: "int opM" where
  "Shl_execute =
     bindM popBigInt (\<lambda>b. bindM popBigInt (\<lambda>a.
      bindM (liftM (bigint_shl a b)) (\<lambda>res.
        seqM (pushBigInt (res smod 2 ^ 64)) computeCost)))"

definition Shr_execute :: "int opM" where
  "Shr_execute =
     bindM popBigInt (\<lambda>b. bindM popBigInt (\<lambda>a.
      bindM (liftM (bigint_shl a (- b))) (\<lambda>res. seqM (pushBigInt res) computeCost)))"

text \<open>\<^const>\<open>Hang\<close> would be a root whose loop does not end; no integer has one.\<close>

definition Sqrt_execute :: "int opM" where
  "Sqrt_execute =
     bindM popBigInt (\<lambda>value.
      bindM (someM Hang (bigintSqrt value)) (\<lambda>result. seqM (pushBigInt result) computeCost))"

text \<open>\<^verbatim>\<open>value.toString(2)\<close>, a minus sign in front of a negative integer's digits.\<close>

definition js_toString :: "nat \<Rightarrow> int \<Rightarrow> string" where
  "js_toString r i = (if i < 0 then CHR ''-'' # to_radix r (nat (- i)) else to_radix r (nat i))"

definition BitLen_execute :: "int opM" where
  "BitLen_execute =
     seqM (assertMinStackLen 1)
    (bindM popM (\<lambda>v.
      (case v of
         BigInt i \<Rightarrow> seqM (pushBigInt (if i = 0 then 0 else int (length (js_toString 2 i)))) computeCost
       | Bytes r \<Rightarrow> bindM (derefM r) (\<lambda>b.
           seqM (pushBigInt (if length b > 0
               then int ((length b - 1) * 8 + length (to_radix 2 (unat (b ! 0)))) else 0)) computeCost))))"

definition Itob_execute :: "sdk \<Rightarrow> int opM" where
  "Itob_execute X =
     seqM (assertMinStackLen 1)
    (bindM popBigInt (\<lambda>uint64.
      bindM (liftM (encodeUint64 X uint64)) (\<lambda>b. seqM (pushBytesM b) computeCost)))"

definition Btoi_execute :: "sdk \<Rightarrow> int opM" where
  "Btoi_execute X =
     seqM (assertMinStackLen 1)
    (bindM popBytes (\<lambda>b.
      bindM (liftM (decodeUint64 X b)) (\<lambda>n. seqM (pushBigInt n) computeCost)))"

fun arith_execute :: "sdk \<Rightarrow> arith_op \<Rightarrow> int opM" where
    "arith_execute X Add = Add_execute"
  | "arith_execute X Sub = Sub_execute"
  | "arith_execute X Mul = Mul_execute"
  | "arith_execute X Div = Div_execute"
  | "arith_execute X Mod = Mod_execute"
  | "arith_execute X BitwiseOr = BitwiseOr_execute"
  | "arith_execute X BitwiseAnd = BitwiseAnd_execute"
  | "arith_execute X BitwiseXor = BitwiseXor_execute"
  | "arith_execute X BitwiseNot = BitwiseNot_execute"
  | "arith_execute X LessThan = LessThan_execute"
  | "arith_execute X GreaterThan = GreaterThan_execute"
  | "arith_execute X LessThanEqualTo = LessThanEqualTo_execute"
  | "arith_execute X GreaterThanEqualTo = GreaterThanEqualTo_execute"
  | "arith_execute X AndOp = And_execute"
  | "arith_execute X OrOp = Or_execute"
  | "arith_execute X EqualTo = EqualTo_execute"
  | "arith_execute X NotEqualTo = NotEqualTo_execute"
  | "arith_execute X NotOp = Not_execute"
  | "arith_execute X Addw = Addw_execute"
  | "arith_execute X Mulw = Mulw_execute"
  | "arith_execute X Divw = Divw_execute"
  | "arith_execute X DivModw = DivModw_execute"
  | "arith_execute X Exp = Exp_execute"
  | "arith_execute X Expw = Expw_execute"
  | "arith_execute X Shl = Shl_execute"
  | "arith_execute X Shr = Shr_execute"
  | "arith_execute X Sqrt = Sqrt_execute"
  | "arith_execute X BitLen = BitLen_execute"
  | "arith_execute X Itob = Itob_execute X"
  | "arith_execute X Btoi = Btoi_execute X"

lemmas arith_defs =
  Add_execute_def Sub_execute_def Div_execute_def Mul_execute_def Mod_execute_def
  bitwise_execute_def BitwiseOr_execute_def BitwiseAnd_execute_def BitwiseXor_execute_def
  BitwiseNot_execute_def compare_execute_def LessThan_execute_def GreaterThan_execute_def
  LessThanEqualTo_execute_def GreaterThanEqualTo_execute_def And_execute_def Or_execute_def
  equality_execute_def EqualTo_execute_def NotEqualTo_execute_def Not_execute_def
  Addw_execute_def push_wide_def Mulw_execute_def Divw_execute_def DivModw_execute_def
  Exp_execute_def Expw_execute_def Shl_execute_def Shr_execute_def Sqrt_execute_def
  BitLen_execute_def Itob_execute_def Btoi_execute_def

section \<open>Reference semantics\<close>

text \<open>
  What the comments of the source and the virtual machine's specification promise on 64-bit
  operands: arguments and results top first, \<^const>\<open>None\<close> a panic.
\<close>

fun arity :: "arith_op \<Rightarrow> nat" where
    "arity BitwiseNot = 1" | "arity NotOp = 1" | "arity Sqrt = 1" | "arity BitLen = 1"
  | "arity Itob = 1" | "arity Btoi = 1"
  | "arity Divw = 3" | "arity DivModw = 4"
  | "arity _ = 2"

definition u64 :: "int \<Rightarrow> bool" where
  "u64 n \<longleftrightarrow> 0 \<le> n \<and> n < 2 ^ 64"

definition only_u64 :: "int \<Rightarrow> int list option" where
  "only_u64 n = (if u64 n then Some [n] else None)"

definition truth :: "bool \<Rightarrow> int list option" where
  "truth b = Some [if b then 1 else 0]"

definition wide :: "int \<Rightarrow> int list" where
  "wide n = [n mod 2 ^ 64, n div 2 ^ 64]"

fun avm1 :: "arith_op \<Rightarrow> int \<Rightarrow> int list option" where
    "avm1 BitwiseNot a = Some [2 ^ 64 - 1 - a]"
  | "avm1 NotOp a = truth (a = 0)"
  | "avm1 Sqrt a = Some [int (isqrt (nat a))]"
  | "avm1 BitLen a = Some [int (bit_length (nat a))]"
  | "avm1 _ _ = None"

fun avm2 :: "arith_op \<Rightarrow> int \<Rightarrow> int \<Rightarrow> int list option" where
    "avm2 Add b a = only_u64 (a + b)"
  | "avm2 Sub b a = only_u64 (a - b)"
  | "avm2 Mul b a = only_u64 (a * b)"
  | "avm2 Div b a = (if b = 0 then None else Some [a div b])"
  | "avm2 Mod b a = (if b = 0 then None else Some [a mod b])"
  | "avm2 BitwiseOr b a = Some [Bit_Operations.or a b]"
  | "avm2 BitwiseAnd b a = Some [Bit_Operations.and a b]"
  | "avm2 BitwiseXor b a = Some [Bit_Operations.xor a b]"
  | "avm2 LessThan b a = truth (a < b)"
  | "avm2 GreaterThan b a = truth (a > b)"
  | "avm2 LessThanEqualTo b a = truth (a \<le> b)"
  | "avm2 GreaterThanEqualTo b a = truth (a \<ge> b)"
  | "avm2 AndOp b a = truth (a \<noteq> 0 \<and> b \<noteq> 0)"
  | "avm2 OrOp b a = truth (a \<noteq> 0 \<or> b \<noteq> 0)"
  | "avm2 EqualTo b a = truth (a = b)"
  | "avm2 NotEqualTo b a = truth (a \<noteq> b)"
  | "avm2 Addw b a = Some (wide (a + b))"
  | "avm2 Mulw b a = Some (wide (a * b))"
  | "avm2 Exp b a = (if a = 0 \<and> b = 0 then None else only_u64 (a ^ nat b))"
  | "avm2 Expw b a =
      (if (a = 0 \<and> b = 0) \<or> 2 ^ 128 \<le> a ^ nat b then None else Some (wide (a ^ nat b)))"
  | "avm2 Shl b a =
      (if a \<noteq> 0 \<and> 2 ^ 30 < int (bit_length (nat a)) + b then None else Some [a * 2 ^ nat b mod 2 ^ 64])"
  | "avm2 Shr b a = Some [a div 2 ^ nat b]"
  | "avm2 _ _ _ = None"

definition avm_Divw :: "int \<Rightarrow> int \<Rightarrow> int \<Rightarrow> int list option" where
  "avm_Divw c b a = (if c = 0 then None else only_u64 ((a * 2 ^ 64 + b) div c))"

definition avm_DivModw :: "int \<Rightarrow> int \<Rightarrow> int \<Rightarrow> int \<Rightarrow> int list option" where
  "avm_DivModw d c b a =
     (let n = a * 2 ^ 64 + b; m = c * 2 ^ 64 + d
      in if m = 0 then None else Some (wide (n mod m) @ wide (n div m)))"

fun avm :: "arith_op \<Rightarrow> int list \<Rightarrow> int list option" where
    "avm op [a] = avm1 op a"
  | "avm op [b, a] = avm2 op b a"
  | "avm op [c, b, a] = (if op = Divw then avm_Divw c b a else None)"
  | "avm op [d, c, b, a] = (if op = DivModw then avm_DivModw d c b a else None)"
  | "avm op _ = None"

section \<open>Refinement\<close>

definition refined :: "int list option \<Rightarrow> stack_elem list \<Rightarrow> interp \<Rightarrow> (error + int) \<times> interp \<Rightarrow> bool" where
  "refined r rest s out \<longleftrightarrow>
     (case r of
        Some rs \<Rightarrow> out = (Inr 1, s\<lparr>i_stack := stk (List.map BigInt rs @ rest)\<rparr>) \<and> (\<forall>n \<in> set rs. u64 n)
      | None \<Rightarrow> (\<exists>e s'. out = (Inl e, s')))"

lemma bit_length_0 [simp]: "bit_length 0 = 0"
  by (simp add: bit_length.simps)

lemma bit_length_le: "n < 2 ^ k \<Longrightarrow> bit_length n \<le> k"
proof (rule ccontr)
  assume n: "n < 2 ^ k" "\<not> bit_length n \<le> k"
  then have "n \<noteq> 0" by (cases "n = 0") auto
  then have "2 ^ (bit_length n - 1) \<le> n" by (rule bit_length_ge)
  moreover have "2 ^ k \<le> (2 :: nat) ^ (bit_length n - 1)" using n by (intro power_increasing) auto
  ultimately show False using n by linarith
qed

lemma bit_length_double: "n \<noteq> 0 \<Longrightarrow> bit_length (2 * n) = Suc (bit_length n)"
  by (subst bit_length.simps) simp

lemma bit_length_shift: "n \<noteq> 0 \<Longrightarrow> bit_length (n * 2 ^ k) = bit_length n + k"
proof (induction k)
  case (Suc k)
  then have "bit_length (2 * (n * 2 ^ k)) = Suc (bit_length (n * 2 ^ k))"
    by (intro bit_length_double) simp
  then show ?case using Suc by (simp add: mult.left_commute mult.commute)
qed simp

lemma length_to_radix_2: "length (to_radix 2 n) = max 1 (bit_length n)"
proof (induction n rule: bit_length.induct)
  case (1 n)
  show ?case
  proof (cases "n < 2")
    case True
    then have "n = 0 \<or> n = 1" by auto
    moreover have "bit_length 1 = 1" by (simp add: bit_length.simps [of "Suc 0"])
    ultimately show ?thesis by (auto simp: to_radix.simps [of 2 n])
  next
    case False
    then have "n div 2 \<noteq> 0" by simp
    then have "1 \<le> bit_length (n div 2)" by (subst bit_length.simps) simp
    then show ?thesis using 1 False by (simp add: to_radix.simps [of 2 n] bit_length.simps [of n])
  qed
qed

lemma and_max_uint64: "Bit_Operations.and (n :: int) 0xFFFFFFFFFFFFFFFF = n mod 2 ^ 64"
proof -
  have "mask 64 = (0xFFFFFFFFFFFFFFFF :: int)" by (simp add: mask_eq_exp_minus_1)
  then show ?thesis by (metis take_bit_eq_mask take_bit_eq_mod)
qed

lemmas refine_simps = arith_defs exec_simps refined_def only_u64_def truth_def wide_def u64_def
  and_max_uint64 drop_bit_eq_div push_bit_eq_mult Let_def

lemma bigint_checked_small: "\<bar>r\<bar> < 2 ^ 64 \<or> \<bar>r\<bar> < 2 ^ 128 \<Longrightarrow> bigint_checked r = Inr r"
proof -
  assume "\<bar>r\<bar> < 2 ^ 64 \<or> \<bar>r\<bar> < 2 ^ 128"
  then have "nat \<bar>r\<bar> < 2 ^ 128" by auto
  then have "bit_length (nat \<bar>r\<bar>) \<le> 128" by (rule bit_length_le)
  then show ?thesis by (simp add: bigint_checked_def)
qed

lemma bigint_checked_cases: "bigint_checked r = Inr r \<or> bigint_checked r = Inl (JsError RangeError)"
  by (simp add: bigint_checked_def)


lemma refine_arith:
  assumes "i_stack s = stk (BigInt b # BigInt a # rest)" "length rest + 2 \<le> 1000" "u64 a" "u64 b"
    and "op \<in> {Add, Sub, Mul, Div, Mod}"
  shows "refined (avm2 op b a) rest s (arith_execute X op s)"
proof -
  have "a div b \<le> a" if "b \<noteq> 0" using assms that zdiv_mono2 [of a 1 b] by (auto simp: u64_def)
  moreover have "0 \<le> a div b" if "b \<noteq> 0"
    using assms that pos_imp_zdiv_nonneg_iff [of b a] by (auto simp: u64_def)
  moreover have "a mod b \<le> a" "a mod b < 2 ^ 64" if "b \<noteq> 0"
    using assms that zmod_le_nonneg_dividend [of a b] by (auto simp: u64_def)
  ultimately show ?thesis using assms
    by (auto simp: refine_simps)
qed

lemma refine_compare:
  assumes "i_stack s = stk (BigInt b # BigInt a # rest)" "length rest + 2 \<le> 1000"
    and "op \<in> {LessThan, GreaterThan, LessThanEqualTo, GreaterThanEqualTo, AndOp, OrOp, EqualTo, NotEqualTo}"
  shows "refined (avm2 op b a) rest s (arith_execute X op s)"
  using assms by (auto simp: refine_simps)

lemma bitwise_u64:
  assumes "u64 a" "u64 b"
  shows "u64 (Bit_Operations.or a b)" "u64 (Bit_Operations.and a b)" "u64 (Bit_Operations.xor a b)"
proof -
  have t: "take_bit 64 a = a" "take_bit 64 b = b"
    using assms by (simp_all add: u64_def take_bit_eq_mod)
  have "u64 (take_bit 64 n)" for n :: int
    by (simp add: u64_def take_bit_eq_mod)
  from this [of "Bit_Operations.or a b"] this [of "Bit_Operations.and a b"]
    this [of "Bit_Operations.xor a b"]
  show "u64 (Bit_Operations.or a b)" "u64 (Bit_Operations.and a b)" "u64 (Bit_Operations.xor a b)"
    by (simp_all add: t)
qed

lemma refine_bitwise:
  assumes "i_stack s = stk (BigInt b # BigInt a # rest)" "length rest + 2 \<le> 1000" "u64 a" "u64 b"
    and "op \<in> {BitwiseOr, BitwiseAnd, BitwiseXor}"
  shows "refined (avm2 op b a) rest s (arith_execute X op s)"
proof -
  note u = bitwise_u64 [OF assms(3,4)]
  from assms(5) consider "op = BitwiseOr" | "op = BitwiseAnd" | "op = BitwiseXor" by blast
  then show ?thesis
    using assms(1,2) u by cases (simp_all add: arith_defs exec_simps refined_def)
qed

lemma push_wide_eq:
  assumes "i_stack s = stk rest" "length rest + 2 \<le> 1000" "0 \<le> n"
  shows "n < 2 ^ 128 \<Longrightarrow> push_wide n s =
      (Inr (), s\<lparr>i_stack := stk (BigInt (n mod 2 ^ 64) # BigInt (n div 2 ^ 64) # rest)\<rparr>)"
    and "2 ^ 128 \<le> n \<Longrightarrow> \<exists>e s'. push_wide n s = (Inl e, s')"
proof -
  have m: "n mod 2 ^ 64 \<le> 0xFFFFFFFFFFFFFFFF"
    using pos_mod_bound [of "2 ^ 64" n] by simp
  show "n < 2 ^ 128 \<Longrightarrow> push_wide n s =
      (Inr (), s\<lparr>i_stack := stk (BigInt (n mod 2 ^ 64) # BigInt (n div 2 ^ 64) # rest)\<rparr>)"
    using assms m div_lessI [of "2 ^ 64" n "2 ^ 64"]
    by (simp add: push_wide_def exec_simps and_max_uint64 drop_bit_eq_div Let_def)
  show "2 ^ 128 \<le> n \<Longrightarrow> \<exists>e s'. push_wide n s = (Inl e, s')"
    using assms m le_divI [of "2 ^ 64" "2 ^ 64" n]
    by (simp add: push_wide_def exec_simps and_max_uint64 drop_bit_eq_div Let_def)
qed

lemma u64_wide: "0 \<le> n \<Longrightarrow> n < 2 ^ 128 \<Longrightarrow> \<forall>m \<in> set (wide n). u64 m"
  using div_lessI [of "2 ^ 64" n "2 ^ 64"] by (simp add: wide_def u64_def pos_imp_zdiv_nonneg_iff)

lemma mult_u64: "u64 a \<Longrightarrow> u64 b \<Longrightarrow> 0 \<le> a * b \<and> a * b < 2 ^ 128"
proof -
  assume ab: "u64 a" "u64 b"
  then have "a * b \<le> (2 ^ 64 - 1) * (2 ^ 64 - 1)" by (intro mult_mono) (auto simp: u64_def)
  then show ?thesis using ab by (simp add: u64_def)
qed

lemma refine_wide:
  assumes "i_stack s = stk (BigInt b # BigInt a # rest)" "length rest + 2 \<le> 1000" "u64 a" "u64 b"
  shows "refined (avm2 Addw b a) rest s (arith_execute X Addw s)"
    and "refined (avm2 Mulw b a) rest s (arith_execute X Mulw s)"
proof -
  have "(a + b) div 2 ^ 64 = (if 2 ^ 64 \<le> a + b then 1 else 0)"
    using assms le_divI [of "2 ^ 64" 1 "a + b"] div_lessI [of "2 ^ 64" "a + b" 2] by (auto simp: u64_def)
  moreover from this have "(a + b) mod 2 ^ 64 = (if 2 ^ 64 \<le> a + b then a + b - 2 ^ 64 else a + b)"
    using minus_div_mult_eq_mod [of "a + b" "2 ^ 64"] by (simp split: if_splits)
  ultimately show "refined (avm2 Addw b a) rest s (arith_execute X Addw s)"
    using assms by (auto simp: Addw_execute_def exec_simps refined_def wide_def u64_def add.commute)
  show "refined (avm2 Mulw b a) rest s (arith_execute X Mulw s)"
    using assms mult_u64 [OF assms(3,4)] u64_wide [of "a * b"]
    by (simp add: Mulw_execute_def exec_simps push_wide_eq refined_def wide_def mult.commute)
qed

lemma refine_exp:
  assumes "i_stack s = stk (BigInt b # BigInt a # rest)" "length rest + 2 \<le> 1000" "u64 a" "u64 b"
  shows "refined (avm2 Exp b a) rest s (arith_execute X Exp s)"
    and "refined (avm2 Expw b a) rest s (arith_execute X Expw s)"
proof -
  have pos: "0 \<le> a ^ nat b" "0 \<le> b" using assms by (simp_all add: u64_def)
  let ?p = "a ^ nat b"
  have c: "?p < 2 ^ 128 \<Longrightarrow> bigint_checked ?p = Inr ?p"
    using bigint_checked_small [of ?p] pos by simp
  show "refined (avm2 Exp b a) rest s (arith_execute X Exp s)"
    using assms pos c bigint_checked_cases [of ?p]
    by (auto simp: Exp_execute_def exec_simps refined_def only_u64_def u64_def bigint_pow_def)
  show "refined (avm2 Expw b a) rest s (arith_execute X Expw s)"
  proof (cases "?p < 2 ^ 128")
    case True
    then show ?thesis
      using assms pos c u64_wide [of ?p]
      by (auto simp: Expw_execute_def exec_simps refined_def bigint_pow_def push_wide_eq wide_def)
  next
    case False
    then show ?thesis
      using assms pos bigint_checked_cases [of ?p]
      by (auto simp: Expw_execute_def exec_simps refined_def bigint_pow_def)
  qed
qed

lemma refine_shift:
  assumes "i_stack s = stk (BigInt b # BigInt a # rest)" "length rest + 2 \<le> 1000" "u64 a" "u64 b"
  shows "refined (avm2 Shl b a) rest s (arith_execute X Shl s)"
    and "refined (avm2 Shr b a) rest s (arith_execute X Shr s)"
proof -
  have pos: "0 \<le> a" "0 \<le> b" using assms by (simp_all add: u64_def)
  have bl: "int (bit_length (nat \<bar>a * 2 ^ nat b\<bar>)) = (if a = 0 then 0 else int (bit_length (nat a)) + b)"
  proof (cases "a = 0")
    case False
    have "nat \<bar>a * 2 ^ nat b\<bar> = nat a * 2 ^ nat b"
      using pos by (simp add: abs_mult nat_mult_distrib nat_power_eq)
    then show ?thesis using False pos bit_length_shift [of "nat a" "nat b"] by simp
  qed simp
  have chk: "bigint_checked (a * 2 ^ nat b) =
      (if a \<noteq> 0 \<and> 2 ^ 30 < int (bit_length (nat a)) + b then Inl (JsError RangeError) else Inr (a * 2 ^ nat b))"
    using bl by (auto simp: bigint_checked_def split: if_splits)
  have nn: "0 \<le> a * 2 ^ nat b" using pos by simp
  show "refined (avm2 Shl b a) rest s (arith_execute X Shl s)"
    using assms pos nn
    by (auto simp: Shl_execute_def exec_simps refined_def bigint_shl_def push_bit_eq_mult chk u64_def)
  have "a div 2 ^ nat b \<le> a" using zdiv_mono2 [of a 1 "2 ^ nat b"] pos by simp
  then have "u64 (a div 2 ^ nat b)" using assms pos by (simp add: u64_def pos_imp_zdiv_nonneg_iff)
  moreover have "bigint_checked a = Inr a"
    using assms by (intro bigint_checked_small) (simp add: u64_def)
  then have "bigint_shl a (- b) = Inr (a div 2 ^ nat b)"
    using pos by (cases "b = 0") (simp_all add: bigint_shl_def drop_bit_eq_div)
  ultimately show "refined (avm2 Shr b a) rest s (arith_execute X Shr s)"
    using assms pos by (simp add: Shr_execute_def exec_simps refined_def)
qed

lemma isqrt_u64: "u64 a \<Longrightarrow> u64 (int (isqrt (nat a))) \<and> int (isqrt (nat a)) < 2 ^ 32"
proof -
  assume "u64 a"
  then have "nat a < 2 ^ 32 * 2 ^ 32" by (simp add: u64_def nat_less_iff)
  then have "isqrt (nat a) < 2 ^ 32" by (rule isqrt_less)
  then show ?thesis by (simp add: u64_def)
qed

lemma refine_unary:
  assumes "i_stack s = stk (BigInt a # rest)" "length rest + 1 \<le> 1000" "u64 a"
    and "op \<in> {NotOp, Sqrt, BitLen}"
  shows "refined (avm1 op a) rest s (arith_execute X op s)"
proof -
  have sq: "bigintSqrt a = Some (int (isqrt (nat a)))"
    using assms isqrt_u64 [of a] by (intro bigintSqrt_floor) (auto simp: u64_def)
  have "nat a < 2 ^ 64" using assms(3) by (simp add: u64_def nat_less_iff)
  then have "bit_length (nat a) \<le> 64" by (rule bit_length_le)
  moreover have "1 \<le> bit_length (nat a)" if "a \<noteq> 0"
    using that assms(3) by (subst bit_length.simps) (simp add: u64_def)
  ultimately show ?thesis
    using assms sq isqrt_u64 [of a]
    by (auto simp: arith_defs exec_simps refined_def truth_def u64_def js_toString_def length_to_radix_2
        max_def)
qed

lemma refine_Divw:
  assumes "i_stack s = stk (BigInt c # BigInt b # BigInt a # rest)" "length rest + 3 \<le> 1000"
    "u64 a" "u64 b" "u64 c"
  shows "refined (avm_Divw c b a) rest s (arith_execute X Divw s)"
proof -
  have "0 \<le> a * 2 ^ 64 + b" "0 \<le> c" using assms by (simp_all add: u64_def)
  moreover have "0 \<le> (a * 2 ^ 64 + b) div c" if "c \<noteq> 0"
    using that calculation by (simp add: pos_imp_zdiv_nonneg_iff)
  ultimately show ?thesis
    using assms by (auto simp: Divw_execute_def exec_simps refined_def avm_Divw_def only_u64_def u64_def
        push_bit_eq_mult Let_def)
qed

lemma refine_DivModw:
  assumes "i_stack s = stk (BigInt d # BigInt c # BigInt b # BigInt a # rest)" "length rest + 4 \<le> 1000"
    "u64 a" "u64 b" "u64 c" "u64 d"
  shows "refined (avm_DivModw d c b a) rest s (arith_execute X DivModw s)"
proof -
  define n where "n = a * 2 ^ 64 + b"
  define m where "m = c * 2 ^ 64 + d"
  have n: "0 \<le> n" "n < 2 ^ 128" and m: "0 \<le> m" "m < 2 ^ 128"
    using assms by (simp_all add: n_def m_def u64_def)
  have fold_nm: "a * 18446744073709551616 + b = n" "c * 18446744073709551616 + d = m"
    by (simp_all add: n_def m_def)
  show ?thesis
  proof (cases "m = 0")
    case True
    then show ?thesis
      using assms by (simp add: DivModw_execute_def exec_simps refined_def avm_DivModw_def
          push_bit_eq_mult fold_nm Let_def)
  next
    case False
    with n m have q: "0 \<le> n div m" "n div m < 2 ^ 128" and r: "0 \<le> n mod m" "n mod m < 2 ^ 128"
      using zdiv_mono2 [of n 1 m] zmod_le_nonneg_dividend [of n m]
      by (auto simp: pos_imp_zdiv_nonneg_iff)
    show ?thesis
      using assms False n m q r u64_wide [OF q] u64_wide [OF r]
      by (simp add: DivModw_execute_def exec_simps refined_def avm_DivModw_def push_bit_eq_mult
          fold_nm push_wide_eq wide_def Let_def)
  qed
qed

section \<open>Properties\<close>



text \<open>
  C32: \<^verbatim>\<open>itob\<close> pushes a new array of 8 bytes with the big-endian digits of its operand, and \<^verbatim>\<open>btoi\<close>
  gives the operand back: the pair of codecs loses nothing.
\<close>

theorem btoi_itob:
  assumes "uint64_codec X" "i_stack s = stk (BigInt n # rest)" "length rest < 1000" "u64 n"
  shows "\<exists>b. length b = 8 \<and> int (be_value b) = n \<and>
    Itob_execute X s =
      (Inr 1, s\<lparr>c_heap := c_heap s @ [b], i_stack := stk (Bytes (length (c_heap s)) # rest)\<rparr>) \<and>
    bindM (Itob_execute X) (\<lambda>_. Btoi_execute X) s =
      (Inr 1, s\<lparr>c_heap := c_heap s @ [b], i_stack := stk (BigInt n # rest)\<rparr>)"
proof -
  have "0 \<le> n" "n \<le> MAX_UINT64" using assms(4) by (simp_all add: u64_def)
  then obtain b where b: "encodeUint64 X n = Inr b" "length b = 8" "int (be_value b) = n"
    using assms(1) by (auto simp: uint64_codec_def)
  moreover from b(2) have "b \<noteq> []" by auto
  ultimately have "decodeUint64 X b = Inr n"
    using assms(1) by (simp add: uint64_codec_def)
  then show ?thesis
    using b assms by (intro exI [of _ b]) (simp add: Itob_execute_def Btoi_execute_def exec_simps)
qed

lemma btoi_itob_witness:
  "\<exists>b. length b = 8 \<and>
    bindM (Itob_execute sample_sdk) (\<lambda>_. Btoi_execute sample_sdk) (sample_interp [] [BigInt 258]) =
      (Inr 1, sample_interp [b] [BigInt 258])"
proof -
  let ?s = "sample_interp [] [BigInt 258]"
  have u: "u64 258" and r: "length ([] :: stack_elem list) < 1000" by (simp_all add: u64_def)
  from btoi_itob [OF sample_codec sample_interp_simps(1) r u, of "[]"]
  obtain b where b: "length b = 8" "bindM (Itob_execute sample_sdk) (\<lambda>_. Btoi_execute sample_sdk) ?s =
    (Inr 1, ?s\<lparr>c_heap := c_heap ?s @ [b], i_stack := stk [BigInt 258]\<rparr>)"
    by (elim exE conjE)
  then show ?thesis by (intro exI [of _ b]) (simp add: sample_interp_def)
qed

text \<open>
  C35: \<^verbatim>\<open>~\<close> pushes \<^verbatim>\<open>~last\<close> of an unbounded integer, which is negative and no 64-bit value for any
  64-bit operand, where the reference result is \<open>2 ^ 64 - 1 - n\<close>.
\<close>

theorem bitwise_not_leaves_uint64:
  assumes "i_stack s = stk (BigInt n # rest)" "length rest < 1000" "u64 n"
  shows "\<exists>m. BitwiseNot_execute s = (Inr 1, s\<lparr>i_stack := stk (BigInt m # rest)\<rparr>) \<and> \<not> u64 m \<and>
    avm BitwiseNot [n] = Some [m + 2 ^ 64]"
  using assms
  by (intro exI [of _ "- n - 1"]) (simp add: BitwiseNot_execute_def exec_simps u64_def not_int_def)

lemma bitwise_not_leaves_uint64_witness:
  "\<exists>m. BitwiseNot_execute (sample_interp [] [BigInt 0]) = (Inr 1, sample_interp [] [BigInt m]) \<and> m < 0"
proof -
  obtain m where "BitwiseNot_execute (sample_interp [] [BigInt 0]) =
      (Inr 1, (sample_interp [] [BigInt 0])\<lparr>i_stack := stk [BigInt m]\<rparr>)" "avm BitwiseNot [0] = Some [m + 2 ^ 64]"
    using bitwise_not_leaves_uint64 [of "sample_interp [] [BigInt 0]" 0 "[]"] by (auto simp: u64_def)
  then show ?thesis by (intro exI [of _ m]) (simp add: sample_interp_def)
qed

end
