(* ===== verification/TEAL_Bytes.thy ===== *)
theory TEAL_Bytes
  imports TEAL_Arith
begin

text \<open>
  The byte-array opcodes of \<^verbatim>\<open>opcode-list.ts\<close>: length, concatenation, slices, bit and byte access,
  arithmetic on big-endian numbers of up to 64 bytes, and replacement. \<^verbatim>\<open>setbit\<close> and \<^verbatim>\<open>setbyte\<close> write
  into the array they popped.
\<close>

definition Len_execute :: "int opM" where
  "Len_execute =
     seqM (assertMinStackLen 1)
    (bindM popBytes (\<lambda>last. seqM (pushBigInt (int (length last))) computeCost))"

definition Concat_execute :: "int opM" where
  "Concat_execute =
     seqM (assertMinStackLen 2)
    (bindM popBytes (\<lambda>valueA. bindM popBytes (\<lambda>valueB.
      seqM (assertM (length valueA + length valueB \<le> MAX_CONCAT_SIZE) (TEAL CONCAT_ERROR))
     (seqM (pushBytesM (valueB @ valueA)) computeCost))))"

definition Substring_execute :: "int \<Rightarrow> int \<Rightarrow> int opM" where
  "Substring_execute start0 end0 =
     bindM (assertUint8 end0) (\<lambda>fin. bindM (assertUint8 start0) (\<lambda>start.
     bindM popBytes (\<lambda>byteString. bindM (subString byteString start fin) (\<lambda>sub.
       seqM (pushBytesM sub) computeCost))))"

definition Substring3_execute :: "int opM" where
  "Substring3_execute =
     bindM popBigInt (\<lambda>fin. bindM popBigInt (\<lambda>start.
     bindM popBytes (\<lambda>byteString. bindM (subString byteString start fin) (\<lambda>sub.
       seqM (pushBytesM sub) computeCost))))"

text \<open>
  \<^verbatim>\<open>target[i] = v\<close> on the array at a reference: the write every holder of the array sees. An index
  below 0 names a property of the object and no element.
\<close>

definition writeM :: "nat \<Rightarrow> int \<Rightarrow> byte \<Rightarrow> unit opM" where
  "writeM r i v = (if 0 \<le> i then modifyM (\<lambda>s. s\<lparr>c_heap := heap_write r (nat i) v (c_heap s)\<rparr>) else returnM ())"

text \<open>\<^verbatim>\<open>arr[i]\<close> used as a number: an element, or \<^verbatim>\<open>undefined\<close> with the \<^verbatim>\<open>TypeError\<close> its use throws.\<close>

definition byteAt :: "bytes \<Rightarrow> int \<Rightarrow> error + byte" where
  "byteAt arr i = (if 0 \<le> i \<and> i < int (length arr) then Inr (arr ! nat i) else Inl (JsError TypeError))"

text \<open>\<^verbatim>\<open>s.padStart(n, "0")\<close>\<close>

definition padStart :: "nat \<Rightarrow> string \<Rightarrow> string" where
  "padStart n s = replicate (n - length s) CHR ''0'' @ s"

text \<open>\<^verbatim>\<open>arr[i] = c\<close> on an array of characters: beyond the end it grows, the gap undefined.\<close>

definition js_array_set :: "string \<Rightarrow> int \<Rightarrow> char \<Rightarrow> string" where
  "js_array_set arr i c =
     (if i < 0 then arr
      else if i < int (length arr) then arr[nat i := c]
      else arr @ replicate (nat i - length arr) CHR '' '' @ [c])"

definition setbit_int :: "int \<Rightarrow> int \<Rightarrow> int \<Rightarrow> nat" where
  "setbit_int target idx b =
     (let binaryArr = padStart 64 (js_toString 2 target); size = length binaryArr
      in parseBinaryStrToBigInt
           (js_array_set binaryArr (int size - js_Number idx - 1) (if b = 0 then CHR ''0'' else CHR ''1'')))"

definition SetBit_execute :: "int opM" where
  "SetBit_execute =
     seqM (assertMinStackLen 3)
    (bindM popBigInt (\<lambda>b. bindM popBigInt (\<lambda>idx. bindM popM (\<lambda>target.
      seqM (assertM (b \<le> 1) (TEAL SET_BIT_VALUE_ERROR))
      (case target of
         BigInt t \<Rightarrow>
           seqM (assert64BitIndex idx)
          (seqM (pushBigInt (int (setbit_int t idx b))) computeCost)
       | Bytes r \<Rightarrow>
           bindM (derefM r) (\<lambda>arr.
           (let byteIndex = js_Number idx div 8; targetBit = nat (js_Number idx mod 8);
                mask = push_bit (7 - targetBit) 1; old = arr ! nat byteIndex
            in seqM (assertBytesIndex byteIndex arr)
              (seqM (writeM r byteIndex
                 (if b = 1 then Bit_Operations.or old mask
                  else Bit_Operations.and old (Bit_Operations.not mask)))
              (seqM (pushM (Bytes r)) computeCost)))))))))"

text \<open>
  \<^verbatim>\<open>BigInt(str[i])\<close> for a character of a binary string: an index outside the string gives
  \<^verbatim>\<open>undefined\<close>, on which \<^verbatim>\<open>BigInt\<close> throws a \<^verbatim>\<open>TypeError\<close>.
\<close>

definition digit_at :: "string \<Rightarrow> int \<Rightarrow> error + int" where
  "digit_at str i =
     (if 0 \<le> i \<and> i < int (length str)
      then (if str ! nat i = CHR ''-'' then Inl (JsError SyntaxError) else Inr (int (char_digit (str ! nat i))))
      else Inl (JsError TypeError))"

definition GetBit_execute :: "int opM" where
  "GetBit_execute =
     seqM (assertMinStackLen 2)
    (bindM popBigInt (\<lambda>idx. bindM popM (\<lambda>target.
      (case target of
         BigInt t \<Rightarrow>
           seqM (assert64BitIndex idx)
          (let binaryStr = js_toString 2 t; size = length binaryStr
           in bindM (liftM (digit_at binaryStr (int size - js_Number idx - 1)))
                (\<lambda>d. seqM (pushBigInt d) computeCost))
       | Bytes r \<Rightarrow>
           bindM (derefM r) (\<lambda>arr.
           (let byteIndex = js_Number idx div 8; targetBit = js_Number idx mod 8
            in seqM (assertBytesIndex byteIndex arr)
              (bindM (liftM (byteAt arr byteIndex)) (\<lambda>byt.
               bindM (liftM (digit_at (padStart 8 (to_radix 2 (unat byt))) targetBit))
                (\<lambda>d. seqM (pushBigInt d) computeCost)))))))))"

definition SetByte_execute :: "int opM" where
  "SetByte_execute =
     seqM (assertMinStackLen 3)
    (bindM popBigInt (\<lambda>smallInteger. bindM popBigInt (\<lambda>idx. bindM popBytesRef (\<lambda>r.
      bindM (assertUint8 smallInteger) (\<lambda>_.
      bindM (derefM r) (\<lambda>target.
       seqM (assertBytesIndex (js_Number idx) target)
      (seqM (writeM r (js_Number idx) (word_of_int smallInteger))
      (seqM (pushM (Bytes r)) computeCost))))))))"

definition GetByte_execute :: "int opM" where
  "GetByte_execute =
     seqM (assertMinStackLen 2)
    (bindM popBigInt (\<lambda>idx. bindM popBytes (\<lambda>target.
      seqM (assertBytesIndex (js_Number idx) target)
     (bindM (liftM (byteAt target (js_Number idx))) (\<lambda>byt.
       seqM (pushBigInt (uint byt)) computeCost)))))"

text \<open>
  \<^verbatim>\<open>extract s l\<close>: the length 0 means the rest of the array, and the computed length is stored in the
  instruction object, where the next execution of the instruction finds it.
\<close>

definition set_instr :: "instr \<Rightarrow> unit opM" where
  "set_instr ins = modifyM (\<lambda>s.
     s\<lparr>i_instructions := (i_instructions s)[i_instructionIndex s := ins]\<rparr>)"

definition Extract_execute :: "int \<Rightarrow> int \<Rightarrow> int opM" where
  "Extract_execute start len0 =
     seqM (assertMinStackLen 1)
    (bindM popBytes (\<lambda>array.
      (let len = (if len0 = 0 then int (length array) - start else len0)
       in seqM (if len0 = 0 then set_instr (BytesI (Extract start len)) else returnM ())
         (bindM (opExtractImpl array start len) (\<lambda>b. seqM (pushBytesM b) computeCost)))))"

definition Extract3_execute :: "int opM" where
  "Extract3_execute =
     seqM (assertMinStackLen 3)
    (bindM popBigInt (\<lambda>len. bindM popBigInt (\<lambda>start. bindM popBytes (\<lambda>array.
      bindM (opExtractImpl array (js_Number start) (js_Number len)) (\<lambda>b.
        seqM (pushBytesM b) computeCost)))))"

definition ExtractUintN_execute :: "nat \<Rightarrow> int opM" where
  "ExtractUintN_execute extractBytes =
     seqM (assertMinStackLen 2)
    (bindM popBigInt (\<lambda>start. bindM popBytes (\<lambda>array.
      bindM (opExtractImpl array (js_Number start) (int extractBytes)) (\<lambda>sliced.
        seqM (pushBigInt (int (bigEndianBytesToBigInt sliced))) computeCost))))"

section \<open>Byte arithmetic\<close>

text \<open>\<^verbatim>\<open>ByteOp.computeCost\<close>\<close>

fun byteop_cost :: "math_op \<Rightarrow> int" where
    "byteop_cost MAdd = the (OpGasCost 4 ''b+'')"
  | "byteop_cost MSub = the (OpGasCost 4 ''b+'')"
  | "byteop_cost MMul = the (OpGasCost 4 ''b*'')"
  | "byteop_cost MDiv = the (OpGasCost 4 ''b*'')"
  | "byteop_cost MMod = the (OpGasCost 4 ''b*'')"
  | "byteop_cost MBitwiseOr = the (OpGasCost 4 ''b|'')"
  | "byteop_cost MBitwiseAnd = the (OpGasCost 4 ''b|'')"
  | "byteop_cost MBitwiseXor = the (OpGasCost 4 ''b|'')"
  | "byteop_cost _ = 1"

text \<open>The value of an operation: a number, a truth value, or the error of its case.\<close>

datatype math_result = MInt int | MBool bool

fun math_value :: "math_op \<Rightarrow> int \<Rightarrow> int \<Rightarrow> error + math_result" where
    "math_value MAdd a b = Inr (MInt (a + b))"
  | "math_value MSub a b = (if a - b < MIN_UINT64 then Inl (TEAL UINT64_UNDERFLOW) else Inr (MInt (a - b)))"
  | "math_value MMul a b = Inr (MInt (a * b))"
  | "math_value MDiv a b = (if b = 0 then Inl (TEAL ZERO_DIV) else Inr (MInt (a sdiv b)))"
  | "math_value MMod a b = (if b = 0 then Inl (TEAL ZERO_DIV) else Inr (MInt (a smod b)))"
  | "math_value MLessThan a b = Inr (MBool (a < b))"
  | "math_value MGreaterThan a b = Inr (MBool (a > b))"
  | "math_value MLessThanEqualTo a b = Inr (MBool (a \<le> b))"
  | "math_value MGreaterThanEqualTo a b = Inr (MBool (a \<ge> b))"
  | "math_value MEqualTo a b = Inr (MBool (a = b))"
  | "math_value MNotEqualTo a b = Inr (MBool (a \<noteq> b))"
  | "math_value MBitwiseOr a b = Inr (MInt (Bit_Operations.or a b))"
  | "math_value MBitwiseAnd a b = Inr (MInt (Bit_Operations.and a b))"
  | "math_value MBitwiseXor a b = Inr (MInt (Bit_Operations.xor a b))"

fun is_bitwise :: "math_op \<Rightarrow> bool" where
    "is_bitwise MBitwiseOr \<longleftrightarrow> True"
  | "is_bitwise MBitwiseAnd \<longleftrightarrow> True"
  | "is_bitwise MBitwiseXor \<longleftrightarrow> True"
  | "is_bitwise _ \<longleftrightarrow> False"

text \<open>\<^verbatim>\<open>assertBytes\<close> of a fresh array with a length limit.\<close>

definition pushBytesMax :: "bytes \<Rightarrow> nat \<Rightarrow> unit opM" where
  "pushBytesMax b n =
     bindM (newM b) (\<lambda>r. bindM (assertBytesMax (Bytes r) n) (\<lambda>r'. pushM (Bytes r')))"

definition ByteOp_execute :: "math_op \<Rightarrow> int opM" where
  "ByteOp_execute op =
     seqM (assertMinStackLen 2)
    (bindM (popBytesMax MAX_INPUT_BYTE_LEN) (\<lambda>byteB.
     bindM (popBytesMax MAX_INPUT_BYTE_LEN) (\<lambda>byteA.
      (let bigIntB = int (bigEndianBytesToBigInt byteB); bigIntA = int (bigEndianBytesToBigInt byteA)
       in bindM (liftM (math_value op bigIntA bigIntB)) (\<lambda>r.
            seqM (case r of
                MBool b \<Rightarrow> pushBigInt (if b then 1 else 0)
              | MInt n \<Rightarrow>
                  (let resultAsBytes = (if n = 0 then [] else bigintToBigEndianBytes (nat n))
                   in if is_bitwise op
                      then (let maxSize = max (length byteA) (length byteB);
                                padded = replicate (maxSize - length resultAsBytes) 0
                            in pushBytesMax (padded @ resultAsBytes) MAX_OUTPUT_BYTE_LEN)
                      else pushBytesMax resultAsBytes MAX_OUTPUT_BYTE_LEN))
            (returnM (byteop_cost op)))))))"

definition ByteBitwiseInvert_execute :: "int opM" where
  "ByteBitwiseInvert_execute =
     seqM (assertMinStackLen 1)
    (bindM (popBytesMax MAX_INPUT_BYTE_LEN) (\<lambda>byteA.
      seqM (pushBytesM (List.map (\<lambda>b. 255 - b) byteA)) (returnM (the (OpGasCost 4 ''b~'')))))"

text \<open>\<^verbatim>\<open>new Uint8Array(n)\<close> throws a \<^verbatim>\<open>RangeError\<close> beyond the engine's limit of \<open>2 ^ 32\<close> elements.\<close>

definition ByteZero_execute :: "int opM" where
  "ByteZero_execute =
     seqM (assertMinStackLen 1)
    (bindM popBigInt (\<lambda>len.
      seqM (assertM (0 \<le> js_Number len \<and> js_Number len \<le> 2 ^ 32) (JsError RangeError))
     (seqM (pushBytesMax (replicate (nat (js_Number len)) 0) 4096) computeCost)))"

definition Bsqrt_execute :: "int opM" where
  "Bsqrt_execute =
     seqM (assertMinStackLen 1)
    (bindM (popBytesMax MAX_INPUT_BYTE_LEN) (\<lambda>value.
      (let bigintValue = int (bigEndianBytesToBigInt value)
       in bindM (someM Hang (bigintSqrt bigintValue)) (\<lambda>bigintResult.
            seqM (pushBytesM (bigintToBigEndianBytes (nat bigintResult)))
              (returnM (the (OpGasCost 6 ''bsqrt'')))))))"

section \<open>Replacement\<close>

text \<open>\<^verbatim>\<open>Replace.execute\<close>: the loop over the positions of the original.\<close>

definition replace_bytes :: "bytes \<Rightarrow> int \<Rightarrow> bytes \<Rightarrow> bytes" where
  "replace_bytes original start rep =
     List.map (\<lambda>i. if start \<le> int i \<and> int i < start + int (length rep)
                   then rep ! nat (int i - max 0 start) else original ! i) [0..<length original]"

definition Replace_execute :: "bytes \<Rightarrow> int \<Rightarrow> bytes \<Rightarrow> int opM" where
  "Replace_execute original start rep =
     seqM (assertM (start + int (length rep) \<le> int (length original)) (TEAL BYTES_REPLACE_ERROR))
    (seqM (pushBytesM (replace_bytes original start rep)) computeCost)"

definition Replace2_execute :: "int \<Rightarrow> int opM" where
  "Replace2_execute start =
     seqM (assertMinStackLen 2)
    (bindM popBytes (\<lambda>rep. bindM popBytes (\<lambda>original. Replace_execute original start rep)))"

definition Replace3_execute :: "int opM" where
  "Replace3_execute =
     seqM (assertMinStackLen 3)
    (bindM popBytes (\<lambda>rep. bindM popBigInt (\<lambda>start. bindM popBytes (\<lambda>original.
      Replace_execute original (js_Number start) rep))))"

fun bytes_execute :: "bytes_op \<Rightarrow> int opM" where
    "bytes_execute Len = Len_execute"
  | "bytes_execute Concat = Concat_execute"
  | "bytes_execute (Substring a b) = Substring_execute a b"
  | "bytes_execute Substring3 = Substring3_execute"
  | "bytes_execute SetBit = SetBit_execute"
  | "bytes_execute GetBit = GetBit_execute"
  | "bytes_execute SetByte = SetByte_execute"
  | "bytes_execute GetByte = GetByte_execute"
  | "bytes_execute (Extract a b) = Extract_execute a b"
  | "bytes_execute Extract3 = Extract3_execute"
  | "bytes_execute (ExtractUintN n) = ExtractUintN_execute n"
  | "bytes_execute (ByteOp m) = ByteOp_execute m"
  | "bytes_execute ByteBitwiseInvert = ByteBitwiseInvert_execute"
  | "bytes_execute ByteZero = ByteZero_execute"
  | "bytes_execute Bsqrt = Bsqrt_execute"
  | "bytes_execute (Replace2 n) = Replace2_execute n"
  | "bytes_execute Replace3 = Replace3_execute"

section \<open>Bits of integers\<close>

lemma digit_chars: "digit_char 0 = CHR ''0''" "digit_char (Suc 0) = CHR ''1''" "CHR ''0'' \<noteq> CHR ''1''"
  by code_simp+

lemma to_radix_2_digit:
  "i < length (to_radix 2 n) \<Longrightarrow>
   to_radix 2 n ! (length (to_radix 2 n) - 1 - i) = (if bit n i then CHR ''1'' else CHR ''0'')"
proof (induction n arbitrary: i rule: less_induct)
  case (less n)
  show ?case
  proof (cases "n < 2")
    case True
    then have "n = 0 \<or> n = 1" by auto
    then show ?thesis using less.prems by (auto simp: to_radix.simps [of 2 n] digit_chars bit_0)
  next
    case False
    then have eq: "to_radix 2 n = to_radix 2 (n div 2) @ [digit_char (n mod 2)]"
      by (simp add: to_radix.simps [of 2 n])
    show ?thesis
    proof (cases i)
      case 0
      then show ?thesis by (simp add: eq digit_chars bit_0 mod2_eq_if)
    next
      case (Suc j)
      then have "j < length (to_radix 2 (n div 2))" using less.prems eq by simp
      then show ?thesis
        using False less.IH [of "n div 2" j] Suc by (simp add: eq nth_append bit_Suc)
    qed
  qed
qed

lemma bit_parseBinary:
  "bit (parseBinaryStrToBigInt s) k \<longleftrightarrow> k < length s \<and> s ! (length s - 1 - k) = CHR ''1''"
proof (induction s arbitrary: k rule: rev_induct)
  case Nil
  then show ?case by (simp add: parseBinaryStrToBigInt_def)
next
  case (snoc c s)
  show ?case
  proof (cases k)
    case 0
    then show ?thesis by (simp add: parseBinary_snoc bit_0)
  next
    case (Suc j)
    then show ?thesis
      using snoc.IH [of j] by (auto simp: parseBinary_snoc bit_Suc nth_append)
  qed
qed

lemma bit_bound: "n < 2 ^ k \<Longrightarrow> bit (n :: nat) i \<Longrightarrow> i < k"
  by (metis bit_take_bit_iff take_bit_nat_eq_self)

lemma padded_digit:
  assumes "n < 2 ^ w" "k < w"
  shows "padStart w (to_radix 2 n) ! (w - 1 - k) = (if bit n k then CHR ''1'' else CHR ''0'')"
    and "length (padStart w (to_radix 2 n)) = w"
proof -
  let ?d = "to_radix 2 n"
  have len: "length ?d \<le> w"
    using bit_length_le [OF assms(1)] assms(2) by (simp add: length_to_radix_2)
  then show "length (padStart w ?d) = w" by (simp add: padStart_def)
  show "padStart w ?d ! (w - 1 - k) = (if bit n k then CHR ''1'' else CHR ''0'')"
  proof (cases "k < length ?d")
    case True
    then have "w - 1 - k = (w - length ?d) + (length ?d - 1 - k)" using len by simp
    then have "padStart w ?d ! (w - 1 - k) = ?d ! (length ?d - 1 - k)"
      by (simp only: padStart_def nth_append length_replicate) simp
    then show ?thesis using to_radix_2_digit [OF True] by simp
  next
    case False
    have "\<not> bit n k"
    proof
      assume "bit n k"
      then have "k < bit_length n" by (rule bit_bound [OF bit_length_less])
      then show False using False by (simp add: length_to_radix_2)
    qed
    moreover have "w - 1 - k < w - length ?d" using False assms(2) by simp
    ultimately show ?thesis by (simp add: padStart_def nth_append)
  qed
qed

lemma setbit_int_bits:
  assumes "u64 t" "0 \<le> idx" "idx \<le> 63"
  shows "int (setbit_int t idx b) =
    (if b = 0 then unset_bit (nat idx) t else Bit_Operations.set_bit (nat idx) t)"
proof -
  define n where "n = nat t"
  define k where "k = nat idx"
  have t: "t = int n" "n < 2 ^ 64" using assms(1) by (simp_all add: n_def u64_def nat_less_iff)
  have k: "idx = int k" "k < 64" using assms(2,3) by (simp_all add: k_def)
  let ?s = "padStart 64 (to_radix 2 n)"
  let ?c = "if b = 0 then CHR ''0'' else CHR ''1''"
  have len: "length ?s = 64" using padded_digit(2) [OF t(2) k(2)] .
  have val: "setbit_int t idx b = parseBinaryStrToBigInt (?s[63 - k := ?c])"
    using k by (simp add: setbit_int_def js_toString_def t(1) len js_array_set_def Let_def nat_diff_distrib)
  have "bit (setbit_int t idx b) i \<longleftrightarrow> (if i = k then b \<noteq> 0 else bit n i)" for i
  proof (cases "i < 64")
    case True
    have "63 - i = 63 - k \<longleftrightarrow> i = k" using True k(2) by auto
    note pd = padded_digit(1) [OF t(2) True, simplified]
    then show ?thesis
      using True k(2) pd
      by (auto simp: val bit_parseBinary len nth_list_update digit_chars)
  next
    case False
    then have "\<not> bit n i" using bit_bound [OF t(2), of i] by auto
    then show ?thesis using False k(2) by (auto simp: val bit_parseBinary len)
  qed
  then have "setbit_int t idx b = (if b = 0 then unset_bit k n else Bit_Operations.set_bit k n)"
    by (intro bit_eqI) (auto simp: bit_unset_bit_iff bit_set_bit_iff)
  then show ?thesis by (simp add: t(1) k_def [symmetric] of_nat_unset_bit_eq of_nat_set_bit_eq)
qed

lemma parseBinary_less: "parseBinaryStrToBigInt s < 2 ^ length s"
proof (induction s rule: rev_induct)
  case (snoc c s)
  then show ?case by (simp add: parseBinary_snoc)
qed (simp add: parseBinaryStrToBigInt_def)

lemma setbit_u64:
  assumes "u64 t" "0 \<le> idx" "idx \<le> 63"
  shows "u64 (int (setbit_int t idx b))"
proof -
  have "nat t < 2 ^ 64" using assms(1) by (simp add: u64_def nat_less_iff)
  then have len: "length (padStart 64 (to_radix 2 (nat t))) = 64"
    by (rule padded_digit(2)) (rule zero_less_numeral)
  have "length (js_array_set (padStart 64 (js_toString 2 t)) (64 - js_Number idx - 1) c) = 64" for c
    using assms by (simp add: js_array_set_def js_toString_def len u64_def)
  then have "setbit_int t idx b < 2 ^ 64"
    using parseBinary_less [of "js_array_set (padStart 64 (js_toString 2 t)) (64 - js_Number idx - 1)
        (if b = 0 then CHR ''0'' else CHR ''1'')"] assms
    by (simp add: setbit_int_def js_toString_def len u64_def Let_def split: if_splits)
  then show ?thesis by (simp add: u64_def)
qed

text \<open>\<^verbatim>\<open>getbit\<close> of an integer reads the unpadded binary string.\<close>

lemma getbit_digit:
  assumes "0 \<le> t" "0 \<le> idx" "idx \<le> 63"
  shows "digit_at (js_toString 2 t) (int (length (js_toString 2 t)) - js_Number idx - 1) =
    (if idx < max 1 (int (bit_length (nat t))) then Inr (of_bool (bit t (nat idx))) else Inl (JsError TypeError))"
proof -
  let ?d = "to_radix 2 (nat t)"
  have len: "int (length ?d) = max 1 (int (bit_length (nat t)))"
    by (simp add: length_to_radix_2)
  have d: "js_toString 2 t = ?d" and n: "js_Number idx = idx" using assms by (simp_all add: js_toString_def)
  show ?thesis
  proof (cases "idx < int (length ?d)")
    case True
    then have k: "nat idx < length ?d" using assms by (simp add: nat_less_iff)
    have pos: "nat (int (length ?d) - idx - 1) = length ?d - 1 - nat idx" using assms True by simp
    have "?d ! (length ?d - 1 - nat idx) = (if bit (nat t) (nat idx) then CHR ''1'' else CHR ''0'')"
      by (rule to_radix_2_digit [OF k])
    moreover have "bit (nat t) (nat idx) = bit t (nat idx)"
      using assms(1) by (metis bit_of_nat_iff_bit int_nat_eq)
    moreover have "char_digit CHR ''0'' = 0" "char_digit CHR ''1'' = 1" "CHR ''-'' \<noteq> CHR ''0''"
      "CHR ''-'' \<noteq> CHR ''1''" by code_simp+
    ultimately have "digit_at ?d (int (length ?d) - idx - 1) = Inr (of_bool (bit t (nat idx)))"
      using True assms(2) by (simp add: digit_at_def pos del: One_nat_def)
    then show ?thesis using True unfolding d n len [symmetric] by simp
  next
    case False
    then show ?thesis unfolding d n len [symmetric] by (simp add: digit_at_def)
  qed
qed

section \<open>Slices\<close>

lemma js_slice_take: "js_slice b i j = take (j - i) (drop i b)"
  by (simp add: js_slice_def)

lemma subString_eq:
  assumes "0 \<le> start" "0 \<le> fin" "int (length b) \<le> 2 ^ 53"
  shows "subString b start fin s =
    (if fin < start then Inl (TEAL SUBSTRING_END_BEFORE_START)
     else if int (length b) < fin then Inl (TEAL SUBSTRING_RANGE_BEYOND)
     else Inr (take (nat fin - nat start) (drop (nat start) b)), s)"
  using assms by (auto simp: subString_def exec_simps js_slice_def)

lemma opExtractImpl_eq:
  assumes "0 \<le> start" "0 \<le> len"
  shows "opExtractImpl b start len s =
    (if int (length b) < start + len then Inl (TEAL EXTRACT_RANGE_ERROR)
     else Inr (take (nat len) (drop (nat start) b)), s)"
  using assms by (auto simp: opExtractImpl_def exec_simps js_slice_def Let_def nat_add_distrib)

lemma replace_bytes_eq:
  assumes "start + length rep \<le> length original"
  shows "replace_bytes original (int start) rep =
    take start original @ rep @ drop (start + length rep) original"
  using assms
  by (intro nth_equalityI) (auto simp: replace_bytes_def nth_append nat_diff_distrib)

section \<open>Byte arithmetic\<close>

text \<open>What the opcodes promise of the numbers the arrays stand for.\<close>

definition byte_spec :: "math_op \<Rightarrow> int \<Rightarrow> int \<Rightarrow> math_result option" where
  "byte_spec op a b = (case math_value op a b of Inl _ \<Rightarrow> None | Inr r \<Rightarrow> Some r)"

lemma be_value_replicate [simp]: "be_value (replicate n 0 @ bs) = be_value bs"
  by (induction n) (simp_all add: be_value_Cons)

lemma value_of_result: "be_value (if n = 0 then [] else bigintToBigEndianBytes n) = n"
  by (simp add: bigintToBigEndianBytes_eq)

lemma be_value_int_less: "length b \<le> k \<Longrightarrow> int (be_value b) < 256 ^ k"
proof -
  assume "length b \<le> k"
  then have "be_value b < 256 ^ k"
    by (metis be_value_less less_le_trans one_le_numeral power_increasing)
  then show ?thesis by (metis of_nat_less_iff of_nat_numeral of_nat_power)
qed

lemma length_result_le:
  assumes "n < 256 ^ k"
  shows "length (if n = 0 then [] else bigintToBigEndianBytes n) \<le> k"
proof (cases "k = 0")
  case False
  then show ?thesis using assms be_digits_length [of n k] by (simp add: bigintToBigEndianBytes_eq)
qed (use assms in simp)

lemma pushBytesMax_stk [exec_simps]:
  "i_stack s = stk xs \<Longrightarrow> length xs < 1000 \<Longrightarrow> length b \<le> n \<Longrightarrow>
   pushBytesMax b n s =
     (Inr (), s\<lparr>c_heap := c_heap s @ [b], i_stack := stk (Bytes (length (c_heap s)) # xs)\<rparr>)"
  by (simp add: pushBytesMax_def newM_def assertBytesMax_def derefM_def exec_simps)

lemma bitwise_bound:
  assumes "0 \<le> (a :: int)" "a < 2 ^ k" "0 \<le> b" "b < 2 ^ k"
  shows "0 \<le> Bit_Operations.or a b \<and> Bit_Operations.or a b < 2 ^ k"
    "0 \<le> Bit_Operations.and a b \<and> Bit_Operations.and a b < 2 ^ k"
    "0 \<le> Bit_Operations.xor a b \<and> Bit_Operations.xor a b < 2 ^ k"
proof -
  have t: "take_bit k a = a" "take_bit k b = b" using assms by (simp_all add: take_bit_int_eq_self)
  have r: "0 \<le> take_bit k n \<and> take_bit k n < 2 ^ k" for n :: int by simp
  show "0 \<le> Bit_Operations.or a b \<and> Bit_Operations.or a b < 2 ^ k"
    using r [of "Bit_Operations.or a b"] by (simp add: t)
  show "0 \<le> Bit_Operations.and a b \<and> Bit_Operations.and a b < 2 ^ k"
    using r [of "Bit_Operations.and a b"] by (simp add: t)
  show "0 \<le> Bit_Operations.xor a b \<and> Bit_Operations.xor a b < 2 ^ k"
    using r [of "Bit_Operations.xor a b"] by (simp add: t)
qed

text \<open>The numbers the operations compute from arrays of at most \<open>k\<close> bytes fit the output limit.\<close>

lemma math_value_bounds:
  assumes "0 \<le> a" "a < 256 ^ k" "0 \<le> b" "b < 256 ^ k" "0 < k" "math_value op a b = Inr (MInt n)"
  shows "0 \<le> n" "n < 256 ^ (2 * k)" "is_bitwise op \<Longrightarrow> n < 256 ^ k"
proof -
  have p: "(256 :: int) ^ k = 2 ^ (8 * k)" by (simp add: power_mult)
  have sq: "(256 :: int) ^ (2 * k) = 256 ^ k * 256 ^ k" by (metis mult_2 power_add)
  have k1: "(256 :: int) ^ k * 2 \<le> 256 ^ k * 256 ^ k"
    using assms(5) self_le_power [of "256 :: int" k] by (intro mult_left_mono) auto
  have le: "x < 256 ^ k \<Longrightarrow> x < 256 ^ (2 * k)" for x :: int
  proof -
    assume "x < 256 ^ k"
    moreover have "(256 :: int) ^ k \<le> 256 ^ k * 256 ^ k" using k1 by (smt (verit) zero_less_power)
    ultimately show ?thesis by (simp only: sq)
  qed
  note bw = bitwise_bound [OF assms(1) assms(2) [unfolded p] assms(3) assms(4) [unfolded p], folded p]
  have dm: "b \<noteq> 0 \<Longrightarrow> 0 \<le> a div b \<and> a div b \<le> a" "b \<noteq> 0 \<Longrightarrow> 0 \<le> a mod b \<and> a mod b \<le> a"
    using assms(1,3) zdiv_mono2 [of a 1 b] zmod_le_nonneg_dividend [of a b] by (auto simp: pos_imp_zdiv_nonneg_iff)
  have mul: "a * b < 256 ^ (2 * k)"
    using assms mult_strict_mono [of a "256 ^ k" b "256 ^ k"] by (simp add: sq)
  show "0 \<le> n" using assms bw dm by (cases op) (auto split: if_splits)
  show "n < 256 ^ (2 * k)"
  proof (cases op)
    case MAdd
    then have "n < 256 ^ k * 2" using assms by simp
    then show ?thesis using k1 unfolding sq by linarith
  next
    case MMul
    then show ?thesis using assms(6) mul by simp
  next
    case MSub
    then have "n \<le> a" using assms by (auto split: if_splits)
    then show ?thesis using assms(2) le [of n] by simp
  next
    case MDiv
    then have "n \<le> a" using assms dm by (auto split: if_splits)
    then show ?thesis using assms(2) le [of n] by simp
  next
    case MMod
    then have "n \<le> a" using assms dm by (auto split: if_splits)
    then show ?thesis using assms(2) le [of n] by simp
  qed (use assms(6) bw le in auto)
  show "is_bitwise op \<Longrightarrow> n < 256 ^ k" using assms(6) bw by (cases op) auto
qed

text \<open>The array an operation pushes for a number.\<close>

definition byteop_array :: "math_op \<Rightarrow> bytes \<Rightarrow> bytes \<Rightarrow> int \<Rightarrow> bytes" where
  "byteop_array op a b n =
     (let r = (if n = 0 then [] else bigintToBigEndianBytes (nat n))
      in if is_bitwise op then replicate (max (length a) (length b) - length r) 0 @ r else r)"

lemma byteop_array_spec:
  assumes "length a \<le> 64" "length b \<le> 64" "math_value op (int (be_value a)) (int (be_value b)) = Inr (MInt n)"
  shows "int (be_value (byteop_array op a b n)) = n" "length (byteop_array op a b n) \<le> 128"
    "is_bitwise op \<Longrightarrow> length (byteop_array op a b n) = max (length a) (length b)"
proof -
  let ?k = "max (length a) (length b)"
  let ?r = "if n = 0 then [] else bigintToBigEndianBytes (nat n)"
  have k: "?k \<le> 64" using assms by simp
  have lt: "int (be_value a) < 256 ^ ?k" "int (be_value b) < 256 ^ ?k"
    by (rule be_value_int_less, simp)+
  have n0: "0 \<le> n" and n128: "nat n < 256 ^ 128"
  proof -
    have lt64: "int (be_value a) < 256 ^ 64" "int (be_value b) < 256 ^ 64"
      using assms(1,2) by (simp_all only: be_value_int_less)
    have "0 \<le> n \<and> n < 256 ^ (2 * 64)"
      using math_value_bounds(1,2) [OF _ lt64(1) _ lt64(2) _ assms(3)] by simp
    then show "0 \<le> n" "nat n < 256 ^ 128" by (simp_all add: nat_less_iff)
  qed
  have nn: "n = 0 \<longleftrightarrow> nat n = 0" using n0 by simp
  have r: "?r = (if nat n = 0 then [] else bigintToBigEndianBytes (nat n))" by (simp only: nn)
  show "int (be_value (byteop_array op a b n)) = n"
    using n0 value_of_result [of "nat n"] by (simp add: byteop_array_def Let_def nn del: nat_0_iff)
  have len: "length ?r \<le> 128" unfolding r by (rule length_result_le [OF n128])
  have bw: "is_bitwise op \<Longrightarrow> length ?r \<le> ?k"
  proof (cases "?k = 0")
    case True
    assume "is_bitwise op"
    with True assms(3) have "n = 0" by (cases op) auto
    then show "length ?r \<le> ?k" by simp
  next
    case False
    assume op: "is_bitwise op"
    have "n < 256 ^ ?k"
      using math_value_bounds(3) [OF _ lt(1) _ lt(2) _ assms(3) op] False by simp
    then have "nat n < 256 ^ ?k" using n0 by (simp add: nat_less_iff)
    then show "length ?r \<le> ?k" unfolding r by (rule length_result_le)
  qed
  show "length (byteop_array op a b n) \<le> 128"
    using len bw k by (auto simp: byteop_array_def Let_def)
  show "is_bitwise op \<Longrightarrow> length (byteop_array op a b n) = ?k"
    using bw by (simp add: byteop_array_def Let_def)
qed

lemma ByteOp_execute_eq:
  assumes "i_stack s = stk (Bytes rb # Bytes ra # rest)" "length rest + 2 \<le> 1000"
    and a: "deref (c_heap s) ra = a" "length a \<le> 64" and b: "deref (c_heap s) rb = b" "length b \<le> 64"
  shows "ByteOp_execute op s =
    (case math_value op (int (be_value a)) (int (be_value b)) of
       Inl e \<Rightarrow> (Inl e, s\<lparr>i_stack := stk rest\<rparr>)
     | Inr (MBool t) \<Rightarrow> (Inr (byteop_cost op), s\<lparr>i_stack := stk (BigInt (if t then 1 else 0) # rest)\<rparr>)
     | Inr (MInt n) \<Rightarrow> (Inr (byteop_cost op),
         s\<lparr>c_heap := c_heap s @ [byteop_array op a b n], i_stack := stk (Bytes (length (c_heap s)) # rest)\<rparr>))"
proof (cases "math_value op (int (be_value a)) (int (be_value b))")
  case (Inl e)
  then show ?thesis using assms by (simp add: ByteOp_execute_def exec_simps bigEndianBytesToBigInt_eq)
next
  case (Inr r)
  show ?thesis
  proof (cases r)
    case (MBool t)
    then show ?thesis using assms Inr
      by (simp add: ByteOp_execute_def exec_simps bigEndianBytesToBigInt_eq)
  next
    case (MInt n)
    have sp: "length (byteop_array op a b n) \<le> 128"
      using byteop_array_spec(2) [OF a(2) b(2), of op n] Inr MInt by simp
    show ?thesis
      by (cases "n = 0"; cases "is_bitwise op"; use assms Inr MInt sp in
        \<open>simp add: ByteOp_execute_def exec_simps bigEndianBytesToBigInt_eq byteop_array_def Let_def\<close>)
  qed
qed

section \<open>Properties\<close>



text \<open>
  C31: \<^verbatim>\<open>bsqrt\<close> of an array of at most 64 bytes ends and pushes the big-endian digits of the integer
  square root of its number, for every number but those with the root \<open>2 ^ 52 - 1\<close>.
\<close>

theorem bsqrt_correct:
  assumes "i_stack s = stk (Bytes r # rest)" "length rest < 1000" "length (deref (c_heap s) r) \<le> 64"
    and "isqrt (be_value (deref (c_heap s) r)) \<noteq> 2 ^ 52 - 1"
  shows "Bsqrt_execute s = (Inr (the (OpGasCost 6 ''bsqrt'')),
    s\<lparr>c_heap := c_heap s @ [be_digits (isqrt (be_value (deref (c_heap s) r)))],
      i_stack := stk (Bytes (length (c_heap s)) # rest)\<rparr>)"
proof -
  let ?v = "be_value (deref (c_heap s) r)"
  have "int (isqrt (nat (int ?v))) \<noteq> 2 ^ 52 - 1" using assms(4) by simp
  then have "bigintSqrt (int ?v) = Some (int (isqrt ?v))"
    using bigintSqrt_floor [of "int ?v"] by simp
  then show ?thesis
    using assms by (simp add: Bsqrt_execute_def exec_simps bigEndianBytesToBigInt_eq
        bigintToBigEndianBytes_eq Let_def)
qed

lemma bsqrt_correct_witness:
  "fst (Bsqrt_execute (sample_interp [[1, 0]] [Bytes 0])) = Inr 40 \<and>
   c_heap (snd (Bsqrt_execute (sample_interp [[1, 0]] [Bytes 0]))) = [[1, 0], [16]]"
proof -
  have v: "be_value [1, 0] = 256" by (simp add: be_value_Cons)
  have r: "isqrt 256 = 16" by (rule isqrt_unique) simp_all
  have c: "the (OpGasCost 6 ''bsqrt'') = 40" by code_simp
  show ?thesis
    using bsqrt_correct [of "sample_interp [[1, 0]] [Bytes 0]" 0 "[]"]
    by (simp add: deref_def v r c be_digits.simps)
qed

text \<open>
  C40: For the numbers from \<open>(2 ^ 52 - 1) ^ 2\<close> to \<open>2 ^ 104 - 5\<close> the root is \<open>2 ^ 52 - 1\<close> and the code
  answers \<open>2 ^ 52 - 2\<close>: its first guess is one below the root, Newton's step goes up by one, and the
  loop takes that for its end.
\<close>

theorem bigintSqrt_one_low:
  assumes "(2 ^ 52 - 1) ^ 2 \<le> v" "v < 2 ^ 104 - 4"
  shows "bigintSqrt v = Some (2 ^ 52 - 2) \<and> int (isqrt (nat v)) = 2 ^ 52 - 1"
proof
  have n: "(2 ^ 52 - 1) * (2 ^ 52 - 1) \<le> nat v" "nat v < (2 ^ 52 - 1 + 1) * (2 ^ 52 - 1 + 1)"
    using assms by (simp_all add: nat_le_iff nat_less_iff le_nat_iff power2_eq_square)
  show "int (isqrt (nat v)) = 2 ^ 52 - 1" using isqrt_unique [OF n] by simp
  show "bigintSqrt v = Some (2 ^ 52 - 2)"
    using sqrt_loop_stuck [of "2 ^ 52 - 1" v] assms
    by (simp add: bigintSqrt_def push_bit_eq_mult power2_eq_square)
qed

lemma bigintSqrt_one_low_witness: "bigintSqrt ((2 ^ 52 - 1) ^ 2) = Some (2 ^ 52 - 2)"
  using bigintSqrt_one_low [of "(2 ^ 52 - 1) ^ 2"] by simp

text \<open>
  \<^verbatim>\<open>setbit\<close> of an integer sets or clears exactly the bit of the index, as the bit operations on
  integers do, and the result is a 64-bit integer again.
\<close>

theorem setbit_uint:
  assumes "i_stack s = stk (BigInt b # BigInt idx # BigInt t # rest)" "length rest + 3 \<le> 1000"
    and "u64 t" "0 \<le> idx" "idx \<le> 63" "b = 0 \<or> b = 1"
  shows "\<exists>n. SetBit_execute s = (Inr 1, s\<lparr>i_stack := stk (BigInt n # rest)\<rparr>) \<and> u64 n \<and>
    (\<forall>i. bit n i \<longleftrightarrow> (if i = nat idx then b = 1 else bit t i))"
proof -
  have "bit (int (setbit_int t idx b)) i \<longleftrightarrow> (if i = nat idx then b = 1 else bit t i)" for i
    using setbit_int_bits [OF assms(3-5), of b] assms(6)
    by (auto simp: bit_unset_bit_iff bit_set_bit_iff)
  then show ?thesis
    using assms setbit_u64 [OF assms(3-5), of b]
    by (intro exI [of _ "int (setbit_int t idx b)"]) (auto simp: SetBit_execute_def exec_simps)
qed

lemma setbit_uint_witness:
  "\<exists>n. SetBit_execute (sample_interp [] [BigInt 1, BigInt 3, BigInt 4]) = (Inr 1, sample_interp [] [BigInt n]) \<and>
     bit n 3 \<and> bit n 2"
proof -
  let ?s = "sample_interp [] [BigInt 1, BigInt 3, BigInt 4]"
  obtain n where n: "SetBit_execute ?s = (Inr 1, ?s\<lparr>i_stack := stk [BigInt n]\<rparr>)"
    "\<forall>i. bit n i \<longleftrightarrow> (if i = nat 3 then (1 :: int) = 1 else bit (4 :: int) i)"
    using setbit_uint [of ?s 1 3 4 "[]"] by (auto simp: u64_def)
  have "bit (4 :: int) 2" by code_simp
  with n(2) have "bit n 3" "bit n 2" by auto
  then show ?thesis using n(1) by (intro exI [of _ n]) (simp add: sample_interp_def)
qed

text \<open>
  C33: \<^verbatim>\<open>getbit\<close> of an integer answers the bit of the index while the index is below the length of the
  integer's binary text; above it, where the bit is 0, the code reads past the text and throws a
  \<^verbatim>\<open>TypeError\<close>.
\<close>

theorem getbit_uint:
  assumes "i_stack s = stk (BigInt idx # BigInt t # rest)" "length rest + 2 \<le> 1000"
    and "u64 t" "0 \<le> idx" "idx \<le> 63"
  shows "GetBit_execute s =
    (if idx < max 1 (int (bit_length (nat t)))
     then (Inr 1, s\<lparr>i_stack := stk (BigInt (of_bool (bit t (nat idx))) # rest)\<rparr>)
     else (Inl (JsError TypeError), s\<lparr>i_stack := stk rest\<rparr>)) \<and>
   (max 1 (int (bit_length (nat t))) \<le> idx \<longrightarrow> \<not> bit t (nat idx))"
proof
  have t: "0 \<le> t" using assms(3) by (simp add: u64_def)
  show "GetBit_execute s =
    (if idx < max 1 (int (bit_length (nat t)))
     then (Inr 1, s\<lparr>i_stack := stk (BigInt (of_bool (bit t (nat idx))) # rest)\<rparr>)
     else (Inl (JsError TypeError), s\<lparr>i_stack := stk rest\<rparr>))"
    using assms(1,2,5) getbit_digit [OF t assms(4,5)]
    by (cases "bit t (nat idx)") (simp_all add: GetBit_execute_def exec_simps Let_def)
  have "bit t (nat idx) \<Longrightarrow> nat idx < bit_length (nat t)"
    using bit_bound [OF bit_length_less, of "nat t" "nat idx"] t by (metis bit_of_nat_iff_bit int_nat_eq)
  then show "max 1 (int (bit_length (nat t))) \<le> idx \<longrightarrow> \<not> bit t (nat idx)"
    using assms(4) by (auto simp: nat_less_iff)
qed

lemma getbit_uint_witness:
  "GetBit_execute (sample_interp [] [BigInt 5, BigInt 4]) = (Inl (JsError TypeError), sample_interp [] []) \<and>
   \<not> bit (4 :: int) 5"
proof -
  have "bit_length (nat 4) = 3" by code_simp
  then show ?thesis
    using getbit_uint [of "sample_interp [] [BigInt 5, BigInt 4]" 5 4 "[]"]
    by (simp add: u64_def sample_interp_def)
qed

text \<open>The bits of an array, the most significant bit of the first byte first.\<close>

definition array_bit :: "bytes \<Rightarrow> nat \<Rightarrow> bool" where
  "array_bit b k = bit (b ! (k div 8)) (7 - k mod 8)"

lemma GetBit_array:
  assumes "i_stack s = stk (BigInt (int k) # Bytes r # rest)" "length rest + 2 \<le> 1000"
    and "k < 8 * length (deref (c_heap s) r)" "k \<le> 2 ^ 53"
  shows "GetBit_execute s =
    (Inr 1, s\<lparr>i_stack := stk (BigInt (of_bool (array_bit (deref (c_heap s) r) k)) # rest)\<rparr>)"
proof -
  let ?a = "deref (c_heap s) r"
  have i: "k div 8 < length ?a" using assms(3) by (simp add: div_less_iff_less_mult mult.commute)
  have ii: "int k div 8 < int (length ?a)" "int k div 8 = int (k div 8)" "int k mod 8 = int (k mod 8)"
    using i by (simp_all add: zdiv_int zmod_int)
  have m: "k mod 8 < 8" by simp
  have "unat (?a ! (k div 8)) < 2 ^ 8" using unat_byte_less [of "?a ! (k div 8)"] by simp
  note pd = padded_digit [OF this, of "7 - k mod 8"]
  have e: "8 - 1 - (7 - k mod 8) = k mod 8" using m by linarith
  have "padStart 8 (to_radix 2 (unat (?a ! (k div 8)))) ! (k mod 8) =
      (if array_bit ?a k then CHR ''1'' else CHR ''0'')"
    "length (padStart 8 (to_radix 2 (unat (?a ! (k div 8))))) = 8"
    using pd e by (simp_all add: array_bit_def bit_unsigned_iff)
  moreover have "char_digit CHR ''0'' = 0" "char_digit CHR ''1'' = 1" "CHR ''-'' \<noteq> CHR ''0''"
      "CHR ''-'' \<noteq> CHR ''1''" by code_simp+
  ultimately have "digit_at (padStart 8 (to_radix 2 (unat (?a ! (k div 8))))) (int (k mod 8)) =
      Inr (of_bool (array_bit ?a k))"
    using m by (simp add: digit_at_def)
  moreover have "byteAt ?a (int (k div 8)) = Inr (?a ! (k div 8))"
    using i by (simp add: byteAt_def)
  ultimately show ?thesis
    using assms ii i
    by (cases "array_bit ?a k") (simp_all add: GetBit_execute_def exec_simps derefM_def Let_def)
qed

lemma SetBit_array:
  assumes "i_stack s = stk (BigInt b # BigInt (int k) # Bytes r # rest)" "length rest + 3 \<le> 1000"
    and "k < 8 * length (deref (c_heap s) r)" "k \<le> 2 ^ 53" "b = 0 \<or> b = 1"
  shows "\<exists>h. SetBit_execute s = (Inr 1, s\<lparr>c_heap := h, i_stack := stk (Bytes r # rest)\<rparr>) \<and>
    length (deref h r) = length (deref (c_heap s) r) \<and>
    (\<forall>r'. r' \<noteq> r \<longrightarrow> deref h r' = deref (c_heap s) r') \<and>
    (\<forall>j < 8 * length (deref (c_heap s) r).
       array_bit (deref h r) j = (if j = k then b = 1 else array_bit (deref (c_heap s) r) j))"
proof -
  let ?a = "deref (c_heap s) r"
  let ?mask = "push_bit (7 - k mod 8) 1 :: byte"
  let ?v = "if b = 1 then Bit_Operations.or (?a ! (k div 8)) ?mask
    else Bit_Operations.and (?a ! (k div 8)) (Bit_Operations.not ?mask)"
  let ?h = "heap_write r (k div 8) ?v (c_heap s)"
  have i: "k div 8 < length ?a" using assms(3) by (simp add: div_less_iff_less_mult mult.commute)
  have ii: "int k div 8 < int (length ?a)" "int k div 8 = int (k div 8)" "int k mod 8 = int (k mod 8)"
    using i by (simp_all add: zdiv_int zmod_int)
  have bits: "bit ?v (7 - j mod 8) = (if j mod 8 = k mod 8 then b = 1 else bit (?a ! (k div 8)) (7 - j mod 8))" for j
  proof -
    have "7 - j mod 8 = 7 - k mod 8 \<longleftrightarrow> j mod 8 = k mod 8"
      using mod_less_divisor [of 8 j] mod_less_divisor [of 8 k] by linarith
    moreover have "7 - k mod 8 < 8" "7 - j mod 8 < 8" by simp_all
    ultimately show ?thesis
      using assms(5)
      by (auto simp: bit_or_iff bit_and_iff bit_not_iff bit_exp_iff)
  qed
  have "array_bit (deref ?h r) j = (if j = k then b = 1 else array_bit ?a j)"
    if "j < 8 * length ?a" for j
  proof -
    have "j = k \<longleftrightarrow> j div 8 = k div 8 \<and> j mod 8 = k mod 8"
      by (metis div_mod_decomp)
    then show ?thesis using i bits [of j] by (auto simp: array_bit_def deref_write nth_list_update)
  qed
  moreover have "SetBit_execute s = (Inr 1, s\<lparr>c_heap := ?h, i_stack := stk (Bytes r # rest)\<rparr>)"
    using assms ii i by (auto simp: SetBit_execute_def exec_simps Let_def writeM_def derefM_def)
  ultimately show ?thesis
    by (intro exI [of _ ?h]) (simp add: deref_write)
qed

text \<open>
  C29: On a byte array \<^verbatim>\<open>setbit\<close> followed by \<^verbatim>\<open>getbit\<close> of any index of the array reads the bit just set
  at that index and the old bit elsewhere, bits counted from the most significant of the first byte.
\<close>

theorem setbit_getbit:
  assumes "i_stack s = stk (BigInt b # BigInt (int k) # Bytes r # rest)" "length rest + 3 \<le> 1000"
    and "k < 8 * length (deref (c_heap s) r)" "j < 8 * length (deref (c_heap s) r)"
    and "k \<le> 2 ^ 53" "j \<le> 2 ^ 53" "b = 0 \<or> b = 1"
  shows "\<exists>s'. bindM SetBit_execute (\<lambda>_. seqM (pushBigInt (int j)) GetBit_execute) s = (Inr 1, s') \<and>
    i_stack s' = stk (BigInt (if j = k then b else of_bool (array_bit (deref (c_heap s) r) j)) # rest)"
proof -
  obtain h where h: "SetBit_execute s = (Inr 1, s\<lparr>c_heap := h, i_stack := stk (Bytes r # rest)\<rparr>)"
    "length (deref h r) = length (deref (c_heap s) r)"
    "array_bit (deref h r) j = (if j = k then b = 1 else array_bit (deref (c_heap s) r) j)"
    using SetBit_array [OF assms(1,2,3,5,7)] assms(4) by auto
  let ?t = "s\<lparr>c_heap := h, i_stack := stk (BigInt (int j) # Bytes r # rest)\<rparr>"
  have "GetBit_execute ?t = (Inr 1, ?t\<lparr>i_stack := stk (BigInt (of_bool (array_bit (deref h r) j)) # rest)\<rparr>)"
    using GetBit_array [of ?t j r rest] assms(2,4,6) h(2) by simp
  then show ?thesis
    using h assms(2,7) by (auto simp: exec_simps)
qed

lemma setbit_getbit_witness:
  "\<exists>s'. bindM SetBit_execute (\<lambda>_. seqM (pushBigInt 9) GetBit_execute)
       (sample_interp [[0, 0]] [BigInt 1, BigInt 9, Bytes 0]) = (Inr 1, s') \<and> i_stack s' = stk [BigInt 1]"
  using setbit_getbit [of "sample_interp [[0, 0]] [BigInt 1, BigInt 9, Bytes 0]" 1 9 0 "[]" 9]
  by (simp add: deref_def)

text \<open>
  C34: \<^verbatim>\<open>setbyte\<close> writes into the array it popped: a copy of the element that \<^verbatim>\<open>dup\<close> left deeper in the
  stack (any other reference to the array) shows the write, while every other array is untouched.
\<close>

theorem setbyte_writes_through:
  assumes "i_stack s = stk (BigInt v # BigInt (int k) # Bytes r # Bytes r # rest)" "length rest + 4 \<le> 1000"
    and "0 \<le> v" "v \<le> 255" "k < length (deref (c_heap s) r)" "k \<le> 2 ^ 53"
  shows "\<exists>h. SetByte_execute s = (Inr 1, s\<lparr>c_heap := h, i_stack := stk (Bytes r # Bytes r # rest)\<rparr>) \<and>
    List.map (view h) (Bytes r # Bytes r # rest) =
      PBytes ((deref (c_heap s) r)[k := word_of_int v]) # PBytes ((deref (c_heap s) r)[k := word_of_int v]) #
      List.map (view h) rest \<and>
    (\<forall>r'. r' \<noteq> r \<longrightarrow> deref h r' = deref (c_heap s) r')"
  using assms
  by (intro exI [of _ "heap_write r k (word_of_int v) (c_heap s)"])
    (simp add: SetByte_execute_def exec_simps derefM_def writeM_def deref_write)

lemma setbyte_writes_through_witness:
  "\<exists>h. SetByte_execute (sample_interp [[1, 2]] [BigInt 9, BigInt 0, Bytes 0, Bytes 0]) =
     (Inr 1, sample_interp h [Bytes 0, Bytes 0]) \<and>
   List.map (view h) [Bytes 0, Bytes 0] = [PBytes [9, 2], PBytes [9, 2]]"
proof -
  let ?s = "sample_interp [[1, 2]] [BigInt 9, BigInt 0, Bytes 0, Bytes 0]"
  obtain h where h: "SetByte_execute ?s = (Inr 1, ?s\<lparr>c_heap := h, i_stack := stk [Bytes 0, Bytes 0]\<rparr>)"
    "List.map (view h) [Bytes 0, Bytes 0] = [PBytes [9, 2], PBytes [9, 2]]"
    using setbyte_writes_through [of ?s 9 0 0 "[]"] by (auto simp: deref_def)
  then show ?thesis by (intro exI [of _ h]) (simp add: sample_interp_def)
qed

text \<open>
  C30: \<^verbatim>\<open>replace3\<close> of a range that fits overwrites exactly that range: the array keeps its length,
  \<^verbatim>\<open>extract3\<close> of the range then gives the replacement back, and the bytes around it are the old ones;
  a range that does not fit is an error.
\<close>

theorem replace_extract:
  assumes "i_stack s = stk (Bytes rr # BigInt (int st) # Bytes ro # rest)" "length rest + 3 \<le> 1000"
    and "deref (c_heap s) rr = rep" "deref (c_heap s) ro = org" "st \<le> 2 ^ 53" "length rep \<le> 2 ^ 53"
  shows "if st + length rep \<le> length org
    then (\<exists>w. Replace3_execute s = (Inr 1, s\<lparr>c_heap := c_heap s @ [w], i_stack := stk (Bytes (length (c_heap s)) # rest)\<rparr>) \<and>
      length w = length org \<and> take st w = take st org \<and>
      drop (st + length rep) w = drop (st + length rep) org \<and>
      bindM Replace3_execute (\<lambda>_. seqM (pushBigInt (int st)) (seqM (pushBigInt (int (length rep))) Extract3_execute)) s =
        (Inr 1, s\<lparr>c_heap := c_heap s @ [w, rep], i_stack := stk (Bytes (length (c_heap s) + 1) # rest)\<rparr>))
    else fst (Replace3_execute s) = Inl (TEAL BYTES_REPLACE_ERROR)"
proof (cases "st + length rep \<le> length org")
  case True
  let ?w = "take st org @ rep @ drop (st + length rep) org"
  have r3: "Replace3_execute s =
      (Inr 1, s\<lparr>c_heap := c_heap s @ [?w], i_stack := stk (Bytes (length (c_heap s)) # rest)\<rparr>)"
    using True assms by (simp add: Replace3_execute_def Replace_execute_def exec_simps replace_bytes_eq)
  let ?t = "s\<lparr>c_heap := c_heap s @ [?w],
    i_stack := stk (BigInt (int (length rep)) # BigInt (int st) # Bytes (length (c_heap s)) # rest)\<rparr>"
  have "Extract3_execute ?t =
      (Inr 1, s\<lparr>c_heap := c_heap s @ [?w, rep], i_stack := stk (Bytes (length (c_heap s) + 1) # rest)\<rparr>)"
    using True assms(2,5,6) by (simp add: Extract3_execute_def exec_simps opExtractImpl_eq)
  then show ?thesis using True r3 assms(2) by (simp add: exec_simps exI [of _ ?w])
next
  case False
  then show ?thesis
    using assms by (simp add: Replace3_execute_def Replace_execute_def exec_simps)
qed

lemma replace_extract_witness:
  "\<exists>w. Replace3_execute (sample_interp [[1, 2, 3, 4], [8, 9]] [Bytes 1, BigInt 1, Bytes 0]) =
      (Inr 1, sample_interp [[1, 2, 3, 4], [8, 9], w] [Bytes 2]) \<and> length w = 4 \<and> take 1 w = [1] \<and> drop 3 w = [4]"
proof -
  let ?s = "sample_interp [[1, 2, 3, 4], [8, 9]] [Bytes 1, BigInt 1, Bytes 0]"
  have d: "deref (c_heap ?s) 1 = [8, 9]" "deref (c_heap ?s) 0 = [1, 2, 3, 4]" by (simp_all add: deref_def)
  have i: "i_stack ?s = stk [Bytes 1, BigInt (int 1), Bytes 0]" by simp
  have "\<exists>w. Replace3_execute ?s =
      (Inr 1, ?s\<lparr>c_heap := c_heap ?s @ [w], i_stack := stk [Bytes (length (c_heap ?s))]\<rparr>) \<and>
    length w = 4 \<and> take 1 w = [1] \<and> drop 3 w = [4]"
    using replace_extract [OF i _ d, simplified] by (auto simp: numeral_3_eq_3 numeral_eq_Suc [of "num.Bit0 (num.Bit0 num.One)"])
  then obtain w where w: "Replace3_execute ?s =
      (Inr 1, ?s\<lparr>c_heap := c_heap ?s @ [w], i_stack := stk [Bytes (length (c_heap ?s))]\<rparr>)"
    "length w = 4" "take 1 w = [1]" "drop 3 w = [4]" by blast
  then show ?thesis by (intro exI [of _ w]) (simp add: sample_interp_def)
qed

end
