(* ===== verification/TEAL_StackOps.thy ===== *)
theory TEAL_StackOps
  imports TEAL_State
begin

text \<open>
  The opcodes of \<^verbatim>\<open>opcode-list.ts\<close> that move values: within the stack, between the stack and the
  scratch space (of this transaction and of earlier ones of the group), and from constants, constant
  blocks and arguments to the stack.
\<close>

section \<open>Moving values within the stack\<close>

definition Pop_execute :: "int opM" where
  "Pop_execute = seqM (assertMinStackLen 1) (bindM popM (\<lambda>_. computeCost))"

definition Dup_execute :: "int opM" where
  "Dup_execute =
     seqM (assertMinStackLen 1)
    (bindM popM (\<lambda>lastValue. seqM (pushM lastValue) (seqM (pushM lastValue) computeCost)))"

definition Dup2_execute :: "int opM" where
  "Dup2_execute =
     seqM (assertMinStackLen 2)
    (bindM popM (\<lambda>lastValueA. bindM popM (\<lambda>lastValueB.
      seqM (pushM lastValueB) (seqM (pushM lastValueA)
     (seqM (pushM lastValueB) (seqM (pushM lastValueA) computeCost))))))"

definition Swap_execute :: "int opM" where
  "Swap_execute =
     seqM (assertMinStackLen 2)
    (bindM popM (\<lambda>a. bindM popM (\<lambda>b. seqM (pushM a) (seqM (pushM b) computeCost))))"

definition Select_execute :: "int opM" where
  "Select_execute =
     seqM (assertMinStackLen 3)
    (bindM popBigInt (\<lambda>toCheck. bindM popM (\<lambda>notZeroSelection. bindM popM (\<lambda>isZeroSelection.
      seqM (if toCheck \<noteq> 0 then pushM notZeroSelection else pushM isZeroSelection) computeCost))))"

text \<open>The counting loops of \<^verbatim>\<open>stack.pop()\<close> into an array, in the order of the pops, and of pushes.\<close>

primrec popsM :: "nat \<Rightarrow> stack_elem list opM" where
    "popsM 0 = returnM []"
  | "popsM (Suc n) = bindM popM (\<lambda>x. bindM (popsM n) (\<lambda>xs. returnM (x # xs)))"

definition pushesM :: "stack_elem list \<Rightarrow> unit opM" where
  "pushesM xs = forM xs pushM"

text \<open>
  \<^verbatim>\<open>dig n\<close> moves \<open>n + 1\<close> elements to a temporary stack of that capacity and back, then pushes a copy of
  the last one it popped.
\<close>

definition Dig_execute :: "nat \<Rightarrow> int opM" where
  "Dig_execute depth =
     seqM (assertMinStackLen (depth + 1))
    (bindM (popsM (depth + 1)) (\<lambda>tempStack.
      seqM (pushesM (rev tempStack)) (seqM (pushM (last tempStack)) computeCost)))"

definition Cover_execute :: "int \<Rightarrow> int opM" where
  "Cover_execute nthInStack =
     seqM (assertMinStackLen (nat (nthInStack + 1)))
    (bindM popM (\<lambda>top. bindM (popsM (nat nthInStack)) (\<lambda>temp.
      seqM (pushM top) (seqM (pushesM (rev temp)) computeCost))))"

definition Uncover_execute :: "int \<Rightarrow> int opM" where
  "Uncover_execute nthInStack =
     seqM (assertMinStackLen (nat (nthInStack + 1)))
    (bindM (popsM (nat nthInStack)) (\<lambda>temp. bindM popM (\<lambda>deepValue.
      seqM (pushesM (rev temp)) (seqM (pushM deepValue) computeCost))))"

section \<open>Scratch space\<close>

definition scratchM :: "stack_elem list opM" where
  "scratchM = getM i_scratch"

definition Store_execute :: "int \<Rightarrow> int opM" where
  "Store_execute index =
     bindM scratchM (\<lambda>scratch.
     seqM (checkIndexBound index scratch)
    (seqM (assertMinStackLen 1)
    (bindM popM (\<lambda>top.
     seqM (modifyM (\<lambda>s. s\<lparr>i_scratch := (i_scratch s)[nat index := top]\<rparr>)) computeCost))))"

definition Load_execute :: "int \<Rightarrow> int opM" where
  "Load_execute index =
     bindM scratchM (\<lambda>scratch.
     seqM (checkIndexBound index scratch)
    (seqM (pushM (scratch ! nat index)) computeCost))"

definition Loads_execute :: "int opM" where
  "Loads_execute =
     seqM (assertMinStackLen 1)
    (bindM popBigInt (\<lambda>top. Load_execute (js_Number top)))"

definition Stores_execute :: "int opM" where
  "Stores_execute =
     seqM (assertMinStackLen 2)
    (bindM popM (\<lambda>v. bindM popBigInt (\<lambda>index. bindM scratchM (\<lambda>scratch.
     seqM (checkIndexBound (js_Number index) scratch)
    (seqM (modifyM (\<lambda>s. s\<lparr>i_scratch := (i_scratch s)[nat (js_Number index) := v]\<rparr>)) computeCost)))))"

text \<open>The scratch space an earlier transaction of the group left in the context.\<close>

definition Gload_execute :: "int \<Rightarrow> int \<Rightarrow> int opM" where
  "Gload_execute txIndex scratchIndex =
     bindM (getM (\<lambda>s. map_of (c_sharedScratchSpace s) txIndex)) (\<lambda>found.
     bindM (someM (TEAL SCRATCH_EXIST_ERROR) found) (\<lambda>scratch.
     seqM (checkIndexBound scratchIndex scratch)
    (seqM (pushM (scratch ! nat scratchIndex)) computeCost)))"

definition Gloads_execute :: "int \<Rightarrow> int opM" where
  "Gloads_execute scratchIndex =
     seqM (assertMinStackLen 1)
    (bindM popBigInt (\<lambda>t. Gload_execute (js_Number t) scratchIndex))"

definition Gloadss_execute :: "int opM" where
  "Gloadss_execute =
     seqM (assertMinStackLen 2)
    (bindM popBigInt (\<lambda>i. bindM popBigInt (\<lambda>t. Gload_execute (js_Number t) (js_Number i))))"

fun stack_execute :: "stack_op \<Rightarrow> int opM" where
    "stack_execute PopOp = Pop_execute"
  | "stack_execute Dup = Dup_execute"
  | "stack_execute Dup2 = Dup2_execute"
  | "stack_execute Swap = Swap_execute"
  | "stack_execute Select = Select_execute"
  | "stack_execute (Dig n) = Dig_execute n"
  | "stack_execute (Cover n) = Cover_execute n"
  | "stack_execute (Uncover n) = Uncover_execute n"
  | "stack_execute (Store n) = Store_execute (int n)"
  | "stack_execute (Load n) = Load_execute (int n)"
  | "stack_execute Stores = Stores_execute"
  | "stack_execute Loads = Loads_execute"
  | "stack_execute (Gload t i) = Gload_execute t i"
  | "stack_execute (Gloads i) = Gloads_execute i"
  | "stack_execute Gloadss = Gloadss_execute"

section \<open>Constants and arguments\<close>

definition Int_execute :: "int \<Rightarrow> int opM" where
  "Int_execute uint64 = seqM (pushM (BigInt uint64)) computeCost"

definition PushInt_execute :: "int \<Rightarrow> int opM" where
  "PushInt_execute uint64 = seqM (pushM (BigInt uint64)) computeCost"

text \<open>\<^verbatim>\<open>byte\<close> and \<^verbatim>\<open>pushbytes\<close> decode their literal on every execution, so each push is a new array.\<close>

definition Byte_execute :: "error + bytes \<Rightarrow> int opM" where
  "Byte_execute converted = bindM (liftM converted) (\<lambda>buffer. seqM (pushBytesM buffer) computeCost)"

definition PushBytes_execute :: "bytes \<Rightarrow> int opM" where
  "PushBytes_execute buffer = seqM (pushBytesM buffer) computeCost"

definition Intcblock_execute :: "int list \<Rightarrow> int opM" where
  "Intcblock_execute intcblock =
     seqM (assertArrLength intcblock)
    (seqM (modifyM (\<lambda>s. s\<lparr>i_intcblock := intcblock\<rparr>)) computeCost)"

definition Intc_execute :: "int \<Rightarrow> int opM" where
  "Intc_execute index =
     bindM (getM i_intcblock) (\<lambda>intcblock.
     seqM (checkIndexBound index intcblock)
    (seqM (pushM (BigInt (intcblock ! nat index))) computeCost))"

text \<open>The arrays of a \<^verbatim>\<open>bytecblock\<close> are made once, by the constructor: the opcode hands out references.\<close>

definition Bytecblock_execute :: "nat list \<Rightarrow> int opM" where
  "Bytecblock_execute bytecblock =
     seqM (assertArrLength bytecblock)
    (seqM (modifyM (\<lambda>s. s\<lparr>i_bytecblock := bytecblock\<rparr>)) computeCost)"

definition Bytec_execute :: "int \<Rightarrow> int opM" where
  "Bytec_execute index =
     bindM (getM i_bytecblock) (\<lambda>bytecblock.
     seqM (checkIndexBound index bytecblock)
    (seqM (pushM (Bytes (bytecblock ! nat index))) computeCost))"

definition Arg_execute :: "int \<Rightarrow> int opM" where
  "Arg_execute index =
     bindM (getM c_args) (\<lambda>args.
     seqM (checkIndexBound index args)
    (seqM (pushM (Bytes (args ! nat index))) computeCost))"

definition Args_execute :: "int opM" where
  "Args_execute =
     seqM (assertMinStackLen 1)
    (bindM popBigInt (\<lambda>top. Arg_execute (js_Number top)))"

fun const_execute :: "const_op \<Rightarrow> int opM" where
    "const_execute (IntOp n) = Int_execute n"
  | "const_execute (PushInt n) = PushInt_execute n"
  | "const_execute (Byte _ b) = Byte_execute b"
  | "const_execute (PushBytes b) = PushBytes_execute b"
  | "const_execute (Intcblock ns) = Intcblock_execute ns"
  | "const_execute (Intc n) = Intc_execute n"
  | "const_execute (Bytecblock rs) = Bytecblock_execute rs"
  | "const_execute (Bytec n) = Bytec_execute n"
  | "const_execute (Arg n) = Arg_execute (int n)"
  | "const_execute Args = Args_execute"

lemmas stack_defs =
  Pop_execute_def Dup_execute_def Dup2_execute_def Swap_execute_def Select_execute_def
  Dig_execute_def Cover_execute_def Uncover_execute_def scratchM_def Store_execute_def
  Load_execute_def Loads_execute_def Stores_execute_def Gload_execute_def Gloads_execute_def
  Gloadss_execute_def

lemmas const_defs =
  Int_execute_def PushInt_execute_def Byte_execute_def PushBytes_execute_def Intcblock_execute_def
  Intc_execute_def Bytecblock_execute_def Bytec_execute_def Arg_execute_def Args_execute_def

section \<open>Evaluation\<close>

lemma popsM_stk [exec_simps]:
  "i_stack s = stk (xs @ ys) \<Longrightarrow> popsM (length xs) s = (Inr xs, s\<lparr>i_stack := stk ys\<rparr>)"
proof (induction xs arbitrary: s)
  case (Cons x xs)
  then show ?case
    using Cons.IH [of "s\<lparr>i_stack := stk (xs @ ys)\<rparr>"] by (simp add: exec_simps)
qed (simp add: exec_simps)

lemma pushesM_stk [exec_simps]:
  "i_stack s = stk ys \<Longrightarrow> length xs + length ys \<le> 1000 \<Longrightarrow>
   pushesM xs s = (Inr (), s\<lparr>i_stack := stk (rev xs @ ys)\<rparr>)"
proof (induction xs arbitrary: s ys)
  case (Cons x xs)
  then show ?case
    using Cons.IH [of "s\<lparr>i_stack := stk (x # ys)\<rparr>" "x # ys"]
    by (simp add: pushesM_def exec_simps)
qed (simp add: pushesM_def exec_simps)

section \<open>Properties\<close>

text \<open>
  C36: \<^verbatim>\<open>cover n\<close> moves the top of the stack below the \<open>n\<close> elements under it and \<^verbatim>\<open>uncover n\<close> brings the
  element at depth \<open>n\<close> to the top; one undoes the other, and \<^verbatim>\<open>dig n\<close> copies the element at depth \<open>n\<close>
  to the top without moving anything.
\<close>

theorem cover_uncover:
  assumes "i_stack s = stk (x # xs @ rest)" "length xs + length rest < 999"
  shows "Cover_execute (int (length xs)) s = (Inr 1, s\<lparr>i_stack := stk (xs @ x # rest)\<rparr>) \<and>
    Uncover_execute (int (length xs)) (s\<lparr>i_stack := stk (xs @ x # rest)\<rparr>) = (Inr 1, s) \<and>
    Dig_execute (length xs) (s\<lparr>i_stack := stk (xs @ x # rest)\<rparr>) =
      (Inr 1, s\<lparr>i_stack := stk (x # xs @ x # rest)\<rparr>)"
proof (intro conjI)
  show "Cover_execute (int (length xs)) s = (Inr 1, s\<lparr>i_stack := stk (xs @ x # rest)\<rparr>)"
    using assms by (simp add: Cover_execute_def exec_simps nat_add_distrib)
  have "s\<lparr>i_stack := stk (x # xs @ rest)\<rparr> = s" using assms(1) by simp
  then show "Uncover_execute (int (length xs)) (s\<lparr>i_stack := stk (xs @ x # rest)\<rparr>) = (Inr 1, s)"
    using assms by (simp add: Uncover_execute_def exec_simps nat_add_distrib)
  have "popsM (length (xs @ [x])) (s\<lparr>i_stack := stk (xs @ x # rest)\<rparr>) =
      (Inr (xs @ [x]), s\<lparr>i_stack := stk rest\<rparr>)"
    by (subst popsM_stk [of _ _ rest]) simp_all
  then show "Dig_execute (length xs) (s\<lparr>i_stack := stk (xs @ x # rest)\<rparr>) =
      (Inr 1, s\<lparr>i_stack := stk (x # xs @ x # rest)\<rparr>)"
    using assms by (simp add: Dig_execute_def exec_simps del: popsM.simps)
qed

lemma cover_uncover_witness:
  "Cover_execute 2 (sample_interp [] [BigInt 1, BigInt 2, BigInt 3, BigInt 4]) =
     (Inr 1, sample_interp [] [BigInt 2, BigInt 3, BigInt 1, BigInt 4])"
  using cover_uncover [of "sample_interp [] [BigInt 1, BigInt 2, BigInt 3, BigInt 4]" "BigInt 1"
      "[BigInt 2, BigInt 3]" "[BigInt 4]"]
  by (simp add: sample_interp_def numeral_2_eq_2)

text \<open>
  A value that \<^verbatim>\<open>stores\<close> puts into a slot of the scratch space is what \<^verbatim>\<open>loads\<close> of the slot pushes,
  the same array for a byte value; the other slots are unchanged, and an index outside the 256 slots
  is an error that stores nothing.
\<close>

theorem stores_loads:
  assumes "i_stack s = stk (v # BigInt i # rest)" "length rest + 2 \<le> 1000" "length (i_scratch s) = 256"
    and "0 \<le> i" "i \<le> MAX_UINT64"
  shows "if i < 256
    then Stores_execute s = (Inr 1, s\<lparr>i_stack := stk rest, i_scratch := (i_scratch s)[nat i := v]\<rparr>) \<and>
      bindM Stores_execute (\<lambda>_. seqM (pushBigInt i) Loads_execute) s =
        (Inr 1, s\<lparr>i_stack := stk (v # rest), i_scratch := (i_scratch s)[nat i := v]\<rparr>)
    else fst (Stores_execute s) = Inl (TEAL INDEX_OUT_OF_BOUND) \<and>
      i_scratch (snd (Stores_execute s)) = i_scratch s"
proof (cases "i < 256")
  case True
  then have "nat i < 256" using assms(4) by linarith
  then show ?thesis
    using True assms by (simp add: Stores_execute_def Loads_execute_def Load_execute_def scratchM_def exec_simps)
next
  case False
  then have "256 \<le> js_Number i"
    using js_Number_ge [of 256 i] by simp
  then show ?thesis
    using False assms by (simp add: Stores_execute_def scratchM_def exec_simps)
qed

lemma stores_loads_witness:
  "bindM Stores_execute (\<lambda>_. seqM (pushBigInt 7) Loads_execute) (sample_interp [] [BigInt 5, BigInt 7]) =
    (Inr 1, (sample_interp [] [BigInt 5])\<lparr>i_scratch := (replicate 256 (BigInt 0))[7 := BigInt 5]\<rparr>)"
  using stores_loads [of "sample_interp [] [BigInt 5, BigInt 7]" "BigInt 5" 7 "[]"]
  by (simp add: sample_interp_def new_Interpreter_def ctx.defs)

end
