(* ===== verification/TEAL_Flow.thy ===== *)
theory TEAL_Flow
  imports TEAL_StackOps
begin

text \<open>
  Control flow: labels and branches (\<^verbatim>\<open>Interpreter.jumpForward\<close>, \<^verbatim>\<open>Interpreter.jumpToLabel\<close>,
  \<^verbatim>\<open>Interpreter.mapLabelWithIndexes\<close>), subroutines, \<^verbatim>\<open>switch\<close>, \<^verbatim>\<open>return\<close>, \<^verbatim>\<open>assert\<close> and \<^verbatim>\<open>err\<close>.
  A jump leaves the instruction index on the label, and the main loop increments it.
\<close>

section \<open>Labels\<close>

fun label_of :: "instr \<Rightarrow> string option" where
    "label_of (Flow (Label l)) = Some l"
  | "label_of _ = None"

definition is_Label :: "instr \<Rightarrow> bool" where
  "is_Label i \<longleftrightarrow> label_of i \<noteq> None"

text \<open>\<^verbatim>\<open>mapLabelWithIndexes\<close>: the last label of a name wins.\<close>

primrec label_map :: "instr list \<Rightarrow> nat \<Rightarrow> (string, nat) jsmap \<Rightarrow> (string, nat) jsmap" where
    "label_map [] idx m = m"
  | "label_map (i # is) idx m =
      label_map is (idx + 1) (case label_of i of None \<Rightarrow> m | Some l \<Rightarrow> AList.update l idx m)"

definition mapLabelWithIndexes :: "unit opM" where
  "mapLabelWithIndexes = modifyM (\<lambda>s. s\<lparr>i_labelMap := label_map (i_instructions s) 0 (i_labelMap s)\<rparr>)"

text \<open>
  The loop over consecutive labels, \<^verbatim>\<open>for (; i < instructions.length - 1; ++i)\<close> with its break at the
  first instruction that is no label: the index where it stops.
\<close>

function skip_labels :: "instr list \<Rightarrow> nat \<Rightarrow> nat" where
  "skip_labels is i =
     (if i + 1 < length is \<and> is_Label (is ! (i + 1)) then skip_labels is (i + 1) else i)"
  by auto
termination by (relation "measure (\<lambda>(is, i). length is - i)") auto

declare skip_labels.simps [simp del]

text \<open>\<^verbatim>\<open>while (++this.instructionIndex < this.instructions.length)\<close>\<close>

function find_forward :: "instr list \<Rightarrow> string \<Rightarrow> nat \<Rightarrow> nat option" where
  "find_forward is l i =
     (if i + 1 < length is
      then if label_of (is ! (i + 1)) = Some l then Some (skip_labels is (i + 1))
           else find_forward is l (i + 1)
      else None)"
  by auto
termination by (relation "measure (\<lambda>(is, l, i). length is - i)") auto

declare find_forward.simps [simp del]

definition jumpForward :: "string \<Rightarrow> unit opM" where
  "jumpForward label = (\<lambda>s.
     case find_forward (i_instructions s) label (i_instructionIndex s) of
       Some j \<Rightarrow> (Inr (), s\<lparr>i_instructionIndex := j\<rparr>)
     | None \<Rightarrow> (Inl (TEAL LABEL_NOT_FOUND),
                s\<lparr>i_instructionIndex := max (i_instructionIndex s + 1) (length (i_instructions s))\<rparr>))"

text \<open>
  \<^verbatim>\<open>jumpToLabel\<close> assigns the instruction index only at the break of its loop. The label is missing
  when \<^verbatim>\<open>switch\<close> reads past its list of labels.
\<close>

definition jumpToLabel :: "string option \<Rightarrow> unit opM" where
  "jumpToLabel label = (\<lambda>s.
     case (case label of None \<Rightarrow> None | Some l \<Rightarrow> map_of (i_labelMap s) l) of
       None \<Rightarrow> (Inl (TEAL LABEL_NOT_FOUND), s)
     | Some toInstructionIndex \<Rightarrow>
         (let currentIndex = skip_labels (i_instructions s) toInstructionIndex
          in if currentIndex + 1 < length (i_instructions s)
             then (Inr (), s\<lparr>i_instructionIndex := currentIndex\<rparr>)
             else (Inr (), s)))"

section \<open>The opcodes\<close>

definition Pragma_execute :: "int opM" where
  "Pragma_execute = returnM 0"

definition Label_execute :: "int opM" where
  "Label_execute = returnM 0"

definition Branch_execute :: "string \<Rightarrow> int opM" where
  "Branch_execute label = seqM (jumpForward label) computeCost"

definition Branchv4_execute :: "string \<Rightarrow> int opM" where
  "Branchv4_execute label = seqM (jumpToLabel (Some label)) computeCost"

definition BranchIfZero_execute :: "string \<Rightarrow> int opM" where
  "BranchIfZero_execute label =
     seqM (assertMinStackLen 1)
    (bindM popBigInt (\<lambda>last. seqM (if last = 0 then jumpForward label else returnM ()) computeCost))"

definition BranchIfZerov4_execute :: "string \<Rightarrow> int opM" where
  "BranchIfZerov4_execute label =
     seqM (assertMinStackLen 1)
    (bindM popBigInt (\<lambda>last. seqM (if last = 0 then jumpToLabel (Some label) else returnM ()) computeCost))"

definition BranchIfNotZero_execute :: "string \<Rightarrow> int opM" where
  "BranchIfNotZero_execute label =
     seqM (assertMinStackLen 1)
    (bindM popBigInt (\<lambda>last. seqM (if last \<noteq> 0 then jumpForward label else returnM ()) computeCost))"

definition BranchIfNotZerov4_execute :: "string \<Rightarrow> int opM" where
  "BranchIfNotZerov4_execute label =
     seqM (assertMinStackLen 1)
    (bindM popBigInt (\<lambda>last. seqM (if last \<noteq> 0 then jumpToLabel (Some label) else returnM ()) computeCost))"

definition callStack_push :: "nat \<Rightarrow> unit opM" where
  "callStack_push i = (\<lambda>s. case stack_push i (i_callStack s) of
     Inl e \<Rightarrow> (Inl e, s) | Inr st \<Rightarrow> (Inr (), s\<lparr>i_callStack := st\<rparr>))"

definition callStack_pop :: "nat opM" where
  "callStack_pop = (\<lambda>s. case stack_pop (i_callStack s) of
     Inl e \<Rightarrow> (Inl e, s) | Inr (i, st) \<Rightarrow> (Inr i, s\<lparr>i_callStack := st\<rparr>))"

definition Callsub_execute :: "string \<Rightarrow> int opM" where
  "Callsub_execute label =
     bindM (getM i_instructionIndex) (\<lambda>i.
     seqM (callStack_push i) (seqM (jumpToLabel (Some label)) computeCost))"

definition Retsub_execute :: "int opM" where
  "Retsub_execute =
     bindM (getM (\<lambda>s. stack_length (i_callStack s))) (\<lambda>n.
     seqM (assertM (n \<noteq> 0) (TEAL CALL_STACK_EMPTY))
    (bindM callStack_pop (\<lambda>i.
     seqM (modifyM (\<lambda>s. s\<lparr>i_instructionIndex := i\<rparr>)) computeCost)))"

definition Switch_execute :: "string list \<Rightarrow> int opM" where
  "Switch_execute labels =
     seqM (assertMinStackLen 1)
    (bindM popBigInt (\<lambda>top.
      (let index = js_Number top; labelsLength = length labels
       in if index > int labelsLength \<or> labelsLength = 0 then computeCost
          else seqM (jumpToLabel (if 0 \<le> index \<and> index < int labelsLength then Some (labels ! nat index) else None))
               computeCost)))"

text \<open>\<^verbatim>\<open>while (stack.length()) { stack.pop(); }\<close>\<close>

definition clear_stack :: "unit opM" where
  "clear_stack = bindM (getM (\<lambda>s. stack_length (i_stack s))) (\<lambda>n. bindM (popsM n) (\<lambda>_. returnM ()))"

definition Return_execute :: "int opM" where
  "Return_execute =
     seqM (assertMinStackLen 1)
    (bindM popM (\<lambda>last.
     seqM clear_stack
    (seqM (pushM last)
    (seqM (modifyM (\<lambda>s. s\<lparr>i_instructionIndex := length (i_instructions s)\<rparr>)) computeCost))))"

definition Assert_execute :: "int opM" where
  "Assert_execute =
     seqM (assertMinStackLen 1)
    (bindM popBigInt (\<lambda>top. seqM (assertM (top \<noteq> 0) (TEAL TEAL_ENCOUNTERED_ERR)) computeCost))"

definition Err_execute :: "int opM" where
  "Err_execute = throwM (TEAL TEAL_ENCOUNTERED_ERR)"

fun flow_execute :: "flow_op \<Rightarrow> int opM" where
    "flow_execute (Pragma _) = Pragma_execute"
  | "flow_execute (Label _) = Label_execute"
  | "flow_execute (Branch l) = Branch_execute l"
  | "flow_execute (Branchv4 l) = Branchv4_execute l"
  | "flow_execute (BranchIfZero l) = BranchIfZero_execute l"
  | "flow_execute (BranchIfZerov4 l) = BranchIfZerov4_execute l"
  | "flow_execute (BranchIfNotZero l) = BranchIfNotZero_execute l"
  | "flow_execute (BranchIfNotZerov4 l) = BranchIfNotZerov4_execute l"
  | "flow_execute (Callsub l) = Callsub_execute l"
  | "flow_execute Retsub = Retsub_execute"
  | "flow_execute (Switch ls) = Switch_execute ls"
  | "flow_execute Return = Return_execute"
  | "flow_execute Assert = Assert_execute"
  | "flow_execute Err = Err_execute"

lemmas flow_defs =
  Pragma_execute_def Label_execute_def Branch_execute_def Branchv4_execute_def BranchIfZero_execute_def
  BranchIfZerov4_execute_def BranchIfNotZero_execute_def BranchIfNotZerov4_execute_def
  Callsub_execute_def Retsub_execute_def Switch_execute_def Return_execute_def Assert_execute_def
  Err_execute_def

section \<open>Where jumps land\<close>

lemma skip_labels_ge: "i \<le> skip_labels is i"
proof (induction "is" i rule: skip_labels.induct)
  case (1 "is" i)
  then show ?case by (subst skip_labels.simps) (auto dest: Suc_leD)
qed

lemma skip_labels_less: "i < length is \<Longrightarrow> skip_labels is i < length is"
proof (induction "is" i rule: skip_labels.induct)
  case (1 "is" i)
  then show ?case by (subst skip_labels.simps) auto
qed

lemma skip_labels_between: "i < j \<Longrightarrow> j \<le> skip_labels is i \<Longrightarrow> is_Label (is ! j)"
proof (induction "is" i rule: skip_labels.induct)
  case (1 "is" i)
  from 1(3) have c: "i + 1 < length is \<and> is_Label (is ! (i + 1))"
    using 1(2) by (subst (asm) skip_labels.simps) (auto split: if_splits)
  then have "skip_labels is i = skip_labels is (i + 1)" by (subst skip_labels.simps) simp
  then show ?case using 1 c by (cases "j = i + 1") auto
qed

lemma skip_labels_stop:
  "skip_labels is i + 1 < length is \<Longrightarrow> \<not> is_Label (is ! (skip_labels is i + 1))"
proof (induction "is" i rule: skip_labels.induct)
  case (1 "is" i)
  show ?case
  proof (cases "i + 1 < length is \<and> is_Label (is ! (i + 1))")
    case True
    then have "skip_labels is i = skip_labels is (i + 1)" by (subst skip_labels.simps) simp
    then show ?thesis using 1 True by simp
  next
    case False
    then have "skip_labels is i = i" by (subst skip_labels.simps) auto
    then show ?thesis using 1(2) False by simp
  qed
qed

text \<open>The first instruction at or after a position that is no label; the end of the program if none.\<close>

primrec first_op :: "instr list \<Rightarrow> nat" where
    "first_op [] = 0"
  | "first_op (i # is) = (if is_Label i then Suc (first_op is) else 0)"

definition target :: "instr list \<Rightarrow> nat \<Rightarrow> nat" where
  "target is i = i + first_op (drop i is)"

lemma target_step:
  "i < length is \<Longrightarrow> target is i = (if is_Label (is ! i) then target is (i + 1) else i)"
  by (simp add: target_def flip: Cons_nth_drop_Suc)

lemma target_end: "length is \<le> i \<Longrightarrow> target is i = i"
  by (simp add: target_def)

lemma skip_labels_target:
  "i < length is \<Longrightarrow> is_Label (is ! i) \<Longrightarrow> target is i = skip_labels is i + 1"
proof (induction "is" i rule: skip_labels.induct)
  case (1 "is" i)
  have t: "target is i = target is (i + 1)" using 1(2,3) by (simp add: target_step)
  show ?case
  proof (cases "i + 1 < length is \<and> is_Label (is ! (i + 1))")
    case True
    then show ?thesis using 1 t by (subst skip_labels.simps) simp
  next
    case False
    then have "target is (i + 1) = i + 1"
      by (cases "i + 1 < length is") (simp_all add: target_step target_end)
    then show ?thesis using False t by (subst skip_labels.simps) auto
  qed
qed

lemma target_le: "i \<le> length is \<Longrightarrow> target is i \<le> length is"
proof -
  have "first_op xs \<le> length xs" for xs by (induction xs) auto
  from this [of "drop i is"] show "i \<le> length is \<Longrightarrow> target is i \<le> length is"
    by (simp add: target_def)
qed

text \<open>The positions where a label is declared, and the label map of a program in terms of them.\<close>

definition decls :: "instr list \<Rightarrow> string \<Rightarrow> nat list" where
  "decls is l = filter (\<lambda>k. label_of (is ! k) = Some l) [0..<length is]"

lemma decls_Cons:
  "decls (i # is) l = (if label_of i = Some l then 0 # List.map Suc (decls is l) else List.map Suc (decls is l))"
proof -
  have "[0..<length (i # is)] = 0 # List.map Suc [0..<length is]"
    by (simp add: upt_conv_Cons map_Suc_upt del: upt_Suc)
  then show ?thesis by (simp add: decls_def filter_map comp_def del: upt_Suc)
qed

lemma decls_mem: "k \<in> set (decls is l) \<Longrightarrow> k < length is \<and> is_Label (is ! k)"
  by (simp add: decls_def is_Label_def)

lemma label_map_decls:
  "map_of (label_map is idx m) l =
    (if decls is l = [] then map_of m l else Some (idx + last (decls is l)))"
proof (induction "is" arbitrary: idx m)
  case Nil
  then show ?case by (simp add: decls_def)
next
  case (Cons i "is")
  have "map_of (case label_of i of None \<Rightarrow> m | Some l \<Rightarrow> AList.update l idx m) l =
      (if label_of i = Some l then Some idx else map_of m l)"
    by (auto split: option.splits)
  then show ?case by (auto simp: Cons.IH decls_Cons last_map)
qed

text \<open>The first declaration of a label behind a position.\<close>

definition next_decl :: "instr list \<Rightarrow> string \<Rightarrow> nat \<Rightarrow> nat option" where
  "next_decl is l i = List.find (\<lambda>k. label_of (is ! k) = Some l) [i + 1..<length is]"

lemma next_decl_Some: "next_decl is l i = Some k \<Longrightarrow> i < k \<and> k < length is \<and> is_Label (is ! k)"
  by (auto simp: next_decl_def find_Some_iff is_Label_def)

lemma find_forward_decl: "find_forward is l i = map_option (skip_labels is) (next_decl is l i)"
proof (induction "is" l i rule: find_forward.induct)
  case (1 "is" l i)
  show ?case
  proof (cases "i + 1 < length is")
    case True
    then have "next_decl is l i = (if label_of (is ! (i + 1)) = Some l then Some (i + 1) else next_decl is l (i + 1))"
      by (simp add: next_decl_def upt_conv_Cons)
    then show ?thesis using 1 True by (subst find_forward.simps) simp
  next
    case False
    then show ?thesis by (subst find_forward.simps) (simp add: next_decl_def)
  qed
qed

section \<open>Properties\<close>

text \<open>
  C37: With the label map of the program, a version-4 jump to a label goes to the last declaration of the
  label and from there over all labels that follow: the next instruction executed is the first real
  instruction after it. An unknown label is an error. A label with no instruction after it does not move
  the instruction index at all, so execution goes on behind the branch instead of at the end.
\<close>

theorem jumpToLabel_correct:
  assumes "i_instructions s = is" "i_labelMap s = label_map is 0 []"
  shows "jumpToLabel (Some l) s =
    (if decls is l = [] then (Inl (TEAL LABEL_NOT_FOUND), s)
     else if target is (last (decls is l)) < length is
     then (Inr (), s\<lparr>i_instructionIndex := target is (last (decls is l)) - 1\<rparr>)
     else (Inr (), s))"
proof (cases "decls is l = []")
  case False
  then have "last (decls is l) < length is \<and> is_Label (is ! last (decls is l))"
    by (intro decls_mem [of _ _ l]) simp
  then have "target is (last (decls is l)) = skip_labels is (last (decls is l)) + 1"
    by (intro skip_labels_target) simp_all
  then show ?thesis using False assms by (simp add: jumpToLabel_def label_map_decls Let_def)
qed (use assms in \<open>simp add: jumpToLabel_def label_map_decls\<close>)

lemma jumpToLabel_correct_witness:
  "let is = [Flow (Label ''a''), Flow (Label ''b''), Flow Err, Flow (Label ''c'')];
       s = (sample_interp [] [])\<lparr>i_instructions := is, i_labelMap := label_map is 0 [], i_instructionIndex := 2\<rparr>
   in jumpToLabel (Some ''a'') s = (Inr (), s\<lparr>i_instructionIndex := 1\<rparr>) \<and>
      jumpToLabel (Some ''c'') s = (Inr (), s)"
proof -
  let ?is = "[Flow (Label ''a''), Flow (Label ''b''), Flow Err, Flow (Label ''c'')]"
  let ?s = "(sample_interp [] [])\<lparr>i_instructions := ?is, i_labelMap := label_map ?is 0 [], i_instructionIndex := 2\<rparr>"
  have d: "decls ?is ''a'' = [0]" "decls ?is ''c'' = [3]"
    by (simp_all add: decls_Cons decls_def [of "[]"])
  have t: "target ?is 0 = 2" "target ?is 3 = 4"
    by (simp_all add: target_def is_Label_def)
  show ?thesis
    using jumpToLabel_correct [of ?s ?is "''a''"] jumpToLabel_correct [of ?s ?is "''c''"]
    by (simp add: d t Let_def del: label_map.simps)
qed

text \<open>
  A branch of the versions up to 3 goes forward only: to the first declaration of the label behind the
  branch and over the labels that follow it, so the next instruction executed is the first real one
  after that declaration, which is behind the branch; without a declaration behind the branch it throws.
\<close>

theorem jumpForward_correct:
  "case next_decl (i_instructions s) l (i_instructionIndex s) of
     Some k \<Rightarrow> (let t = target (i_instructions s) k
       in i_instructionIndex s + 1 < t \<and> t \<le> length (i_instructions s) \<and>
          jumpForward l s = (Inr (), s\<lparr>i_instructionIndex := t - 1\<rparr>))
   | None \<Rightarrow> fst (jumpForward l s) = Inl (TEAL LABEL_NOT_FOUND)"
proof (cases "next_decl (i_instructions s) l (i_instructionIndex s)")
  case (Some k)
  note k = next_decl_Some [OF Some]
  then have "target (i_instructions s) k = skip_labels (i_instructions s) k + 1"
    by (intro skip_labels_target) simp_all
  then show ?thesis
    using Some k skip_labels_ge [of k "i_instructions s"] target_le [of k "i_instructions s"]
    by (simp add: jumpForward_def find_forward_decl Let_def)
qed (simp add: jumpForward_def find_forward_decl)

text \<open>
  C38: \<^verbatim>\<open>callsub\<close> saves the index of the call, and a \<^verbatim>\<open>retsub\<close> reached with the call stack that the call
  left goes back to it and restores the call stack of the caller; calls nest to a depth of 1000, and
  \<^verbatim>\<open>retsub\<close> outside a call is an error.
\<close>

theorem callsub_retsub:
  assumes "i_callStack s = stk cs"
  shows "(fst (Callsub_execute l s) = Inr c \<longrightarrow>
      i_callStack s2 = i_callStack (snd (Callsub_execute l s)) \<longrightarrow>
      Retsub_execute s2 = (Inr 1, s2\<lparr>i_instructionIndex := i_instructionIndex s, i_callStack := i_callStack s\<rparr>)) \<and>
    (length cs = 1000 \<longrightarrow> fst (Callsub_execute l s) = Inl (JsError (PlainError ''Stack overflow''))) \<and>
    (cs = [] \<longrightarrow> Retsub_execute s = (Inl (TEAL CALL_STACK_EMPTY), s))"
proof (intro conjI impI)
  assume c: "fst (Callsub_execute l s) = Inr c" and s2: "i_callStack s2 = i_callStack (snd (Callsub_execute l s))"
  have "length cs \<noteq> 1000"
    using c assms by (auto simp: Callsub_execute_def callStack_push_def exec_simps)
  then have "i_callStack (snd (Callsub_execute l s)) = stk (i_instructionIndex s # cs)"
    using assms by (auto simp: Callsub_execute_def callStack_push_def jumpToLabel_def exec_simps Let_def
        split: option.splits)
  then show "Retsub_execute s2 = (Inr 1, s2\<lparr>i_instructionIndex := i_instructionIndex s, i_callStack := i_callStack s\<rparr>)"
    using s2 assms by (simp add: Retsub_execute_def callStack_pop_def exec_simps)
qed (use assms in \<open>simp_all add: Callsub_execute_def callStack_push_def Retsub_execute_def exec_simps\<close>)

lemma callsub_retsub_witness:
  "let s = (sample_interp [] [])\<lparr>i_instructions := [Flow (Callsub ''f''), Flow (Label ''f''), Flow Retsub],
         i_labelMap := [(''f'', 1)]\<rparr>
   in bindM (Callsub_execute ''f'') (\<lambda>_. Retsub_execute) s = (Inr 1, s)"
proof -
  let ?s = "(sample_interp [] [])\<lparr>i_instructions := [Flow (Callsub ''f''), Flow (Label ''f''), Flow Retsub],
         i_labelMap := [(''f'', 1)]\<rparr>"
  have c: "i_callStack ?s = stk []" "i_instructionIndex ?s = 0"
    by (simp_all add: sample_interp_def new_Interpreter_def ctx.defs new_Stack_stk)
  have e: "Callsub_execute ''f'' ?s = (Inr 1, ?s\<lparr>i_callStack := stk [0], i_instructionIndex := 1\<rparr>)"
    using c by (simp add: Callsub_execute_def callStack_push_def jumpToLabel_def exec_simps Let_def
        skip_labels.simps is_Label_def)
  have "Retsub_execute (snd (Callsub_execute ''f'' ?s)) = (Inr 1, (snd (Callsub_execute ''f'' ?s))
      \<lparr>i_instructionIndex := i_instructionIndex ?s, i_callStack := i_callStack ?s\<rparr>)"
    using callsub_retsub [OF c(1), of "''f''" 1 "snd (Callsub_execute ''f'' ?s)"] e by simp
  then show ?thesis using c e by (simp add: exec_simps Let_def)
qed

text \<open>
  C39: \<^verbatim>\<open>switch\<close> jumps to the label of the index it pops and falls through when the index is beyond the
  number of labels; for the index equal to that number the code reads an undefined label and throws,
  where the instruction should fall through.
\<close>

theorem switch_correct:
  assumes "i_stack s = stk (BigInt i # rest)" "0 \<le> i" "i \<le> 2 ^ 53" "length labels \<le> 255"
  shows "Switch_execute labels s =
    (if i < int (length labels)
     then seqM (jumpToLabel (Some (labels ! nat i))) (returnM 1) (s\<lparr>i_stack := stk rest\<rparr>)
     else if i = int (length labels) \<and> labels \<noteq> []
     then (Inl (TEAL LABEL_NOT_FOUND), s\<lparr>i_stack := stk rest\<rparr>)
     else (Inr 1, s\<lparr>i_stack := stk rest\<rparr>))"
  using assms by (auto simp: Switch_execute_def exec_simps Let_def jumpToLabel_def computeCost_def)

lemma switch_correct_witness:
  "Switch_execute [''a'', ''b''] (sample_interp [] [BigInt 2]) = (Inl (TEAL LABEL_NOT_FOUND), sample_interp [] []) \<and>
   Switch_execute [''a'', ''b''] (sample_interp [] [BigInt 3]) = (Inr 1, sample_interp [] [])"
  using switch_correct [of "sample_interp [] [BigInt 2]" 2 "[]" "[''a'', ''b'']"]
    switch_correct [of "sample_interp [] [BigInt 3]" 3 "[]" "[''a'', ''b'']"]
  by (simp add: sample_interp_def)

lemma Return_execute_eq:
  assumes "i_stack s = stk (x # rest)"
  shows "Return_execute s = (Inr 1, s\<lparr>i_stack := stk [x], i_instructionIndex := length (i_instructions s)\<rparr>)"
proof -
  have "clear_stack (s\<lparr>i_stack := stk rest\<rparr>) = (Inr (), s\<lparr>i_stack := stk []\<rparr>)"
    using popsM_stk [of "s\<lparr>i_stack := stk rest\<rparr>" rest "[]"] by (simp add: clear_stack_def exec_simps)
  then show ?thesis using assms by (simp add: Return_execute_def exec_simps)
qed

end
