(* ===== verification/TEAL_Store.thy ===== *)
theory TEAL_Store
  imports TEAL_State
begin

text \<open>
  Lookups in the ledger of a context: the assertions of \<^verbatim>\<open>runtime.ts\<close> and the queries of \<^verbatim>\<open>ctx.ts\<close>,
  and how a method of an account object acts on the ledger that holds the object.
\<close>

section \<open>Queries\<close>

definition assertAccountDefined :: "string \<Rightarrow> account option \<Rightarrow> error + account" where
  "assertAccountDefined addr a =
     (case a of
        None \<Rightarrow> Inl (GENERAL ACCOUNT_DOES_NOT_EXIST)
      | Some acc \<Rightarrow> if address acc \<noteq> addr then Inl (GENERAL ACCOUNT_ADDR_MISMATCH) else Inr acc)"

definition assertAddressDefined :: "string option \<Rightarrow> error + string" where
  "assertAddressDefined addr = (case addr of None \<Rightarrow> Inl (GENERAL ACCOUNT_DOES_NOT_EXIST) | Some a \<Rightarrow> Inr a)"

definition assertAppDefined :: "app_attrs option \<Rightarrow> error + app_attrs" where
  "assertAppDefined app = (case app of None \<Rightarrow> Inl (GENERAL APP_NOT_FOUND) | Some a \<Rightarrow> Inr a)"

definition assertAssetDefined :: "asset_params option \<Rightarrow> error + asset_params" where
  "assertAssetDefined def = (case def of None \<Rightarrow> Inl (ASA ASSET_NOT_FOUND) | Some d \<Rightarrow> Inr d)"

definition ctx_getAccount :: "string \<Rightarrow> ledger \<Rightarrow> error + account" where
  "ctx_getAccount addr st = assertAccountDefined addr (map_of (accounts st) addr)"

definition ctx_getAssetAccount :: "int \<Rightarrow> ledger \<Rightarrow> error + account" where
  "ctx_getAssetAccount assetId st =
     (case map_of (assetDefs st) assetId of
        None \<Rightarrow> Inl (ASA ASSET_NOT_FOUND)
      | Some addr \<Rightarrow> ctx_getAccount addr st)"

definition ctx_getAssetDef :: "int \<Rightarrow> ledger \<Rightarrow> error + asset_params" where
  "ctx_getAssetDef assetId st =
     (case ctx_getAssetAccount assetId st of
        Inl e \<Rightarrow> Inl e
      | Inr creatorAcc \<Rightarrow> assertAssetDefined (getAssetDef assetId creatorAcc))"

definition ctx_getAssetHolding :: "int \<Rightarrow> string \<Rightarrow> ledger \<Rightarrow> error + asset_holding" where
  "ctx_getAssetHolding assetIndex addr st =
     (case ctx_getAccount addr st of
        Inl e \<Rightarrow> Inl e
      | Inr acc \<Rightarrow> (case getAssetHolding assetIndex acc of
            None \<Rightarrow> Inl (TRANSACTION ASA_NOT_OPTIN)
          | Some hld \<Rightarrow> Inr hld))"

text \<open>The owner of an application and the application; an undefined identifier is no key of the map.\<close>

definition app_owner :: "int option \<Rightarrow> ledger \<Rightarrow> error + account" where
  "app_owner appID st =
     (case appID of None \<Rightarrow> Inl (GENERAL APP_NOT_FOUND)
      | Some i \<Rightarrow>
        if map_of (globalApps st) i = None then Inl (GENERAL APP_NOT_FOUND)
        else (case assertAddressDefined (map_of (globalApps st) i) of
            Inl e \<Rightarrow> Inl e
          | Inr addr \<Rightarrow> ctx_getAccount addr st))"

definition ctx_getApp :: "int option \<Rightarrow> ledger \<Rightarrow> error + app_attrs" where
  "ctx_getApp appID st =
     (case app_owner appID st of
        Inl e \<Rightarrow> Inl e
      | Inr acc \<Rightarrow> assertAppDefined (Option.bind appID (\<lambda>i. getApp i acc)))"

lemma app_owner_eq:
  "app_owner appID st =
    (case Option.bind appID (map_of (globalApps st)) of
       None \<Rightarrow> Inl (GENERAL APP_NOT_FOUND) | Some addr \<Rightarrow> ctx_getAccount addr st)"
  by (auto simp: app_owner_def assertAddressDefined_def split: option.splits)

section \<open>Objects in the ledger\<close>

text \<open>
  A method of the account object at an address: the object in the ledger is what the method left, also
  when it threw. An address without account would be a method call on \<^verbatim>\<open>undefined\<close>.
\<close>

definition put_account :: "string \<Rightarrow> account \<Rightarrow> ledger \<Rightarrow> ledger" where
  "put_account addr a st = st\<lparr>accounts := AList.update addr a (accounts st)\<rparr>"

definition on_account :: "string \<Rightarrow> (account, 'a) exec \<Rightarrow> (ledger, 'a) exec" where
  "on_account addr m = (\<lambda>st.
     case map_of (accounts st) addr of
       None \<Rightarrow> (Inl (JsError TypeError), st)
     | Some a \<Rightarrow> (case m a of (r, a') \<Rightarrow> (r, put_account addr a' st)))"

text \<open>A computation on the ledger, run in a context.\<close>

definition on_ledger :: "(ledger, 'a) exec \<Rightarrow> ('x ctx_scheme, 'a) exec" where
  "on_ledger m = (\<lambda>c. case m (c_state c) of (r, st) \<Rightarrow> (r, c\<lparr>c_state := st\<rparr>))"

definition askM :: "(ledger \<Rightarrow> error + 'a) \<Rightarrow> ('x ctx_scheme, 'a) exec" where
  "askM f = (\<lambda>c. (f (c_state c), c))"

lemma on_account_Some [exec_simps]:
  "map_of (accounts st) addr = Some a \<Longrightarrow>
   on_account addr m st = (fst (m a), put_account addr (snd (m a)) st)"
  by (simp add: on_account_def split: prod.splits)

lemma on_ledger_apply [exec_simps]:
  "on_ledger m c = (fst (m (c_state c)), c\<lparr>c_state := snd (m (c_state c))\<rparr>)"
  by (simp add: on_ledger_def split: prod.splits)

lemma askM_apply [exec_simps]: "askM f c = (f (c_state c), c)"
  by (simp add: askM_def)

lemma ctx_getAccount_Inr:
  "ctx_getAccount addr st = Inr a \<longleftrightarrow> map_of (accounts st) addr = Some a \<and> address a = addr"
  by (auto simp: ctx_getAccount_def assertAccountDefined_def split: option.splits)

lemma put_account_simps [simp]:
  "map_of (accounts (put_account addr a st)) addr' = (if addr' = addr then Some a else map_of (accounts st) addr')"
  "globalApps (put_account addr a st) = globalApps st"
  "assetDefs (put_account addr a st) = assetDefs st"
  "wf_map (accounts st) \<Longrightarrow> wf_map (accounts (put_account addr a st))"
  by (simp_all add: put_account_def)

section \<open>Invariants of the ledger\<close>

text \<open>
  What a property of the ledger needs so that a method over a context keeps it, also when the method
  throws: it depends on the accounts and the asset counter alone. The rules follow the syntax of the method;
  what is left to prove are the account methods, one account at a time.
\<close>

locale ledger_inv =
  fixes P :: "ledger \<Rightarrow> bool"
  assumes inv_cong: "accounts st' = accounts st \<Longrightarrow> assetCounter st' = assetCounter st \<Longrightarrow> P st \<Longrightarrow> P st'"
begin

definition keeps :: "('x ctx_scheme, 'a) exec \<Rightarrow> bool" where
  "keeps m \<longleftrightarrow> (\<forall>c. P (c_state c) \<longrightarrow> P (c_state (snd (m c))))"

lemma keepsD: "keeps m \<Longrightarrow> m c = (r, c') \<Longrightarrow> P (c_state c) \<Longrightarrow> P (c_state c')"
  unfolding keeps_def by (metis snd_conv)

lemma keeps_bind:
  assumes "keeps m" "\<And>a. keeps (f a)"
  shows "keeps (bindM m f)"
  using assms by (fastforce simp: keeps_def bindM_def split: prod.splits sum.splits)

lemma keeps_seq: "keeps m \<Longrightarrow> keeps n \<Longrightarrow> keeps (seqM m n)"
  unfolding seqM_def by (rule keeps_bind)

lemma keeps_same:
  assumes "\<And>c. accounts (c_state (snd (m c))) = accounts (c_state c)"
    "\<And>c. assetCounter (c_state (snd (m c))) = assetCounter (c_state c)"
  shows "keeps m"
  using assms inv_cong by (simp add: keeps_def)

lemma keeps_basic:
  "keeps (returnM a)" "keeps (throwM e)" "keeps (getM g)" "keeps (assertM b e)" "keeps (liftM r)"
  "keeps (askM q)" "keeps (someM e x)" "keeps (\<lambda>s. (g' s, s))"
  by (rule keeps_same; simp add: exec_simps someM_def split: option.splits)+

lemma keeps_modify:
  assumes "\<And>c. accounts (c_state (f c)) = accounts (c_state c)" "\<And>c. assetCounter (c_state (f c)) = assetCounter (c_state c)"
  shows "keeps (modifyM f)"
  using assms by (intro keeps_same) (simp_all add: exec_simps)

lemma keeps_if: "(b \<Longrightarrow> keeps m) \<Longrightarrow> (\<not> b \<Longrightarrow> keeps n) \<Longrightarrow> keeps (if b then m else n)"
  by simp

lemma keeps_let: "keeps (f x) \<Longrightarrow> keeps (Let x f)"
  by simp

lemma keeps_cases:
  "keeps m \<Longrightarrow> (\<And>a. keeps (f a)) \<Longrightarrow> keeps (case x of None \<Rightarrow> m | Some a \<Rightarrow> f a)"
  "(\<And>n. keeps (g n)) \<Longrightarrow> (\<And>r. keeps (h r)) \<Longrightarrow> keeps (case y of BigInt n \<Rightarrow> g n | Bytes r \<Rightarrow> h r)"
  "(\<And>a b. keeps (k a b)) \<Longrightarrow> keeps (case z of (a, b) \<Rightarrow> k a b)"
  by (simp_all split: option.split stack_elem.split prod.split)

lemma keeps_on_account:
  assumes "\<And>st a. P st \<Longrightarrow> map_of (accounts st) addr = Some a \<Longrightarrow> P (put_account addr (snd (m a)) st)"
  shows "keeps (on_ledger (on_account addr m))"
  using assms by (fastforce simp: keeps_def exec_simps on_account_def split: option.splits prod.splits)

lemmas keeps_intros = keeps_bind keeps_seq keeps_basic keeps_modify keeps_if keeps_let keeps_cases
  keeps_on_account

end

end
