(* ===== verification/TEAL_LedgerOps.thy ===== *)
theory TEAL_LedgerOps
  imports TEAL_Store
begin

text \<open>
  The opcodes that read and write the ledger through the transaction being executed: how a program names
  accounts, applications and assets (\<^verbatim>\<open>Interpreter.getAccount\<close>, \<^verbatim>\<open>getAppIDByReference\<close>,
  \<^verbatim>\<open>getAssetIDByReference\<close>), and the opcodes on application state, balances, holdings and logs.
\<close>

section \<open>References\<close>

text \<open>An optional list of a transaction, \<^verbatim>\<open>?? []\<close>.\<close>

definition or_empty :: "'a list option \<Rightarrow> 'a list" where
  "or_empty xs = (case xs of None \<Rightarrow> [] | Some l \<Rightarrow> l)"

definition or_zero :: "int option \<Rightarrow> int" where
  "or_zero n = (case n of None \<Rightarrow> 0 | Some i \<Rightarrow> i)"

definition current_app :: "interp \<Rightarrow> int" where
  "current_app s = or_zero (tx_apid (c_tx s))"

definition createAccountIfAbsent :: "string \<Rightarrow> unit opM" where
  "createAccountIfAbsent addr = modifyM (\<lambda>s.
     case map_of (accounts (c_state s)) addr of
       Some _ \<Rightarrow> s
     | None \<Rightarrow> s\<lparr>c_state := put_account addr (new_AccountStore 0 addr [] None) (c_state s)\<rparr>)"

definition appPublicKey :: "sdk \<Rightarrow> int \<Rightarrow> error + bytes" where
  "appPublicKey X appID = decodeAddress X (getApplicationAddress X appID)"

fun is_foreign_account :: "sdk \<Rightarrow> bytes \<Rightarrow> int list \<Rightarrow> error + bool" where
    "is_foreign_account X pk [] = Inr False"
  | "is_foreign_account X pk (n # ns) =
      (case appPublicKey X n of
         Inl e \<Rightarrow> Inl e
       | Inr k \<Rightarrow> if pk = k then Inr True else is_foreign_account X pk ns)"

text \<open>The condition of \<^verbatim>\<open>_getAccountFromAddr\<close>, its disjuncts in the order of the code.\<close>

definition may_access :: "sdk \<Rightarrow> bytes \<Rightarrow> bool \<Rightarrow> interp \<Rightarrow> error + bool" where
  "may_access X pk immutable s =
     (if pk \<in> set (or_empty (tx_apat (c_tx s))) \<or> pk = tx_snd (c_tx s) then Inr True
      else case appPublicKey X (current_app s) of
          Inl e \<Rightarrow> Inl e
        | Inr k \<Rightarrow>
            if pk = k then Inr True
            else if 7 \<le> i_tealVersion s \<and> immutable
            then is_foreign_account X pk (or_empty (tx_apfa (c_tx s)))
            else Inr False)"

definition find_account :: "string \<Rightarrow> bool \<Rightarrow> account opM" where
  "find_account addr createFlag =
     seqM (if createFlag then createAccountIfAbsent addr else returnM ()) (askM (ctx_getAccount addr))"

definition getAccountFromAddr :: "sdk \<Rightarrow> bytes \<Rightarrow> bool \<Rightarrow> bool \<Rightarrow> account opM" where
  "getAccountFromAddr X pk createFlag immutable =
     bindM (getM i_tealVersion) (\<lambda>v.
     seqM (assertM (3 < v) (TEAL PRAGMA_VERSION_ERROR))
    (seqM (assertM (isValidAddress X (encodeAddress X pk)) (TEAL ADDR_NOT_VALID))
    (bindM (\<lambda>s. (may_access X pk immutable s, s)) (\<lambda>ok.
     if ok then find_account (encodeAddress X pk) createFlag
     else throwM (TEAL ADDR_NOT_FOUND_IN_TXN_ACCOUNT)))))"

definition getAccountFromReference :: "sdk \<Rightarrow> int \<Rightarrow> bool \<Rightarrow> account opM" where
  "getAccountFromReference X accountRef createFlag =
     bindM (getM c_tx) (\<lambda>tx.
       if js_Number accountRef \<in> set (or_empty (tx_apfa tx))
       then find_account (getApplicationAddress X accountRef) createFlag
       else
         (let accIndex = js_Number (accountRef - 1)
          in seqM (checkIndexBound accIndex (or_empty (tx_apat tx)))
            (find_account (encodeAddress X (or_empty (tx_apat tx) ! nat accIndex)) createFlag)))"

definition interp_getAccount :: "sdk \<Rightarrow> stack_elem \<Rightarrow> bool \<Rightarrow> bool \<Rightarrow> account opM" where
  "interp_getAccount X accountRef createFlag immutable =
     (case accountRef of
        BigInt n \<Rightarrow>
          if n = 0 then bindM (getM c_tx) (\<lambda>tx. askM (ctx_getAccount (encodeAddress X (tx_snd tx))))
          else getAccountFromReference X n createFlag
      | Bytes r \<Rightarrow> bindM (derefM r) (\<lambda>pk. getAccountFromAddr X pk createFlag immutable))"

text \<open>
  Application and asset references. An array read outside its bounds gives \<^verbatim>\<open>undefined\<close>, which no map
  has as a key: such an identifier is \<^const>\<open>None\<close>.
\<close>

definition js_nth :: "'a list \<Rightarrow> int \<Rightarrow> 'a option" where
  "js_nth xs i = (if 0 \<le> i \<and> i < int (length xs) then Some (xs ! nat i) else None)"

definition getAppIDByReference :: "int \<Rightarrow> bool \<Rightarrow> int option opM" where
  "getAppIDByReference appRef foreign =
     bindM (getM (\<lambda>s. (i_tealVersion s, c_tx s))) (\<lambda>(v, tx).
     (let foreignApps = or_empty (tx_apfa tx)
      in if 4 \<le> v then
           (if appRef = 0 then returnM (Some (or_zero (tx_apid tx)))
            else if appRef \<le> int (length foreignApps) then returnM (js_nth foreignApps (appRef - 1))
            else if appRef \<in> set foreignApps \<or> Some appRef = tx_apid tx then returnM (Some appRef)
            else throwM (TEAL INVALID_APP_REFERENCE))
         else if foreign then
           (if appRef = 0 then returnM (Some (or_zero (tx_apid tx)))
            else seqM (checkIndexBound (appRef - 1) foreignApps) (returnM (js_nth foreignApps (appRef - 1))))
         else returnM (Some appRef)))"

definition getAssetIDByReference :: "int \<Rightarrow> bool \<Rightarrow> int option opM" where
  "getAssetIDByReference assetRef foreign =
     bindM (getM (\<lambda>s. (i_tealVersion s, c_tx s))) (\<lambda>(v, tx).
     (let appForeignAssets = or_empty (tx_apas tx)
      in if 4 \<le> v then
           (if assetRef < int (length appForeignAssets) then returnM (js_nth appForeignAssets assetRef)
            else if assetRef \<in> set appForeignAssets then returnM (Some assetRef)
            else throwM (TEAL INVALID_ASA_REFERENCE))
         else if foreign then
           seqM (checkIndexBound assetRef appForeignAssets) (returnM (js_nth appForeignAssets assetRef))
         else returnM (Some assetRef)))"

section \<open>Application state\<close>

definition interp_getGlobalState :: "int option \<Rightarrow> bytes \<Rightarrow> stack_elem option opM" where
  "interp_getGlobalState appID key =
     bindM (askM (ctx_getApp appID)) (\<lambda>app. returnM (map_of (global_state app) (bytes_toString key)))"

definition interp_setGlobalState :: "int \<Rightarrow> bytes \<Rightarrow> stack_elem \<Rightarrow> unit opM" where
  "interp_setGlobalState appID key v =
     bindM (askM (app_owner (Some appID))) (\<lambda>acc.
     bindM (getM c_heap) (\<lambda>h. on_ledger (on_account (address acc) (setGlobalState h appID key v))))"

text \<open>\<^verbatim>\<open>if (val)\<close>: an array is true, and so is every integer but 0.\<close>

fun truthy :: "stack_elem option \<Rightarrow> bool" where
    "truthy None = False"
  | "truthy (Some (BigInt n)) = (n \<noteq> 0)"
  | "truthy (Some (Bytes _)) = True"

definition push_value :: "stack_elem option \<Rightarrow> unit opM" where
  "push_value val = (if truthy val then pushM (the val) else pushBigInt 0)"

definition push_value_flag :: "stack_elem option \<Rightarrow> unit opM" where
  "push_value_flag val =
     (if truthy val then seqM (pushM (the val)) (pushBigInt 1) else seqM (pushBigInt 0) (pushBigInt 0))"

definition AppOptedIn_execute :: "sdk \<Rightarrow> int opM" where
  "AppOptedIn_execute X =
     seqM (assertMinStackLen 2)
    (bindM popBigInt (\<lambda>appRef. bindM popM (\<lambda>accountRef.
     bindM (interp_getAccount X accountRef False True) (\<lambda>account.
     bindM (getAppIDByReference (js_Number appRef) False) (\<lambda>appID.
      (let isOptedIn = Option.bind appID (map_of (appsLocalState account)) \<noteq> None
       in seqM (pushBigInt (if isOptedIn then 1 else 0)) computeCost))))))"

definition AppLocalGet_execute :: "sdk \<Rightarrow> int opM" where
  "AppLocalGet_execute X =
     seqM (assertMinStackLen 2)
    (bindM popBytes (\<lambda>key. bindM popM (\<lambda>accountRef.
     bindM (interp_getAccount X accountRef False True) (\<lambda>account.
     bindM (getM current_app) (\<lambda>appID.
      seqM (push_value (getLocalState appID key account)) computeCost)))))"

definition AppLocalGetEx_execute :: "sdk \<Rightarrow> int opM" where
  "AppLocalGetEx_execute X =
     seqM (assertMinStackLen 3)
    (bindM popBytes (\<lambda>key. bindM popBigInt (\<lambda>appRef. bindM popM (\<lambda>accountRef.
     bindM (getAppIDByReference (js_Number appRef) False) (\<lambda>appID.
     bindM (interp_getAccount X accountRef False True) (\<lambda>account.
      seqM (push_value_flag (Option.bind appID (\<lambda>i. getLocalState i key account))) computeCost))))))"

definition AppGlobalGet_execute :: "int opM" where
  "AppGlobalGet_execute =
     seqM (assertMinStackLen 1)
    (bindM popBytes (\<lambda>key. bindM (getM current_app) (\<lambda>appID.
     bindM (interp_getGlobalState (Some appID) key) (\<lambda>val. seqM (push_value val) computeCost))))"

definition AppGlobalGetEx_execute :: "int opM" where
  "AppGlobalGetEx_execute =
     seqM (assertMinStackLen 2)
    (bindM popBytes (\<lambda>key. bindM popBigInt (\<lambda>appRef.
     bindM (getAppIDByReference (js_Number appRef) True) (\<lambda>appID.
     bindM (interp_getGlobalState appID key) (\<lambda>val. seqM (push_value_flag val) computeCost)))))"

definition AppLocalPut_execute :: "sdk \<Rightarrow> int opM" where
  "AppLocalPut_execute X =
     seqM (assertMinStackLen 3)
    (bindM popM (\<lambda>v. bindM popBytes (\<lambda>key. bindM popM (\<lambda>accountRef.
     bindM (interp_getAccount X accountRef False False) (\<lambda>account.
     bindM (getM current_app) (\<lambda>appID. bindM (getM c_heap) (\<lambda>h.
      seqM (on_ledger (on_account (address account) (setLocalState h appID key v)))
     (seqM (askM (ctx_getAccount (address account))) computeCost))))))))"

definition AppGlobalPut_execute :: "int opM" where
  "AppGlobalPut_execute =
     seqM (assertMinStackLen 2)
    (bindM popM (\<lambda>v. bindM popBytes (\<lambda>key. bindM (getM current_app) (\<lambda>appID.
      seqM (interp_setGlobalState appID key v) computeCost))))"

definition deleteLocalKey :: "int \<Rightarrow> bytes \<Rightarrow> (account, unit) exec" where
  "deleteLocalKey appID key = modifyM (\<lambda>a.
     case map_of (appsLocalState a) appID of
       None \<Rightarrow> a
     | Some la \<Rightarrow> a\<lparr>appsLocalState := AList.update appID
         (la\<lparr>key_value := AList.delete (bytes_toString key) (key_value la)\<rparr>) (appsLocalState a)\<rparr>)"

definition AppLocalDel_execute :: "sdk \<Rightarrow> int opM" where
  "AppLocalDel_execute X =
     seqM (assertMinStackLen 1)
    (bindM popBytes (\<lambda>key. bindM popM (\<lambda>accountRef. bindM (getM current_app) (\<lambda>appID.
     bindM (interp_getAccount X accountRef False True) (\<lambda>account.
      seqM (on_ledger (on_account (address account) (deleteLocalKey appID key))) computeCost)))))"

definition deleteGlobalKey :: "int \<Rightarrow> bytes \<Rightarrow> (account, unit) exec" where
  "deleteGlobalKey appID key = modifyM (\<lambda>a.
     case map_of (createdApps a) appID of
       None \<Rightarrow> a
     | Some app \<Rightarrow> a\<lparr>createdApps := AList.update appID
         (app\<lparr>global_state := AList.delete (bytes_toString key) (global_state app)\<rparr>) (createdApps a)\<rparr>)"

definition AppGlobalDel_execute :: "int opM" where
  "AppGlobalDel_execute =
     seqM (assertMinStackLen 1)
    (bindM popBytes (\<lambda>key. bindM (getM current_app) (\<lambda>appID.
     bindM (askM (ctx_getApp (Some appID))) (\<lambda>_. bindM (askM (app_owner (Some appID))) (\<lambda>acc.
      seqM (on_ledger (on_account (address acc) (deleteGlobalKey appID key))) computeCost)))))"

section \<open>Balances and holdings\<close>

definition Balance_execute :: "sdk \<Rightarrow> int opM" where
  "Balance_execute X =
     seqM (assertMinStackLen 1)
    (bindM popM (\<lambda>accountRef. bindM (interp_getAccount X accountRef False True) (\<lambda>acc.
      seqM (pushBigInt (amount acc)) computeCost)))"

definition MinBalance_execute :: "sdk \<Rightarrow> int opM" where
  "MinBalance_execute X =
     seqM (assertMinStackLen 1)
    (bindM popM (\<lambda>accountRef. bindM (interp_getAccount X accountRef False True) (\<lambda>acc.
      seqM (pushBigInt (minBalance acc)) computeCost)))"

definition GetAssetHolding_execute :: "sdk \<Rightarrow> holding_field \<Rightarrow> int opM" where
  "GetAssetHolding_execute X field =
     seqM (assertMinStackLen 2)
    (bindM popBigInt (\<lambda>assetRef. bindM popM (\<lambda>accountRef.
     bindM (interp_getAccount X accountRef False True) (\<lambda>account.
     bindM (getAssetIDByReference (js_Number assetRef) False) (\<lambda>assetID.
      (case Option.bind assetID (map_of (assets account)) of
         None \<Rightarrow> seqM (pushBigInt 0) (seqM (pushBigInt 0) computeCost)
       | Some info \<Rightarrow>
           seqM (case field of AssetBalance \<Rightarrow> pushBigInt (ah_amount info)
                 | AssetFrozen \<Rightarrow> pushBigInt (if ah_is_frozen info then 1 else 0)
                 | OtherField \<Rightarrow> throwM (JsError TypeError))
          (seqM (pushBigInt 1) computeCost)))))))"

definition assertAlgorandAddress :: "sdk \<Rightarrow> stack_elem \<Rightarrow> nat opM" where
  "assertAlgorandAddress X a =
     bindM (assertBytes a) (\<lambda>r. bindM (derefM r) (\<lambda>b.
     seqM (assertM (isValidAddress X (encodeAddress X b)) (TEAL INVALID_ADDR)) (returnM r)))"

text \<open>
  \<^verbatim>\<open>AcctAuthAddr\<close> of an account that was not rekeyed pushes the array of the constant
  \<^verbatim>\<open>ZERO_ADDRESS\<close> itself; otherwise a copy of the public key.
\<close>

definition AcctParamsGet_execute :: "sdk \<Rightarrow> acct_field \<Rightarrow> int opM" where
  "AcctParamsGet_execute X field =
     seqM (assertMinStackLen 1)
    (bindM popM (\<lambda>x. bindM (assertAlgorandAddress X x) (\<lambda>acctAddress.
     bindM (interp_getAccount X (Bytes acctAddress) True True) (\<lambda>accountInfo.
      seqM (case field of
              AcctBalance \<Rightarrow> pushBigInt (amount accountInfo)
            | AcctMinBalance \<Rightarrow> pushBigInt (minBalance accountInfo)
            | AcctAuthAddr \<Rightarrow>
                if getSpendAddress accountInfo = address accountInfo
                then bindM (getM c_zeroAddress) (\<lambda>r. pushM (Bytes r))
                else bindM (liftM (decodeAddress X (getSpendAddress accountInfo))) pushBytesM)
     (seqM (pushBigInt (if 0 < amount accountInfo then 1 else 0)) computeCost)))))"

section \<open>Logs and identifiers of the group\<close>

text \<open>
  \<^verbatim>\<open>logs.join("")\<close> concatenates the decimal texts of the arrays; the check adds the length of that text
  to the number of bytes of the new entry.
\<close>

definition logs_text_length :: "heap \<Rightarrow> nat list \<Rightarrow> nat" where
  "logs_text_length h logs = sum_list (List.map (\<lambda>r. length (bytes_toString (deref h r))) logs)"

definition put_logs :: "enc_tx \<Rightarrow> receipt \<Rightarrow> nat list \<Rightarrow> unit opM" where
  "put_logs tx rc ls = modifyM (\<lambda>s. s\<lparr>c_state := (c_state s)\<lparr>txReceipts :=
     AList.update (tx_txID tx) (rc\<lparr>rc_logs := Some ls\<rparr>) (txReceipts (c_state s))\<rparr>\<rparr>)"

definition Log_execute :: "int opM" where
  "Log_execute =
     seqM (assertMinStackLen 1)
    (bindM popBytesRef (\<lambda>logByte. bindM (derefM logByte) (\<lambda>b. bindM (getM c_tx) (\<lambda>tx.
     seqM (modifyM (\<lambda>s. s\<lparr>c_lastLog := logByte\<rparr>))
    (bindM (getM (\<lambda>s. map_of (txReceipts (c_state s)) (tx_txID tx))) (\<lambda>found.
      (case found of
         None \<Rightarrow> computeCost
       | Some rc \<Rightarrow>
           (let logs = or_empty (rc_logs rc)
            in seqM (put_logs tx rc logs)
              (seqM (assertM (length logs \<noteq> ALGORAND_MAX_LOGS_COUNT) (TEAL LOGS_COUNT_EXCEEDED_THRESHOLD))
              (bindM (getM c_heap) (\<lambda>h.
               seqM (assertM (logs_text_length h logs + length b \<le> ALGORAND_MAX_LOGS_LENGTH)
                       (TEAL LOGS_LENGTH_EXCEEDED_THRESHOLD))
              (seqM (put_logs tx rc (logs @ [logByte])) computeCost))))))))))))"

definition Gaid_execute :: "int \<Rightarrow> int opM" where
  "Gaid_execute txIndex =
     bindM (getM (\<lambda>s. map_of (c_knowableID s) txIndex)) (\<lambda>found.
     bindM (someM (TEAL GROUP_INDEX_EXIST_ERROR) found) (\<lambda>knowableID.
      seqM (pushBigInt knowableID) computeCost))"

definition Gaids_execute :: "int opM" where
  "Gaids_execute = seqM (assertMinStackLen 1) (bindM popBigInt (\<lambda>i. Gaid_execute (js_Number i)))"

fun ledger_execute :: "sdk \<Rightarrow> ledger_op \<Rightarrow> int opM" where
    "ledger_execute X AppOptedIn = AppOptedIn_execute X"
  | "ledger_execute X AppLocalGet = AppLocalGet_execute X"
  | "ledger_execute X AppLocalGetEx = AppLocalGetEx_execute X"
  | "ledger_execute X AppGlobalGet = AppGlobalGet_execute"
  | "ledger_execute X AppGlobalGetEx = AppGlobalGetEx_execute"
  | "ledger_execute X AppLocalPut = AppLocalPut_execute X"
  | "ledger_execute X AppGlobalPut = AppGlobalPut_execute"
  | "ledger_execute X AppLocalDel = AppLocalDel_execute X"
  | "ledger_execute X AppGlobalDel = AppGlobalDel_execute"
  | "ledger_execute X Balance = Balance_execute X"
  | "ledger_execute X MinBalance = MinBalance_execute X"
  | "ledger_execute X (GetAssetHolding f) = GetAssetHolding_execute X f"
  | "ledger_execute X (AcctParamsGet f) = AcctParamsGet_execute X f"
  | "ledger_execute X Log = Log_execute"
  | "ledger_execute X (Gaid n) = Gaid_execute n"
  | "ledger_execute X Gaids = Gaids_execute"

end
