(* ===== verification/TEAL_Txn.thy ===== *)
theory TEAL_Txn
  imports TEAL_Store
begin

text \<open>
  Transactions as the SDK hands them to the runtime: the accessors of \<^verbatim>\<open>packages/web/src/lib/txn.ts\<close>, the
  kinds of encoded transaction and the fee credit of \<^verbatim>\<open>packages/runtime/src/lib/txn.ts\<close>, the mocked
  suggested parameters (\<^verbatim>\<open>mock/tx.ts\<close>) and the validation of an asset definition (\<^verbatim>\<open>lib/asa.ts\<close>,
  \<^verbatim>\<open>packages/web/src/types-input.ts\<close>).
\<close>

section \<open>Transactions of the SDK\<close>

datatype on_complete =
    NoOpOC | OptInOC | CloseOutOC | ClearStateOC | UpdateApplicationOC | DeleteApplicationOC

text \<open>\<^verbatim>\<open>algosdk.Transaction\<close>: the properties the runtime reads; an address is its public key.\<close>

record transaction =
  t_type :: string
  t_from :: bytes
  t_to :: "bytes option"
  t_amount :: int
  t_closeRemainderTo :: "bytes option"
  t_reKeyTo :: "bytes option"
  t_fee :: int
  t_flatFee :: bool
  t_firstRound :: int
  t_lastRound :: int
  t_assetIndex :: int
  t_assetRevocationTarget :: "bytes option"
  t_freezeAccount :: "bytes option"
  t_freezeState :: bool
  t_appIndex :: int
  t_appOnComplete :: on_complete
  t_assetName :: string
  t_assetTotal :: int
  t_assetDecimals :: int
  t_assetDefaultFrozen :: bool
  t_assetUnitName :: "string option"
  t_assetURL :: "string option"
  t_assetMetadataHash :: "bytes option"
  t_assetManager :: "bytes option"
  t_assetReserve :: "bytes option"
  t_assetFreeze :: "bytes option"
  t_assetClawback :: "bytes option"

text \<open>\<^verbatim>\<open>types.TxParams\<close>, without the note and the lease.\<close>

record tx_params =
  fl_closeRemainderTo :: "string option"
  fl_rekeyTo :: "string option"
  fl_firstValid :: "int option"
  fl_validRounds :: "int option"
  fl_totalFee :: "int option"
  fl_flatFee :: "bool option"
  fl_feePerByte :: "int option"

definition no_flags :: tx_params where
  "no_flags = \<lparr>fl_closeRemainderTo = None, fl_rekeyTo = None, fl_firstValid = None, fl_validRounds = None,
     fl_totalFee = None, fl_flatFee = None, fl_feePerByte = None\<rparr>"

text \<open>\<^verbatim>\<open>if (s)\<close> of an optional text: the empty text is false.\<close>

definition given :: "string option \<Rightarrow> bool" where
  "given s \<longleftrightarrow> s \<noteq> None \<and> s \<noteq> Some ''''"

definition noAddress :: string where
  "noAddress = ''CAAAAAAAAAAAAAAAAAAAAAAAAAAAAAAAAAAAAAAAAAAAAAAAAAAAY5HFKQ''"

definition getTxFromAddress :: "sdk \<Rightarrow> transaction \<Rightarrow> string" where
  "getTxFromAddress X t = encodeAddress X (t_from t)"

text \<open>\<^verbatim>\<open>transaction.to.publicKey\<close> throws when there is no receiver.\<close>

definition getTxToAddress :: "sdk \<Rightarrow> transaction \<Rightarrow> error + string" where
  "getTxToAddress X t =
     (case t_to t of None \<Rightarrow> Inl (JsError TypeError) | Some pk \<Rightarrow> Inr (encodeAddress X pk))"

definition getAddress :: "sdk \<Rightarrow> bytes option \<Rightarrow> string option" where
  "getAddress X a = map_option (encodeAddress X) a"

definition getTxCloseReminderToAddress :: "sdk \<Rightarrow> transaction \<Rightarrow> string option" where
  "getTxCloseReminderToAddress X t = map_option (encodeAddress X) (t_closeRemainderTo t)"

definition getTxReKeyToToAddress :: "sdk \<Rightarrow> transaction \<Rightarrow> string option" where
  "getTxReKeyToToAddress X t = map_option (encodeAddress X) (t_reKeyTo t)"

definition getTxRevokeAddress :: "sdk \<Rightarrow> transaction \<Rightarrow> string" where
  "getTxRevokeAddress X t =
     (case t_assetRevocationTarget t of Some pk \<Rightarrow> encodeAddress X pk | None \<Rightarrow> noAddress)"

definition getTxFreezeAddress :: "sdk \<Rightarrow> transaction \<Rightarrow> string" where
  "getTxFreezeAddress X t =
     (case t_freezeAccount t of Some pk \<Rightarrow> encodeAddress X pk | None \<Rightarrow> noAddress)"

definition getTxFlags :: "sdk \<Rightarrow> transaction \<Rightarrow> tx_params" where
  "getTxFlags X t =
     \<lparr>fl_closeRemainderTo = getTxCloseReminderToAddress X t,
      fl_rekeyTo = getTxReKeyToToAddress X t,
      fl_firstValid = Some (t_firstRound t),
      fl_validRounds = Some (t_lastRound t - t_firstRound t),
      fl_totalFee = (if t_flatFee t then Some (t_fee t) else None),
      fl_flatFee = (if t_flatFee t then Some True else None),
      fl_feePerByte = (if t_flatFee t then None else Some (t_fee t))\<rparr>"

text \<open>\<open>dec\<close> is the platform's \<^verbatim>\<open>TextDecoder\<close>.\<close>

definition getTxASADefinition :: "(bytes \<Rightarrow> string) \<Rightarrow> sdk \<Rightarrow> transaction \<Rightarrow> asa_def" where
  "getTxASADefinition dec X t =
     \<lparr>def_total = t_assetTotal t, def_decimals = t_assetDecimals t,
      def_defaultFrozen = Some (t_assetDefaultFrozen t), def_unitName = t_assetUnitName t,
      def_url = t_assetURL t,
      def_metadataHash = map_option (\<lambda>b. MdString (dec b)) (t_assetMetadataHash t),
      def_manager = getAddress X (t_assetManager t), def_reserve = getAddress X (t_assetReserve t),
      def_freeze = getAddress X (t_assetFreeze t), def_clawback = getAddress X (t_assetClawback t),
      def_optInAccNames = None\<rparr>"

text \<open>A present field of \<^verbatim>\<open>apar\<close> gives the address of the transaction, an absent one clears it.\<close>

definition reconfigured :: "sdk \<Rightarrow> bytes option \<Rightarrow> bytes option \<Rightarrow> error + string option" where
  "reconfigured X enc pk =
     (case enc of
        None \<Rightarrow> Inr (Some '''')
      | Some _ \<Rightarrow> (case pk of None \<Rightarrow> Inl (JsError TypeError) | Some b \<Rightarrow> Inr (Some (encodeAddress X b))))"

definition getAssetReconfigureFields :: "sdk \<Rightarrow> enc_tx \<Rightarrow> transaction \<Rightarrow> error + asset_mod" where
  "getAssetReconfigureFields X enc t =
     (case tx_apar enc of
        None \<Rightarrow> Inr \<lparr>mod_manager = None, mod_reserve = None, mod_freeze = None, mod_clawback = None\<rparr>
      | Some p \<Rightarrow>
          case reconfigured X (par_c p) (t_assetClawback t) of Inl e \<Rightarrow> Inl e | Inr c \<Rightarrow>
          case reconfigured X (par_f p) (t_assetFreeze t) of Inl e \<Rightarrow> Inl e | Inr f \<Rightarrow>
          case reconfigured X (par_m p) (t_assetManager t) of Inl e \<Rightarrow> Inl e | Inr mgr \<Rightarrow>
          case reconfigured X (par_r p) (t_assetReserve t) of Inl e \<Rightarrow> Inl e | Inr r \<Rightarrow>
            Inr \<lparr>mod_manager = mgr, mod_reserve = r, mod_freeze = f, mod_clawback = c\<rparr>)"

text \<open>\<^verbatim>\<open>SuggestedParams\<close>, without the genesis constants.\<close>

record suggested =
  sp_flatFee :: "bool option"
  sp_fee :: int
  sp_firstRound :: int
  sp_lastRound :: int

definition mockSuggestedParams :: "tx_params \<Rightarrow> int \<Rightarrow> suggested" where
  "mockSuggestedParams payFlags rnd =
     (let firstRound = (case fl_firstValid payFlags of None \<Rightarrow> rnd - 1 | Some v \<Rightarrow> v)
      in \<lparr>sp_flatFee = (if fl_flatFee payFlags = None then Some (fl_totalFee payFlags \<noteq> None) else None),
          sp_fee = (case fl_totalFee payFlags of Some f \<Rightarrow> f | None \<Rightarrow>
                     (case fl_feePerByte payFlags of Some f \<Rightarrow> f | None \<Rightarrow> ALGORAND_MIN_TX_FEE)),
          sp_firstRound = firstRound,
          sp_lastRound = (case (fl_firstValid payFlags, fl_validRounds payFlags) of
                            (Some v, Some n) \<Rightarrow> v + n
                          | _ \<Rightarrow> firstRound + 1000)\<rparr>)"

text \<open>
  The functions of the SDK and the platform that handle transactions: what the makers of asset transactions
  do with their arguments (throw, or for a creation the transaction made), the encoding of a
  transaction, its identifier, and the \<^verbatim>\<open>TextDecoder\<close>.
\<close>

record algosdk = sdk +
  make_axfer :: "string \<Rightarrow> int \<Rightarrow> suggested \<Rightarrow> error + unit"
  make_asset_create :: "string \<Rightarrow> string \<Rightarrow> asset_params \<Rightarrow> suggested \<Rightarrow> error + transaction"
  get_obj_for_encoding :: "transaction \<Rightarrow> enc_tx"
  txID_of :: "transaction \<Rightarrow> string"
  text_decode :: "bytes \<Rightarrow> string"

definition encode_tx :: "algosdk \<Rightarrow> transaction \<Rightarrow> enc_tx" where
  "encode_tx L t = (get_obj_for_encoding L t)\<lparr>tx_txID := txID_of L t\<rparr>"

abbreviation base :: "algosdk \<Rightarrow> sdk" where
  "base L \<equiv> sdk.truncate L"

section \<open>Kinds of encoded transaction\<close>

text \<open>\<open>a ?? b ?? c ?? d\<close> of optional byte fields; an array is true.\<close>

definition isEncTxAssetDeletion :: "enc_tx \<Rightarrow> bool" where
  "isEncTxAssetDeletion txn \<longleftrightarrow>
     tx_type txn = ''acfg'' \<and> tx_caid txn \<noteq> None \<and> tx_caid txn \<noteq> Some 0 \<and>
     \<not> (case tx_apar txn of None \<Rightarrow> False
        | Some p \<Rightarrow> par_m p \<noteq> None \<or> par_r p \<noteq> None \<or> par_f p \<noteq> None \<or> par_c p \<noteq> None)"

definition isEncTxAssetConfig :: "enc_tx \<Rightarrow> bool" where
  "isEncTxAssetConfig txn \<longleftrightarrow>
     tx_type txn = ''acfg'' \<and> tx_caid txn \<noteq> None \<and> tx_caid txn \<noteq> Some 0 \<and> \<not> isEncTxAssetDeletion txn"

definition isEncTxAssetCreate :: "enc_tx \<Rightarrow> bool" where
  "isEncTxAssetCreate txn \<longleftrightarrow> tx_type txn = ''acfg'' \<and> tx_caid txn = None \<and> tx_apar txn \<noteq> None"

definition isEncTxAssetReconfigure :: "enc_tx \<Rightarrow> bool" where
  "isEncTxAssetReconfigure txn \<longleftrightarrow>
     tx_type txn = ''acfg'' \<and> tx_caid txn \<noteq> None \<and>
     (case tx_apar txn of None \<Rightarrow> False
      | Some p \<Rightarrow> par_m p \<noteq> None \<or> par_f p \<noteq> None \<or> par_c p \<noteq> None \<or> par_r p \<noteq> None)"

definition isEncTxAssetRevoke :: "enc_tx \<Rightarrow> bool" where
  "isEncTxAssetRevoke txn \<longleftrightarrow> tx_asnd txn \<noteq> None"

definition isEncTxAssetFreeze :: "enc_tx \<Rightarrow> bool" where
  "isEncTxAssetFreeze txn \<longleftrightarrow> tx_afrz txn \<noteq> None \<and> tx_fadd txn \<noteq> None"

text \<open>\<^verbatim>\<open>!txn.arcv.compare(txn.snd)\<close>: the keys are equal.\<close>

definition isEncTxAssetOptIn :: "enc_tx \<Rightarrow> bool" where
  "isEncTxAssetOptIn txn \<longleftrightarrow> (case tx_arcv txn of None \<Rightarrow> False | Some r \<Rightarrow> r = tx_snd txn)"

definition isEncTxAssetTransfer :: "enc_tx \<Rightarrow> bool" where
  "isEncTxAssetTransfer txn \<longleftrightarrow> tx_arcv txn \<noteq> None \<and> tx_asnd txn = None"

definition isEncTxApplicationCreate :: "enc_tx \<Rightarrow> bool" where
  "isEncTxApplicationCreate txn \<longleftrightarrow>
     tx_type txn = APPLICATION_CALL \<and> (tx_apan txn = Some 0 \<or> tx_apan txn = None) \<and> tx_apid txn = None"

definition isEncTxApplicationCall :: "enc_tx \<Rightarrow> bool" where
  "isEncTxApplicationCall txn \<longleftrightarrow> tx_type txn = APPLICATION_CALL \<and> tx_apid txn \<noteq> None"

section \<open>Fees\<close>

record credit =
  cr_remainingFee :: int
  cr_collectedFee :: int
  cr_requiredFee :: int

definition calculateFeeCredit :: "enc_tx list \<Rightarrow> credit" where
  "calculateFeeCredit groupTx =
     (let collectedFee = foldl (\<lambda>acc tx. acc + (case tx_fee tx of None \<Rightarrow> 0 | Some f \<Rightarrow> f)) 0 groupTx;
          requiredFee = int (length groupTx) * ALGORAND_MIN_TX_FEE
      in \<lparr>cr_remainingFee = collectedFee - requiredFee, cr_collectedFee = collectedFee,
          cr_requiredFee = requiredFee\<rparr>)"

section \<open>Asset definitions\<close>

text \<open>
  \<^verbatim>\<open>ASADefSchema\<close>: the refinements of the schema; the types of the fields are those of \<^typ>\<open>asa_def\<close>. The
  text of a definition is taken to be ASCII, where characters and bytes count the same.
\<close>

definition asaDef_valid :: "asa_def \<Rightarrow> bool" where
  "asaDef_valid d \<longleftrightarrow>
     0 \<le> def_total d \<and> def_total d \<le> MAX_UINT64 \<and>
     0 \<le> def_decimals d \<and> def_decimals d \<le> 19 \<and>
     (case def_unitName d of None \<Rightarrow> True | Some u \<Rightarrow> length u \<le> 8) \<and>
     (case def_url d of None \<Rightarrow> True | Some u \<Rightarrow> length u \<le> 96) \<and>
     (case def_metadataHash d of None \<Rightarrow> True
      | Some (MdString s) \<Rightarrow> s = '''' \<or> length s = 32
      | Some (MdBytes b) \<Rightarrow> length b = 32)"

definition blank_undefined :: "string option \<Rightarrow> string option" where
  "blank_undefined s = (if s = Some '''' then None else s)"

definition parseASADef :: "asa_def \<Rightarrow> error + asa_def" where
  "parseASADef d =
     (if asaDef_valid d
      then Inr (d\<lparr>def_manager := blank_undefined (def_manager d),
                  def_reserve := blank_undefined (def_reserve d),
                  def_freeze := blank_undefined (def_freeze d),
                  def_clawback := blank_undefined (def_clawback d),
                  def_defaultFrozen := Some (case def_defaultFrozen d of None \<Rightarrow> False | Some b \<Rightarrow> b)\<rparr>)
      else Inl (ASA PARAM_PARSE_ERROR))"

fun check_names :: "(string, string) jsmap \<Rightarrow> string list \<Rightarrow> error + unit" where
    "check_names m [] = Inr ()"
  | "check_names m (n # ns) =
      (if given (map_of m n) then check_names m ns
       else Inl (ASA PARAM_ERROR_NO_NAMED_OPT_IN_ACCOUNT))"

definition validateOptInAccNames :: "(string, string) jsmap \<Rightarrow> asa_def \<Rightarrow> error + unit" where
  "validateOptInAccNames m d =
     (case def_optInAccNames d of None \<Rightarrow> Inr () | Some ns \<Rightarrow> check_names m ns)"

end
