(* ===== verification/TEAL_Ledger.thy ===== *)
theory TEAL_Ledger
  imports TEAL_Txn TEAL_LedgerOps
begin

text \<open>
  What a transaction does to the ledger of its context (\<^verbatim>\<open>ctx.ts\<close>): payments, fees, assets and the
  bookkeeping of applications, without the methods that run a program. A method is a function of the
  monad over the context; an account or a holding the code changes through a reference is changed in
  the ledger at its address.
\<close>

type_synonym 'a ctxM = "(ctx, 'a) exec"

section \<open>Checks\<close>

definition assertAccBalAboveMin :: "string \<Rightarrow> unit ctxM" where
  "assertAccBalAboveMin addr =
     bindM (askM (ctx_getAccount addr)) (\<lambda>account. bindM (getM c_txnType) (\<lambda>txnType.
      assertM (\<not> (amount account < minBalance account \<and> txnType = Some ''pay''))
        (TRANSACTION INSUFFICIENT_ACCOUNT_BALANCE)))"

definition assertAssetNotFrozen :: "int \<Rightarrow> string \<Rightarrow> unit ctxM" where
  "assertAssetNotFrozen assetIndex addr =
     bindM (askM (ctx_getAssetHolding assetIndex addr)) (\<lambda>assetHolding.
      assertM (\<not> ah_is_frozen assetHolding) (TRANSACTION ACCOUNT_ASSET_FROZEN))"

definition assertProgramMaxLen :: "bytes \<Rightarrow> bytes \<Rightarrow> int option \<Rightarrow> error + unit" where
  "assertProgramMaxLen approval clear extraPages =
     (if int MaxAppProgramLen * (1 + or_zero extraPages) < int (length approval + length clear)
      then Inl (TEAL MAX_LEN_EXCEEDED) else Inr ())"

definition verifyCloseRemainderTo :: "sdk \<Rightarrow> transaction \<Rightarrow> unit ctxM" where
  "verifyCloseRemainderTo X t =
     assertM (t_closeRemainderTo t = None \<or> getTxCloseReminderToAddress X t \<noteq> Some (getTxFromAddress X t))
       (TRANSACTION INVALID_CLOSE_REMAINDER_TO)"

definition verifyMinimumFees :: "unit ctxM" where
  "verifyMinimumFees =
     bindM (getM (\<lambda>c. (c_isInnerTx c, c_gtxs c))) (\<lambda>(inner, gtxs).
       if inner then returnM ()
       else (let cr = calculateFeeCredit gtxs
             in seqM (modifyM (\<lambda>c. c\<lparr>c_remainingFee := cr_remainingFee cr\<rparr>))
                  (assertM (0 \<le> cr_remainingFee cr) (TRANSACTION FEES_NOT_ENOUGH))))"

definition verifyAndUpdateInnerAppCallStack :: "unit ctxM" where
  "verifyAndUpdateInnerAppCallStack =
     bindM (getM (\<lambda>c. (c_isInnerTx c, c_innerTxAppIDCallStack c, or_zero (tx_apid (c_tx c))))) (\<lambda>(inner, ids, appID).
       if \<not> inner then returnM ()
       else seqM (assertM (length ids < 8) (TRANSACTION INNER_APP_DEEP_EXCEEDED))
           (seqM (assertM (\<not> (0 < appID \<and> appID \<in> set ids)) (TRANSACTION INNER_APP_SELF_CALL))
           (if 0 < appID
            then modifyM (\<lambda>c. c\<lparr>c_innerTxAppIDCallStack := c_innerTxAppIDCallStack c @ [appID]\<rparr>)
            else returnM ())))"

section \<open>Receipts and balances\<close>

definition new_receipt :: "string \<Rightarrow> receipt" where
  "new_receipt i = \<lparr>rc_txID = i, rc_gas = None, rc_logs = None, rc_appID = None, rc_assetIndex = None\<rparr>"

definition set_receipt :: "receipt \<Rightarrow> receipt ctxM" where
  "set_receipt info = (\<lambda>c. (Inr info, c\<lparr>c_state := (c_state c)\<lparr>txReceipts :=
     AList.update (tx_txID (c_tx c)) info (txReceipts (c_state c))\<rparr>\<rparr>))"

definition setAndGetTxReceipt :: "receipt ctxM" where
  "setAndGetTxReceipt = bindM (getM (\<lambda>c. tx_txID (c_tx c))) (\<lambda>i. set_receipt (new_receipt i))"

definition add_amount :: "string \<Rightarrow> int \<Rightarrow> unit ctxM" where
  "add_amount addr d = on_ledger (on_account addr (modifyM (\<lambda>a. a\<lparr>amount := amount a + d\<rparr>)))"

text \<open>\<^verbatim>\<open>closeReminderToAccount.amount += fromAccount.amount; fromAccount.amount = 0n\<close>\<close>

definition close_amount :: "string \<Rightarrow> string \<Rightarrow> unit ctxM" where
  "close_amount from to =
     bindM (on_ledger (on_account from (getM amount))) (\<lambda>rest.
     seqM (add_amount to rest) (on_ledger (on_account from (modifyM (\<lambda>a. a\<lparr>amount := 0\<rparr>)))))"

definition transferAlgo :: "sdk \<Rightarrow> transaction \<Rightarrow> receipt ctxM" where
  "transferAlgo X t =
     bindM (askM (ctx_getAccount (getTxFromAddress X t))) (\<lambda>fromAccount.
     bindM (liftM (getTxToAddress X t)) (\<lambda>to. bindM (askM (ctx_getAccount to)) (\<lambda>toAccount.
     seqM (add_amount (address fromAccount) (- t_amount t))
    (seqM (add_amount (address toAccount) (t_amount t))
    (seqM (assertAccBalAboveMin (address fromAccount))
    (seqM (case getTxCloseReminderToAddress X t of
             None \<Rightarrow> returnM ()
           | Some closeTo \<Rightarrow>
               seqM (verifyCloseRemainderTo X t)
              (bindM (askM (ctx_getAccount closeTo)) (\<lambda>closeAccount.
                 close_amount (address fromAccount) (address closeAccount))))
       setAndGetTxReceipt))))))"

text \<open>
  The fee a transaction pays: \<^verbatim>\<open>Math.max\<close> of the minimum and an absent fee is not a number, which
  \<^verbatim>\<open>BigInt\<close> refuses.
\<close>

definition fee_due :: "tx_params \<Rightarrow> int option \<Rightarrow> error + int" where
  "fee_due params fee =
     (if fl_flatFee params \<noteq> Some True \<and> fl_totalFee params = None
      then (case fee of None \<Rightarrow> Inl (JsError RangeError) | Some f \<Rightarrow> Inr (max ALGORAND_MIN_TX_FEE f))
      else Inr (or_zero fee))"

definition deductFee :: "string \<Rightarrow> nat \<Rightarrow> tx_params \<Rightarrow> unit ctxM" where
  "deductFee sender idx params =
     bindM (getM c_gtxs) (\<lambda>gtxs.
     if length gtxs \<le> idx then throwM (JsError TypeError)
     else
       bindM (liftM (fee_due params (tx_fee (gtxs ! idx)))) (\<lambda>fee.
       bindM (askM (ctx_getAccount sender)) (\<lambda>fromAccount.
       seqM (assertM (fee \<le> amount fromAccount) (TRANSACTION INSUFFICIENT_ACCOUNT_BALANCE))
      (seqM (add_amount (address fromAccount) (- fee))
       (assertAccBalAboveMin (address fromAccount))))))"

section \<open>Assets\<close>

definition add_holding :: "int \<Rightarrow> string \<Rightarrow> int \<Rightarrow> unit ctxM" where
  "add_holding i addr d = on_ledger (on_account addr (modifyM (\<lambda>a.
     case map_of (assets a) i of
       None \<Rightarrow> a
     | Some hld \<Rightarrow> a\<lparr>assets := AList.update i (hld\<lparr>ah_amount := ah_amount hld + d\<rparr>) (assets a)\<rparr>)))"

definition ctx_optInToASA :: "algosdk \<Rightarrow> int \<Rightarrow> string \<Rightarrow> tx_params \<Rightarrow> receipt ctxM" where
  "ctx_optInToASA L assetIndex addr flags =
     bindM (askM (ctx_getAssetDef assetIndex)) (\<lambda>assetDef. bindM (getM c_round) (\<lambda>rnd.
     seqM (liftM (make_axfer L addr assetIndex (mockSuggestedParams flags rnd)))
    (bindM (askM (ctx_getAccount addr)) (\<lambda>account.
     seqM (on_ledger (on_account (address account) (optInToASA assetIndex
             \<lparr>ah_amount = 0, ah_asset_id = assetIndex, ah_creator = ap_creator assetDef,
              ah_is_frozen = ap_defaultFrozen assetDef\<rparr>)))
    (seqM (assertAccBalAboveMin addr) setAndGetTxReceipt)))))"

text \<open>The move of an amount between two holdings, as \<^verbatim>\<open>transferAsset\<close> and \<^verbatim>\<open>revokeAsset\<close> do it.\<close>

definition move_asset :: "int \<Rightarrow> string \<Rightarrow> string \<Rightarrow> int \<Rightarrow> unit ctxM" where
  "move_asset i from to n =
     bindM (askM (ctx_getAssetHolding i from)) (\<lambda>fromAssetHolding.
     bindM (askM (ctx_getAssetHolding i to)) (\<lambda>toAssetHolding.
     seqM (assertM (0 \<le> ah_amount fromAssetHolding - n) (TRANSACTION INSUFFICIENT_ACCOUNT_ASSETS))
    (seqM (add_holding i from (- n)) (add_holding i to n))))"

text \<open>\<^verbatim>\<open>fromAssetHolding.amount\<close> of the holding that the transfer left.\<close>

definition close_holding :: "sdk \<Rightarrow> transaction \<Rightarrow> string \<Rightarrow> string \<Rightarrow> unit ctxM" where
  "close_holding X t from closeTo =
     (let i = t_assetIndex t
      in seqM (verifyCloseRemainderTo X t)
        (bindM (askM (ctx_getAssetHolding i from)) (\<lambda>fromAssetHolding.
         seqM (assertM (from \<noteq> ah_creator fromAssetHolding) (ASA CANNOT_CLOSE_ASSET_BY_CREATOR))
        (seqM (assertAssetNotFrozen i closeTo)
        (bindM (askM (ctx_getAssetHolding i closeTo)) (\<lambda>_.
         seqM (add_holding i closeTo (ah_amount fromAssetHolding))
        (bindM (askM (ctx_getAccount from)) (\<lambda>fromAccount.
           on_ledger (on_account (address fromAccount) (closeAsset i))))))))))"

definition transferAsset :: "algosdk \<Rightarrow> transaction \<Rightarrow> receipt ctxM" where
  "transferAsset L t =
     (let X = base L; from = getTxFromAddress X t; i = t_assetIndex t; flags = getTxFlags X t
      in bindM (liftM (getTxToAddress X t)) (\<lambda>to.
         seqM (if t_amount t = 0 \<and> from = to then bindM (ctx_optInToASA L i from flags) (\<lambda>_. returnM ())
               else if t_amount t \<noteq> 0 then seqM (assertAssetNotFrozen i from) (assertAssetNotFrozen i to)
               else returnM ())
        (seqM (move_asset i from to (t_amount t))
        (seqM (if given (fl_closeRemainderTo flags)
               then close_holding X t from (the (fl_closeRemainderTo flags))
               else returnM ())
         setAndGetTxReceipt))))"

definition ctx_modifyAsset :: "int \<Rightarrow> asset_mod \<Rightarrow> receipt ctxM" where
  "ctx_modifyAsset assetId mods =
     bindM (askM (ctx_getAssetAccount assetId)) (\<lambda>creatorAcc.
     seqM (on_ledger (on_account (address creatorAcc) (modifyAsset assetId mods))) setAndGetTxReceipt)"

definition freezeAsset :: "int \<Rightarrow> string \<Rightarrow> bool \<Rightarrow> receipt ctxM" where
  "freezeAsset assetId freezeTarget freezeState =
     bindM (askM (ctx_getAccount freezeTarget)) (\<lambda>acc.
     seqM (on_ledger (on_account (address acc) (setFreezeState assetId freezeState))) setAndGetTxReceipt)"

definition revokeAsset :: "string \<Rightarrow> int \<Rightarrow> string \<Rightarrow> int \<Rightarrow> receipt ctxM" where
  "revokeAsset recipient assetID revocationTarget n =
     seqM (move_asset assetID revocationTarget recipient n) setAndGetTxReceipt"

text \<open>\<^verbatim>\<open>this.state.accounts.forEach((value, key) => value.assets.delete(assetId))\<close>\<close>

definition drop_holdings :: "int \<Rightarrow> ledger \<Rightarrow> ledger" where
  "drop_holdings assetId st = st\<lparr>accounts :=
     List.map (\<lambda>(addr, a). (addr, a\<lparr>assets := AList.delete assetId (assets a)\<rparr>)) (accounts st)\<rparr>"

definition ctx_destroyAsset :: "int \<Rightarrow> receipt ctxM" where
  "ctx_destroyAsset assetId =
     bindM (askM (ctx_getAssetAccount assetId)) (\<lambda>creatorAcc.
     seqM (on_ledger (on_account (address creatorAcc) (destroyAsset assetId)))
    (seqM (on_ledger (modifyM (drop_holdings assetId))) setAndGetTxReceipt))"

definition mkAssetCreateTx :: "algosdk \<Rightarrow> string \<Rightarrow> string \<Rightarrow> tx_params \<Rightarrow> asset_params \<Rightarrow> unit ctxM" where
  "mkAssetCreateTx L nm creator flags asset =
     bindM (getM c_round) (\<lambda>rnd.
     bindM (liftM (make_asset_create L creator nm asset (mockSuggestedParams flags rnd))) (\<lambda>txn.
      modifyM (\<lambda>c. if tx_type (c_tx c) = ''acfg'' then c
                   else c\<lparr>c_tx := encode_tx L txn, c_txAt := 0, c_gtxs := [encode_tx L txn]\<rparr>)))"

definition ctx_deployASADef :: "algosdk \<Rightarrow> string \<Rightarrow> asa_def \<Rightarrow> string \<Rightarrow> tx_params \<Rightarrow> asa_info ctxM" where
  "ctx_deployASADef L nm asaDef fromAccountAddr flags =
     bindM (askM (ctx_getAccount fromAccountAddr)) (\<lambda>senderAcc.
     seqM (liftM (parseASADef asaDef))
    (seqM (askM (\<lambda>st. validateOptInAccNames (accountNameAddress st) asaDef))
    (seqM (on_ledger (modifyM (\<lambda>st. st\<lparr>assetCounter := assetCounter st + 1\<rparr>)))
    (bindM (getM (\<lambda>c. assetCounter (c_state c))) (\<lambda>assetIndex.
     bindM (on_ledger (on_account (address senderAcc) (addAsset assetIndex nm asaDef))) (\<lambda>asset.
     seqM (assertAccBalAboveMin fromAccountAddr)
    (seqM (mkAssetCreateTx L nm fromAccountAddr flags asset)
    (seqM (on_ledger (modifyM (\<lambda>st. st\<lparr>assetDefs := AList.update assetIndex (address senderAcc) (assetDefs st)\<rparr>)))
    (bindM (getM (\<lambda>c. (tx_txID (c_tx c), c_round c))) (\<lambda>(txID, rnd).
     (let asaInfo = \<lparr>asa_creator = address senderAcc, asa_assetIndex = assetIndex, asa_assetDef = asset,
                     asa_txID = txID, asa_confirmedRound = rnd\<rparr>
      in seqM (on_ledger (modifyM (\<lambda>st. st\<lparr>assetNameInfo := AList.update nm asaInfo (assetNameInfo st)\<rparr>)))
        (seqM (set_receipt ((new_receipt txID)\<lparr>rc_assetIndex := Some assetIndex\<rparr>))
         (returnM asaInfo)))))))))))))"

text \<open>\<open>defs\<close> is \<^verbatim>\<open>runtime.loadedAssetsDefs\<close>.\<close>

definition ctx_deployASA :: "algosdk \<Rightarrow> (string, asa_def) jsmap option \<Rightarrow> string \<Rightarrow> string \<Rightarrow> tx_params \<Rightarrow> asa_info ctxM" where
  "ctx_deployASA L defs nm fromAccountAddr flags =
     (case defs of
        None \<Rightarrow> throwM (ASA ASA_FILE_IS_UNDEFINED)
      | Some ds \<Rightarrow> (case map_of ds nm of
            None \<Rightarrow> throwM (ASA ASA_DEFINITION_NO_FOUND_IN_ASA_FILE)
          | Some d \<Rightarrow> ctx_deployASADef L nm d fromAccountAddr flags))"

section \<open>Applications\<close>

definition ctx_deleteApp :: "int \<Rightarrow> unit ctxM" where
  "ctx_deleteApp appID =
     bindM (askM (app_owner (Some appID))) (\<lambda>account.
     seqM (on_ledger (on_account (address account) (deleteApp appID)))
      (on_ledger (modifyM (\<lambda>st. st\<lparr>globalApps := AList.delete appID (globalApps st)\<rparr>))))"

definition ctx_closeApp :: "string \<Rightarrow> int \<Rightarrow> unit ctxM" where
  "ctx_closeApp sender appID =
     bindM (askM (ctx_getAccount sender)) (\<lambda>fromAccount.
     seqM (askM (ctx_getApp (Some appID)))
      (on_ledger (on_account (address fromAccount) (closeApp appID))))"

definition ctx_rekeyTo :: "sdk \<Rightarrow> transaction \<Rightarrow> string option \<Rightarrow> unit ctxM" where
  "ctx_rekeyTo X txn auth =
     (case auth of
        None \<Rightarrow> returnM ()
      | Some to \<Rightarrow>
          bindM (askM (ctx_getAccount (getTxFromAddress X txn))) (\<lambda>fromAccount.
            on_ledger (on_account (address fromAccount) (modifyM (rekeyTo to)))))"

end
