(* ===== verification/TEAL_Payments.thy ===== *)
theory TEAL_Payments
  imports TEAL_Ledger
begin

text \<open>
  Conservation of the native currency: what payments and fees do to the balances of the ledger, and that
  the sum of all balances changes by fees only.
\<close>

section \<open>Well-formed ledgers and balances\<close>

definition wf_ledger :: "ledger \<Rightarrow> bool" where
  "wf_ledger st \<longleftrightarrow> wf_map (accounts st) \<and>
     (\<forall>addr a. map_of (accounts st) addr = Some a \<longrightarrow> address a = addr)"

definition algos :: "ledger \<Rightarrow> int" where
  "algos st = (\<Sum>(addr, a) \<leftarrow> accounts st. amount a)"

lemma algos_total: "algos st = jm.total (\<lambda>_ a. amount a) (accounts st)"
  by (simp add: algos_def jm.total_def)

definition balance :: "string \<Rightarrow> ledger \<Rightarrow> int" where
  "balance addr st = (case map_of (accounts st) addr of None \<Rightarrow> 0 | Some a \<Rightarrow> amount a)"

lemma wf_ledgerD: "wf_ledger st \<Longrightarrow> map_of (accounts st) addr = Some a \<Longrightarrow> address a = addr"
  by (simp add: wf_ledger_def)

lemma getAccount_wf:
  "wf_ledger st \<Longrightarrow> ctx_getAccount addr st =
    (case map_of (accounts st) addr of None \<Rightarrow> Inl (GENERAL ACCOUNT_DOES_NOT_EXIST) | Some a \<Rightarrow> Inr a)"
  by (auto simp: ctx_getAccount_def assertAccountDefined_def wf_ledger_def split: option.splits)

lemma put_account_wf: "wf_ledger st \<Longrightarrow> address a = addr \<Longrightarrow> wf_ledger (put_account addr a st)"
  by (simp add: wf_ledger_def)

lemma algos_put:
  "wf_ledger st \<Longrightarrow> algos (put_account addr a st) = algos st + amount a - balance addr st"
  by (simp add: algos_total balance_def put_account_def wf_ledger_def jm.total_put)

lemma balance_put: "balance b (put_account addr a st) = (if b = addr then amount a else balance b st)"
  by (simp add: balance_def)

section \<open>Payments\<close>

text \<open>The balances a payment leaves: the amount moves, then a close-out moves the rest of the sender.\<close>

definition after_payment :: "string \<Rightarrow> string \<Rightarrow> int \<Rightarrow> string option \<Rightarrow> (string \<Rightarrow> int) \<Rightarrow> string \<Rightarrow> int" where
  "after_payment from to n close bal =
     (let b1 = bal(from := bal from - n); b2 = b1(to := b1 to + n)
      in case close of None \<Rightarrow> b2 | Some x \<Rightarrow> (b2(x := b2 x + b2 from))(from := 0))"

lemma add_amount_eq:
  "map_of (accounts (c_state c)) addr = Some a \<Longrightarrow>
   add_amount addr d c = (Inr (), c\<lparr>c_state := put_account addr (a\<lparr>amount := amount a + d\<rparr>) (c_state c)\<rparr>)"
  by (simp add: add_amount_def exec_simps)

lemma close_amount_eq:
  assumes "map_of (accounts (c_state c)) from = Some a" "map_of (accounts (c_state c)) to = Some b" "from \<noteq> to"
  shows "close_amount from to c = (Inr (), c\<lparr>c_state :=
    put_account from (a\<lparr>amount := 0\<rparr>) (put_account to (b\<lparr>amount := amount b + amount a\<rparr>)
      (put_account from a (c_state c)))\<rparr>)"
  using assms by (simp add: close_amount_def add_amount_eq exec_simps put_account_def)

text \<open>The ledger after the move of the amount.\<close>

definition moved :: "string \<Rightarrow> string \<Rightarrow> int \<Rightarrow> ledger \<Rightarrow> ledger" where
  "moved from to n st =
     (let st1 = put_account from ((the (map_of (accounts st) from))\<lparr>amount := balance from st - n\<rparr>) st
      in put_account to ((the (map_of (accounts st1) to))\<lparr>amount := balance to st1 + n\<rparr>) st1)"

lemma moved_props:
  assumes "wf_ledger st" "map_of (accounts st) from = Some a" "map_of (accounts st) to = Some b"
  shows "wf_ledger (moved from to n st)" "algos (moved from to n st) = algos st"
    "balance x (moved from to n st) = after_payment from to n None (\<lambda>y. balance y st) x"
    "map_of (accounts (moved from to n st)) x =
       map_option (\<lambda>a. a\<lparr>amount := balance x (moved from to n st)\<rparr>) (map_of (accounts st) x)"
proof -
  note ad = wf_ledgerD [OF assms(1,2)] wf_ledgerD [OF assms(1,3)]
  define st1 where "st1 = put_account from (a\<lparr>amount := balance from st - n\<rparr>) st"
  define b1 where "b1 = the (map_of (accounts st1) to)"
  have b1: "map_of (accounts st1) to = Some b1" "address b1 = to"
    using assms ad by (auto simp: st1_def b1_def)
  have m: "moved from to n st = put_account to (b1\<lparr>amount := balance to st1 + n\<rparr>) st1"
    using assms by (simp add: moved_def st1_def b1_def Let_def)
  have w1: "wf_ledger st1" "algos st1 = algos st - n"
    using assms ad by (simp_all add: st1_def put_account_wf algos_put balance_def)
  show "wf_ledger (moved from to n st)" using w1 b1 by (simp add: m put_account_wf)
  show "algos (moved from to n st) = algos st" using w1 by (simp add: m algos_put)
  show bal: "balance x (moved from to n st) = after_payment from to n None (\<lambda>y. balance y st) x" for x
    by (simp add: m after_payment_def balance_put st1_def)
  show "map_of (accounts (moved from to n st)) x =
       map_option (\<lambda>a. a\<lparr>amount := balance x (moved from to n st)\<rparr>) (map_of (accounts st) x)"
    unfolding bal using assms b1
    by (auto simp: m after_payment_def balance_def st1_def b1_def split: option.splits)
qed

text \<open>The ledger after a close-out of the sender that follows the move.\<close>

definition closed_out :: "string \<Rightarrow> string \<Rightarrow> ledger \<Rightarrow> ledger" where
  "closed_out from to st =
     (let a = the (map_of (accounts st) from); b = the (map_of (accounts st) to)
      in put_account from (a\<lparr>amount := 0\<rparr>) (put_account to (b\<lparr>amount := amount b + amount a\<rparr>)
          (put_account from a st)))"

lemma closed_out_props:
  assumes "wf_ledger st" "map_of (accounts st) from = Some a" "map_of (accounts st) to = Some b" "from \<noteq> to"
  shows "wf_ledger (closed_out from to st)" "algos (closed_out from to st) = algos st"
    "map_of (accounts (closed_out from to st)) x =
       map_option (\<lambda>a. a\<lparr>amount := ((\<lambda>y. balance y st)(to := balance to st + balance from st, from := 0)) x\<rparr>)
         (map_of (accounts st) x)"
  using assms wf_ledgerD [OF assms(1,2)] wf_ledgerD [OF assms(1,3)]
  by (simp_all add: closed_out_def Let_def put_account_wf algos_put balance_put)
    (auto simp: balance_def split: option.splits)

lemma move_amounts:
  assumes "map_of (accounts (c_state c)) src = Some a" "map_of (accounts (c_state c)) to = Some b"
  shows "seqM (add_amount src (- n)) (seqM (add_amount to n) k) c =
    k (c\<lparr>c_state := moved src to n (c_state c)\<rparr>)"
proof -
  let ?c1 = "c\<lparr>c_state := put_account src (a\<lparr>amount := amount a - n\<rparr>) (c_state c)\<rparr>"
  obtain b1 where b1: "map_of (accounts (c_state ?c1)) to = Some b1" using assms by (cases "to = src") auto
  have "seqM (add_amount src (- n)) (seqM (add_amount to n) k) c = seqM (add_amount to n) k ?c1"
    by (simp add: exec_simps add_amount_eq [OF assms(1)])
  also have "\<dots> = k (c\<lparr>c_state := put_account to (b1\<lparr>amount := amount b1 + n\<rparr>) (c_state ?c1)\<rparr>)"
    by (simp add: exec_simps add_amount_eq [OF b1])
  also have "put_account to (b1\<lparr>amount := amount b1 + n\<rparr>) (c_state ?c1) = moved src to n (c_state c)"
    using assms b1 by (simp add: moved_def Let_def balance_def)
  finally show ?thesis .
qed

text \<open>What \<^verbatim>\<open>transferAlgo\<close> does after the move.\<close>

definition settle :: "sdk \<Rightarrow> transaction \<Rightarrow> string \<Rightarrow> receipt ctxM" where
  "settle X t src = seqM (assertAccBalAboveMin src)
     (seqM (case getTxCloseReminderToAddress X t of None \<Rightarrow> returnM ()
        | Some closeTo \<Rightarrow> seqM (verifyCloseRemainderTo X t)
            (bindM (askM (ctx_getAccount closeTo)) (\<lambda>closeAccount. close_amount src (address closeAccount))))
       setAndGetTxReceipt)"

lemma transferAlgo_settle:
  assumes "wf_ledger (c_state c)" "getTxToAddress X t = Inr to" "src = getTxFromAddress X t"
    "map_of (accounts (c_state c)) src = Some a" "map_of (accounts (c_state c)) to = Some b"
  shows "transferAlgo X t c = settle X t src (c\<lparr>c_state := moved src to (t_amount t) (c_state c)\<rparr>)"
proof -
  have "address a = src" "address b = to" using wf_ledgerD [OF assms(1)] assms by auto
  then have "transferAlgo X t c =
      seqM (add_amount src (- t_amount t)) (seqM (add_amount to (t_amount t)) (settle X t src)) c"
    using assms by (simp add: transferAlgo_def settle_def getAccount_wf bindM_apply askM_apply monad_apply(7)
        cong: option.case_cong)
  then show ?thesis by (simp only: move_amounts [OF assms(4,5)])
qed

lemma transferAlgo_fails:
  assumes "wf_ledger (c_state c)"
    "\<not> (\<exists>to. getTxToAddress X t = Inr to \<and> map_of (accounts (c_state c)) (getTxFromAddress X t) \<noteq> None
        \<and> map_of (accounts (c_state c)) to \<noteq> None)"
  shows "\<exists>e. transferAlgo X t c = (Inl e, c)"
  using assms by (auto simp: transferAlgo_def exec_simps getAccount_wf split: option.splits sum.splits)

lemma receipt_accounts: "isl (fst (setAndGetTxReceipt c)) = False"
  "accounts (c_state (snd (setAndGetTxReceipt c))) = accounts (c_state c)"
  by (simp_all add: setAndGetTxReceipt_def set_receipt_def exec_simps)

lemma settle_cases:
  assumes "wf_ledger (c_state c)" "map_of (accounts (c_state c)) src = Some a" "src = getTxFromAddress X t"
    "settle X t src c = (r, c')"
  obtains (stopped) e where "r = Inl e" "c_state c' = c_state c"
  | (paid) y where "r = Inr y" "getTxCloseReminderToAddress X t = None"
      "accounts (c_state c') = accounts (c_state c)"
  | (closed) y x k where "r = Inr y" "getTxCloseReminderToAddress X t = Some x" "x \<noteq> src"
      "map_of (accounts (c_state c)) x = Some k" "accounts (c_state c') = accounts (closed_out src x (c_state c))"
proof -
  let ?k = "case getTxCloseReminderToAddress X t of None \<Rightarrow> returnM ()
        | Some closeTo \<Rightarrow> seqM (verifyCloseRemainderTo X t)
            (bindM (askM (ctx_getAccount closeTo)) (\<lambda>closeAccount. close_amount src (address closeAccount)))"
  show thesis
  proof (cases "assertAccBalAboveMin src c")
    case (Pair r1 c1)
    then have c1: "c1 = c"
      by (auto simp: assertAccBalAboveMin_def exec_simps split: sum.splits prod.splits)
    show thesis
    proof (cases r1)
      case (Inl e)
      then show thesis using Pair c1 assms(4) by (intro stopped) (auto simp: settle_def exec_simps)
    next
      case (Inr u)
      then have r: "seqM ?k setAndGetTxReceipt c = (r, c')"
        using Pair c1 assms(4) by (simp add: settle_def exec_simps)
      show thesis
      proof (cases "getTxCloseReminderToAddress X t")
        case None
        then have "setAndGetTxReceipt c = (r, c')" using r by (simp add: exec_simps)
        then show thesis
          using None receipt_accounts [of c] by (cases r) (auto intro: paid)
      next
        case (Some x)
        then have tx: "t_closeRemainderTo t \<noteq> None" by (auto simp: getTxCloseReminderToAddress_def)
        show thesis
        proof (cases "x = src \<or> map_of (accounts (c_state c)) x = None")
          case True
          then have "\<exists>e. r = Inl e \<and> c' = c"
            using r Some tx assms(1,3)
            by (cases "x = src") (auto simp: verifyCloseRemainderTo_def exec_simps getAccount_wf)
          then show thesis by (auto intro: stopped)
        next
          case False
          then obtain k where k: "map_of (accounts (c_state c)) x = Some k" "x \<noteq> src" by auto
          have "setAndGetTxReceipt (c\<lparr>c_state := closed_out src x (c_state c)\<rparr>) = (r, c')"
            using r Some k assms(1,2,3) wf_ledgerD [OF assms(1) k(1)]
            by (simp add: verifyCloseRemainderTo_def exec_simps getAccount_wf close_amount_eq closed_out_def Let_def)
          then show thesis
            using Some k receipt_accounts [of "c\<lparr>c_state := closed_out src x (c_state c)\<rparr>"]
            by (cases r) (auto intro: closed)
        qed
      qed
    qed
  qed
qed

lemma transferAlgo_effect:
  assumes "wf_ledger (c_state c)" "transferAlgo X t c = (r, c')"
  shows "wf_ledger (c_state c') \<and> algos (c_state c') = algos (c_state c) \<and>
    (\<not> isl r \<longrightarrow> (\<exists>to. getTxToAddress X t = Inr to \<and> getTxCloseReminderToAddress X t \<noteq> Some (getTxFromAddress X t) \<and>
      (\<forall>b. map_of (accounts (c_state c')) b = map_option (\<lambda>a. a\<lparr>amount :=
         after_payment (getTxFromAddress X t) to (t_amount t) (getTxCloseReminderToAddress X t)
           (\<lambda>x. balance x (c_state c)) b\<rparr>) (map_of (accounts (c_state c)) b))))"
proof (cases "\<exists>to. getTxToAddress X t = Inr to \<and> map_of (accounts (c_state c)) (getTxFromAddress X t) \<noteq> None
    \<and> map_of (accounts (c_state c)) to \<noteq> None")
  case False
  then show ?thesis using transferAlgo_fails [OF assms(1)] assms by fastforce
next
  case True
  define src where "src = getTxFromAddress X t"
  obtain to a b where to: "getTxToAddress X t = Inr to" "map_of (accounts (c_state c)) src = Some a"
    "map_of (accounts (c_state c)) to = Some b" using True by (auto simp: src_def)
  define st where "st = moved src to (t_amount t) (c_state c)"
  note m = moved_props [where n = "t_amount t", OF assms(1) to(2,3), folded st_def]
  let ?c = "c\<lparr>c_state := st\<rparr>"
  have s: "settle X t src ?c = (r, c')"
    using transferAlgo_settle [OF assms(1) to(1) src_def to(2,3)] assms(2) by (simp add: st_def)
  obtain a2 where a2: "map_of (accounts st) src = Some a2" using m(4) [of src] to by auto
  have f: "wf_ledger (c_state ?c)" "map_of (accounts (c_state ?c)) src = Some a2" using m(1) a2 by simp_all
  show ?thesis
  proof (cases rule: settle_cases [OF f src_def s, case_names stopped paid closed])
    case (closed y x k)
    have k: "map_of (accounts st) x = Some k" and "src \<noteq> x" using closed by simp_all
    note q = closed_out_props [OF m(1) a2 this]
    have bal: "balance b st = after_payment src to (t_amount t) None (\<lambda>y. balance y (c_state c)) b" for b
      by (rule m(3))
    have "after_payment src to (t_amount t) (Some x) (\<lambda>y. balance y (c_state c)) b =
        ((\<lambda>y. balance y st)(x := balance x st + balance src st, src := 0)) b" for b
      unfolding bal by (simp add: after_payment_def)
    then have "map_of (accounts (c_state c')) b = map_option (\<lambda>a. a\<lparr>amount :=
         after_payment src to (t_amount t) (Some x) (\<lambda>x. balance x (c_state c)) b\<rparr>) (map_of (accounts (c_state c)) b)" for b
      using closed(5) q(3) [of b] m(4) [of b] by (simp add: option.map_comp comp_def)
    moreover have "wf_ledger (c_state c')" "algos (c_state c') = algos (c_state c)"
      using closed(5) q(1,2) m(2) by (simp_all add: wf_ledger_def algos_def)
    ultimately show ?thesis using closed(1-3) to(1) by (simp add: src_def)
  next
    case (paid y)
    have "map_of (accounts (c_state c')) b = map_option (\<lambda>a. a\<lparr>amount :=
         after_payment src to (t_amount t) None (\<lambda>x. balance x (c_state c)) b\<rparr>) (map_of (accounts (c_state c)) b)" for b
      using paid(3) m(4) [of b] by (simp add: m(3))
    moreover have "wf_ledger (c_state c')" "algos (c_state c') = algos (c_state c)"
      using paid(3) m(1,2) by (simp_all add: wf_ledger_def algos_def)
    ultimately show ?thesis using paid(1,2) to(1) by (simp add: src_def)
  next
    case (stopped e)
    then show ?thesis using m(1,2) by simp
  qed
qed

section \<open>Properties\<close>

text \<open>
  C23: A payment never creates or destroys money: whatever \<^verbatim>\<open>transferAlgo\<close> does, throw or return, the sum
  of all balances is what it was, and the accounts stay filed under their own addresses. When it
  returns, exactly the balances of a payment have changed: the amount has gone from the sender to
  the receiver, also when they are the same account, and with a close-out the rest of the sender has
  gone to the close address, which is not the sender, leaving 0.
\<close>

theorem transferAlgo_correct:
  assumes "wf_ledger (c_state c)" "transferAlgo X t c = (r, c')"
  shows "wf_ledger (c_state c') \<and> algos (c_state c') = algos (c_state c) \<and>
    (\<not> isl r \<longrightarrow> (\<exists>to. getTxToAddress X t = Inr to \<and> getTxCloseReminderToAddress X t \<noteq> Some (getTxFromAddress X t) \<and>
      (\<forall>b. map_of (accounts (c_state c')) b = map_option (\<lambda>a. a\<lparr>amount :=
         after_payment (getTxFromAddress X t) to (t_amount t) (getTxCloseReminderToAddress X t)
           (\<lambda>x. balance x (c_state c)) b\<rparr>) (map_of (accounts (c_state c)) b))))"
  using assms by (rule transferAlgo_effect)

definition sample_transaction :: "string \<Rightarrow> bytes \<Rightarrow> transaction" where
  "sample_transaction tp src = \<lparr>t_type = tp, t_from = src, t_to = None, t_amount = 0, t_closeRemainderTo = None,
     t_reKeyTo = None, t_fee = 1000, t_flatFee = False, t_firstRound = 1, t_lastRound = 1000, t_assetIndex = 0,
     t_assetRevocationTarget = None, t_freezeAccount = None, t_freezeState = False, t_appIndex = 0,
     t_appOnComplete = NoOpOC, t_assetName = '''', t_assetTotal = 0, t_assetDecimals = 0,
     t_assetDefaultFrozen = False, t_assetUnitName = None, t_assetURL = None, t_assetMetadataHash = None,
     t_assetManager = None, t_assetReserve = None, t_assetFreeze = None, t_assetClawback = None\<rparr>"

text \<open>A context with the accounts 1, 2 and 3.\<close>

definition rich_ctx :: ctx where
  "rich_ctx = sample_ctx\<lparr>c_state := sample_ledger\<lparr>accounts :=
     List.map (\<lambda>k. (encodeAddress sample_sdk [k], new_AccountStore 1000000 (encodeAddress sample_sdk [k]) [] None)) [1, 2, 3]\<rparr>,
     c_txnType := Some ''pay''\<rparr>"

definition closing_payment :: transaction where
  "closing_payment = (sample_transaction ''pay'' [1])\<lparr>t_to := Some [2], t_amount := 400000, t_closeRemainderTo := Some [3]\<rparr>"

lemma rich_wf: "wf_ledger (c_state rich_ctx)"
proof -
  have "distinct (List.map fst (accounts (c_state rich_ctx)))" by code_simp
  moreover have "accounts (c_state rich_ctx) =
      List.map (\<lambda>k. (encodeAddress sample_sdk [k], new_AccountStore 1000000 (encodeAddress sample_sdk [k]) [] None)) [1, 2, 3]"
    by (simp add: rich_ctx_def)
  ultimately show ?thesis by (auto simp: wf_ledger_def wf_map_def new_AccountStore_def split: if_splits)
qed

lemma transferAlgo_correct_witness:
  "\<exists>r c'. transferAlgo sample_sdk closing_payment rich_ctx = (Inr r, c') \<and> algos (c_state c') = 3000000 \<and>
     List.map (\<lambda>k. balance (encodeAddress sample_sdk [k]) (c_state c')) [1, 2, 3] = [0, 1400000, 1600000]"
proof -
  let ?m = "transferAlgo sample_sdk closing_payment rich_ctx"
  have e: "isl (fst ?m) = False" "List.map (\<lambda>k. balance (encodeAddress sample_sdk [k]) (c_state (snd ?m))) [1, 2, 3] = [0, 1400000, 1600000]"
    "algos (c_state rich_ctx) = 3000000"
    by code_simp+
  obtain r c' where m: "?m = (r, c')" by fastforce
  then have "algos (c_state c') = 3000000"
    using transferAlgo_correct [OF rich_wf m] e(3) by simp
  then show ?thesis using m e by (cases r) auto
qed

lemma deductFee_effect:
  assumes "wf_ledger (c_state c)" "i < length (c_gtxs c)"
  shows "case deductFee sender i params c of
      (Inr _, c') \<Rightarrow> (\<exists>fee. fee_due params (tx_fee (c_gtxs c ! i)) = Inr fee \<and> fee \<le> balance sender (c_state c) \<and>
        (fl_flatFee params \<noteq> Some True \<and> fl_totalFee params = None \<longrightarrow> ALGORAND_MIN_TX_FEE \<le> fee) \<and>
        wf_ledger (c_state c') \<and> algos (c_state c') = algos (c_state c) - fee \<and>
        (\<forall>b. map_of (accounts (c_state c')) b = (if b = sender
           then map_option (\<lambda>a. a\<lparr>amount := amount a - fee\<rparr>) (map_of (accounts (c_state c)) b)
           else map_of (accounts (c_state c)) b)))
    | (Inl e, c') \<Rightarrow> (tx_fee (c_gtxs c ! i) = None \<and> fl_flatFee params = None \<and> fl_totalFee params = None \<longrightarrow>
        e = JsError RangeError \<and> c' = c)"
proof (cases "fee_due params (tx_fee (c_gtxs c ! i))")
  case (Inl e)
  then show ?thesis
    using assms by (auto simp: deductFee_def exec_simps fee_due_def split: if_splits option.splits)
next
  case (Inr fee)
  then have min: "fl_flatFee params \<noteq> Some True \<and> fl_totalFee params = None \<longrightarrow> ALGORAND_MIN_TX_FEE \<le> fee"
    "\<not> (tx_fee (c_gtxs c ! i) = None \<and> fl_flatFee params = None \<and> fl_totalFee params = None)"
    by (auto simp: fee_due_def split: if_splits option.splits)
  show ?thesis
  proof (cases "map_of (accounts (c_state c)) sender")
    case None
    then show ?thesis using assms Inr min by (auto simp: deductFee_def exec_simps getAccount_wf)
  next
    case (Some a)
    note ad = wf_ledgerD [OF assms(1) Some]
    show ?thesis
      using assms Inr Some ad min
      by (auto simp: deductFee_def exec_simps getAccount_wf add_amount_eq assertAccBalAboveMin_def
          balance_def algos_put put_account_wf split: if_splits)
  qed
qed

text \<open>
  C27: The fee of a transaction: when \<^verbatim>\<open>deductFee\<close> returns, the sender, who could pay it, has lost exactly
  the fee that is due (at least the minimum fee unless a flat fee was asked for), nothing else in any
  account has changed, and the sum of the balances has shrunk by the fee: no account collects it, not
  even the fee sink. A transaction without a fee field, which is how a zero fee is encoded, throws a
  range error unless it has a flat fee.
\<close>

theorem deductFee_correct:
  assumes "wf_ledger (c_state c)" "i < length (c_gtxs c)"
  shows "case deductFee sender i params c of
      (Inr _, c') \<Rightarrow> (\<exists>fee. fee_due params (tx_fee (c_gtxs c ! i)) = Inr fee \<and> fee \<le> balance sender (c_state c) \<and>
        (fl_flatFee params \<noteq> Some True \<and> fl_totalFee params = None \<longrightarrow> ALGORAND_MIN_TX_FEE \<le> fee) \<and>
        wf_ledger (c_state c') \<and> algos (c_state c') = algos (c_state c) - fee \<and>
        (\<forall>b. map_of (accounts (c_state c')) b = (if b = sender
           then map_option (\<lambda>a. a\<lparr>amount := amount a - fee\<rparr>) (map_of (accounts (c_state c)) b)
           else map_of (accounts (c_state c)) b)))
    | (Inl e, c') \<Rightarrow> (tx_fee (c_gtxs c ! i) = None \<and> fl_flatFee params = None \<and> fl_totalFee params = None \<longrightarrow>
        e = JsError RangeError \<and> c' = c)"
  using assms by (rule deductFee_effect)

definition paying_ctx :: ctx where
  "paying_ctx = rich_ctx\<lparr>c_gtxs := [(bare_tx ''pay'' ''P'' [1])\<lparr>tx_fee := Some 500\<rparr>]\<rparr>"

lemma deductFee_correct_witness:
  "\<exists>c'. deductFee (encodeAddress sample_sdk [1]) 0 no_flags paying_ctx = (Inr (), c') \<and>
     algos (c_state c') = 2999000"
proof -
  have wf: "wf_ledger (c_state paying_ctx)" using rich_wf by (simp add: paying_ctx_def)
  have e: "isl (fst (deductFee (encodeAddress sample_sdk [1]) 0 no_flags paying_ctx)) = False"
    "fee_due no_flags (tx_fee (c_gtxs paying_ctx ! 0)) = Inr 1000"
    "algos (c_state paying_ctx) = 3000000"
    by code_simp+
  have i: "0 < length (c_gtxs paying_ctx)" by (simp add: paying_ctx_def)
  show ?thesis
    using deductFee_correct [where sender = "encodeAddress sample_sdk [1]" and params = no_flags, OF wf i] e
    by (auto split: prod.splits sum.splits)
qed

end
