(* ===== verification/TEAL_Assets.thy ===== *)
theory TEAL_Assets
  imports TEAL_Payments
begin

text \<open>
  The supply invariant of assets: in every ledger that the methods of \<^verbatim>\<open>ctx.ts\<close> reach, the holdings of an
  asset add up to the total its creator fixed, and none is negative. The invariant is first stated
  with an offset, so that the two halves of a transfer can be followed one by one.
\<close>

section \<open>The invariant\<close>

definition held :: "int \<Rightarrow> account \<Rightarrow> int" where
  "held i a = (case map_of (assets a) i of None \<Rightarrow> 0 | Some hld \<Rightarrow> ah_amount hld)"

definition circulation :: "int \<Rightarrow> ledger \<Rightarrow> int" where
  "circulation i st = (\<Sum>(addr, a) \<leftarrow> accounts st. held i a)"

definition totals :: "int \<Rightarrow> account \<Rightarrow> int option" where
  "totals i a = map_option ap_total (map_of (createdAssets a) i)"

text \<open>An account whose maps are maps, whose holdings are not negative and whose assets are numbered up to \<open>n\<close>.\<close>

definition acct_ok :: "int \<Rightarrow> account \<Rightarrow> bool" where
  "acct_ok n a \<longleftrightarrow> wf_map (assets a) \<and> wf_map (createdAssets a) \<and>
     (\<forall>i hld. map_of (assets a) i = Some hld \<longrightarrow> 0 \<le> ah_amount hld \<and> i \<le> n) \<and>
     (\<forall>i. totals i a \<noteq> None \<longrightarrow> i \<le> n)"

text \<open>No two accounts created the same asset.\<close>

definition creators_once :: "ledger \<Rightarrow> bool" where
  "creators_once st \<longleftrightarrow> (\<forall>x y a b i. map_of (accounts st) x = Some a \<longrightarrow> map_of (accounts st) y = Some b \<longrightarrow>
     totals i a \<noteq> None \<longrightarrow> totals i b \<noteq> None \<longrightarrow> x = y)"

definition assets_off :: "(int \<Rightarrow> int) \<Rightarrow> ledger \<Rightarrow> bool" where
  "assets_off d st \<longleftrightarrow> wf_ledger st \<and>
     (\<forall>addr a. map_of (accounts st) addr = Some a \<longrightarrow> acct_ok (assetCounter st) a \<and>
        (\<forall>i n. totals i a = Some n \<longrightarrow> circulation i st + d i = n)) \<and>
     creators_once st"

abbreviation assets_ok :: "ledger \<Rightarrow> bool" where
  "assets_ok \<equiv> assets_off (\<lambda>_. 0)"

lemma circulation_total: "circulation i st = jm.total (\<lambda>_ a. held i a) (accounts st)"
  by (simp add: circulation_def jm.total_def)

lemma circulation_put:
  "wf_ledger st \<Longrightarrow> map_of (accounts st) addr = Some a \<Longrightarrow>
   circulation i (put_account addr a' st) = circulation i st + held i a' - held i a"
  by (simp add: circulation_total put_account_def wf_ledger_def jm.total_put)

lemma circulation_new:
  "wf_ledger st \<Longrightarrow> map_of (accounts st) addr = None \<Longrightarrow>
   circulation i (put_account addr a' st) = circulation i st + held i a'"
  by (simp add: circulation_total put_account_def wf_ledger_def jm.total_put)

lemma put_counter [simp]: "assetCounter (put_account addr a st) = assetCounter st"
  by (simp add: put_account_def)

lemma assets_off_cong:
  "accounts st' = accounts st \<Longrightarrow> assetCounter st' = assetCounter st \<Longrightarrow> assets_off d st \<Longrightarrow> assets_off d st'"
  by (simp add: assets_off_def wf_ledger_def circulation_def creators_once_def)

interpretation ai: ledger_inv "assets_off d" for d
  by unfold_locales (rule assets_off_cong)

lemma creators_onceD:
  assumes "creators_once st" "map_of (accounts st) x = Some a" "map_of (accounts st) y = Some b"
    "totals i a \<noteq> None" "totals i b \<noteq> None"
  shows "x = y"
  using assms(1) [unfolded creators_once_def, rule_format, OF assms(2-5)] .

lemma creators_once_put:
  assumes "creators_once st" "\<And>i. totals i a' \<noteq> None \<Longrightarrow> (\<exists>a. map_of (accounts st) addr = Some a \<and> totals i a \<noteq> None)
    \<or> (\<forall>y b. map_of (accounts st) y = Some b \<longrightarrow> totals i b = None)"
  shows "creators_once (put_account addr a' st)"
  unfolding creators_once_def
proof (intro allI impI)
  fix x y a b i
  assume *: "map_of (accounts (put_account addr a' st)) x = Some a" "map_of (accounts (put_account addr a' st)) y = Some b"
    "totals i a \<noteq> None" "totals i b \<noteq> None"
  have new: "z = addr" if t: "totals i a' \<noteq> None" and z: "map_of (accounts st) z = Some e" "totals i e \<noteq> None" for z e
    using assms(2) [OF t]
  proof
    assume "\<exists>a. map_of (accounts st) addr = Some a \<and> totals i a \<noteq> None"
    then show ?thesis using creators_onceD [OF assms(1) z(1) _ z(2)] by auto
  next
    assume "\<forall>y b. map_of (accounts st) y = Some b \<longrightarrow> totals i b = None"
    then show ?thesis using z by auto
  qed
  show "x = y"
  proof (cases "x = addr"; cases "y = addr")
    assume "x \<noteq> addr" "y \<noteq> addr"
    then show ?thesis using creators_onceD [OF assms(1) _ _ *(3,4)] * by simp
  next
    assume "x \<noteq> addr" "y = addr"
    then show ?thesis using new [of x a] * by simp
  next
    assume "x = addr" "y \<noteq> addr"
    then show ?thesis using new [of y b] * by simp
  qed simp
qed

text \<open>One account changes, the totals of what it created do not.\<close>

lemma assets_off_put:
  assumes "assets_off d st" "map_of (accounts st) addr = Some a" "address a' = addr"
    "acct_ok (assetCounter st) a'" "\<And>i. totals i a' = totals i a"
  shows "assets_off (\<lambda>i. d i + held i a - held i a') (put_account addr a' st)"
proof -
  have "creators_once (put_account addr a' st)"
    using assms(1,2,5) by (intro creators_once_put) (auto simp: assets_off_def)
  then show ?thesis
    using assms unfolding assets_off_def by (auto simp: circulation_put put_account_wf split: if_splits)
qed

lemma assets_off_same:
  assumes "assets_off d st" "map_of (accounts st) addr = Some a" "address a' = addr"
    "acct_ok (assetCounter st) a'" "\<And>i. totals i a' = totals i a" "\<And>i. held i a' = held i a"
  shows "assets_off d (put_account addr a' st)"
  using assets_off_put [OF assms(1-5)] assms(6) by simp

lemma assets_off_acct: "assets_off d st \<Longrightarrow> map_of (accounts st) addr = Some a \<Longrightarrow> acct_ok (assetCounter st) a"
  by (simp add: assets_off_def)

lemma assets_off_wf: "assets_off d st \<Longrightarrow> wf_ledger st"
  by (simp add: assets_off_def)

lemma assets_off_address: "assets_off d st \<Longrightarrow> map_of (accounts st) addr = Some a \<Longrightarrow> address a = addr"
  by (simp add: assets_off_def wf_ledger_def)

text \<open>A new account holds nothing.\<close>

lemma assets_off_new:
  assumes "assets_off d st" "map_of (accounts st) addr = None" "address a = addr" "assets a = []" "createdAssets a = []"
  shows "assets_off d (put_account addr a st)"
proof -
  have h: "held i a = 0" "totals i a = None" "acct_ok n a" for i n
    using assms(4,5) by (simp_all add: held_def totals_def acct_ok_def)
  then have "creators_once (put_account addr a st)"
    using assms(1) by (intro creators_once_put) (auto simp: assets_off_def)
  then show ?thesis using assms(1-3) h unfolding assets_off_def
    by (auto simp: circulation_new put_account_wf split: if_splits)
qed

section \<open>Account methods that leave holdings alone\<close>

definition asset_frame :: "(account, 'a) exec \<Rightarrow> bool" where
  "asset_frame m \<longleftrightarrow> (\<forall>a. address (snd (m a)) = address a \<and> assets (snd (m a)) = assets a \<and>
     createdAssets (snd (m a)) = createdAssets a)"

lemma asset_frame_keeps:
  assumes "asset_frame m"
  shows "ai.keeps d (on_ledger (on_account addr m))"
proof (rule ai.keeps_on_account)
  fix st a
  assume st: "assets_off d st" "map_of (accounts st) addr = Some a"
  have e: "address (snd (m a)) = address a" "assets (snd (m a)) = assets a" "createdAssets (snd (m a)) = createdAssets a"
    using assms by (simp_all add: asset_frame_def)
  have "acct_ok (assetCounter st) (snd (m a))" "\<And>i. totals i (snd (m a)) = totals i a" "\<And>i. held i (snd (m a)) = held i a"
    using assets_off_acct [OF st] e by (simp_all add: acct_ok_def totals_def held_def)
  then show "assets_off d (put_account addr (snd (m a)) st)"
    using assets_off_same [OF st] assets_off_address [OF st] e by simp
qed

lemma asset_frame_modify:
  "(\<And>a. address (f a) = address a \<and> assets (f a) = assets a \<and> createdAssets (f a) = createdAssets a) \<Longrightarrow>
   asset_frame (modifyM f)"
  by (simp add: asset_frame_def exec_simps)

lemma asset_frame_apps:
  "asset_frame (getM g)" "asset_frame (setLocalState h i k v)" "asset_frame (setGlobalState h i k v)"
  "asset_frame (addApp i d)" "asset_frame (optInToApp i p)" "asset_frame (deleteApp i)" "asset_frame (closeApp i)"
  "asset_frame (deleteLocalKey i k)" "asset_frame (deleteGlobalKey i k)"
  by (auto simp: asset_frame_def exec_simps setLocalState_def setGlobalState_def addApp_def optInToApp_def
      deleteApp_def closeApp_def deleteLocalKey_def deleteGlobalKey_def Let_def split: option.splits)

section \<open>The methods of the context\<close>

lemmas frame_keeps = ai.keeps_intros asset_frame_keeps asset_frame_apps asset_frame_modify

lemma keeps_set_receipt: "ai.keeps d (set_receipt rc)"
  by (rule ai.keeps_same) (simp_all add: set_receipt_def)

lemma keeps_payments:
  "ai.keeps d (assertAccBalAboveMin x)" "ai.keeps d setAndGetTxReceipt" "ai.keeps d (add_amount x n)"
  "ai.keeps d (close_amount x y)" "ai.keeps d (verifyCloseRemainderTo X t)" "ai.keeps d (transferAlgo X t)"
  "ai.keeps d (deductFee x i p)" "ai.keeps d verifyMinimumFees" "ai.keeps d verifyAndUpdateInnerAppCallStack"
  "ai.keeps d (assertAssetNotFrozen j x)"
proof -
  show a: "ai.keeps d (assertAccBalAboveMin x)" for x
    unfolding assertAccBalAboveMin_def by (intro frame_keeps)
  show b: "ai.keeps d setAndGetTxReceipt"
    unfolding setAndGetTxReceipt_def by (intro frame_keeps keeps_set_receipt)
  show c: "ai.keeps d (add_amount x n)" for x n
    unfolding add_amount_def by (intro frame_keeps) simp
  show e: "ai.keeps d (close_amount x y)" for x y
    unfolding close_amount_def by (intro frame_keeps c) simp_all
  show f: "ai.keeps d (verifyCloseRemainderTo X t)"
    unfolding verifyCloseRemainderTo_def by (intro frame_keeps)
  show "ai.keeps d (transferAlgo X t)"
    unfolding transferAlgo_def by (intro frame_keeps a b c e f)
  show "ai.keeps d (deductFee x i p)"
    unfolding deductFee_def by (intro frame_keeps a c)
  show "ai.keeps d verifyMinimumFees" "ai.keeps d verifyAndUpdateInnerAppCallStack"
    unfolding verifyMinimumFees_def verifyAndUpdateInnerAppCallStack_def by (intro frame_keeps; simp)+
  show "ai.keeps d (assertAssetNotFrozen j x)"
    unfolding assertAssetNotFrozen_def by (intro frame_keeps)
qed

lemma keeps_apps:
  "ai.keeps d (ctx_deleteApp i)" "ai.keeps d (ctx_closeApp x i)" "ai.keeps d (ctx_rekeyTo X t auth)"
proof -
  have g: "ai.keeps d (on_ledger (modifyM (\<lambda>st. st\<lparr>globalApps := f st\<rparr>)))" for f
    by (rule ai.keeps_same) (simp_all add: exec_simps)
  show "ai.keeps d (ctx_deleteApp i)" "ai.keeps d (ctx_closeApp x i)"
    unfolding ctx_deleteApp_def ctx_closeApp_def by (intro frame_keeps g)+
  show "ai.keeps d (ctx_rekeyTo X t auth)"
    unfolding ctx_rekeyTo_def by (intro frame_keeps) (simp add: rekeyTo_def)
qed

text \<open>Holdings: changing one by an amount, freezing it, adding an empty one.\<close>

lemma add_holding_off:
  assumes "assets_off d (c_state c)" "map_of (accounts (c_state c)) x = Some a" "map_of (assets a) i = Some hld"
    "0 \<le> ah_amount hld + n"
  shows "\<exists>a' c'. add_holding i x n c = (Inr (), c') \<and> assets_off (d(i := d i - n)) (c_state c') \<and>
    accounts (c_state c') = accounts (put_account x a' (c_state c)) \<and>
    assets a' = AList.update i (hld\<lparr>ah_amount := ah_amount hld + n\<rparr>) (assets a)"
proof -
  let ?a = "a\<lparr>assets := AList.update i (hld\<lparr>ah_amount := ah_amount hld + n\<rparr>) (assets a)\<rparr>"
  have ok: "acct_ok (assetCounter (c_state c)) a" "address a = x"
    using assets_off_acct [OF assms(1,2)] assets_off_address [OF assms(1,2)] by auto
  then have "acct_ok (assetCounter (c_state c)) ?a"
    using assms(3,4) by (auto simp: acct_ok_def totals_def)
  moreover have "(\<lambda>j. d j + held j a - held j ?a) = d(i := d i - n)"
    using assms(3) by (auto simp: held_def)
  ultimately have "assets_off (d(i := d i - n)) (put_account x ?a (c_state c))"
    using assets_off_put [OF assms(1,2), of ?a] ok by (simp add: totals_def)
  then show ?thesis using assms(2,3)
    by (intro exI [of _ ?a] exI [of _ "c\<lparr>c_state := put_account x ?a (c_state c)\<rparr>"])
      (simp add: add_holding_def exec_simps)
qed

lemma getAssetHolding_Inr:
  "ctx_getAssetHolding i x st = Inr hld \<longleftrightarrow>
    (\<exists>a. map_of (accounts st) x = Some a \<and> address a = x \<and> map_of (assets a) i = Some hld)"
  by (auto simp: ctx_getAssetHolding_def ctx_getAccount_def assertAccountDefined_def
      TEAL_Account.getAssetHolding_def split: option.splits)

lemma keeps_move:
  assumes "0 \<le> n"
  shows "ai.keeps (\<lambda>_. 0) (move_asset i x y n)"
  unfolding ai.keeps_def
proof (intro allI impI)
  fix c :: ctx
  assume ok: "assets_ok (c_state c)"
  let ?st = "c_state c"
  show "assets_ok (c_state (snd (move_asset i x y n c)))"
  proof (cases "\<exists>hx hy. ctx_getAssetHolding i x ?st = Inr hx \<and> ctx_getAssetHolding i y ?st = Inr hy \<and> n \<le> ah_amount hx")
    case False
    then have "snd (move_asset i x y n c) = c"
      by (auto simp: move_asset_def exec_simps split: sum.splits)
    then show ?thesis using ok by simp
  next
    case True
    then obtain hx hy a b where h: "ctx_getAssetHolding i x ?st = Inr hx" "ctx_getAssetHolding i y ?st = Inr hy"
      "n \<le> ah_amount hx" "map_of (accounts ?st) x = Some a" "map_of (assets a) i = Some hx"
      "map_of (accounts ?st) y = Some b" "map_of (assets b) i = Some hy"
      by (auto simp: getAssetHolding_Inr)
    obtain a' c1 where 1: "add_holding i x (- n) c = (Inr (), c1)" "assets_off ((\<lambda>_. 0)(i := n)) (c_state c1)"
      "accounts (c_state c1) = accounts (put_account x a' ?st)"
      "assets a' = AList.update i (hx\<lparr>ah_amount := ah_amount hx - n\<rparr>) (assets a)"
      using add_holding_off [OF ok h(4,5), of "- n"] h(3) by auto
    obtain b1 hy1 where y: "map_of (accounts (c_state c1)) y = Some b1" "map_of (assets b1) i = Some hy1"
      using h(6,7) 1(3,4) by (cases "y = x") auto
    then have "0 \<le> ah_amount hy1"
      using assets_off_acct [OF 1(2) y(1)] by (auto simp: acct_ok_def)
    then obtain c2 where 2: "add_holding i y n c1 = (Inr (), c2)" "assets_ok (c_state c2)"
      using add_holding_off [OF 1(2) y, of n] assms \<open>0 \<le> ah_amount hy1\<close> by (auto simp: fun_upd_idem)
    have "move_asset i x y n c = (Inr (), c2)"
      using h(1-3) 1(1) 2(1) by (simp add: move_asset_def exec_simps)
    then show ?thesis using 2(2) by simp
  qed
qed

lemma keeps_freeze: "ai.keeps d (on_ledger (on_account x (setFreezeState i fr)))"
proof (rule ai.keeps_on_account)
  fix st a
  assume st: "assets_off d st" "map_of (accounts st) x = Some a"
  let ?a = "snd (setFreezeState i fr a)"
  have "acct_ok (assetCounter st) ?a" "\<And>j. totals j ?a = totals j a" "\<And>j. held j ?a = held j a" "address ?a = x"
    using assets_off_acct [OF st] assets_off_address [OF st]
    by (auto simp: setFreezeState_def acct_ok_def totals_def held_def split: option.splits)
  then show "assets_off d (put_account x ?a st)" using assets_off_same [OF st] by simp
qed

lemma set_field_total [simp]: "ap_total (set_field x v a) = ap_total a"
  by (cases x) simp_all

lemma forM_check_field_total: "ap_total (snd (forM xs (check_field m) a)) = ap_total a"
  by (induction xs arbitrary: a) (auto simp: exec_simps check_field_def split: prod.splits sum.splits if_splits)

lemma keeps_modifyAsset: "ai.keeps d (on_ledger (on_account x (modifyAsset i m)))"
proof (rule ai.keeps_on_account)
  fix st a
  assume st: "assets_off d st" "map_of (accounts st) x = Some a"
  let ?a = "snd (modifyAsset i m a)"
  have "ap_total (snd (checkAndSetASAFields m p)) = ap_total p" for p
    unfolding checkAndSetASAFields_def by (rule forM_check_field_total)
  then have t: "totals j ?a = totals j a" for j
    by (auto simp: modifyAsset_def totals_def TEAL_Account.getAssetDef_def split: option.splits prod.splits)
       (metis snd_conv)
  have "acct_ok (assetCounter st) ?a" "\<And>j. held j ?a = held j a" "address ?a = x"
    using assets_off_acct [OF st] assets_off_address [OF st] t
    by (auto simp: modifyAsset_def acct_ok_def held_def split: option.splits prod.splits)
  then show "assets_off d (put_account x ?a st)" using assets_off_same [OF st] t by simp
qed

lemma keeps_optIn_account:
  assumes "0 \<le> ah_amount hld" "ah_amount hld = 0"
  shows "assets_off d st \<Longrightarrow> map_of (accounts st) x = Some a \<Longrightarrow> i \<le> assetCounter st \<Longrightarrow>
    assets_off d (put_account x (snd (TEAL_Account.optInToASA i hld a)) st)"
proof -
  assume st: "assets_off d st" "map_of (accounts st) x = Some a" and i: "i \<le> assetCounter st"
  let ?a = "snd (TEAL_Account.optInToASA i hld a)"
  have "acct_ok (assetCounter st) ?a" "\<And>j. totals j ?a = totals j a" "\<And>j. held j ?a = held j a" "address ?a = x"
    using assets_off_acct [OF st] assets_off_address [OF st] i assms
    by (auto simp: TEAL_Account.optInToASA_def acct_ok_def totals_def held_def split: option.splits)
  then show "assets_off d (put_account x ?a st)" using assets_off_same [OF st] by simp
qed

lemma getAssetDef_counter:
  assumes "assets_off d st" "ctx_getAssetDef i st = Inr p"
  shows "i \<le> assetCounter st"
proof -
  obtain x a where "map_of (accounts st) x = Some a" "map_of (createdAssets a) i = Some p"
    using assms(2) by (auto simp: ctx_getAssetDef_def ctx_getAssetAccount_def ctx_getAccount_Inr
        assertAssetDefined_def TEAL_Account.getAssetDef_def split: sum.splits option.splits)
  then show ?thesis using assets_off_acct [OF assms(1)] by (fastforce simp: acct_ok_def totals_def)
qed

lemma keeps_optIn: "ai.keeps d (ctx_optInToASA L i x flags)"
  unfolding ai.keeps_def
proof (intro allI impI)
  fix c :: ctx
  assume ok: "assets_off d (c_state c)"
  show "assets_off d (c_state (snd (ctx_optInToASA L i x flags c)))"
  proof (cases "ctx_getAssetDef i (c_state c)")
    case (Inl e)
    then show ?thesis using ok by (simp add: ctx_optInToASA_def exec_simps)
  next
    case (Inr p)
    note i = getAssetDef_counter [OF ok Inr]
    let ?h = "\<lparr>ah_amount = 0, ah_asset_id = i, ah_creator = ap_creator p, ah_is_frozen = ap_defaultFrozen p\<rparr>"
    let ?rest = "seqM (assertAccBalAboveMin x) setAndGetTxReceipt"
    show ?thesis
    proof (cases "isl (make_axfer L x i (mockSuggestedParams flags (c_round c))) \<or> isl (ctx_getAccount x (c_state c))")
      case True
      then have "snd (ctx_optInToASA L i x flags c) = c"
        using Inr by (auto simp: ctx_optInToASA_def exec_simps split: sum.splits)
      then show ?thesis using ok by simp
    next
      case False
      then obtain u a where a: "make_axfer L x i (mockSuggestedParams flags (c_round c)) = Inr u"
        "ctx_getAccount x (c_state c) = Inr a"
        by (cases "make_axfer L x i (mockSuggestedParams flags (c_round c))"; cases "ctx_getAccount x (c_state c)") auto
      then have m: "map_of (accounts (c_state c)) x = Some a" "address a = x" by (simp_all add: ctx_getAccount_Inr)
      let ?c = "c\<lparr>c_state := put_account x (snd (TEAL_Account.optInToASA i ?h a)) (c_state c)\<rparr>"
      have "fst (TEAL_Account.optInToASA i ?h a) = Inr ()" by (simp add: TEAL_Account.optInToASA_def)
      then have e: "ctx_optInToASA L i x flags c = ?rest ?c"
        using Inr a m by (simp add: ctx_optInToASA_def exec_simps)
      have "assets_off d (c_state ?c)" using keeps_optIn_account [OF _ _ ok m(1) i, of ?h] by simp
      moreover have "ai.keeps d ?rest" by (intro frame_keeps keeps_payments)
      ultimately show ?thesis unfolding e ai.keeps_def by simp
    qed
  qed
qed

text \<open>Closing out a holding: what it held has been added to another one.\<close>

lemma closeAsset_off:
  assumes "assets_off d st" "map_of (accounts st) x = Some a"
  shows "assets_off (d(i := d i + held i a)) (put_account x (snd (closeAsset i a)) st)"
proof -
  let ?a = "snd (closeAsset i a)"
  have "acct_ok (assetCounter st) ?a" "\<And>j. totals j ?a = totals j a" "address ?a = x"
    using assets_off_acct [OF assms] assets_off_address [OF assms]
    by (auto simp: closeAsset_def acct_ok_def totals_def split: if_splits)
  moreover have "(\<lambda>j. d j + held j a - held j ?a) = d(i := d i + held i a)"
    by (auto simp: closeAsset_def held_def split: option.splits)
  ultimately show ?thesis using assets_off_put [OF assms, of ?a] by simp
qed

lemma keeps_close:
  assumes "getTxCloseReminderToAddress X t = Some to" "src = getTxFromAddress X t"
  shows "ai.keeps (\<lambda>_. 0) (close_holding X t src to)"
  unfolding ai.keeps_def
proof (intro allI impI)
  fix c :: ctx
  assume ok: "assets_ok (c_state c)"
  let ?st = "c_state c" and ?i = "t_assetIndex t"
  have tx: "t_closeRemainderTo t \<noteq> None" using assms(1) by (auto simp: getTxCloseReminderToAddress_def)
  show "assets_ok (c_state (snd (close_holding X t src to c)))"
  proof (cases "to \<noteq> src \<and> (\<exists>hs. ctx_getAssetHolding ?i src ?st = Inr hs \<and> src \<noteq> ah_creator hs) \<and>
      (\<exists>ht. ctx_getAssetHolding ?i to ?st = Inr ht \<and> \<not> ah_is_frozen ht)")
    case False
    then have "snd (close_holding X t src to c) = c"
      using assms tx by (cases "to = src"; cases "ctx_getAssetHolding ?i src ?st"; cases "ctx_getAssetHolding ?i to ?st")
        (auto simp: close_holding_def verifyCloseRemainderTo_def assertAssetNotFrozen_def exec_simps Let_def)
    then show ?thesis using ok by simp
  next
    case True
    then obtain hs ht a b where h: "to \<noteq> src" "ctx_getAssetHolding ?i src ?st = Inr hs" "src \<noteq> ah_creator hs"
      "ctx_getAssetHolding ?i to ?st = Inr ht" "\<not> ah_is_frozen ht"
      "map_of (accounts ?st) src = Some a" "map_of (assets a) ?i = Some hs" "address a = src"
      "map_of (accounts ?st) to = Some b" "map_of (assets b) ?i = Some ht"
      by (auto simp: getAssetHolding_Inr)
    have "0 \<le> ah_amount hs" "0 \<le> ah_amount ht"
      using assets_off_acct [OF ok] h by (auto simp: acct_ok_def)
    then obtain b' c1 where 1: "add_holding ?i to (ah_amount hs) c = (Inr (), c1)"
      "assets_off ((\<lambda>_. 0)(?i := - ah_amount hs)) (c_state c1)"
      "accounts (c_state c1) = accounts (put_account to b' ?st)"
      using add_holding_off [OF ok h(9,10), of "ah_amount hs"] by auto
    have a1: "map_of (accounts (c_state c1)) src = Some a" using 1(3) h(1,6) by simp
    have "snd (close_holding X t src to c) = c1\<lparr>c_state := put_account src (snd (closeAsset ?i a)) (c_state c1)\<rparr>"
      using assms h 1(1) a1
      by (simp add: close_holding_def verifyCloseRemainderTo_def assertAssetNotFrozen_def exec_simps Let_def
          ctx_getAccount_def assertAccountDefined_def)
    moreover have "held ?i a = ah_amount hs" using h(7) by (simp add: held_def)
    ultimately show ?thesis using closeAsset_off [OF 1(2) a1, of ?i] by (simp add: fun_upd_idem)
  qed
qed

lemma keeps_transferAsset: "0 \<le> t_amount t \<Longrightarrow> ai.keeps (\<lambda>_. 0) (transferAsset L t)"
  unfolding transferAsset_def Let_def
  by (intro frame_keeps keeps_payments keeps_optIn keeps_move)
    (auto simp: given_def getTxFlags_def intro!: keeps_close)

lemma keeps_revokeAsset: "0 \<le> n \<Longrightarrow> ai.keeps (\<lambda>_. 0) (revokeAsset x i y n)"
  unfolding revokeAsset_def by (intro frame_keeps keeps_payments keeps_move)

lemma keeps_freezeAsset: "ai.keeps d (freezeAsset i x fr)"
  unfolding freezeAsset_def by (intro ai.keeps_bind ai.keeps_seq ai.keeps_basic keeps_freeze keeps_payments)

lemma keeps_ctx_modifyAsset: "ai.keeps d (ctx_modifyAsset i m)"
  unfolding ctx_modifyAsset_def by (intro ai.keeps_bind ai.keeps_seq ai.keeps_basic keeps_modifyAsset keeps_payments)

text \<open>A new asset gets a number that no account has seen.\<close>

lemma fresh_asset:
  assumes "assets_off d st" "assetCounter st < k"
  shows "circulation k st = 0" "map_of (accounts st) x = Some a \<Longrightarrow> map_of (assets a) k = None \<and> totals k a = None"
proof -
  have *: "map_of (assets a) k = None \<and> totals k a = None" if "map_of (accounts st) x = Some a" for x a
    using assets_off_acct [OF assms(1) that] assms(2) by (fastforce simp: acct_ok_def)
  then show "map_of (accounts st) x = Some a \<Longrightarrow> map_of (assets a) k = None \<and> totals k a = None" .
  have "held k b = 0" if "(y, b) \<in> set (accounts st)" for y b
    using * [of y b] that assets_off_wf [OF assms(1)] by (auto simp: wf_ledger_def wf_map_def held_def)
  then have "(\<Sum>(y, b) \<leftarrow> accounts st. held k b) = (\<Sum>e \<leftarrow> accounts st. 0)"
    by (intro arg_cong [where f = sum_list] map_cong) auto
  then show "circulation k st = 0" by (simp add: circulation_def)
qed

lemma addAsset_assets_ok:
  assumes "assets_ok st" "map_of (accounts st) x = Some a" "0 \<le> def_total d" "k = assetCounter st + 1"
  shows "assets_ok (put_account x (snd (addAsset k nm d a)) (st\<lparr>assetCounter := k\<rparr>))"
proof -
  let ?a = "snd (addAsset k nm d a)" and ?st = "st\<lparr>assetCounter := k\<rparr>"
  have k: "assetCounter st < k" using assms(4) by simp
  note fresh = fresh_asset [OF assms(1) k]
  note aok = assets_off_acct [OF assms(1)] and wf = assets_off_wf [OF assms(1)]
  have t: "totals j ?a = (if j = k then Some (def_total d) else totals j a)"
    and h: "held j ?a = (if j = k then def_total d else held j a)" for j
    by (simp_all add: addAsset_def totals_def held_def Let_def new_Asset_def)
  have ok: "acct_ok k ?a" "address ?a = x" "held k a = 0"
    using aok [OF assms(2)] assets_off_address [OF assms(1,2)] fresh(2) [OF assms(2)] k assms(3)
    by (fastforce simp: acct_ok_def addAsset_def totals_def Let_def held_def)+
  have mono: "acct_ok k b" if "map_of (accounts st) y = Some b" for y b
    using aok [OF that] k by (fastforce simp: acct_ok_def)
  have wf1: "wf_ledger ?st" using wf by (simp add: wf_ledger_def)
  have s: "circulation j (put_account x ?a ?st) = (if j = k then def_total d else circulation j st)" for j
    using circulation_put [OF wf1, of x a] assms(2) h [of j] fresh(1) ok(3)
    by (simp add: circulation_def)
  have "creators_once (put_account x ?a ?st)"
  proof (rule creators_once_put)
    show "creators_once ?st" using assms(1) by (simp add: assets_off_def creators_once_def)
    show "(\<exists>a. map_of (accounts ?st) x = Some a \<and> totals i a \<noteq> None) \<or>
        (\<forall>y b. map_of (accounts ?st) y = Some b \<longrightarrow> totals i b = None)" if "totals i ?a \<noteq> None" for i
      using that t [of i] fresh(2) assms(2) by (cases "i = k") auto
  qed
  moreover have "acct_ok k b \<and> (\<forall>i n. totals i b = Some n \<longrightarrow> circulation i (put_account x ?a ?st) = n)"
    if "map_of (accounts (put_account x ?a ?st)) y = Some b" for y b
  proof (cases "y = x")
    case True
    then show ?thesis using that ok(1) t s assms(1,2) by (auto simp: assets_off_def split: if_splits)
  next
    case False
    then have b: "map_of (accounts st) y = Some b" using that by simp
    then show ?thesis using mono [OF b] fresh(2) [OF b] s assms(1) by (auto simp: assets_off_def)
  qed
  ultimately show ?thesis
    unfolding assets_off_def using put_account_wf [OF wf1 ok(2)] by simp
qed

lemma drop_holdings_props:
  "map_of (accounts (drop_holdings i st)) y = map_option (\<lambda>a. a\<lparr>assets := AList.delete i (assets a)\<rparr>) (map_of (accounts st) y)"
  "assetCounter (drop_holdings i st) = assetCounter st"
  "circulation j (drop_holdings i st) = (if j = i then 0 else circulation j st)"
  "wf_map (accounts (drop_holdings i st)) = wf_map (accounts st)"
proof -
  let ?f = "\<lambda>a. a\<lparr>assets := AList.delete i (assets a)\<rparr>"
  have m: "accounts (drop_holdings i st) = List.map (\<lambda>(x, a). (x, ?f a)) (accounts st)"
    by (simp add: drop_holdings_def)
  show "map_of (accounts (drop_holdings i st)) y = map_option ?f (map_of (accounts st) y)"
    unfolding m by (simp add: map_of_map)
  show "assetCounter (drop_holdings i st) = assetCounter st" by (simp add: drop_holdings_def)
  have h: "held j (?f a) = (if j = i then 0 else held j a)" for a by (simp add: held_def)
  show "circulation j (drop_holdings i st) = (if j = i then 0 else circulation j st)"
    unfolding circulation_def m by (simp add: comp_def case_prod_unfold h)
  show "wf_map (accounts (drop_holdings i st)) = wf_map (accounts st)"
    unfolding m wf_map_def by (simp add: comp_def case_prod_beta)
qed

lemma destroy_assets_ok:
  assumes "assets_ok st" "map_of (accounts st) x = Some a" "destroyAsset i a = (Inr (), a')"
  shows "assets_ok (drop_holdings i (put_account x a' st))"
proof -
  let ?st = "put_account x a' st"
  note wf = assets_off_wf [OF assms(1)]
  have i: "totals i a \<noteq> None" and t: "totals j a' = (if j = i then None else totals j a)"
    and h: "j \<noteq> i \<Longrightarrow> held j a' = held j a" and ad: "address a' = x"
    and ok: "acct_ok (assetCounter st) a'" for j
    using assms(3) assets_off_acct [OF assms(1,2)] assets_off_address [OF assms(1,2)]
    by (auto simp: destroyAsset_def totals_def held_def acct_ok_def TEAL_Account.getAssetDef_def split: option.splits if_splits)
  have wf1: "wf_ledger ?st" using wf ad by (rule put_account_wf)
  have t': "totals j (b\<lparr>assets := m\<rparr>) = totals j b" for j b m by (simp add: totals_def)
  have acct: "acct_ok n (b\<lparr>assets := AList.delete i (assets b)\<rparr>)" if "acct_ok n b" for n b
    using that by (auto simp: acct_ok_def totals_def)
  have once: "creators_once ?st"
    using assms(1,2) t by (intro creators_once_put) (auto simp: assets_off_def split: if_splits)
  have "creators_once (drop_holdings i ?st)"
    unfolding creators_once_def drop_holdings_props(1)
  proof (intro allI impI)
    fix u v b1 b2 j
    assume *: "map_option (\<lambda>a. a\<lparr>assets := AList.delete i (assets a)\<rparr>) (map_of (accounts ?st) u) = Some b1"
      "map_option (\<lambda>a. a\<lparr>assets := AList.delete i (assets a)\<rparr>) (map_of (accounts ?st) v) = Some b2"
      "totals j b1 \<noteq> None" "totals j b2 \<noteq> None"
    then obtain c1 c2 where "map_of (accounts ?st) u = Some c1" "map_of (accounts ?st) v = Some c2"
      "totals j c1 \<noteq> None" "totals j c2 \<noteq> None" using t' by fastforce
    then show "u = v" by (rule creators_onceD [OF once])
  qed
  moreover have "acct_ok (assetCounter st) b \<and> (\<forall>j n. totals j b = Some n \<longrightarrow> circulation j (drop_holdings i ?st) = n)"
    if b: "map_of (accounts (drop_holdings i ?st)) y = Some b" for y b
  proof -
    obtain b0 where b0: "map_of (accounts ?st) y = Some b0" "b = b0\<lparr>assets := AList.delete i (assets b0)\<rparr>"
      using b by (auto simp: drop_holdings_props(1) simp del: put_account_simps)
    have ok0: "acct_ok (assetCounter st) b0"
      using b0(1) ok assets_off_acct [OF assms(1)] by (auto split: if_splits)
    moreover have "circulation j (drop_holdings i ?st) = n" if n: "totals j b0 = Some n" for j n
    proof -
      have "j \<noteq> i"
        using n b0(1) t [of i] creators_onceD [of st x a y b0 i] assms(1,2) i
        by (auto simp: assets_off_def split: if_splits)
      then show ?thesis
        using n b0(1) t [of j] h [of j] assms(1,2) circulation_put [OF wf assms(2)]
        by (auto simp: drop_holdings_props(3) assets_off_def split: if_splits)
    qed
    ultimately show ?thesis using acct b0(2) by (simp add: t')
  qed
  ultimately show ?thesis
    unfolding assets_off_def wf_ledger_def
    using wf1 by (auto simp: drop_holdings_props wf_ledger_def simp del: put_account_simps)
qed

lemma keeps_destroyAsset: "ai.keeps (\<lambda>_. 0) (ctx_destroyAsset i)"
  unfolding ai.keeps_def
proof (intro allI impI)
  fix c :: ctx
  assume ok: "assets_ok (c_state c)"
  show "assets_ok (c_state (snd (ctx_destroyAsset i c)))"
  proof (cases "\<exists>a a'. ctx_getAssetAccount i (c_state c) = Inr a \<and> destroyAsset i a = (Inr (), a')")
    case False
    have "c_state (snd (ctx_destroyAsset i c)) = c_state c"
    proof (cases "ctx_getAssetAccount i (c_state c)")
      case (Inr a)
      then have a: "map_of (accounts (c_state c)) (address a) = Some a"
        by (auto simp: ctx_getAssetAccount_def ctx_getAccount_Inr split: option.splits)
      obtain e where e: "destroyAsset i a = (Inl e, a)"
        using False Inr by (auto simp: destroyAsset_def split: option.splits if_splits)
      have "put_account (address a) a (c_state c) = c_state c"
        using a by (simp add: put_account_def update_triv)
      then show ?thesis using Inr a e by (simp add: ctx_destroyAsset_def exec_simps)
    qed (simp add: ctx_destroyAsset_def exec_simps)
    then show ?thesis using ok by simp
  next
    case True
    then obtain a a' where a: "ctx_getAssetAccount i (c_state c) = Inr a" "destroyAsset i a = (Inr (), a')" by blast
    then have m: "map_of (accounts (c_state c)) (address a) = Some a"
      by (auto simp: ctx_getAssetAccount_def ctx_getAccount_Inr split: option.splits)
    let ?c = "c\<lparr>c_state := drop_holdings i (put_account (address a) a' (c_state c))\<rparr>"
    have "snd (ctx_destroyAsset i c) = snd (setAndGetTxReceipt ?c)"
      using a m by (simp add: ctx_destroyAsset_def exec_simps)
    moreover have "assets_ok (c_state ?c)" using destroy_assets_ok [OF ok m a(2)] by simp
    ultimately show ?thesis using keeps_payments(2) [of "\<lambda>_. 0"] by (simp add: ai.keeps_def)
  qed
qed

lemma keeps_mkAssetCreateTx: "ai.keeps d (mkAssetCreateTx L nm x flags p)"
  unfolding mkAssetCreateTx_def by (intro frame_keeps) simp_all

lemma keeps_deploy: "ai.keeps (\<lambda>_. 0) (ctx_deployASADef L nm d x flags)"
  unfolding ai.keeps_def
proof (intro allI impI)
  fix c :: ctx
  assume ok: "assets_ok (c_state c)"
  let ?st = "c_state c" and ?m = "ctx_deployASADef L nm d x flags"
  show "assets_ok (c_state (snd (?m c)))"
  proof (cases "\<exists>a. ctx_getAccount x ?st = Inr a \<and> asaDef_valid d \<and>
      validateOptInAccNames (accountNameAddress ?st) d = Inr ()")
    case False
    then have "snd (?m c) = c"
      by (cases "ctx_getAccount x ?st"; cases "validateOptInAccNames (accountNameAddress ?st) d")
        (auto simp: ctx_deployASADef_def exec_simps parseASADef_def)
    then show ?thesis using ok by simp
  next
    case True
    then obtain a where a: "ctx_getAccount x ?st = Inr a" "asaDef_valid d"
      "validateOptInAccNames (accountNameAddress ?st) d = Inr ()" "map_of (accounts ?st) x = Some a" "address a = x"
      by (auto simp: ctx_getAccount_Inr)
    define k where "k = assetCounter ?st + 1"
    define c1 where "c1 = c\<lparr>c_state := put_account x (snd (addAsset k nm d a)) (?st\<lparr>assetCounter := k\<rparr>)\<rparr>"
    obtain rest :: "asset_params \<Rightarrow> asa_info ctxM" where rest: "\<And>p. ai.keeps (\<lambda>_. 0) (rest p)"
      "snd (?m c) = snd (rest (new_Asset d x nm) c1)"
    proof
      let ?rest = "\<lambda>asset. seqM (assertAccBalAboveMin x)
        (seqM (mkAssetCreateTx L nm x flags asset)
        (seqM (on_ledger (modifyM (\<lambda>st. st\<lparr>assetDefs := AList.update k x (assetDefs st)\<rparr>)))
        (bindM (getM (\<lambda>c. (tx_txID (c_tx c), c_round c))) (\<lambda>(txID, rnd).
         (let asaInfo = \<lparr>asa_creator = x, asa_assetIndex = k, asa_assetDef = asset, asa_txID = txID,
                asa_confirmedRound = rnd\<rparr>
          in seqM (on_ledger (modifyM (\<lambda>st. st\<lparr>assetNameInfo := AList.update nm asaInfo (assetNameInfo st)\<rparr>)))
            (seqM (set_receipt ((new_receipt txID)\<lparr>rc_assetIndex := Some k\<rparr>)) (returnM asaInfo)))))))"
      have "ai.keeps (\<lambda>_. 0) (on_ledger (modifyM (\<lambda>st. st\<lparr>assetDefs := f st\<rparr>)))" for f
        by (rule ai.keeps_same) (simp_all add: exec_simps)
      moreover have "ai.keeps (\<lambda>_. 0) (on_ledger (modifyM (\<lambda>st. st\<lparr>assetNameInfo := f st\<rparr>)))" for f
        by (rule ai.keeps_same) (simp_all add: exec_simps)
      ultimately show "ai.keeps (\<lambda>_. 0) (?rest p)" for p
        by (intro frame_keeps keeps_payments keeps_mkAssetCreateTx keeps_set_receipt)
      have "fst (addAsset k nm d a) = Inr (new_Asset d x nm)"
        using a(5) by (simp add: addAsset_def Let_def)
      then show "snd (?m c) = snd (?rest (new_Asset d x nm) c1)"
        using a by (simp add: ctx_deployASADef_def exec_simps parseASADef_def c1_def k_def)
    qed
    have "assets_ok (c_state c1)"
      using addAsset_assets_ok [OF ok a(4) _ k_def] a(2) by (simp add: c1_def asaDef_valid_def)
    then show ?thesis using rest(1) unfolding rest(2) ai.keeps_def by blast
  qed
qed

section \<open>Reachable contexts\<close>

text \<open>
  The transactions a group can carry out on the ledger, with the amounts that a transaction can
  encode, and the accounts that a payment to an unknown address creates.
\<close>

datatype ctx_op =
    TransferAlgo transaction | DeductFee string nat tx_params | NewAccount string
  | OptInASA int string tx_params | TransferAsset transaction | RevokeAsset string int string int
  | ModifyAssetOp int asset_mod | FreezeAssetOp int string bool | DestroyAssetOp int
  | DeployASADef string asa_def string tx_params
  | DeleteAppOp int | CloseAppOp string int | RekeyOp transaction "string option"

fun run_ctx_op :: "algosdk \<Rightarrow> ctx_op \<Rightarrow> ctx \<Rightarrow> ctx" where
    "run_ctx_op L (TransferAlgo t) c = snd (transferAlgo (base L) t c)"
  | "run_ctx_op L (DeductFee x i p) c = snd (deductFee x i p c)"
  | "run_ctx_op L (NewAccount x) c =
      (if map_of (accounts (c_state c)) x = None
       then c\<lparr>c_state := put_account x (new_AccountStore 0 x [] None) (c_state c)\<rparr> else c)"
  | "run_ctx_op L (OptInASA i x p) c = snd (ctx_optInToASA L i x p c)"
  | "run_ctx_op L (TransferAsset t) c = snd (transferAsset L t c)"
  | "run_ctx_op L (RevokeAsset x i y n) c = snd (revokeAsset x i y n c)"
  | "run_ctx_op L (ModifyAssetOp i m) c = snd (ctx_modifyAsset i m c)"
  | "run_ctx_op L (FreezeAssetOp i x b) c = snd (freezeAsset i x b c)"
  | "run_ctx_op L (DestroyAssetOp i) c = snd (ctx_destroyAsset i c)"
  | "run_ctx_op L (DeployASADef nm d x p) c = snd (ctx_deployASADef L nm d x p c)"
  | "run_ctx_op L (DeleteAppOp i) c = snd (ctx_deleteApp i c)"
  | "run_ctx_op L (CloseAppOp x i) c = snd (ctx_closeApp x i c)"
  | "run_ctx_op L (RekeyOp t auth) c = snd (ctx_rekeyTo (base L) t auth c)"

fun encodable :: "ctx_op \<Rightarrow> bool" where
    "encodable (TransferAsset t) \<longleftrightarrow> 0 \<le> t_amount t"
  | "encodable (RevokeAsset x i y n) \<longleftrightarrow> 0 \<le> n"
  | "encodable _ \<longleftrightarrow> True"

text \<open>From a ledger of accounts that own nothing yet, filed under their addresses.\<close>

definition no_assets :: "ledger \<Rightarrow> bool" where
  "no_assets st \<longleftrightarrow> wf_ledger st \<and>
     (\<forall>addr a. map_of (accounts st) addr = Some a \<longrightarrow> assets a = [] \<and> createdAssets a = [])"

inductive ledger_reach :: "algosdk \<Rightarrow> ctx \<Rightarrow> bool" for L where
    lr_start: "no_assets (c_state c) \<Longrightarrow> ledger_reach L c"
  | lr_step: "ledger_reach L c \<Longrightarrow> encodable op \<Longrightarrow> ledger_reach L (run_ctx_op L op c)"

lemma run_ctx_op_ok: "assets_ok (c_state c) \<Longrightarrow> encodable op \<Longrightarrow> assets_ok (c_state (run_ctx_op L op c))"
  using keeps_payments keeps_apps keeps_optIn keeps_transferAsset keeps_revokeAsset keeps_ctx_modifyAsset
    keeps_freezeAsset keeps_destroyAsset keeps_deploy
  by (cases op) (auto simp: ai.keeps_def new_AccountStore_def intro: assets_off_new)

lemma ledger_reach_ok: "ledger_reach L c \<Longrightarrow> assets_ok (c_state c)"
proof (induction rule: ledger_reach.induct)
  case (lr_start c)
  then show ?case
    by (auto simp: no_assets_def assets_off_def acct_ok_def totals_def creators_once_def)
qed (rule run_ctx_op_ok)

section \<open>Properties\<close>

lemma held_nonneg: "assets_off d st \<Longrightarrow> map_of (accounts st) y = Some b \<Longrightarrow> 0 \<le> held i b"
  using assets_off_acct [of d st y b] by (auto simp: held_def acct_ok_def split: option.splits)

lemma held_le_circulation:
  assumes "assets_off d st" "map_of (accounts st) y = Some b"
  shows "held i b \<le> circulation i st"
proof -
  have w: "wf_map (accounts st)" using assets_off_wf [OF assms(1)] by (simp add: wf_ledger_def)
  have "0 \<le> (\<Sum>(z, e) \<in> {(z, e). z \<noteq> y \<and> map_of (accounts st) z = Some e}. held i e)"
    by (rule sum_nonneg) (auto dest: held_nonneg [OF assms(1)])
  then show ?thesis using jm.total_split [OF w assms(2), of "\<lambda>_ b. held i b"] by (simp add: circulation_total)
qed

text \<open>
  C22: In every context that payments, fees, asset creations, opt-ins, transfers with and without
  close-out, revocations, freezes, reconfigurations, destructions, and application and rekeying steps
  reach, successful or failed, from accounts without assets, the holdings of an existing asset add
  up to exactly the total that its creator fixed; no holding is negative or exceeds that total.
\<close>

theorem asset_supply:
  assumes "ledger_reach L c" "map_of (accounts (c_state c)) x = Some a" "map_of (createdAssets a) i = Some p"
  shows "(\<Sum>(addr, b) \<leftarrow> accounts (c_state c). held i b) = ap_total p \<and>
    (\<forall>y b. map_of (accounts (c_state c)) y = Some b \<longrightarrow> 0 \<le> held i b \<and> held i b \<le> ap_total p)"
proof -
  note ok = ledger_reach_ok [OF assms(1)]
  have t: "totals i a = Some (ap_total p)" using assms(3) by (simp add: totals_def)
  have "\<forall>i n. totals i a = Some n \<longrightarrow> circulation i (c_state c) + 0 = n"
    using ok assms(2) unfolding assets_off_def by blast
  with t have c: "circulation i (c_state c) = ap_total p" by simp
  show ?thesis
  proof (intro conjI allI impI)
    show "(\<Sum>(addr, b) \<leftarrow> accounts (c_state c). held i b) = ap_total p"
      using c by (simp only: circulation_def)
    show "0 \<le> held i b" if "map_of (accounts (c_state c)) y = Some b" for y b
      by (rule held_nonneg [OF ok that])
    show "held i b \<le> ap_total p" if "map_of (accounts (c_state c)) y = Some b" for y b
      using held_le_circulation [OF ok that, of i] c by simp
  qed
qed

text \<open>An instance of the functions of the SDK, and a run that creates, opts in and transfers.\<close>

definition sample_make_axfer :: "string \<Rightarrow> int \<Rightarrow> suggested \<Rightarrow> error + unit" where
  "sample_make_axfer addr i sp = Inr ()"

definition sample_make_asset_create :: "string \<Rightarrow> string \<Rightarrow> asset_params \<Rightarrow> suggested \<Rightarrow> error + transaction" where
  "sample_make_asset_create addr nm p sp = Inr (sample_transaction ''acfg'' (key_bytes addr))"

definition sample_get_obj :: "transaction \<Rightarrow> enc_tx" where
  "sample_get_obj t = (bare_tx (t_type t) '''' (t_from t))\<lparr>tx_fee := (if t_fee t = 0 then None else Some (t_fee t)),
     tx_fv := Some (t_firstRound t), tx_lv := t_lastRound t, tx_rcv := t_to t,
     tx_arcv := (if t_type t = ''axfer'' then t_to t else None), tx_asnd := t_assetRevocationTarget t,
     tx_apid := (if t_type t = ''appl'' \<and> t_appIndex t \<noteq> 0 then Some (t_appIndex t) else None)\<rparr>"

definition sample_txID :: "transaction \<Rightarrow> string" where
  "sample_txID t = t_type t @ bytes_toString (t_from t)"

definition sample_text_decode :: "bytes \<Rightarrow> string" where
  "sample_text_decode bs = List.map (\<lambda>b. char_of (unat b)) bs"

definition sample_algosdk :: algosdk where
  "sample_algosdk = sdk.extend sample_sdk
     \<lparr>make_axfer = sample_make_axfer, make_asset_create = sample_make_asset_create,
      get_obj_for_encoding = sample_get_obj, txID_of = sample_txID, text_decode = sample_text_decode\<rparr>"

abbreviation sample_addr :: "byte \<Rightarrow> string" where
  "sample_addr k \<equiv> encodeAddress sample_sdk [k]"

definition asset_ctx :: ctx where
  "asset_ctx = fold (run_ctx_op sample_algosdk)
     [DeployASADef ''gold'' sample_asa (sample_addr 1) no_flags,
      OptInASA 1 (sample_addr 2) no_flags,
      TransferAsset ((sample_transaction ''axfer'' [1])\<lparr>t_to := Some [2], t_amount := 3, t_assetIndex := 1\<rparr>),
      TransferAsset ((sample_transaction ''axfer'' [2])\<lparr>t_to := Some [1], t_amount := 9, t_assetIndex := 1\<rparr>)] rich_ctx"

lemma asset_supply_witness:
  "\<exists>a p. map_of (accounts (c_state asset_ctx)) (sample_addr 1) = Some a \<and> map_of (createdAssets a) 1 = Some p \<and>
     ap_total p = 10 \<and> circulation 1 (c_state asset_ctx) = 10 \<and> held 1 a = 7"
proof -
  have "no_assets (c_state rich_ctx)"
    using rich_wf by (auto simp: no_assets_def rich_ctx_def new_AccountStore_def split: if_splits)
  then have r: "ledger_reach sample_algosdk asset_ctx"
    unfolding asset_ctx_def fold_simps
    by (intro lr_step lr_start) simp_all
  have e: "(case map_of (accounts (c_state asset_ctx)) (sample_addr 1) of None \<Rightarrow> None | Some a \<Rightarrow>
     map_option (\<lambda>p. (ap_total p, held 1 a)) (map_of (createdAssets a) 1)) = Some (10, 7)"
    by code_simp
  then obtain a p where a: "map_of (accounts (c_state asset_ctx)) (sample_addr 1) = Some a"
    "map_of (createdAssets a) 1 = Some p" "ap_total p = 10" "held 1 a = 7"
    by (auto split: option.splits)
  then show ?thesis using asset_supply [OF r a(1,2)] by (auto simp: circulation_def)
qed

text \<open>
  C28: Destroying an asset takes the holdings of every account away, but lowers the minimum balance of the
  creator only: an account that had opted in to the asset keeps the 100000 microalgos of the holding
  in its minimum balance although the holding is gone.
\<close>

theorem destroyAsset_min_balance:
  assumes "ctx_destroyAsset i c = (Inr r, c')" "wf_ledger (c_state c)"
    and "map_of (accounts (c_state c)) y = Some b" "map_of (assetDefs (c_state c)) i = Some x" "y \<noteq> x"
  shows "\<exists>b'. map_of (accounts (c_state c')) y = Some b' \<and> map_of (assets b') i = None \<and> minBalance b' = minBalance b"
proof -
  obtain a a' where a: "ctx_getAssetAccount i (c_state c) = Inr a" "destroyAsset i a = (Inr (), a')"
    using assms(1) by (cases "ctx_getAssetAccount i (c_state c)")
      (auto simp: ctx_destroyAsset_def exec_simps ctx_getAssetAccount_def ctx_getAccount_Inr destroyAsset_def
        split: sum.splits option.splits if_splits)
  then have m: "map_of (accounts (c_state c)) x = Some a" "address a = x"
    using assms(4) by (auto simp: ctx_getAssetAccount_def ctx_getAccount_Inr)
  have "c' = snd (setAndGetTxReceipt (c\<lparr>c_state := drop_holdings i (put_account x a' (c_state c))\<rparr>))"
    using assms(1) a m by (simp add: ctx_destroyAsset_def exec_simps)
  then have "accounts (c_state c') = accounts (drop_holdings i (put_account x a' (c_state c)))"
    by (simp add: receipt_accounts)
  then show ?thesis using assms(3,5) by (simp add: drop_holdings_props(1))
qed

definition opted_ctx :: ctx where
  "opted_ctx = fold (run_ctx_op sample_algosdk)
     [DeployASADef ''gold'' sample_asa (sample_addr 1) no_flags, OptInASA 1 (sample_addr 2) no_flags] rich_ctx"

lemma destroyAsset_min_balance_witness:
  "\<exists>r c' b'. ctx_destroyAsset 1 opted_ctx = (Inr r, c') \<and> map_of (accounts (c_state c')) (sample_addr 2) = Some b' \<and>
     assets b' = [] \<and> minBalance b' = 200000"
proof -
  have "no_assets (c_state rich_ctx)"
    using rich_wf by (auto simp: no_assets_def rich_ctx_def new_AccountStore_def split: if_splits)
  then have wf: "wf_ledger (c_state opted_ctx)"
    unfolding opted_ctx_def fold_simps
    by (intro assets_off_wf [OF ledger_reach_ok [of sample_algosdk]] lr_step lr_start) simp_all
  let ?d = "ctx_destroyAsset 1 opted_ctx"
  have e1: "isl (fst ?d) = False" by code_simp
  have e2: "map_option (\<lambda>b. (minBalance b, List.map fst (assets b))) (map_of (accounts (c_state opted_ctx)) (sample_addr 2)) = Some (200000, [1])"
    by code_simp
  have e3: "map_of (assetDefs (c_state opted_ctx)) 1 = Some (sample_addr 1)" by code_simp
  have e4: "map_option (\<lambda>b. length (assets b)) (map_of (accounts (c_state (snd ?d))) (sample_addr 2)) = Some 0"
    by code_simp
  have n: "sample_addr 2 \<noteq> sample_addr 1" by code_simp
  obtain b where b: "map_of (accounts (c_state opted_ctx)) (sample_addr 2) = Some b" "minBalance b = 200000"
    using e2 by auto
  obtain r0 c' where d0: "?d = (r0, c')" by (rule prod.exhaust)
  with e1 obtain r where "r0 = Inr r" by (cases r0) simp_all
  with d0 have d: "?d = (Inr r, c')" by simp
  show ?thesis
    using destroyAsset_min_balance [OF d wf b(1) e3 n] b(2) e4 unfolding d by auto
qed

end
