(* ===== verification/TEAL_Logicsig.thy ===== *)
theory TEAL_Logicsig
  imports TEAL_Txn
begin

text \<open>
  Logic signatures (\<^verbatim>\<open>logicsig.ts\<close>): a program that stands for an escrow account, or that an account
  or a multisignature account delegates to. The curve operations are those of the SDK and of the
  packages \<^verbatim>\<open>tweetnacl\<close> and \<^verbatim>\<open>murmurhash\<close>, parameters of the model.
\<close>

section \<open>Data\<close>

record subsig =
  ss_pk :: bytes
  ss_s :: "bytes option"

record multisig =
  ms_v :: int
  ms_thr :: int
  ms_subsig :: "subsig list"

record multisig_metadata =
  mm_version :: int
  mm_threshold :: int
  mm_addrs :: "string list"

record logic_sig =
  ls_logic :: bytes
  ls_args :: "bytes list"
  ls_sig :: "bytes option"
  ls_msig :: "multisig option"
  ls_lsigAddress :: string

record lsig_account =
  la_lsig :: logic_sig
  la_sigkey :: "bytes option"

text \<open>
  The functions of the cryptographic packages: signing and verifying bytes (a signature or a key of the wrong
  size throws), the address of a multisignature account, the public key of a secret key and of a
  seed, the hash of a program text, and the bytes of a transaction that are signed. \<open>read_program\<close> is
  the file access and template substitution of \<^verbatim>\<open>getProgram\<close>.
\<close>

record platform = algosdk +
  signBytes :: "bytes \<Rightarrow> bytes \<Rightarrow> error + bytes"
  multisigAddress :: "int \<Rightarrow> int \<Rightarrow> string list \<Rightarrow> error + string"
  keyPair_fromSecretKey :: "bytes \<Rightarrow> error + bytes"
  keyPair_fromSeed :: "bytes \<Rightarrow> bytes"
  murmurhash_v3 :: "string \<Rightarrow> int"
  bytesToSign :: "transaction \<Rightarrow> bytes"
  read_program :: "string \<Rightarrow> error + string"

abbreviation algo :: "platform \<Rightarrow> algosdk" where
  "algo P \<equiv> algosdk.truncate P"

abbreviation core :: "platform \<Rightarrow> sdk" where
  "core P \<equiv> sdk.truncate P"

text \<open>\<^verbatim>\<open>compareArray\<close> of two byte arrays, of which one may be \<^verbatim>\<open>undefined\<close>.\<close>

definition compareArray :: "bytes option \<Rightarrow> bytes option \<Rightarrow> bool" where
  "compareArray a b = (case (a, b) of (Some x, Some y) \<Rightarrow> x = y | _ \<Rightarrow> False)"

definition uint64ToBigEndian :: "sdk \<Rightarrow> int \<Rightarrow> error + bytes" where
  "uint64ToBigEndian X n =
     (if n < MIN_UINT64 \<or> n > MAX_UINT64 then Inl (JsError (PlainError ''Invalid uint64'')) else encodeUint64 X n)"

section \<open>Logic signatures\<close>

text \<open>\<^verbatim>\<open>extendedSeed.set(seedBytes)\<close> in an array of zeros that is 24 longer.\<close>

definition new_LogicSig :: "platform \<Rightarrow> string \<Rightarrow> bytes list \<Rightarrow> error + logic_sig" where
  "new_LogicSig P program programArgs =
     (case uint64ToBigEndian (core P) (murmurhash_v3 P program) of
        Inl e \<Rightarrow> Inl e
      | Inr seedBytes \<Rightarrow> Inr
          \<lparr>ls_logic = stringToBytes program, ls_args = programArgs, ls_sig = None, ls_msig = None,
           ls_lsigAddress = encodeAddress P (keyPair_fromSeed P (seedBytes @ replicate 24 0))\<rparr>)"

definition signProgram :: "platform \<Rightarrow> bytes \<Rightarrow> logic_sig \<Rightarrow> error + bytes" where
  "signProgram P secretKey l = signBytes P (ls_logic l) secretKey"

fun subsig_index :: "bytes \<Rightarrow> subsig list \<Rightarrow> nat option" where
    "subsig_index pk [] = None"
  | "subsig_index pk (s # ss) =
      (if compareArray (Some (ss_pk s)) (Some pk) then Some 0 else map_option Suc (subsig_index pk ss))"

definition singleSignMultisig :: "platform \<Rightarrow> bytes \<Rightarrow> multisig \<Rightarrow> logic_sig \<Rightarrow> error + bytes \<times> nat" where
  "singleSignMultisig P secretKey msig l =
     (case keyPair_fromSecretKey P secretKey of
        Inl e \<Rightarrow> Inl e
      | Inr accountPk \<Rightarrow> (case subsig_index accountPk (ms_subsig msig) of
            None \<Rightarrow> Inl (GENERAL INVALID_SECRET_KEY)
          | Some index \<Rightarrow> (case signProgram P secretKey l of
                Inl e \<Rightarrow> Inl e
              | Inr sg \<Rightarrow> Inr (sg, index))))"

text \<open>\<^verbatim>\<open>msig.subsig[index].s = sig\<close>\<close>

definition set_subsig :: "bytes \<Rightarrow> nat \<Rightarrow> multisig \<Rightarrow> multisig" where
  "set_subsig sg i m = m\<lparr>ms_subsig := (ms_subsig m)[i := (ms_subsig m ! i)\<lparr>ss_s := Some sg\<rparr>]\<rparr>"

fun decode_all :: "sdk \<Rightarrow> string list \<Rightarrow> error + subsig list" where
    "decode_all X [] = Inr []"
  | "decode_all X (a # as) =
      (case decodeAddress X a of
         Inl e \<Rightarrow> Inl e
       | Inr pk \<Rightarrow> (case decode_all X as of
             Inl e \<Rightarrow> Inl e
           | Inr ss \<Rightarrow> Inr (\<lparr>ss_pk = pk, ss_s = Some []\<rparr> # ss)))"

definition add_subsig :: "platform \<Rightarrow> bytes \<Rightarrow> multisig \<Rightarrow> (logic_sig, unit) exec" where
  "add_subsig P secretKey m =
     bindM (getM (singleSignMultisig P secretKey m)) (\<lambda>r. bindM (liftM r) (\<lambda>(sg, i).
       modifyM (\<lambda>l. l\<lparr>ls_msig := Some (set_subsig sg i m)\<rparr>)))"

definition LogicSig_sign :: "platform \<Rightarrow> bytes \<Rightarrow> multisig_metadata option \<Rightarrow> (logic_sig, unit) exec" where
  "LogicSig_sign P secretKey meta =
     (case meta of
        None \<Rightarrow> bindM (getM (signProgram P secretKey)) (\<lambda>r. bindM (liftM r) (\<lambda>sg.
                  modifyM (\<lambda>l. l\<lparr>ls_sig := Some sg\<rparr>)))
      | Some mm \<Rightarrow> bindM (liftM (decode_all (core P) (mm_addrs mm))) (\<lambda>subsigs.
           let m = \<lparr>ms_v = mm_version mm, ms_thr = mm_threshold mm, ms_subsig = subsigs\<rparr>
           in seqM (modifyM (\<lambda>l. l\<lparr>ls_msig := Some m\<rparr>)) (add_subsig P secretKey m)))"

definition LogicSig_appendToMultisig :: "platform \<Rightarrow> bytes \<Rightarrow> (logic_sig, unit) exec" where
  "LogicSig_appendToMultisig P secretKey =
     bindM (getM ls_msig) (\<lambda>ms. case ms of
         None \<Rightarrow> throwM (JsError (PlainError ''no multisig present''))
       | Some m \<Rightarrow> add_subsig P secretKey m)"

text \<open>The loop that counts the signatures that verify; \<open>check\<close> is the test of one of them.\<close>

fun count_verified :: "(subsig \<Rightarrow> error + bool) \<Rightarrow> subsig list \<Rightarrow> int \<Rightarrow> error + int" where
    "count_verified check [] n = Inr n"
  | "count_verified check (s # ss) n =
      (case check s of Inl e \<Rightarrow> Inl e | Inr b \<Rightarrow> count_verified check ss (if b then n + 1 else n))"

definition signed_count :: "subsig list \<Rightarrow> int" where
  "signed_count ss = int (length (filter (\<lambda>s. \<not> compareArray (ss_s s) (Some [])) ss))"

definition verify_program_sig :: "platform \<Rightarrow> bytes \<Rightarrow> subsig \<Rightarrow> error + bool" where
  "verify_program_sig P logic s =
     (if compareArray (ss_s s) (Some []) then Inr False
      else (case ss_s s of
              None \<Rightarrow> Inl (JsError TypeError)
            | Some sg \<Rightarrow> verifyBytes P logic sg (encodeAddress P (ss_pk s))))"

definition LogicSig_verifyMultisig :: "platform \<Rightarrow> logic_sig \<Rightarrow> multisig \<Rightarrow> string \<Rightarrow> error + bool" where
  "LogicSig_verifyMultisig P l msig accAddr =
     (if int (length (ms_subsig msig)) < ms_thr msig then Inr False
      else (case multisigAddress P (ms_v msig) (ms_thr msig)
                   (List.map (\<lambda>s. encodeAddress P (ss_pk s)) (ms_subsig msig)) of
              Inl _ \<Rightarrow> Inr False
            | Inr multisigAddr \<Rightarrow>
                if accAddr \<noteq> multisigAddr then Inr False
                else if signed_count (ms_subsig msig) < ms_thr msig then Inr False
                else (case count_verified (verify_program_sig P (ls_logic l)) (ms_subsig msig) 0 of
                        Inl e \<Rightarrow> Inl e
                      | Inr n \<Rightarrow> Inr (n \<ge> ms_thr msig))))"

definition LogicSig_verify :: "platform \<Rightarrow> logic_sig \<Rightarrow> bytes \<Rightarrow> error + bool" where
  "LogicSig_verify P l accPk =
     (let accAddr = encodeAddress P accPk
      in case (ls_sig l, ls_msig l) of
           (None, None) \<Rightarrow> Inr (accAddr = ls_lsigAddress l)
         | (Some sg, _) \<Rightarrow> verifyBytes P (ls_logic l) sg accAddr
         | (None, Some msig) \<Rightarrow> LogicSig_verifyMultisig P l msig accAddr)"

definition LogicSig_program :: "logic_sig \<Rightarrow> string" where
  "LogicSig_program l = convertToString (ls_logic l)"

section \<open>Accounts of logic signatures\<close>

definition new_LogicSigAccount :: "platform \<Rightarrow> string \<Rightarrow> bytes list \<Rightarrow> error + lsig_account" where
  "new_LogicSigAccount P program programArgs =
     (case new_LogicSig P program programArgs of
        Inl e \<Rightarrow> Inl e
      | Inr l \<Rightarrow> Inr \<lparr>la_lsig = l, la_sigkey = None\<rparr>)"

definition isDelegated :: "lsig_account \<Rightarrow> bool" where
  "isDelegated a \<longleftrightarrow> ls_sig (la_lsig a) \<noteq> None \<or> ls_msig (la_lsig a) \<noteq> None"

definition lsig_address :: "platform \<Rightarrow> lsig_account \<Rightarrow> error + string" where
  "lsig_address P a =
     (if ls_sig (la_lsig a) \<noteq> None \<and> ls_msig (la_lsig a) \<noteq> None
      then Inl (JsError (PlainError ''LogicSig has too many signatures''))
      else if ls_sig (la_lsig a) \<noteq> None
      then (case la_sigkey a of
              None \<Rightarrow> Inl (JsError (PlainError ''Signing key for delegated account is missing''))
            | Some k \<Rightarrow> Inr (encodeAddress P k))
      else Inr (ls_lsigAddress (la_lsig a)))"

definition lsig_verify :: "platform \<Rightarrow> lsig_account \<Rightarrow> error + bool" where
  "lsig_verify P a =
     (case lsig_address P a of
        Inl e \<Rightarrow> Inl e
      | Inr addr \<Rightarrow> (case decodeAddress P addr of
            Inl e \<Rightarrow> Inl e
          | Inr pk \<Rightarrow> LogicSig_verify P (la_lsig a) pk))"

definition on_lsig :: "(logic_sig, 'a) exec \<Rightarrow> (lsig_account, 'a) exec" where
  "on_lsig m = (\<lambda>a. case m (la_lsig a) of (r, l) \<Rightarrow> (r, a\<lparr>la_lsig := l\<rparr>))"

definition lsig_sign :: "platform \<Rightarrow> bytes \<Rightarrow> (lsig_account, unit) exec" where
  "lsig_sign P secretKey =
     seqM (on_lsig (LogicSig_sign P secretKey None))
    (bindM (liftM (keyPair_fromSecretKey P secretKey)) (\<lambda>pk. modifyM (\<lambda>a. a\<lparr>la_sigkey := Some pk\<rparr>)))"

definition lsig_signMultisig :: "platform \<Rightarrow> multisig_metadata \<Rightarrow> bytes \<Rightarrow> (lsig_account, unit) exec" where
  "lsig_signMultisig P meta secretKey = on_lsig (LogicSig_sign P secretKey (Some meta))"

definition lsig_appendToMultisig :: "platform \<Rightarrow> bytes \<Rightarrow> (lsig_account, unit) exec" where
  "lsig_appendToMultisig P secretKey = on_lsig (LogicSig_appendToMultisig P secretKey)"

section \<open>Verification\<close>


lemma count_verified_Inr:
  "count_verified check ss n = Inr k \<longleftrightarrow>
    (\<forall>s \<in> set ss. check s = Inr True \<or> check s = Inr False) \<and>
    k = n + int (length (filter (\<lambda>s. check s = Inr True) ss))"
  by (induction ss arbitrary: n) (auto split: sum.splits)

lemma result_cases: "r = Inr True \<or> r = Inr False \<longleftrightarrow> \<not> (\<exists>e. r = Inl e)"
  by (cases r) auto

lemma verified_signed:
  "length (filter (\<lambda>s. verify_program_sig P logic s = Inr True) ss) \<le> length (filter (\<lambda>s. \<not> compareArray (ss_s s) (Some [])) ss)"
  by (induction ss) (auto simp: verify_program_sig_def)

text \<open>The signatures of a multisignature that are good for a program.\<close>

definition good_signatures :: "platform \<Rightarrow> bytes \<Rightarrow> multisig \<Rightarrow> nat set" where
  "good_signatures P logic m =
     {i. i < length (ms_subsig m) \<and> verify_program_sig P logic (ms_subsig m ! i) = Inr True}"

lemma good_signatures_card:
  "card (good_signatures P logic m) = length (filter (\<lambda>s. verify_program_sig P logic s = Inr True) (ms_subsig m))"
  by (simp add: good_signatures_def length_filter_conv_card)

text \<open>
  C4: A logic signature is valid for a key exactly when it is the escrow account of its own program, or
  carries a signature of the program that verifies under the key, or belongs to the
  multisignature account of the key and no fewer than the threshold of its members signed the program with
  a signature that verifies. The count of non-empty signatures the code makes first changes
  nothing; a member whose signature has the wrong size makes the verification throw.
\<close>

theorem logic_sig_valid:
  "LogicSig_verify P l pk = Inr True \<longleftrightarrow>
    (case (ls_sig l, ls_msig l) of
       (None, None) \<Rightarrow> encodeAddress P pk = ls_lsigAddress l
     | (Some sg, _) \<Rightarrow> verifyBytes P (ls_logic l) sg (encodeAddress P pk) = Inr True
     | (None, Some m) \<Rightarrow>
         multisigAddress P (ms_v m) (ms_thr m) (List.map (\<lambda>s. encodeAddress P (ss_pk s)) (ms_subsig m))
           = Inr (encodeAddress P pk) \<and>
         (\<nexists>s e. s \<in> set (ms_subsig m) \<and> verify_program_sig P (ls_logic l) s = Inl e) \<and>
         ms_thr m \<le> int (card (good_signatures P (ls_logic l) m)))"
proof (cases "ls_sig l")
  case None
  show ?thesis
  proof (cases "ls_msig l")
    case (Some m)
    let ?c = "verify_program_sig P (ls_logic l)"
    have le: "length (filter (\<lambda>s. ?c s = Inr True) (ms_subsig m)) \<le> length (ms_subsig m)"
      by (rule length_filter_le)
    have all: "(\<forall>s\<in>set (ms_subsig m). ?c s = Inr True \<or> ?c s = Inr False) \<longleftrightarrow>
      \<not> (\<exists>s e. s \<in> set (ms_subsig m) \<and> ?c s = Inl e)"
      unfolding result_cases by blast
    let ?addrs = "List.map (\<lambda>s. encodeAddress P (ss_pk s)) (ms_subsig m)"
    let ?good = "int (length (filter (\<lambda>s. ?c s = Inr True) (ms_subsig m)))"
    have v: "LogicSig_verifyMultisig P l m a = Inr True \<longleftrightarrow>
      multisigAddress P (ms_v m) (ms_thr m) ?addrs = Inr a \<and>
      (\<exists>k. count_verified ?c (ms_subsig m) 0 = Inr k \<and> ms_thr m \<le> k)" for a
    proof (cases "count_verified ?c (ms_subsig m) 0")
      case (Inr k)
      then have "k \<le> int (length (ms_subsig m))" "k \<le> signed_count (ms_subsig m)"
        using le verified_signed [of P "ls_logic l" "ms_subsig m"]
        by (simp_all add: count_verified_Inr signed_count_def)
      then show ?thesis using Inr by (auto simp: LogicSig_verifyMultisig_def split: sum.splits)
    qed (auto simp: LogicSig_verifyMultisig_def split: sum.splits)
    show ?thesis
      using None Some by (simp add: LogicSig_verify_def v count_verified_Inr all good_signatures_card)
  qed (use None in \<open>simp add: LogicSig_verify_def\<close>)
qed (simp add: LogicSig_verify_def split: option.splits)

text \<open>
  C5: A logic signature that an account has signed is delegated to that account: it verifies, its address is the one of
  the key that signed, and its program is the one that was signed. The hypothesis on the SDK is that a
  signature made with a secret key verifies under the public key of the pair.
\<close>

theorem lsig_sign_verify:
  assumes "\<And>pk m sg. keyPair_fromSecretKey P secretKey = Inr pk \<Longrightarrow> signBytes P m secretKey = Inr sg \<Longrightarrow>
      verifyBytes P m sg (encodeAddress P pk) = Inr True"
    and "keyPair_fromSecretKey P secretKey = Inr pk" "decodeAddress P (encodeAddress P pk) = Inr pk"
    and "ls_msig (la_lsig a) = None" "lsig_sign P secretKey a = (Inr (), a')"
  shows "isDelegated a' \<and> lsig_address P a' = Inr (encodeAddress P pk) \<and> lsig_verify P a' = Inr True \<and>
    LogicSig_program (la_lsig a') = LogicSig_program (la_lsig a)"
proof -
  obtain sg where "signBytes P (ls_logic (la_lsig a)) secretKey = Inr sg"
    and a': "a' = a\<lparr>la_lsig := (la_lsig a)\<lparr>ls_sig := Some sg\<rparr>, la_sigkey := Some pk\<rparr>"
    using assms(2,5) by (auto simp: lsig_sign_def on_lsig_def LogicSig_sign_def signProgram_def exec_simps
        split: sum.splits prod.splits)
  then show ?thesis
    using assms(1-4) by (simp add: isDelegated_def lsig_address_def lsig_verify_def LogicSig_verify_def
        LogicSig_program_def)
qed

text \<open>An instance of the cryptographic functions, in which a key signs by being appended.\<close>

definition sample_signBytes :: "bytes \<Rightarrow> bytes \<Rightarrow> error + bytes" where
  "sample_signBytes m k = Inr (m @ k)"

definition sample_multisigAddress :: "int \<Rightarrow> int \<Rightarrow> string list \<Rightarrow> error + string" where
  "sample_multisigAddress v t as = Inr (concat as)"

definition sample_keyPair_fromSeed :: "bytes \<Rightarrow> bytes" where
  "sample_keyPair_fromSeed s = s"

definition sample_murmurhash :: "string \<Rightarrow> int" where
  "sample_murmurhash s = int (length s)"

definition sample_read_program :: "string \<Rightarrow> error + string" where
  "sample_read_program f = Inl (JsError (PlainError ''no such file''))"

definition platform_over :: "algosdk \<Rightarrow> platform" where
  "platform_over A = algosdk.extend A
     \<lparr>signBytes = sample_signBytes, multisigAddress = sample_multisigAddress,
      keyPair_fromSecretKey = Inr, keyPair_fromSeed = sample_keyPair_fromSeed,
      murmurhash_v3 = sample_murmurhash, bytesToSign = t_from,
      read_program = sample_read_program\<rparr>"

text \<open>The functions of the SDK do not matter here but for the addresses.\<close>

definition sample_no_axfer :: "string \<Rightarrow> int \<Rightarrow> suggested \<Rightarrow> error + unit" where
  "sample_no_axfer addr i sp = Inr ()"

definition sample_no_create :: "string \<Rightarrow> string \<Rightarrow> asset_params \<Rightarrow> suggested \<Rightarrow> error + transaction" where
  "sample_no_create addr nm p sp = Inl (JsError (PlainError ''not used''))"

definition sample_bare_obj :: "transaction \<Rightarrow> enc_tx" where
  "sample_bare_obj t = bare_tx (t_type t) '''' (t_from t)"

definition no_sdk :: algosdk where
  "no_sdk = sdk.extend sample_sdk
     \<lparr>make_axfer = sample_no_axfer, make_asset_create = sample_no_create,
      get_obj_for_encoding = sample_bare_obj, txID_of = t_type, text_decode = (\<lambda>_. '''')\<rparr>"

lemma lsig_sign_verify_witness:
  "let P = platform_over no_sdk;
       a = \<lparr>la_lsig = \<lparr>ls_logic = [1, 2], ls_args = [], ls_sig = None, ls_msig = None, ls_lsigAddress = ''''\<rparr>,
            la_sigkey = None\<rparr>
   in lsig_verify P (snd (lsig_sign P [7] a)) = Inr True"
proof -
  define a where "a = \<lparr>la_lsig = \<lparr>ls_logic = [1, 2 :: byte], ls_args = [], ls_sig = None, ls_msig = None,
    ls_lsigAddress = ''''\<rparr>, la_sigkey = None\<rparr>"
  define P where "P = platform_over no_sdk"
  have P: "keyPair_fromSecretKey P = Inr" "signBytes P = (\<lambda>m k. Inr (m @ k))"
    "verifyBytes P = (\<lambda>m sg a. Inr (sg = m @ key_bytes a))" "encodeAddress P = bytes_toString"
    "decodeAddress P = (\<lambda>a. Inr (key_bytes a))"
    by (auto simp: P_def platform_over_def no_sdk_def sample_sdk_def sdk.defs algosdk.defs sample_signBytes_def
        sample_verifyBytes_def sample_decodeAddress_def fun_eq_iff)
  have k: "key_bytes (bytes_toString [7]) = [7]" by (rule key_bytes_toString) simp
  have d: "lsig_sign P [7] a = (Inr (), snd (lsig_sign P [7] a))" "ls_msig (la_lsig a) = None"
    by (simp_all add: a_def P lsig_sign_def on_lsig_def LogicSig_sign_def signProgram_def exec_simps)
  have "lsig_verify P (snd (lsig_sign P [7] a)) = Inr True"
    by (rule lsig_sign_verify [OF _ _ _ d(2) d(1), of "[7]", THEN conjunct2, THEN conjunct2, THEN conjunct1])
      (auto simp: P k)
  then show ?thesis by (simp add: P_def a_def Let_def)
qed

end
