(* ===== verification/TEAL_Group.thy ===== *)
theory TEAL_Group
  imports TEAL_Ledger TEAL_Logicsig
begin

text \<open>
  The execution of a group of signed transactions on a context: \<^verbatim>\<open>processTransactions\<close> of \<^verbatim>\<open>ctx.ts\<close> with
  the methods that run programs, and the checks of signatures of \<^verbatim>\<open>runtime.ts\<close>. The interpreter is reached
  through two functions, running a program and reading the version of a program text; the theory of the
  runtime instantiates them.
\<close>

section \<open>Data\<close>

record signed_tx =
  st_txn :: transaction
  st_sig :: "bytes option"
  st_sgnr :: "bytes option"
  st_msig :: "multisig option"

text \<open>\<^verbatim>\<open>types.Lsig\<close>: the flag is \<^verbatim>\<open>sign === SignType.LogicSignature\<close>.\<close>

record lsig_param =
  lp_isLogicSignature :: bool
  lp_fromAccountAddr :: string
  lp_lsig :: "lsig_account option"
  lp_args :: "bytes list option"

datatype program_source = SourceFile string string | SourceCode string string | SourceCompiled bytes bytes

record app_definition =
  ad_source :: program_source
  ad_extraPages :: "int option"
  ad_appName :: string
  ad_localInts :: int
  ad_localBytes :: int
  ad_globalInts :: int
  ad_globalBytes :: int

text \<open>\<^verbatim>\<open>runtime.run\<close> and \<^verbatim>\<open>getProgramVersion\<close>.\<close>

record machine =
  mc_run :: "string \<Rightarrow> mode \<Rightarrow> nat \<Rightarrow> receipt ctxM"
  mc_version :: "string \<Rightarrow> error + nat"

section \<open>Signatures\<close>

text \<open>The checks read the accounts of the store of the runtime, \<open>S\<close>, not those of the context.\<close>

definition verify_tx_sig :: "platform \<Rightarrow> transaction \<Rightarrow> subsig \<Rightarrow> error + bool" where
  "verify_tx_sig P t s =
     (case ss_s s of None \<Rightarrow> Inr False | Some sg \<Rightarrow> detached_verify P (bytesToSign P t) sg (ss_pk s))"

definition verifyMultisig :: "platform \<Rightarrow> ledger \<Rightarrow> signed_tx \<Rightarrow> error + bool" where
  "verifyMultisig P S st =
     (case st_msig st of
        None \<Rightarrow> Inr False
      | Some msig \<Rightarrow>
          if int (length (ms_subsig msig)) < ms_thr msig then Inr False
          else (case multisigAddress P (ms_v msig) (ms_thr msig)
                       (List.map (\<lambda>s. encodeAddress P (ss_pk s)) (ms_subsig msig)) of
                  Inl _ \<Rightarrow> Inr False
                | Inr multisigAddr \<Rightarrow>
                    (case ctx_getAccount (getTxFromAddress (core P) (st_txn st)) S of
                       Inl e \<Rightarrow> Inl e
                     | Inr fromAccount \<Rightarrow>
                         if getSpendAddress fromAccount \<noteq> multisigAddr then Inr False
                         else if signed_count (ms_subsig msig) < ms_thr msig then Inr False
                         else (case count_verified (verify_tx_sig P (st_txn st)) (ms_subsig msig) 0 of
                                 Inl e \<Rightarrow> Inl e
                               | Inr n \<Rightarrow> Inr (n \<ge> ms_thr msig)))))"

definition validateMultisignature :: "platform \<Rightarrow> ledger \<Rightarrow> signed_tx \<Rightarrow> error + unit" where
  "validateMultisignature P S st =
     (case verifyMultisig P S st of
        Inl e \<Rightarrow> Inl e
      | Inr b \<Rightarrow> if b then Inr () else Inl (GENERAL INVALID_MULTISIG))"

definition validateSecretKeySignature :: "sdk \<Rightarrow> ledger \<Rightarrow> signed_tx \<Rightarrow> error + unit" where
  "validateSecretKeySignature X S st =
     (let fromAccountAddr = getTxFromAddress X (st_txn st)
      in case ctx_getAccount fromAccountAddr S of
           Inl e \<Rightarrow> Inl e
         | Inr fromAccount \<Rightarrow>
             if st_sig st = None then Inl (GENERAL INVALID_SECRET_KEY)
             else (let signerAddr = (case st_sgnr st of Some k \<Rightarrow> encodeAddress X k | None \<Rightarrow> fromAccountAddr)
                   in if getSpendAddress fromAccount \<noteq> signerAddr then Inl (GENERAL INVALID_AUTH_ACCOUNT)
                      else Inr ()))"

text \<open>\<^verbatim>\<open>this.ctx.args = args\<close>: the arrays of the arguments are put in the heap of the context.\<close>

definition set_args :: "bytes list \<Rightarrow> unit ctxM" where
  "set_args as = modifyM (\<lambda>c. c\<lparr>c_heap := c_heap c @ as, c_args := [length (c_heap c)..<length (c_heap c) + length as]\<rparr>)"

definition validateLsigAndRun :: "platform \<Rightarrow> machine \<Rightarrow> ledger \<Rightarrow> lsig_param \<Rightarrow> receipt ctxM" where
  "validateLsigAndRun P M S lp =
     (case (lp_isLogicSignature lp, lp_lsig lp) of
        (True, Some l) \<Rightarrow>
          seqM (set_args (case lp_args lp of Some as \<Rightarrow> as | None \<Rightarrow> ls_args (la_lsig l)))
         (bindM (liftM (lsig_address P l)) (\<lambda>lsigAccountAddr.
          let signerAddr = (if isDelegated l then lp_fromAccountAddr lp else lsigAccountAddr)
          in bindM (liftM (decodeAddress P signerAddr)) (\<lambda>pk.
             bindM (liftM (LogicSig_verify P (la_lsig l) pk)) (\<lambda>result.
             seqM (assertM result (GENERAL LOGIC_SIGNATURE_VALIDATION_FAILED))
            (bindM (liftM (ctx_getAccount (lp_fromAccountAddr lp) S)) (\<lambda>fromAccount.
             seqM (assertM (getSpendAddress fromAccount = signerAddr) (GENERAL INVALID_AUTH_ACCOUNT))
            (let program = LogicSig_program (la_lsig l)
             in seqM (assertM (program \<noteq> '''') (GENERAL INVALID_PROGRAM))
                  (mc_run M program SIGNATURE 0))))))))
      | _ \<Rightarrow> throwM (GENERAL LOGIC_SIGNATURE_NOT_FOUND))"

section \<open>Applications\<close>

definition verifyTEALVersionIsMatch :: "machine \<Rightarrow> string \<Rightarrow> string \<Rightarrow> error + unit" where
  "verifyTEALVersionIsMatch M approvalProg clearProgram =
     (case mc_version M approvalProg of
        Inl e \<Rightarrow> Inl e
      | Inr v \<Rightarrow> (case mc_version M clearProgram of
            Inl e \<Rightarrow> Inl e
          | Inr w \<Rightarrow> if v = w then Inr () else Inl (TEAL PROGRAM_VERSION_MISMATCH)))"

text \<open>The texts of the two programs, read from their files when the source is a file.\<close>

definition program_texts :: "platform \<Rightarrow> program_source \<Rightarrow> error + string \<times> string" where
  "program_texts P src =
     (case src of
        SourceCompiled _ _ \<Rightarrow> Inl (JsError (PlainError ''not support this format''))
      | SourceCode a c \<Rightarrow> Inr (a, c)
      | SourceFile a c \<Rightarrow>
          (case read_program P a of
             Inl e \<Rightarrow> Inl e
           | Inr at \<Rightarrow> (case read_program P c of Inl e \<Rightarrow> Inl e | Inr ct \<Rightarrow> Inr (at, ct))))"

fun source_names :: "program_source \<Rightarrow> string \<times> string" where
    "source_names (SourceFile a c) = (a, c)"
  | "source_names (SourceCode a c) = (a, c)"
  | "source_names (SourceCompiled a c) = ('''', '''')"

text \<open>The checks that \<^verbatim>\<open>deployApp\<close> and \<^verbatim>\<open>updateApp\<close> make of the two texts.\<close>

definition check_programs :: "machine \<Rightarrow> string \<Rightarrow> string \<Rightarrow> int option \<Rightarrow> error + unit" where
  "check_programs M approvalProgTEAL clearProgTEAL extraPages =
     (if approvalProgTEAL = '''' then Inl (GENERAL INVALID_APPROVAL_PROGRAM)
      else if clearProgTEAL = '''' then Inl (GENERAL INVALID_CLEAR_PROGRAM)
      else (case assertProgramMaxLen (base64_decode approvalProgTEAL) (base64_decode clearProgTEAL) extraPages of
              Inl e \<Rightarrow> Inl e
            | Inr _ \<Rightarrow> verifyTEALVersionIsMatch M approvalProgTEAL clearProgTEAL))"

definition app_source_of :: "app_definition \<Rightarrow> string \<Rightarrow> string \<Rightarrow> app_source" where
  "app_source_of d a c = \<lparr>src_globalInts = ad_globalInts d, src_globalBytes = ad_globalBytes d,
     src_localInts = ad_localInts d, src_localBytes = ad_localBytes d, src_approval = a, src_clear = c\<rparr>"

definition put_ledger :: "(ledger \<Rightarrow> ledger) \<Rightarrow> unit ctxM" where
  "put_ledger f = on_ledger (modifyM f)"

definition registerApp :: "string \<Rightarrow> app_info \<Rightarrow> app_definition \<Rightarrow> unit ctxM" where
  "registerApp fileNames appInfo d =
     seqM (put_ledger (\<lambda>st. st\<lparr>appNameMap := AList.update fileNames appInfo (appNameMap st)\<rparr>))
    (bindM (getM (\<lambda>c. map_of (appNameMap (c_state c)) (ad_appName d))) (\<lambda>old.
     seqM (assertM (\<not> (fileNames \<noteq> ad_appName d \<and> old \<noteq> None)) (GENERAL APP_NAME_ALREADLY_USED))
      (put_ledger (\<lambda>st. st\<lparr>appNameMap := AList.update (ad_appName d) appInfo (appNameMap st)\<rparr>))))"

text \<open>The entries of the new identifier take the place of those of the identifier 0.\<close>

definition renumberApp :: "string \<Rightarrow> int ctxM" where
  "renumberApp sender =
     seqM (put_ledger (\<lambda>st. st\<lparr>appCounter := appCounter st + 1,
                              globalApps := AList.update (appCounter st + 1) sender (globalApps st)\<rparr>))
    (bindM (getM (\<lambda>c. appCounter (c_state c))) (\<lambda>appID.
     bindM (askM (ctx_getApp (Some 0))) (\<lambda>attributes.
     seqM (on_ledger (on_account sender (modifyM (\<lambda>a. a\<lparr>createdApps := AList.delete 0 (createdApps a)\<rparr>))))
    (seqM (put_ledger (\<lambda>st. st\<lparr>globalApps := AList.delete 0 (globalApps st)\<rparr>))
    (seqM (on_ledger (on_account sender (modifyM (\<lambda>a. a\<lparr>createdApps := AList.update appID attributes (createdApps a)\<rparr>))))
      (returnM appID))))))"

definition ctx_deployApp :: "platform \<Rightarrow> machine \<Rightarrow> string \<Rightarrow> app_definition \<Rightarrow> nat \<Rightarrow> app_info ctxM" where
  "ctx_deployApp P M creatorAddr d idx =
     bindM (askM (ctx_getAccount creatorAddr)) (\<lambda>senderAcc.
     bindM (liftM (program_texts P (ad_source d))) (\<lambda>(approvalProgTEAL, clearProgTEAL).
     seqM (liftM (check_programs M approvalProgTEAL clearProgTEAL (ad_extraPages d)))
    (seqM (assertM (\<not> (MAX_LOCAL_SCHEMA_ENTRIES < ad_localInts d + ad_localBytes d \<or>
                       MAX_GLOBAL_SCHEMA_ENTRIES < ad_globalInts d + ad_globalBytes d))
            (GENERAL MAX_SCHEMA_ENTRIES_EXCEEDED))
    (seqM (on_ledger (on_account (address senderAcc) (addApp 0 (app_source_of d approvalProgTEAL clearProgTEAL))))
    (seqM (assertAccBalAboveMin (address senderAcc))
    (seqM (put_ledger (\<lambda>st. st\<lparr>globalApps := AList.update 0 (address senderAcc) (globalApps st)\<rparr>))
    (seqM (mc_run M approvalProgTEAL APPLICATION idx)
    (bindM (renumberApp (address senderAcc)) (\<lambda>appID.
     bindM (getM (\<lambda>c. (tx_txID (c_tx c), c_round c))) (\<lambda>(txID, rnd).
     (let (approvalFile, clearFile) = source_names (ad_source d);
          appInfo = \<lparr>info_creator = address senderAcc, info_appID = appID,
                     info_applicationAccount = getApplicationAddress P appID, info_txID = txID,
                     info_confirmedRound = rnd, info_approvalFile = approvalFile, info_clearFile = clearFile\<rparr>;
          acc = new_AccountStore 0 (getApplicationAddress P appID) [] None
      in seqM (registerApp (approvalFile @ ''-'' @ clearFile) appInfo d)
        (seqM (put_ledger (put_account (address acc) acc))
           (returnM appInfo)))))))))))))"

definition ctx_optInToApp :: "machine \<Rightarrow> string \<Rightarrow> int \<Rightarrow> nat \<Rightarrow> receipt ctxM" where
  "ctx_optInToApp M accountAddr appID idx =
     bindM (askM (ctx_getApp (Some appID))) (\<lambda>appParams.
     bindM (askM (ctx_getAccount accountAddr)) (\<lambda>acc.
     seqM (on_ledger (on_account (address acc) (optInToApp appID appParams)))
    (seqM (assertAccBalAboveMin accountAddr)
     (catchM (mc_run M (approval_program appParams) APPLICATION idx)
       (\<lambda>e. seqM (on_ledger (on_account (address acc) (closeApp appID))) (throwM e))))))"

definition ctx_updateApp :: "platform \<Rightarrow> machine \<Rightarrow> int \<Rightarrow> app_definition \<Rightarrow> nat \<Rightarrow> receipt ctxM" where
  "ctx_updateApp P M appID d idx =
     bindM (liftM (program_texts P (ad_source d))) (\<lambda>(approvalProgTEAL, clearProgTEAL).
     seqM (liftM (check_programs M approvalProgTEAL clearProgTEAL (ad_extraPages d)))
    (bindM (askM (ctx_getApp (Some appID))) (\<lambda>appParams.
     bindM (mc_run M (approval_program appParams) APPLICATION idx) (\<lambda>txReceipt.
     bindM (askM (app_owner (Some appID))) (\<lambda>owner.
     seqM (askM (ctx_getApp (Some appID)))
    (seqM (on_ledger (on_account (address owner) (modifyM (\<lambda>a. a\<lparr>createdApps :=
            AList.map_entry appID (\<lambda>app. app\<lparr>approval_program := approvalProgTEAL,
              clear_state_program := clearProgTEAL\<rparr>) (createdApps a)\<rparr>))))
      (returnM txReceipt)))))))"

section \<open>Processing a group\<close>

text \<open>\<^verbatim>\<open>this.tx = this.gtxs[idx]\<close>\<close>

definition set_tx :: "nat \<Rightarrow> unit ctxM" where
  "set_tx idx = modifyM (\<lambda>c. c\<lparr>c_tx := c_gtxs c ! idx, c_txAt := int idx\<rparr>)"

text \<open>
  The check of the signature of a transaction: a logic signature runs its program, with the transaction as
  the current one, and gives a receipt; a transaction without any signature is not checked at all.
\<close>

definition check_signature :: "platform \<Rightarrow> machine \<Rightarrow> ledger \<Rightarrow> (nat, lsig_param) jsmap \<Rightarrow> nat \<Rightarrow> signed_tx \<Rightarrow>
    receipt option \<Rightarrow> receipt option ctxM" where
  "check_signature P M S lsigMap idx st r =
     (case map_of lsigMap idx of
        Some lp \<Rightarrow>
          seqM (set_tx idx)
         (bindM (validateLsigAndRun P M S lp) (\<lambda>rc. seqM (set_tx 0) (returnM (Some rc))))
      | None \<Rightarrow>
          if st_msig st \<noteq> None then seqM (liftM (validateMultisignature P S st)) (returnM r)
          else if st_sgnr st \<noteq> None \<or> st_sig st \<noteq> None
          then seqM (liftM (validateSecretKeySignature (core P) S st)) (returnM r)
          else returnM r)"

definition useTransaction :: "unit ctxM" where
  "useTransaction = bindM (getM c_remainingTxns) (\<lambda>n.
     if 0 < n then modifyM (\<lambda>c. c\<lparr>c_remainingTxns := c_remainingTxns c - 1\<rparr>)
     else throwM (GENERAL TOO_MANY_INNER_TXN))"

definition apply_pay :: "platform \<Rightarrow> transaction \<Rightarrow> receipt ctxM" where
  "apply_pay P t =
     bindM (liftM (getTxToAddress (core P) t)) (\<lambda>to.
     seqM (put_ledger (\<lambda>st. if map_of (accounts st) to = None
                            then put_account to (new_AccountStore 0 to [] None) st else st))
      (transferAlgo (core P) t))"

text \<open>\<^verbatim>\<open>knowableID.set(idx, id)\<close>\<close>

definition set_knowableID :: "nat \<Rightarrow> int \<Rightarrow> unit ctxM" where
  "set_knowableID idx i = modifyM (\<lambda>c. c\<lparr>c_knowableID := AList.update (int idx) i (c_knowableID c)\<rparr>)"

definition apply_create :: "platform \<Rightarrow> machine \<Rightarrow> (nat, app_definition) jsmap option \<Rightarrow> nat \<Rightarrow> string \<Rightarrow> receipt ctxM" where
  "apply_create P M appDefMap idx sender =
     (case appDefMap of
        None \<Rightarrow> throwM (JsError (PlainError ''App definition needs to be provided''))
      | Some defs \<Rightarrow>
          bindM (askM (ctx_getAccount sender)) (\<lambda>_.
          bindM (someM (JsError TypeError) (map_of defs idx)) (\<lambda>d.
          bindM (ctx_deployApp P M sender d idx) (\<lambda>info.
          seqM (set_knowableID idx (info_appID info))
            (returnM ((new_receipt (info_txID info))\<lparr>rc_appID := Some (info_appID info)\<rparr>))))))"

definition apply_appl :: "platform \<Rightarrow> machine \<Rightarrow> (nat, app_definition) jsmap option \<Rightarrow> nat \<Rightarrow> transaction \<Rightarrow>
    receipt option \<Rightarrow> receipt option ctxM" where
  "apply_appl P M appDefMap idx t r =
     (let sender = getTxFromAddress (core P) t; appID = t_appIndex t;
          run_approval = bindM (askM (ctx_getApp (Some appID))) (\<lambda>appParams.
                           mc_run M (approval_program appParams) APPLICATION idx)
      in seqM (set_tx idx)
         (case t_appOnComplete t of
            NoOpOC \<Rightarrow>
              if isEncTxApplicationCreate (get_obj_for_encoding P t)
              then bindM (apply_create P M appDefMap idx sender) (\<lambda>rc. returnM (Some rc))
              else bindM run_approval (\<lambda>rc. returnM (Some rc))
          | ClearStateOC \<Rightarrow>
              bindM (askM (ctx_getApp (Some appID))) (\<lambda>appParams.
              bindM (catchM (bindM (mc_run M (clear_state_program appParams) APPLICATION idx) (\<lambda>rc. returnM (Some rc)))
                      (\<lambda>e. returnM r)) (\<lambda>r'.
              seqM (ctx_closeApp sender appID) (returnM r')))
          | CloseOutOC \<Rightarrow>
              bindM run_approval (\<lambda>rc. seqM (ctx_closeApp sender appID) (returnM (Some rc)))
          | DeleteApplicationOC \<Rightarrow>
              bindM run_approval (\<lambda>rc. seqM (ctx_deleteApp appID) (returnM (Some rc)))
          | OptInOC \<Rightarrow> bindM (ctx_optInToApp M sender appID idx) (\<lambda>rc. returnM (Some rc))
          | UpdateApplicationOC \<Rightarrow>
              (case appDefMap of
                 None \<Rightarrow> throwM (JsError (PlainError ''Not supported''))
               | Some defs \<Rightarrow>
                   bindM (someM (JsError TypeError) (map_of defs idx)) (\<lambda>d.
                   bindM (ctx_updateApp P M appID d idx) (\<lambda>rc. returnM (Some rc))))))"

definition require_role :: "(asset_params \<Rightarrow> string option) \<Rightarrow> error \<Rightarrow> int \<Rightarrow> string \<Rightarrow> unit ctxM" where
  "require_role role e assetIndex sender =
     bindM (askM (ctx_getAssetDef assetIndex)) (\<lambda>asset. assertM (role asset = Some sender) e)"

definition apply_acfg :: "platform \<Rightarrow> nat \<Rightarrow> transaction \<Rightarrow> receipt option \<Rightarrow> receipt option ctxM" where
  "apply_acfg P idx t r =
     (let X = core P; L = algo P; sender = getTxFromAddress X t; enc = get_obj_for_encoding P t
      in if isEncTxAssetCreate enc
         then seqM (set_tx idx)
             (bindM (askM (ctx_getAccount sender)) (\<lambda>_.
              bindM (ctx_deployASADef L (t_assetName t) (getTxASADefinition (text_decode P) X t) sender (getTxFlags X t)) (\<lambda>info.
              seqM (set_knowableID idx (asa_assetIndex info))
                (returnM (Some ((new_receipt (asa_txID info))\<lparr>rc_assetIndex := Some (asa_assetIndex info)\<rparr>))))))
         else if isEncTxAssetReconfigure enc
         then seqM (require_role ap_manager (ASA MANAGER_ERROR) (t_assetIndex t) sender)
             (bindM (liftM (getAssetReconfigureFields X enc t)) (\<lambda>mods.
              bindM (ctx_modifyAsset (t_assetIndex t) mods) (\<lambda>rc. returnM (Some rc))))
         else if isEncTxAssetDeletion enc
         then seqM (require_role ap_manager (ASA MANAGER_ERROR) (t_assetIndex t) sender)
             (bindM (ctx_destroyAsset (t_assetIndex t)) (\<lambda>rc. returnM (Some rc)))
         else returnM r)"

definition apply_axfer :: "platform \<Rightarrow> transaction \<Rightarrow> receipt option \<Rightarrow> receipt option ctxM" where
  "apply_axfer P t r =
     (let X = core P; L = algo P; sender = getTxFromAddress X t; enc = get_obj_for_encoding P t; payFlags = getTxFlags X t
      in if isEncTxAssetTransfer enc then bindM (transferAsset L t) (\<lambda>rc. returnM (Some rc))
         else if isEncTxAssetRevoke enc
         then seqM (require_role ap_clawback (ASA CLAWBACK_ERROR) (t_assetIndex t) sender)
             (seqM (assertM (\<not> given (fl_closeRemainderTo payFlags)) (ASA CANNOT_CLOSE_ASSET_BY_CLAWBACK))
             (bindM (liftM (getTxToAddress X t)) (\<lambda>to.
              bindM (revokeAsset to (t_assetIndex t) (getTxRevokeAddress X t) (t_amount t)) (\<lambda>rc. returnM (Some rc)))))
         else if isEncTxAssetOptIn enc
         then bindM (ctx_optInToASA L (t_assetIndex t) sender payFlags) (\<lambda>rc. returnM (Some rc))
         else returnM r)"

definition apply_tx :: "platform \<Rightarrow> machine \<Rightarrow> (nat, app_definition) jsmap option \<Rightarrow> nat \<Rightarrow> transaction \<Rightarrow>
    receipt option \<Rightarrow> receipt option ctxM" where
  "apply_tx P M appDefMap idx t r =
     (if t_type t = ''pay'' then bindM (apply_pay P t) (\<lambda>rc. returnM (Some rc))
      else if t_type t = ''keyreg'' then bindM (getM (\<lambda>c. tx_txID (c_tx c))) (\<lambda>i. returnM (Some (new_receipt i)))
      else if t_type t = ''appl'' then apply_appl P M appDefMap idx t r
      else if t_type t = ''acfg'' then apply_acfg P idx t r
      else if t_type t = ''axfer'' then apply_axfer P t r
      else if t_type t = ''afrz''
      then seqM (require_role ap_freeze (ASA FREEZE_ERROR) (t_assetIndex t) (getTxFromAddress (core P) t))
          (bindM (freezeAsset (t_assetIndex t) (getTxFreezeAddress (core P) t) (t_freezeState t)) (\<lambda>rc.
             returnM (Some rc)))
      else returnM r)"

definition popInnerCallStack :: "unit ctxM" where
  "popInnerCallStack = bindM (getM c_isInnerTx) (\<lambda>inner.
     if inner
     then modifyM (\<lambda>c. let ids = butlast (c_innerTxAppIDCallStack c)
                        in c\<lparr>c_innerTxAppIDCallStack := (if length ids = 1 then [] else ids)\<rparr>)
     else returnM ())"

definition process_tx :: "platform \<Rightarrow> machine \<Rightarrow> ledger \<Rightarrow> (nat, app_definition) jsmap option \<Rightarrow> (nat, lsig_param) jsmap \<Rightarrow>
    nat \<Rightarrow> signed_tx \<Rightarrow> receipt option \<Rightarrow> receipt option ctxM" where
  "process_tx P M S appDefMap lsigMap idx st r =
     (let t = st_txn st; X = core P; sender = getTxFromAddress X t; payFlags = getTxFlags X t
      in seqM (modifyM (\<lambda>c. c\<lparr>c_txnType := Some (t_type t)\<rparr>))
        (seqM (deductFee sender idx payFlags)
        (bindM (check_signature P M S lsigMap idx st r) (\<lambda>r1.
         seqM useTransaction
        (bindM (apply_tx P M appDefMap idx t r1) (\<lambda>r2.
         seqM (ctx_rekeyTo X t (if given (fl_closeRemainderTo payFlags) then Some sender else getTxReKeyToToAddress X t))
        (seqM popInnerCallStack (returnM r2))))))))"

fun process_all :: "platform \<Rightarrow> machine \<Rightarrow> ledger \<Rightarrow> (nat, app_definition) jsmap option \<Rightarrow> (nat, lsig_param) jsmap \<Rightarrow>
    nat \<Rightarrow> signed_tx list \<Rightarrow> receipt option \<Rightarrow> receipt list ctxM" where
    "process_all P M S appDefMap lsigMap idx [] r = returnM []"
  | "process_all P M S appDefMap lsigMap idx (st # sts) r =
      bindM (process_tx P M S appDefMap lsigMap idx st r) (\<lambda>r'.
      bindM (process_all P M S appDefMap lsigMap (Suc idx) sts r') (\<lambda>rs.
        returnM (case r' of None \<Rightarrow> rs | Some rc \<Rightarrow> rc # rs)))"

definition processTransactions :: "platform \<Rightarrow> machine \<Rightarrow> ledger \<Rightarrow> signed_tx list \<Rightarrow> (nat, app_definition) jsmap option \<Rightarrow>
    (nat, lsig_param) jsmap \<Rightarrow> receipt list ctxM" where
  "processTransactions P M S sts appDefMap lsigMap =
     seqM verifyMinimumFees
    (seqM verifyAndUpdateInnerAppCallStack
      (process_all P M S appDefMap lsigMap 0 sts None))"

end
