(* ===== verification/TEAL_Runtime.thy ===== *)
theory TEAL_Runtime
  imports TEAL_Group TEAL_Assets
begin

text \<open>
  The runtime (\<^verbatim>\<open>runtime.ts\<close>): the store, the context of the last group, the rounds, and the operations a user of
  the simulator calls.

  The store and the state of the context are objects. \<^verbatim>\<open>executeTx\<close> makes a context over a deep copy of
  the store and, when the group succeeds, makes the state of that context the store, so that
  from then on both are the same object, until the next group. The flag \<open>rt_shared\<close> says so: a change of one is then a change of
  the other. The byte arrays of store and context are in two heaps, which is what a deep
  copy gives; only the array of the constant \<^verbatim>\<open>ZERO_ADDRESS\<close> is in both, at \<open>rt_zero\<close> and at \<^const>\<open>c_zeroAddress\<close>.
\<close>

section \<open>State\<close>

record runtime =
  rt_store :: ledger
  rt_heap :: heap
  rt_zero :: nat
  rt_ctx :: ctx
  rt_shared :: bool
  rt_round :: int
  rt_timestamp :: int
  rt_loadedAssetsDefs :: "(string, asa_def) jsmap option"

type_synonym 'a rtM = "(runtime, 'a) exec"

text \<open>\<^verbatim>\<open>new Ctx(cloneDeep(store), tx, gtxs, args, runtime)\<close>\<close>

definition fresh_ctx :: "ledger \<Rightarrow> heap \<Rightarrow> nat \<Rightarrow> int \<Rightarrow> int \<Rightarrow> enc_tx \<Rightarrow> enc_tx list \<Rightarrow> ctx" where
  "fresh_ctx S h z rnd ts tx gtxs =
     \<lparr>c_heap = h @ [[], deref h z], c_state = S, c_tx = tx, c_txAt = 0, c_gtxs = gtxs,
      c_args = [], c_round = rnd, c_timestamp = ts, c_blocks = blocks S, c_sharedScratchSpace = [], c_knowableID = [],
      c_pooledApplCost = 0, c_isInnerTx = False, c_innerTxAppIDCallStack = [or_zero (tx_apid tx)],
      c_remainingTxns = 256, c_remainingFee = 0, c_budget = MAX_APP_PROGRAM_COST,
      c_lastLog = length h, c_zeroAddress = Suc (length h), c_txnType = None\<rparr>"

definition new_Ctx :: "runtime \<Rightarrow> enc_tx \<Rightarrow> enc_tx list \<Rightarrow> ctx" where
  "new_Ctx rt tx gtxs = fresh_ctx (rt_store rt) (rt_heap rt) (rt_zero rt) (rt_round rt) (rt_timestamp rt) tx gtxs"

text \<open>The store sees what a method of the context did, if they share the state; the zero array they always share.\<close>

definition sync_store :: "runtime \<Rightarrow> runtime" where
  "sync_store rt =
     (let c = rt_ctx rt
      in if rt_shared rt
         then rt\<lparr>rt_store := c_state c, rt_heap := c_heap c, rt_zero := c_zeroAddress c\<rparr>
         else rt\<lparr>rt_heap := (rt_heap rt)[rt_zero rt := deref (c_heap c) (c_zeroAddress c)]\<rparr>)"

text \<open>
  A program asks the runtime, not the context, for the round, the timestamp and the blocks, so the
  context is given those the runtime has when a method is called.
\<close>

definition live :: "runtime \<Rightarrow> ctx \<Rightarrow> ctx" where
  "live rt c = c\<lparr>c_round := rt_round rt, c_timestamp := rt_timestamp rt, c_blocks := blocks (rt_store rt)\<rparr>"

definition in_ctx :: "'a ctxM \<Rightarrow> 'a rtM" where
  "in_ctx m = (\<lambda>rt. case m (live rt (rt_ctx rt)) of (r, c) \<Rightarrow> (r, sync_store (rt\<lparr>rt_ctx := c\<rparr>)))"

text \<open>\<^verbatim>\<open>this.store = this.ctx.state\<close>\<close>

definition commit :: "unit rtM" where
  "commit = modifyM (\<lambda>rt. sync_store (rt\<lparr>rt_shared := True\<rparr>))"

text \<open>A change of the store is one of the state of the context if they are the same object.\<close>

definition on_store :: "(ledger, 'a) exec \<Rightarrow> 'a rtM" where
  "on_store m = (\<lambda>rt. case m (rt_store rt) of (r, S) \<Rightarrow>
     (r, if rt_shared rt then rt\<lparr>rt_store := S, rt_ctx := (rt_ctx rt)\<lparr>c_state := S\<rparr>\<rparr> else rt\<lparr>rt_store := S\<rparr>))"

section \<open>Queries\<close>

definition rt_getTxReceipt :: "runtime \<Rightarrow> string \<Rightarrow> receipt option" where
  "rt_getTxReceipt rt txID = map_of (txReceipts (rt_store rt)) txID"

definition rt_getApp :: "runtime \<Rightarrow> int \<Rightarrow> error + app_attrs" where
  "rt_getApp rt appID = ctx_getApp (Some appID) (rt_store rt)"

definition rt_getAccount :: "runtime \<Rightarrow> string \<Rightarrow> error + account" where
  "rt_getAccount rt addr = ctx_getAccount addr (rt_store rt)"

definition rt_getGlobalState :: "runtime \<Rightarrow> int \<Rightarrow> bytes \<Rightarrow> error + stack_elem option" where
  "rt_getGlobalState rt appID key =
     (case app_owner (Some appID) (rt_store rt) of
        Inl e \<Rightarrow> Inl e | Inr acc \<Rightarrow> Inr (getGlobalState appID key acc))"

definition rt_getLocalState :: "runtime \<Rightarrow> int \<Rightarrow> string \<Rightarrow> bytes \<Rightarrow> error + stack_elem option" where
  "rt_getLocalState rt appID addr key =
     (case rt_getAccount rt addr of Inl e \<Rightarrow> Inl e | Inr acc \<Rightarrow> Inr (getLocalState appID key acc))"

definition rt_getAssetAccount :: "runtime \<Rightarrow> int \<Rightarrow> error + account" where
  "rt_getAssetAccount rt assetId = ctx_getAssetAccount assetId (rt_store rt)"

definition rt_getAssetDef :: "runtime \<Rightarrow> int \<Rightarrow> error + asset_params" where
  "rt_getAssetDef rt assetId = ctx_getAssetDef assetId (rt_store rt)"

definition rt_getAssetHolding :: "runtime \<Rightarrow> int \<Rightarrow> string \<Rightarrow> error + asset_holding" where
  "rt_getAssetHolding rt assetIndex addr = ctx_getAssetHolding assetIndex addr (rt_store rt)"

definition getAssetInfoFromName :: "runtime \<Rightarrow> string \<Rightarrow> asa_info option" where
  "getAssetInfoFromName rt nm = map_of (assetNameInfo (rt_store rt)) nm"

definition getAppInfoFromName :: "runtime \<Rightarrow> string \<Rightarrow> string \<Rightarrow> app_info option" where
  "getAppInfoFromName rt approval clear = map_of (appNameMap (rt_store rt)) (approval @ ''-'' @ clear)"

definition getAppByName :: "runtime \<Rightarrow> string \<Rightarrow> app_info option" where
  "getAppByName rt appName = map_of (appNameMap (rt_store rt)) appName"

definition assertMinBalance :: "runtime \<Rightarrow> int \<Rightarrow> string \<Rightarrow> error + unit" where
  "assertMinBalance rt amt addr =
     (case rt_getAccount rt addr of
        Inl e \<Rightarrow> Inl e
      | Inr acc \<Rightarrow> if amount acc - amt < minBalance acc then Inl (TRANSACTION INSUFFICIENT_ACCOUNT_BALANCE)
                   else Inr ())"

section \<open>Accounts, rounds and blocks\<close>

definition add_account :: "account \<Rightarrow> ledger \<Rightarrow> ledger" where
  "add_account acc st =
     (let named = (if given (acc_name acc)
                   then st\<lparr>accountNameAddress := AList.update (the (acc_name acc)) (address acc) (accountNameAddress st)\<rparr>
                   else st);
          stored = put_account (address acc) acc named;
          apps = stored\<lparr>globalApps := fold (\<lambda>appID m. AList.update appID (address acc) m)
                   (List.map fst (createdApps acc)) (globalApps stored)\<rparr>
      in apps\<lparr>assetDefs := fold (\<lambda>assetId m. AList.update assetId (address acc) m)
                (List.map fst (createdAssets acc)) (assetDefs apps)\<rparr>)"

definition initializeAccounts :: "account list \<Rightarrow> ledger \<Rightarrow> ledger" where
  "initializeAccounts accs st =
     (let feeSink = new_AccountStore ALGORAND_ACCOUNT_MIN_BALANCE ZERO_ADDRESS_STR [] None
      in put_account (address feeSink) feeSink (fold add_account accs st))"

definition setRoundAndTimestamp :: "int \<Rightarrow> int \<Rightarrow> unit rtM" where
  "setRoundAndTimestamp r ts =
     modifyM (\<lambda>rt. rt\<lparr>rt_round := r, rt_timestamp := ts, rt_ctx := (rt_ctx rt)\<lparr>c_round := r\<rparr>\<rparr>)"

text \<open>The clock, the random seed and the hash of the platform, as a block needs them.\<close>

record block_source =
  bs_now :: int
  bs_randomBytes :: bytes
  bs_MD5 :: "string \<Rightarrow> string"

definition BlockFinalisationTime :: int where "BlockFinalisationTime = 4"

definition produceBlock :: "block_source \<Rightarrow> unit rtM" where
  "produceBlock B =
     bindM (getM (\<lambda>rt. (blocks (rt_store rt), rt_round rt, rt_timestamp rt))) (\<lambda>(blks, rnd, ts).
       bindM (if blks = [] then returnM (Some (bs_now B, bs_randomBytes B, rnd))
              else (case map_of blks rnd of
                      None \<Rightarrow> returnM None
                    | Some b \<Rightarrow> returnM (Some (blk_timestamp b + BlockFinalisationTime,
                        stringToBytes (bs_MD5 B (bytes_toString (blk_seed b))), rnd + 1)))) (\<lambda>new.
       case new of
         None \<Rightarrow> throwM (GENERAL PRODUCE_BLOCK)
       | Some (timestamp, seed, rnd') \<Rightarrow>
           seqM (setRoundAndTimestamp rnd' ts)
             (if timestamp = 0 then throwM (GENERAL PRODUCE_BLOCK)
              else on_store (modifyM (\<lambda>st. st\<lparr>blocks :=
                AList.update rnd' \<lparr>blk_timestamp = timestamp, blk_seed = seed\<rparr> (blocks st)\<rparr>)))))"

definition getBlock :: "runtime \<Rightarrow> int \<Rightarrow> error + block" where
  "getBlock rt rnd =
     (case map_of (blocks (rt_store rt)) rnd of None \<Rightarrow> Inl (GENERAL INVALID_BLOCK) | Some b \<Rightarrow> Inr b)"

definition produceBlocks :: "block_source \<Rightarrow> nat \<Rightarrow> unit rtM" where
  "produceBlocks B numberOfBlocks = forM (replicate numberOfBlocks ()) (\<lambda>_. produceBlock B)"

definition empty_store :: ledger where
  "empty_store = \<lparr>accounts = [], accountNameAddress = [], globalApps = [], assetDefs = [],
     assetNameInfo = [], appNameMap = [], appCounter = int ALGORAND_MAX_TX_ARRAY_LEN,
     assetCounter = int ALGORAND_MAX_TX_ARRAY_LEN, txReceipts = [], blocks = []\<rparr>"

text \<open>
  The constructor: the context is made before the first blocks are produced. \<open>defaults\<close> are the accounts of
  \<^verbatim>\<open>defaultSDKAccounts\<close>; an account of the user holds no application state with byte arrays.
\<close>

definition new_Runtime :: "block_source \<Rightarrow> account list \<Rightarrow> (string, asa_def) jsmap option \<Rightarrow> account list \<Rightarrow>
    (error + unit) \<times> runtime" where
  "new_Runtime B defaults defs accs =
     (let S = initializeAccounts accs (initializeAccounts defaults empty_store);
          rt = \<lparr>rt_store = S, rt_heap = [ZERO_ADDRESS], rt_zero = 0,
                rt_ctx = fresh_ctx S [ZERO_ADDRESS] 0 0 0 (bare_tx '''' '''' []) [], rt_shared = False, rt_round = 0, rt_timestamp = 0, rt_loadedAssetsDefs = defs\<rparr>
      in seqM (produceBlocks B 2000) (modifyM (\<lambda>rt. rt\<lparr>rt_timestamp := 1\<rparr>)) rt)"

section \<open>Groups of transactions\<close>

definition validateTxRound :: "runtime \<Rightarrow> enc_tx list \<Rightarrow> error + unit" where
  "validateTxRound rt gtxs =
     (if \<exists>txn \<in> set gtxs. (case tx_fv txn of None \<Rightarrow> False | Some fv \<Rightarrow> fv \<ge> rt_round rt) \<or> tx_lv txn \<le> rt_round rt
      then Inl (GENERAL INVALID_ROUND) else Inr ())"

definition assertNoDuplicateTransaction :: "enc_tx list \<Rightarrow> error + unit" where
  "assertNoDuplicateTransaction gtxs =
     (if \<exists>txn \<in> set gtxs. 1 < length (filter (\<lambda>anotherTxn. tx_txID anotherTxn = tx_txID txn) gtxs)
      then Inl (TRANSACTION TRANSACTION_ALREADY_IN_LEDGER) else Inr ())"

definition getEncodedGroupTxns :: "platform \<Rightarrow> signed_tx list \<Rightarrow> enc_tx list" where
  "getEncodedGroupTxns P sts = List.map (\<lambda>st. encode_tx (algo P) (st_txn st)) sts"

definition MaxExtraAppProgramPages :: int where "MaxExtraAppProgramPages = 3"

definition validateExtraPages :: "int option \<Rightarrow> error + unit" where
  "validateExtraPages extraPages =
     (if or_zero extraPages > MaxExtraAppProgramPages then Inl (TEAL EXTRA_PAGES_EXCEEDED) else Inr ())"

text \<open>
  \<^verbatim>\<open>ExecParams\<close>: the parts that \<^verbatim>\<open>executeTx\<close> reads, and what \<^verbatim>\<open>mkTransaction\<close> and the signing function of the SDK make of
  the parameters and the suggested parameters.
\<close>

record exec_params =
  ep_payFlags :: tx_params
  ep_lsig :: "lsig_param option"
  ep_appDef :: "app_definition option"
  ep_make :: "suggested \<Rightarrow> error + signed_tx"

datatype group_params = Params "exec_params list" | Signed "signed_tx list"

fun make_all :: "int \<Rightarrow> exec_params list \<Rightarrow> error + signed_tx list" where
    "make_all rnd [] = Inr []"
  | "make_all rnd (p # ps) =
      (case ep_make p (mockSuggestedParams (ep_payFlags p) rnd) of
         Inl e \<Rightarrow> Inl e
       | Inr st \<Rightarrow> (case make_all rnd ps of Inl e \<Rightarrow> Inl e | Inr sts \<Rightarrow> Inr (st # sts)))"

definition createTxnContext :: "int \<Rightarrow> exec_params list \<Rightarrow> error + signed_tx list" where
  "createTxnContext rnd txnParams =
     (if txnParams = [] then Inl (JsError (PlainError ''ExecParams length is zero''))
      else if 16 < length txnParams then Inl (JsError (PlainError ''Maximum size of an atomic transfer group is 16''))
      else make_all rnd txnParams)"

fun collect :: "('p \<Rightarrow> 'v option) \<Rightarrow> nat \<Rightarrow> 'p list \<Rightarrow> (nat, 'v) jsmap" where
    "collect f i [] = []"
  | "collect f i (p # ps) = (case f p of None \<Rightarrow> [] | Some v \<Rightarrow> [(i, v)]) @ collect f (Suc i) ps"

definition prepare :: "runtime \<Rightarrow> group_params \<Rightarrow>
    error + signed_tx list \<times> (nat, app_definition) jsmap \<times> (nat, lsig_param) jsmap" where
  "prepare rt g =
     (case g of
        Signed sts \<Rightarrow> Inr (sts, [], [])
      | Params [] \<Rightarrow> Inr ([], [], [])
      | Params ps \<Rightarrow>
          if list_all (\<lambda>p. case ep_appDef p of None \<Rightarrow> True | Some d \<Rightarrow> validateExtraPages (ad_extraPages d) = Inr ()) ps
          then (case createTxnContext (rt_round rt) ps of
                  Inl e \<Rightarrow> Inl e
                | Inr sts \<Rightarrow> Inr (sts, collect ep_appDef 0 ps, collect ep_lsig 0 ps))
          else Inl (TEAL EXTRA_PAGES_EXCEEDED))"

definition start_ctx :: "enc_tx list \<Rightarrow> (ctx \<Rightarrow> ctx) \<Rightarrow> unit rtM" where
  "start_ctx gtxs f =
     modifyM (\<lambda>rt. rt\<lparr>rt_ctx := f (new_Ctx rt (hd gtxs) gtxs), rt_shared := False\<rparr>)"

definition executeTx :: "platform \<Rightarrow> machine \<Rightarrow> group_params \<Rightarrow> receipt list rtM" where
  "executeTx P M g =
     bindM (getM (\<lambda>rt. prepare rt g)) (\<lambda>p. bindM (liftM p) (\<lambda>(sts, appDefMap, lsigMap).
     let gtxs = getEncodedGroupTxns P sts
     in bindM (getM (\<lambda>rt. validateTxRound rt gtxs)) (\<lambda>v. seqM (liftM v)
       (seqM (liftM (assertNoDuplicateTransaction gtxs))
       (seqM (assertM (gtxs \<noteq> []) (JsError TypeError))
       (seqM (start_ctx gtxs (\<lambda>c. c\<lparr>c_budget :=
                MAX_APP_PROGRAM_COST * int (length (filter (\<lambda>txn. tx_type txn = APPLICATION_CALL) gtxs))\<rparr>))
       (bindM (getM rt_store) (\<lambda>S.
        bindM (in_ctx (processTransactions P M S sts (Some appDefMap) lsigMap)) (\<lambda>txReceipts.
        seqM commit (returnM txReceipts))))))))))"

definition sendSignedTransaction :: "platform \<Rightarrow> machine \<Rightarrow> signed_tx \<Rightarrow> receipt list rtM" where
  "sendSignedTransaction P M st =
     (let gtxs = getEncodedGroupTxns P [st]
      in seqM (start_ctx gtxs (\<lambda>c. c))
        (bindM (getM rt_store) (\<lambda>S.
         bindM (in_ctx (processTransactions P M S [st] None [])) (\<lambda>txReceipts.
         seqM commit (returnM txReceipts)))))"

section \<open>Operations outside groups\<close>

text \<open>They work on the context the runtime has, whatever its state is, and make that state the store.\<close>

definition rt_optInToASA :: "platform \<Rightarrow> int \<Rightarrow> string \<Rightarrow> tx_params \<Rightarrow> receipt rtM" where
  "rt_optInToASA P assetIndex addr flags =
     bindM (in_ctx (ctx_optInToASA (algo P) assetIndex addr flags)) (\<lambda>rc. seqM commit (returnM rc))"

definition optInToASAMultiple :: "platform \<Rightarrow> int \<Rightarrow> string list option \<Rightarrow> unit rtM" where
  "optInToASAMultiple P assetID accs =
     (case accs of
        None \<Rightarrow> returnM ()
      | Some ns \<Rightarrow> forM ns (\<lambda>accName.
          bindM (getM (\<lambda>rt. map_of (accountNameAddress (rt_store rt)) accName)) (\<lambda>addr.
            if given addr then seqM (rt_optInToASA P assetID (the addr) no_flags) (returnM ()) else returnM ())))"

definition rt_deployASADef :: "platform \<Rightarrow> string \<Rightarrow> asa_def \<Rightarrow> string \<Rightarrow> tx_params \<Rightarrow> asa_info rtM" where
  "rt_deployASADef P nm def creator flags =
     bindM (in_ctx (ctx_deployASADef (algo P) nm def creator flags)) (\<lambda>info.
     seqM commit
    (bindM (getM (\<lambda>rt. assetCounter (rt_store rt))) (\<lambda>i.
     seqM (optInToASAMultiple P i (def_optInAccNames def)) (returnM info))))"

definition rt_deployASA :: "platform \<Rightarrow> string \<Rightarrow> string \<Rightarrow> tx_params \<Rightarrow> asa_info rtM" where
  "rt_deployASA P nm creator flags =
     bindM (getM rt_loadedAssetsDefs) (\<lambda>defs.
     bindM (in_ctx (ctx_deployASA (algo P) defs nm creator flags)) (\<lambda>info.
     seqM commit
    (bindM (getM (\<lambda>rt. assetCounter (rt_store rt))) (\<lambda>i.
     seqM (optInToASAMultiple P i (Option.bind (Option.bind defs (\<lambda>ds. map_of ds nm)) def_optInAccNames))
       (returnM info)))))"

text \<open>\<open>encTx\<close> is the transaction the SDK makes for the call.\<close>

definition set_ctx_tx :: "enc_tx \<Rightarrow> unit rtM" where
  "set_ctx_tx encTx = in_ctx (modifyM (\<lambda>c. c\<lparr>c_tx := encTx, c_txAt := 0, c_gtxs := [encTx]\<rparr>))"

definition reset_budget :: "unit rtM" where
  "reset_budget = in_ctx (modifyM (\<lambda>c. c\<lparr>c_budget := MAX_APP_PROGRAM_COST\<rparr>))"

definition rt_deployApp :: "platform \<Rightarrow> machine \<Rightarrow> enc_tx \<Rightarrow> string \<Rightarrow> app_definition \<Rightarrow> app_info rtM" where
  "rt_deployApp P M encTx sender d =
     seqM (set_ctx_tx encTx)
    (seqM reset_budget
    (seqM (liftM (validateExtraPages (ad_extraPages d)))
    (bindM (in_ctx (ctx_deployApp P M sender d 0)) (\<lambda>info.
     seqM commit (returnM info)))))"

definition rt_optInToApp :: "machine \<Rightarrow> enc_tx \<Rightarrow> string \<Rightarrow> int \<Rightarrow> receipt rtM" where
  "rt_optInToApp M encTx accountAddr appID =
     seqM (set_ctx_tx encTx)
    (seqM reset_budget
    (bindM (in_ctx (ctx_optInToApp M accountAddr appID 0)) (\<lambda>rc.
     seqM commit (returnM rc))))"

definition rt_updateApp :: "platform \<Rightarrow> machine \<Rightarrow> enc_tx \<Rightarrow> int \<Rightarrow> app_definition \<Rightarrow> receipt rtM" where
  "rt_updateApp P M encTx appID d =
     seqM (set_ctx_tx encTx)
    (seqM reset_budget
    (seqM (liftM (validateExtraPages (ad_extraPages d)))
    (bindM (in_ctx (ctx_updateApp P M appID d 0)) (\<lambda>rc.
     seqM commit (returnM rc)))))"

definition createLsigAccount :: "platform \<Rightarrow> string \<Rightarrow> bytes list \<Rightarrow> lsig_account rtM" where
  "createLsigAccount P program as =
     seqM (assertM (program \<noteq> '''') (GENERAL INVALID_PROGRAM))
    (bindM (liftM (new_LogicSigAccount P program as)) (\<lambda>l.
     bindM (liftM (lsig_address P l)) (\<lambda>addr.
     seqM (on_store (modifyM (put_account addr (new_AccountStore 0 addr [] None))))
       (returnM l))))"

definition loadLogic :: "platform \<Rightarrow> string \<Rightarrow> lsig_account rtM" where
  "loadLogic P fileName = bindM (liftM (read_program P fileName)) (\<lambda>program. createLsigAccount P program [])"

end
