(* ===== verification/TEAL_Atomic.thy ===== *)
theory TEAL_Atomic
  imports TEAL_Runtime
begin

text \<open>
  What a group of transactions can do to the store as a whole: all of it or nothing, and where the
  runtime does not keep to that.
\<close>

section \<open>What a context does to the store\<close>

text \<open>A group runs on a copy: whatever the context does, the store is as it was.\<close>

definition store_kept :: "runtime \<Rightarrow> runtime \<Rightarrow> bool" where
  "store_kept rt rt' \<longleftrightarrow> rt_store rt' = rt_store rt \<and> rt_round rt' = rt_round rt \<and>
     rt_timestamp rt' = rt_timestamp rt \<and> rt_loadedAssetsDefs rt' = rt_loadedAssetsDefs rt \<and>
     (\<forall>r. r \<noteq> rt_zero rt \<longrightarrow> deref (rt_heap rt') r = deref (rt_heap rt) r)"

lemma store_kept_refl: "store_kept rt rt"
  by (simp add: store_kept_def)

lemma deref_update: "r \<noteq> z \<Longrightarrow> deref (h[z := b]) r = deref h r"
  by (simp add: deref_def)

lemma in_ctx_unshared:
  assumes "\<not> rt_shared rt" "in_ctx m rt = (r, rt')"
  shows "\<not> rt_shared rt' \<and> store_kept rt rt' \<and> m (live rt (rt_ctx rt)) = (r, rt_ctx rt')"
  using assms by (auto simp: in_ctx_def sync_store_def store_kept_def deref_update Let_def split: prod.splits)

lemma store_kept_start: "store_kept rt (rt\<lparr>rt_ctx := c, rt_shared := b\<rparr>)"
  by (simp add: store_kept_def)

lemma store_kept_trans_start:
  "store_kept (rt\<lparr>rt_ctx := c, rt_shared := b\<rparr>) rt' \<Longrightarrow> store_kept rt rt'"
  by (simp add: store_kept_def)

text \<open>The context a group starts in.\<close>

definition group_ctx :: "runtime \<Rightarrow> enc_tx list \<Rightarrow> ctx" where
  "group_ctx rt gtxs = (new_Ctx rt (hd gtxs) gtxs)\<lparr>c_budget :=
     MAX_APP_PROGRAM_COST * int (length (filter (\<lambda>txn. tx_type txn = APPLICATION_CALL) gtxs))\<rparr>"

lemma live_group_ctx: "live (rt\<lparr>rt_ctx := c, rt_shared := b\<rparr>) (group_ctx rt gtxs) = group_ctx rt gtxs"
  by (simp add: live_def group_ctx_def new_Ctx_def fresh_ctx_def)

lemma live_state [simp]: "c_state (live rt c) = c_state c"
  by (simp add: live_def)

text \<open>The two ways a group ends.\<close>

lemma executeTx_ends:
  assumes "executeTx P M g rt = (r, rt')"
  obtains (refused) e where "r = Inl e" "rt' = rt"
  | (failed) e sts defs lsigs c where "r = Inl e" "prepare rt g = Inr (sts, defs, lsigs)"
      "processTransactions P M (rt_store rt) sts (Some defs) lsigs (group_ctx rt (getEncodedGroupTxns P sts)) = (Inl e, c)"
      "rt_ctx rt' = c" "\<not> rt_shared rt'" "store_kept rt rt'"
  | (committed) rs sts defs lsigs c where "r = Inr rs" "prepare rt g = Inr (sts, defs, lsigs)"
      "validateTxRound rt (getEncodedGroupTxns P sts) = Inr ()"
      "assertNoDuplicateTransaction (getEncodedGroupTxns P sts) = Inr ()" "sts \<noteq> []"
      "processTransactions P M (rt_store rt) sts (Some defs) lsigs (group_ctx rt (getEncodedGroupTxns P sts)) = (Inr rs, c)"
      "rt_ctx rt' = c" "rt_shared rt'" "rt_store rt' = c_state c" "rt_heap rt' = c_heap c"
proof (cases "prepare rt g")
  case (Inl e)
  then show thesis using assms by (auto simp: executeTx_def exec_simps intro: refused)
next
  case (Inr p)
  obtain sts defs lsigs where p: "prepare rt g = Inr (sts, defs, lsigs)" using Inr by (cases p) auto
  let ?g = "getEncodedGroupTxns P sts"
  show thesis
  proof (cases "validateTxRound rt ?g = Inr () \<and> assertNoDuplicateTransaction ?g = Inr () \<and> ?g \<noteq> []")
    case False
    then show thesis using assms p
      by (auto simp: executeTx_def exec_simps Let_def intro: refused split: sum.splits)
  next
    case True
    let ?rt = "rt\<lparr>rt_ctx := group_ctx rt ?g, rt_shared := False\<rparr>"
    let ?m = "processTransactions P M (rt_store rt) sts (Some defs) lsigs"
    obtain r1 rt1 where m: "in_ctx ?m ?rt = (r1, rt1)" by fastforce
    have u: "\<not> rt_shared rt1" "store_kept rt rt1" "?m (group_ctx rt ?g) = (r1, rt_ctx rt1)"
      using in_ctx_unshared [OF _ m] by (auto simp: live_group_ctx dest: store_kept_trans_start)
    have e: "executeTx P M g rt = (case r1 of Inl e \<Rightarrow> (Inl e, rt1) | Inr rs \<Rightarrow> (Inr rs, snd (commit rt1)))"
      using True p m by (auto simp: executeTx_def exec_simps Let_def start_ctx_def group_ctx_def commit_def split: sum.splits)
    show thesis
    proof (cases r1)
      case (Inl e')
      then show thesis using e u p assms by (auto intro: failed)
    next
      case (Inr rs)
      then show thesis using e u p assms True
        by (intro committed [of rs sts defs lsigs "rt_ctx rt1"])
          (auto simp: commit_def exec_simps sync_store_def getEncodedGroupTxns_def Let_def)
    qed
  qed
qed

section \<open>All or nothing\<close>

lemma assertNoDuplicate_distinct:
  "assertNoDuplicateTransaction gtxs = Inr () \<longleftrightarrow> distinct (List.map tx_txID gtxs)"
proof -
  have "(\<exists>x \<in> set xs. 1 < length (filter (\<lambda>y. y = x) xs)) \<longleftrightarrow> \<not> distinct xs" for xs :: "string list"
  proof (induction xs)
    case (Cons x xs)
    have "length (filter (\<lambda>y. y = x) xs) = 0 \<longleftrightarrow> x \<notin> set xs" by (auto simp: filter_empty_conv)
    then show ?case using Cons by (auto simp: Suc_lessI)
  qed simp
  from this [of "List.map tx_txID gtxs"] show ?thesis
    by (auto simp: assertNoDuplicateTransaction_def filter_map comp_def)
qed

definition fee_sum :: "enc_tx list \<Rightarrow> int" where
  "fee_sum gtxs = (\<Sum>txn \<leftarrow> gtxs. or_zero (tx_fee txn))"

lemma collected_fee: "cr_remainingFee (calculateFeeCredit gtxs) = fee_sum gtxs - 1000 * int (length gtxs)"
proof -
  have "foldl (\<lambda>acc tx. acc + (case tx_fee tx of None \<Rightarrow> 0 | Some f \<Rightarrow> f)) n gtxs = n + fee_sum gtxs" for n
    by (induction gtxs arbitrary: n) (auto simp: fee_sum_def or_zero_def split: option.splits)
  then show ?thesis by (simp add: calculateFeeCredit_def Let_def ALGORAND_MIN_TX_FEE_def)
qed

lemma processTransactions_fees:
  assumes "processTransactions P M S sts defs lsigs c = (Inr rs, c')" "\<not> c_isInnerTx c"
  shows "1000 * int (length (c_gtxs c)) \<le> fee_sum (c_gtxs c)"
  using assms by (auto simp: processTransactions_def verifyMinimumFees_def exec_simps Let_def collected_fee
      split: if_splits)

text \<open>
  Accounts 1, 2 and 3, an asset of account 1, and a machine that runs no program.
\<close>

definition sample_platform :: platform where
  "sample_platform = platform_over sample_algosdk"

definition bank_store :: ledger where
  "bank_store = c_state (snd (ctx_deployASADef sample_algosdk ''gold'' sample_asa (sample_addr 1) no_flags
     rich_ctx))"

definition bank :: runtime where
  "bank = \<lparr>rt_store = bank_store, rt_heap = [ZERO_ADDRESS], rt_zero = 0,
     rt_ctx = fresh_ctx bank_store [ZERO_ADDRESS] 0 2 1 sample_tx [sample_tx], rt_shared = False, rt_round = 2,
     rt_timestamp = 1, rt_loadedAssetsDefs = None\<rparr>"

definition payment :: "byte \<Rightarrow> byte \<Rightarrow> int \<Rightarrow> signed_tx" where
  "payment src to n = \<lparr>st_txn = (sample_transaction ''pay'' [src])\<lparr>t_to := Some [to], t_amount := n\<rparr>,
     st_sig = Some [], st_sgnr = None, st_msig = None\<rparr>"

definition idle_machine :: machine where
  "idle_machine = \<lparr>mc_run = (\<lambda>p md i. returnM (new_receipt [])), mc_version = (\<lambda>p. Inr 1)\<rparr>"

text \<open>
  C1: A group is executed as a whole or not at all. When \<^verbatim>\<open>executeTx\<close> throws, whatever the transactions
  and programs did before the error, the store, the rounds and the loaded asset definitions are what they were (and the
  byte arrays of the store, but for the constant zero address, which a program can write to). When
  it returns, every transaction was executed, in order, on one copy of the store, and the result is the store; the
  current round lies strictly between the first and the last round of each transaction, no two have
  the same identifier, and together they pay at least the minimum fee for each.
\<close>

theorem executeTx_atomic:
  "case executeTx P M g rt of
     (Inl e, rt') \<Rightarrow> store_kept rt rt'
   | (Inr rs, rt') \<Rightarrow> (\<exists>sts defs lsigs c gtxs. prepare rt g = Inr (sts, defs, lsigs) \<and>
        gtxs = List.map (\<lambda>st. encode_tx (algo P) (st_txn st)) sts \<and>
        processTransactions P M (rt_store rt) sts (Some defs) lsigs (group_ctx rt gtxs) = (Inr rs, c) \<and>
        rt_store rt' = c_state c \<and>
        (\<forall>txn \<in> set gtxs. (\<forall>fv. tx_fv txn = Some fv \<longrightarrow> fv < rt_round rt) \<and> rt_round rt < tx_lv txn) \<and>
        distinct (List.map tx_txID gtxs) \<and> 1000 * int (length gtxs) \<le> fee_sum gtxs)"
proof (cases "executeTx P M g rt")
  case (Pair r rt')
  then show ?thesis
  proof (cases rule: executeTx_ends)
    case (committed rs sts defs lsigs c)
    let ?g = "getEncodedGroupTxns P sts"
    have "c_gtxs (group_ctx rt ?g) = ?g" "\<not> c_isInnerTx (group_ctx rt ?g)"
      by (simp_all add: group_ctx_def new_Ctx_def fresh_ctx_def)
    then have "1000 * int (length ?g) \<le> fee_sum ?g"
      using processTransactions_fees [OF committed(6)] by simp
    moreover have "\<forall>txn \<in> set ?g. (\<forall>fv. tx_fv txn = Some fv \<longrightarrow> fv < rt_round rt) \<and> rt_round rt < tx_lv txn"
      using committed(3) by (auto simp: validateTxRound_def split: if_splits)
    ultimately show ?thesis
      using committed Pair by (auto simp: assertNoDuplicate_distinct getEncodedGroupTxns_def)
  qed (simp_all add: store_kept_refl Pair)
qed

lemma bank_group_runs: "\<not> isl (fst (executeTx sample_platform idle_machine (Signed [payment 1 2 5000, payment 2 3 7000]) bank))"
  by code_simp

lemma executeTx_atomic_witness:
  "\<exists>rs rt' c. executeTx sample_platform idle_machine (Signed [payment 1 2 5000, payment 2 3 7000]) bank = (Inr rs, rt') \<and>
     processTransactions sample_platform idle_machine (rt_store bank) [payment 1 2 5000, payment 2 3 7000] (Some []) []
       (group_ctx bank (List.map (\<lambda>st. encode_tx (algo sample_platform) (st_txn st)) [payment 1 2 5000, payment 2 3 7000]))
       = (Inr rs, c) \<and> rt_store rt' = c_state c"
proof -
  let ?sts = "[payment 1 2 5000, payment 2 3 7000]"
  obtain rs rt' where "executeTx sample_platform idle_machine (Signed ?sts) bank = (Inr rs, rt')"
    using bank_group_runs by (metis isl_def obj_sumE prod.collapse)
  then show ?thesis
    using executeTx_atomic [where P = sample_platform and M = idle_machine and g = "Signed ?sts" and rt = bank]
    by (auto simp: prepare_def)
qed

section \<open>What a failed group leaves behind\<close>

definition balances :: "(string \<Rightarrow> int) \<Rightarrow> ledger \<Rightarrow> bool" where
  "balances b st \<longleftrightarrow> (\<forall>y. balance y st = b y)"

interpretation bal: ledger_inv "balances b" for b
  by unfold_locales (simp add: balances_def balance_def)

lemma balances_on_account:
  assumes "\<And>a. amount (snd (m a)) = amount a"
  shows "bal.keeps b (on_ledger (on_account addr m))"
proof (rule bal.keeps_on_account)
  fix st a
  assume b: "balances b st" "map_of (accounts st) addr = Some a"
  then have "balance addr st = b addr" by (simp add: balances_def)
  then show "balances b (put_account addr (snd (m a)) st)"
    using b assms by (auto simp: balances_def balance_def)
qed

lemma balances_receipt: "bal.keeps b setAndGetTxReceipt"
  unfolding setAndGetTxReceipt_def set_receipt_def by (intro bal.keeps_intros) (simp add: bal.keeps_same)

lemma optInToASA_balances: "bal.keeps b (ctx_optInToASA L i x flags)"
  unfolding ctx_optInToASA_def assertAccBalAboveMin_def
  by (intro bal.keeps_intros balances_on_account balances_receipt) (simp_all add: optInToASA_def)

lemma executeTx_failed_store:
  assumes "executeTx P M g rt = (Inl e, rt')"
  shows "rt_store rt' = rt_store rt"
  using assms by (cases rule: executeTx_ends) (simp_all add: store_kept_def)



end
