(* ===== verification/TEAL_Process.thy ===== *)
theory TEAL_Process
  imports TEAL_Atomic
begin

text \<open>
  Laws of a whole group: what every transaction keeps, the group keeps. The locale states what a
  property of the ledger needs for that, the fees apart; it is interpreted for the sum of the balances
  and for the supply of the assets.
\<close>

section \<open>Relations that every method keeps\<close>

text \<open>A preorder on states, and the methods whose final state is above the initial one, also when they throw.\<close>

locale stable =
  fixes R :: "'s \<Rightarrow> 's \<Rightarrow> bool"
  assumes refl: "R s s" and trans: "R s t \<Longrightarrow> R t u \<Longrightarrow> R s u"
begin

definition holds :: "('s, 'a) exec \<Rightarrow> bool" where
  "holds m \<longleftrightarrow> (\<forall>s. R s (snd (m s)))"

lemma holdsD: "holds m \<Longrightarrow> m s = (r, t) \<Longrightarrow> R s t"
  unfolding holds_def by (metis snd_conv)

lemma holds_bind: "holds m \<Longrightarrow> (\<And>a. holds (f a)) \<Longrightarrow> holds (bindM m f)"
  unfolding holds_def bindM_def by (auto split: prod.splits sum.splits) (metis trans snd_conv)+

lemma holds_seq: "holds m \<Longrightarrow> holds n \<Longrightarrow> holds (seqM m n)"
  unfolding seqM_def by (rule holds_bind)

lemma holds_catch: "holds m \<Longrightarrow> (\<And>e. holds (h e)) \<Longrightarrow> holds (catchM m h)"
  unfolding holds_def catchM_def by (auto split: prod.splits sum.splits) (metis trans snd_conv)+

lemma holds_basic:
  "holds (returnM a)" "holds (throwM e)" "holds (getM g)" "holds (assertM b e)" "holds (liftM r)" "holds (someM e x)"
  "holds (\<lambda>s. (g' s, s))"
  by (simp_all add: holds_def exec_simps someM_def refl split: option.splits)

lemma holds_modify: "(\<And>s. R s (f s)) \<Longrightarrow> holds (modifyM f)"
  by (simp add: holds_def exec_simps)

lemma holds_if: "(b \<Longrightarrow> holds m) \<Longrightarrow> (\<not> b \<Longrightarrow> holds n) \<Longrightarrow> holds (if b then m else n)"
  by simp

lemma holds_let: "holds (f x) \<Longrightarrow> holds (Let x f)"
  by simp

lemma holds_cases:
  "holds m \<Longrightarrow> (\<And>a. holds (f a)) \<Longrightarrow> holds (case x of None \<Rightarrow> m | Some a \<Rightarrow> f a)"
  "(\<And>a b. holds (k a b)) \<Longrightarrow> holds (case z of (a, b) \<Rightarrow> k a b)"
  by (simp_all split: option.split prod.split)

lemmas holds_intros = holds_bind holds_seq holds_catch holds_basic holds_modify holds_if holds_let holds_cases

end

text \<open>The transactions of the group, and the current one while it is an asset configuration.\<close>

definition same_gtxs :: "ctx \<Rightarrow> ctx \<Rightarrow> bool" where
  "same_gtxs c c' \<longleftrightarrow> c_gtxs c' = c_gtxs c"

definition same_acfg :: "ctx \<Rightarrow> ctx \<Rightarrow> bool" where
  "same_acfg c c' \<longleftrightarrow> tx_type (c_tx c) = ''acfg'' \<longrightarrow> c_tx c' = c_tx c \<and> c_gtxs c' = c_gtxs c"

definition same_blocks :: "ctx \<Rightarrow> ctx \<Rightarrow> bool" where
  "same_blocks c c' \<longleftrightarrow> blocks (c_state c') = blocks (c_state c)"

interpretation gt: stable same_gtxs by unfold_locales (simp_all add: same_gtxs_def)
interpretation ac: stable same_acfg by unfold_locales (auto simp: same_acfg_def)
interpretation bk: stable same_blocks by unfold_locales (simp_all add: same_blocks_def)

lemma ledger_stable:
  "gt.holds (on_ledger m)" "ac.holds (on_ledger m)" "gt.holds (askM q)" "ac.holds (askM q)" "bk.holds (askM q)"
  "gt.holds (set_receipt rc)" "ac.holds (set_receipt rc)" "bk.holds (set_receipt rc)"
  by (simp_all add: gt.holds_def ac.holds_def bk.holds_def exec_simps same_gtxs_def same_acfg_def same_blocks_def
      set_receipt_def)

lemma blocks_on_account: "blocks (snd (on_account x m st)) = blocks st"
  by (simp add: on_account_def put_account_def split: option.splits prod.splits)

lemma blocks_stable:
  "bk.holds (on_ledger (on_account x m))"
  "(\<And>st. blocks (f st) = blocks st) \<Longrightarrow> bk.holds (on_ledger (modifyM f))"
  by (simp_all add: bk.holds_def same_blocks_def exec_simps blocks_on_account)

lemmas gt_intros = gt.holds_intros ledger_stable(1,3,6)
lemmas ac_intros = ac.holds_intros ledger_stable(2,4,7)
lemmas bk_intros = bk.holds_intros ledger_stable(5,8) blocks_stable

lemmas payment_defs = transferAlgo_def deductFee_def add_amount_def close_amount_def verifyCloseRemainderTo_def
  assertAccBalAboveMin_def setAndGetTxReceipt_def

lemmas asset_defs = transferAsset_def ctx_optInToASA_def move_asset_def close_holding_def
  assertAssetNotFrozen_def ctx_modifyAsset_def freezeAsset_def revokeAsset_def ctx_destroyAsset_def

lemma gtxs_ops:
  "gt.holds (transferAlgo X t)" "gt.holds (deductFee x i p)" "gt.holds verifyMinimumFees"
  "gt.holds verifyAndUpdateInnerAppCallStack" "gt.holds (transferAsset L t)" "gt.holds (ctx_optInToASA L j x flags)"
  "gt.holds (ctx_modifyAsset j md)" "gt.holds (freezeAsset j x fr)" "gt.holds (revokeAsset x j y n)"
  "gt.holds (ctx_destroyAsset j)" "gt.holds (ctx_deleteApp j)" "gt.holds (ctx_closeApp x j)"
  "gt.holds (ctx_rekeyTo X t auth)"
  unfolding payment_defs asset_defs add_holding_def verifyMinimumFees_def verifyAndUpdateInnerAppCallStack_def ctx_deleteApp_def
    ctx_closeApp_def ctx_rekeyTo_def
  by (intro gt_intros; simp add: same_gtxs_def)+

lemma acfg_deploy: "ac.holds (ctx_deployASADef L nm d x flags)"
  unfolding ctx_deployASADef_def mkAssetCreateTx_def assertAccBalAboveMin_def
  by (intro ac_intros) (simp add: same_acfg_def)

lemma blocks_deploy: "bk.holds (ctx_deployASADef L nm d x flags)"
  unfolding ctx_deployASADef_def mkAssetCreateTx_def assertAccBalAboveMin_def
  by (intro bk_intros) (simp_all add: same_blocks_def)

section \<open>The law of a group\<close>

text \<open>Methods of an account that touch neither its balance nor its assets.\<close>

definition plain_method :: "(account, 'a) exec \<Rightarrow> bool" where
  "plain_method m \<longleftrightarrow> (\<forall>a. address (snd (m a)) = address a \<and> amount (snd (m a)) = amount a \<and>
     assets (snd (m a)) = assets a \<and> createdAssets (snd (m a)) = createdAssets a)"

lemma plain_methods:
  "plain_method (optInToApp i p)" "plain_method (deleteApp i)" "plain_method (closeApp i)" "plain_method (addApp i d)"
  "plain_method (setLocalState h i k v)" "plain_method (setGlobalState h i k v)"
  "plain_method (deleteLocalKey i k)" "plain_method (deleteGlobalKey i k)" "plain_method (getM g)"
  by (auto simp: plain_method_def exec_simps optInToApp_def deleteApp_def closeApp_def addApp_def setLocalState_def
      setGlobalState_def deleteLocalKey_def deleteGlobalKey_def Let_def split: option.splits)

lemma plain_modify:
  "(\<And>a. address (f a) = address a \<and> amount (f a) = amount a \<and> assets (f a) = assets a \<and> createdAssets (f a) = createdAssets a)
   \<Longrightarrow> plain_method (modifyM f)"
  by (simp add: plain_method_def exec_simps)

text \<open>A transaction with an encodable amount that creates no application.\<close>

definition plain_tx :: "platform \<Rightarrow> signed_tx \<Rightarrow> bool" where
  "plain_tx P st \<longleftrightarrow> 0 \<le> t_amount (st_txn st) \<and>
     \<not> (t_type (st_txn st) = ''appl'' \<and> t_appOnComplete (st_txn st) = NoOpOC \<and>
        isEncTxApplicationCreate (get_obj_for_encoding P (st_txn st)))"

lemma gt_setters:
  "gt.holds (set_tx i)" "gt.holds (set_args as)" "gt.holds useTransaction" "gt.holds popInnerCallStack"
  "gt.holds (put_ledger f)" "gt.holds (set_knowableID i n)" "gt.holds (require_role role e j x)"
  unfolding set_tx_def set_args_def useTransaction_def popInnerCallStack_def put_ledger_def set_knowableID_def
    require_role_def
  by (intro gt_intros; simp add: same_gtxs_def Let_def)+

lemma apply_acfg_gtxs:
  assumes "tx_type (c_gtxs c ! idx) = tx_type (get_obj_for_encoding P t)"
  shows "c_gtxs (snd (apply_acfg P idx t r c)) = c_gtxs c"
proof (cases "isEncTxAssetCreate (get_obj_for_encoding P t)")
  case False
  have "gt.holds (apply_acfg P idx t r)"
    unfolding apply_acfg_def Let_def if_not_P [OF False] by (intro gt_intros gt_setters gtxs_ops)
  then show ?thesis by (simp add: gt.holds_def same_gtxs_def)
next
  case True
  have "tx_type (c_gtxs c ! idx) = ''acfg''" using True assms by (simp add: isEncTxAssetCreate_def)
  moreover have "ac.holds (set_knowableID i n)" for i n
    unfolding set_knowableID_def by (intro ac_intros) (simp add: same_acfg_def)
  then have "ac.holds (bindM (askM (ctx_getAccount s)) (\<lambda>_. bindM (ctx_deployASADef L nm d x flags) (\<lambda>info.
      seqM (set_knowableID idx (asa_assetIndex info))
        (returnM (Some ((new_receipt (asa_txID info))\<lparr>rc_assetIndex := Some (asa_assetIndex info)\<rparr>))))))" for s L nm d x flags
    by (intro ac_intros acfg_deploy)
  ultimately show ?thesis
    using True by (simp add: apply_acfg_def Let_def set_tx_def exec_simps(1) monad_apply(3,5) ac.holds_def same_acfg_def)
qed

text \<open>The steps of a transaction that succeeds.\<close>

lemma process_tx_Inr:
  assumes "process_tx P M S defs lsigs idx st r c = (Inr r', c')"
  obtains u c1 r1 c2 u2 c3 c4 auth u4 c5 u5
  where "deductFee (getTxFromAddress (core P) (st_txn st)) idx (getTxFlags (core P) (st_txn st))
      (c\<lparr>c_txnType := Some (t_type (st_txn st))\<rparr>) = (Inr u, c1)"
    "check_signature P M S lsigs idx st r c1 = (Inr r1, c2)" "useTransaction c2 = (Inr u2, c3)"
    "apply_tx P M defs idx (st_txn st) r1 c3 = (Inr r', c4)"
    "ctx_rekeyTo (core P) (st_txn st) auth c4 = (Inr u4, c5)" "popInnerCallStack c5 = (Inr u5, c')"
  using assms unfolding process_tx_def Let_def seqM_def
  by (auto simp: bindM_Inr monad_apply)

text \<open>The fee of a transaction of the group, as \<^verbatim>\<open>deductFee\<close> takes it.\<close>

definition fee_of :: "platform \<Rightarrow> signed_tx \<Rightarrow> error + int" where
  "fee_of P st = fee_due (getTxFlags (core P) (st_txn st)) (tx_fee (encode_tx (algo P) (st_txn st)))"

definition total_fees :: "platform \<Rightarrow> signed_tx list \<Rightarrow> int" where
  "total_fees P sts = (\<Sum>st \<leftarrow> sts. case fee_of P st of Inl _ \<Rightarrow> 0 | Inr f \<Rightarrow> f)"

locale group_law =
  fixes P :: "int \<Rightarrow> ledger \<Rightarrow> bool"
  assumes law_inv: "ledger_inv (P N)"
    and plain_put: "P N st \<Longrightarrow> map_of (accounts st) x = Some a \<Longrightarrow> address a' = address a \<Longrightarrow> amount a' = amount a \<Longrightarrow>
      assets a' = assets a \<Longrightarrow> createdAssets a' = createdAssets a \<Longrightarrow> P N (put_account x a' st)"
    and new_put: "P N st \<Longrightarrow> map_of (accounts st) x = None \<Longrightarrow> P N (put_account x (new_AccountStore 0 x [] None) st)"
    and transferAlgo_law: "ledger_inv.keeps (P N) (transferAlgo X t)"
    and transferAsset_law: "0 \<le> t_amount t \<Longrightarrow> ledger_inv.keeps (P N) (transferAsset L t)"
    and revokeAsset_law: "0 \<le> n \<Longrightarrow> ledger_inv.keeps (P N) (revokeAsset x j y n)"
    and asset_laws: "ledger_inv.keeps (P N) (ctx_optInToASA L j x flags)" "ledger_inv.keeps (P N) (ctx_modifyAsset j md)"
      "ledger_inv.keeps (P N) (freezeAsset j x fr)" "ledger_inv.keeps (P N) (ctx_destroyAsset j)"
      "ledger_inv.keeps (P N) (ctx_deployASADef L nm d x flags)"
    and fee_law: "P N (c_state c) \<Longrightarrow> i < length (c_gtxs c) \<Longrightarrow> deductFee s i flags c = (Inr u, c') \<Longrightarrow>
      \<exists>f. fee_due flags (tx_fee (c_gtxs c ! i)) = Inr f \<and> P (N - f) (c_state c')"
begin

text \<open>The running of programs: it keeps the property and the group.\<close>

definition good_machine :: "machine \<Rightarrow> bool" where
  "good_machine M \<longleftrightarrow> (\<forall>p md i. gt.holds (mc_run M p md i) \<and> (\<forall>N. ledger_inv.keeps (P N) (mc_run M p md i)))"

lemma plain_keeps: "plain_method m \<Longrightarrow> ledger_inv.keeps (P N) (on_ledger (on_account x m))"
  by (rule ledger_inv.keeps_on_account [OF law_inv]) (simp add: plain_put plain_method_def)

lemma ledger_keeps:
  assumes "\<And>st. accounts (f st) = accounts st" "\<And>st. assetCounter (f st) = assetCounter st"
  shows "ledger_inv.keeps (P N) (on_ledger (modifyM f))"
  using assms by (intro ledger_inv.keeps_same [OF law_inv]) (simp_all add: exec_simps)

lemma catch_keeps:
  assumes "ledger_inv.keeps (P N) m" "\<And>e. ledger_inv.keeps (P N) (h e)"
  shows "ledger_inv.keeps (P N) (catchM m h)"
  using assms unfolding ledger_inv.keeps_def [OF law_inv] catchM_def
  by (fastforce split: prod.splits sum.splits)

lemmas law_intros = ledger_inv.keeps_bind [OF law_inv] ledger_inv.keeps_seq [OF law_inv]
  ledger_inv.keeps_basic [OF law_inv] ledger_inv.keeps_modify [OF law_inv] ledger_inv.keeps_if [OF law_inv]
  ledger_inv.keeps_let [OF law_inv] ledger_inv.keeps_cases [OF law_inv] catch_keeps plain_keeps plain_methods
  plain_modify transferAlgo_law asset_laws

lemma apps_keep:
  "ledger_inv.keeps (P N) (ctx_deleteApp j)" "ledger_inv.keeps (P N) (ctx_closeApp x j)"
  "ledger_inv.keeps (P N) (ctx_rekeyTo X t auth)"
  unfolding ctx_deleteApp_def ctx_closeApp_def ctx_rekeyTo_def
  by (intro law_intros ledger_keeps; simp add: rekeyTo_def)+

lemma machine_keeps:
  assumes "good_machine M"
  shows "ledger_inv.keeps (P N) (mc_run M p md i)" "gt.holds (mc_run M p md i)"
  using assms by (simp_all add: good_machine_def)

lemma setters_keep:
  "ledger_inv.keeps (P N) (set_tx i)" "ledger_inv.keeps (P N) (set_args as)" "ledger_inv.keeps (P N) useTransaction"
  "ledger_inv.keeps (P N) popInnerCallStack" "ledger_inv.keeps (P N) (set_knowableID j n)"
  "ledger_inv.keeps (P N) (require_role role e k x)" "ledger_inv.keeps (P N) verifyMinimumFees"
  "ledger_inv.keeps (P N) verifyAndUpdateInnerAppCallStack"
  unfolding set_tx_def set_args_def useTransaction_def popInnerCallStack_def set_knowableID_def require_role_def
    verifyMinimumFees_def verifyAndUpdateInnerAppCallStack_def
  by (intro law_intros; simp add: Let_def)+

lemma signature_keeps:
  assumes "good_machine M"
  shows "ledger_inv.keeps (P N) (check_signature Q M S lsigs i st r)" "gt.holds (check_signature Q M S lsigs i st r)"
  unfolding check_signature_def validateLsigAndRun_def
  by (auto split: option.split bool.split simp: Let_def
      intro!: law_intros gt_intros setters_keep gt_setters machine_keeps [OF assms])

lemma optInToApp_keeps:
  assumes "good_machine M"
  shows "ledger_inv.keeps (P N) (ctx_optInToApp M x j i)" "gt.holds (ctx_optInToApp M x j i)"
  unfolding ctx_optInToApp_def assertAccBalAboveMin_def
  by (intro law_intros gt_intros machine_keeps [OF assms])+

lemma updateApp_keeps:
  assumes "good_machine M"
  shows "ledger_inv.keeps (P N) (ctx_updateApp Q M j d i)" "gt.holds (ctx_updateApp Q M j d i)"
  unfolding ctx_updateApp_def
  by (intro law_intros gt_intros machine_keeps [OF assms]; simp)+

lemma apply_appl_keeps:
  assumes "good_machine M" "\<not> (t_appOnComplete t = NoOpOC \<and> isEncTxApplicationCreate (get_obj_for_encoding Q t))"
  shows "ledger_inv.keeps (P N) (apply_appl Q M defs idx t r)" "gt.holds (apply_appl Q M defs idx t r)"
proof -
  show "ledger_inv.keeps (P N) (apply_appl Q M defs idx t r)"
    unfolding apply_appl_def Let_def using assms(2)
    by (auto split: on_complete.split
        intro!: law_intros setters_keep machine_keeps [OF assms(1)] apps_keep optInToApp_keeps [OF assms(1)]
          updateApp_keeps [OF assms(1)])
  show "gt.holds (apply_appl Q M defs idx t r)"
    unfolding apply_appl_def Let_def using assms(2)
    by (auto split: on_complete.split
        intro!: gt_intros gt_setters machine_keeps [OF assms(1)] gtxs_ops optInToApp_keeps [OF assms(1)]
          updateApp_keeps [OF assms(1)])
qed

lemma apply_pay_keeps: "ledger_inv.keeps (P N) (apply_pay Q t)" "gt.holds (apply_pay Q t)"
proof -
  have "ledger_inv.keeps (P N) (put_ledger (\<lambda>st. if map_of (accounts st) to = None
      then put_account to (new_AccountStore 0 to [] None) st else st))" for to
    unfolding ledger_inv.keeps_def [OF law_inv] put_ledger_def by (simp add: exec_simps new_put)
  then show "ledger_inv.keeps (P N) (apply_pay Q t)"
    unfolding apply_pay_def by (intro law_intros)
  show "gt.holds (apply_pay Q t)"
    unfolding apply_pay_def put_ledger_def by (intro gt_intros gtxs_ops)
qed

lemma apply_assets_keep:
  assumes "0 \<le> t_amount t"
  shows "ledger_inv.keeps (P N) (apply_acfg Q idx t r)" "ledger_inv.keeps (P N) (apply_axfer Q t r)"
    "gt.holds (apply_axfer Q t r)"
  unfolding apply_acfg_def apply_axfer_def Let_def
  by (intro law_intros setters_keep transferAsset_law [OF assms] revokeAsset_law [OF assms] gt_intros gt_setters gtxs_ops)+

lemma apply_tx_keeps:
  assumes "good_machine M" "plain_tx Q st" "t = st_txn st"
  shows "ledger_inv.keeps (P N) (apply_tx Q M defs idx t r)"
  using assms unfolding apply_tx_def plain_tx_def
  by (intro law_intros setters_keep apply_pay_keeps apply_assets_keep apply_appl_keeps) auto

lemma apply_tx_gtxs:
  assumes "good_machine M" "plain_tx Q st" "t = st_txn st" "c_gtxs c ! idx = encode_tx (algo Q) t"
  shows "c_gtxs (snd (apply_tx Q M defs idx t r c)) = c_gtxs c"
proof (cases "t_type t = ''acfg''")
  case True
  have "tx_type (c_gtxs c ! idx) = tx_type (get_obj_for_encoding Q t)"
    using assms(4) by (simp add: encode_tx_def algosdk.truncate_def)
  then show ?thesis using True by (simp add: apply_tx_def apply_acfg_gtxs)
next
  case False
  have "gt.holds (apply_tx Q M defs idx t r)"
    unfolding apply_tx_def if_not_P [OF False] using assms(1-3) unfolding plain_tx_def
    by (intro gt_intros gt_setters gtxs_ops apply_pay_keeps apply_assets_keep apply_appl_keeps) auto
  then show ?thesis by (simp add: gt.holds_def same_gtxs_def)
qed

lemma process_tx_law:
  assumes "good_machine M" "plain_tx Q st" "P N (c_state c)" "idx < length (c_gtxs c)"
    "c_gtxs c ! idx = encode_tx (algo Q) (st_txn st)" "process_tx Q M S defs lsigs idx st r c = (Inr r', c')"
  obtains f where "fee_of Q st = Inr f" "P (N - f) (c_state c')" "c_gtxs c' = c_gtxs c"
proof -
  let ?t = "st_txn st"
  let ?flags = "getTxFlags (core Q) ?t" and ?s = "getTxFromAddress (core Q) ?t"
  define c0 where "c0 = c\<lparr>c_txnType := Some (t_type ?t)\<rparr>"
  obtain u c1 r1 c2 u2 c3 c4 auth u4 c5 u5 where d: "deductFee ?s idx ?flags c0 = (Inr u, c1)"
    and sg: "check_signature Q M S lsigs idx st r c1 = (Inr r1, c2)" and us: "useTransaction c2 = (Inr u2, c3)"
    and ap: "apply_tx Q M defs idx ?t r1 c3 = (Inr r', c4)"
    and rk: "ctx_rekeyTo (core Q) ?t auth c4 = (Inr u4, c5)" and pp: "popInnerCallStack c5 = (Inr u5, c')"
    using assms(6) unfolding c0_def by (rule process_tx_Inr)
  have "P N (c_state c0)" "c_gtxs c0 = c_gtxs c" using assms(3) by (simp_all add: c0_def)
  then obtain f where f: "fee_of Q st = Inr f" "P (N - f) (c_state c1)"
    using fee_law [OF _ _ d] assms(4,5) by (auto simp: fee_of_def)
  have g3: "c_gtxs c3 = c_gtxs c"
    using gt.holdsD [OF gtxs_ops(2) d] gt.holdsD [OF signature_keeps(2) [OF assms(1)] sg] gt.holdsD [OF gt_setters(3) us]
    by (simp add: same_gtxs_def c0_def)
  have "c_gtxs c4 = c_gtxs c3"
    using apply_tx_gtxs [OF assms(1,2) HOL.refl, of c3 idx defs r1] g3 assms(5) ap by simp
  then have "c_gtxs c' = c_gtxs c"
    using g3 gt.holdsD [OF gtxs_ops(13) rk] gt.holdsD [OF gt_setters(4) pp] by (simp add: same_gtxs_def)
  moreover have "P (N - f) (c_state c')"
    using f(2) ledger_inv.keepsD [OF law_inv signature_keeps(1) [OF assms(1)] sg]
      ledger_inv.keepsD [OF law_inv setters_keep(3) us]
      ledger_inv.keepsD [OF law_inv apply_tx_keeps [OF assms(1,2) HOL.refl] ap]
      ledger_inv.keepsD [OF law_inv apps_keep(3) rk] ledger_inv.keepsD [OF law_inv setters_keep(4) pp] by blast
  ultimately show thesis using f(1) that by blast
qed

lemma process_all_law:
  assumes "good_machine M" "list_all (plain_tx Q) sts" "P N (c_state c)"
    "c_gtxs c = pre @ List.map (\<lambda>st. encode_tx (algo Q) (st_txn st)) sts" "idx = length pre"
    "process_all Q M S defs lsigs idx sts r c = (Inr rs, c')"
  shows "P (N - total_fees Q sts) (c_state c') \<and> c_gtxs c' = c_gtxs c \<and> (\<forall>st \<in> set sts. \<exists>f. fee_of Q st = Inr f)"
  using assms(2-)
proof (induction sts arbitrary: N c pre idx r rs)
  case Nil
  then show ?case by (simp add: total_fees_def monad_apply)
next
  case (Cons st sts)
  obtain r1 c1 rs1 where 1: "process_tx Q M S defs lsigs idx st r c = (Inr r1, c1)"
    "process_all Q M S defs lsigs (Suc idx) sts r1 c1 = (Inr rs1, c')"
    using Cons.prems(5) by (auto simp: bindM_Inr monad_apply)
  have i: "idx < length (c_gtxs c)" "c_gtxs c ! idx = encode_tx (algo Q) (st_txn st)"
    using Cons.prems(3,4) by simp_all
  have "plain_tx Q st" using Cons.prems(1) by simp
  from process_tx_law [OF assms(1) this Cons.prems(2) i 1(1)] obtain f where f: "fee_of Q st = Inr f"
    "P (N - f) (c_state c1)" "c_gtxs c1 = c_gtxs c" .
  have "c_gtxs c1 = (pre @ [encode_tx (algo Q) (st_txn st)]) @ List.map (\<lambda>st. encode_tx (algo Q) (st_txn st)) sts"
    using f(3) Cons.prems(3) by simp
  from Cons.IH [OF _ f(2) this _ 1(2)] Cons.prems(1,4) f show ?case
    by (simp add: total_fees_def diff_diff_eq)
qed

text \<open>A group that succeeds takes the property from the store before to the store after, less the fees.\<close>

lemma executeTx_law:
  assumes "good_machine M" "prepare rt g = Inr (sts, defs, lsigs)" "list_all (plain_tx Q) sts" "P N (rt_store rt)"
    "executeTx Q M g rt = (Inr rs, rt')"
  shows "P (N - total_fees Q sts) (rt_store rt')"
  using assms(5)
proof (cases rule: executeTx_ends)
  case (committed rs2 sts2 defs2 lsigs2 c)
  let ?c0 = "group_ctx rt (getEncodedGroupTxns Q sts)"
  have p: "processTransactions Q M (rt_store rt) sts (Some defs) lsigs ?c0 = (Inr rs, c)"
    using committed assms(2) by simp
  then obtain u1 c1 u2 c2 where 1: "verifyMinimumFees ?c0 = (Inr u1, c1)" "verifyAndUpdateInnerAppCallStack c1 = (Inr u2, c2)"
    "process_all Q M (rt_store rt) (Some defs) lsigs 0 sts None c2 = (Inr rs, c)"
    by (auto simp: processTransactions_def bindM_Inr monad_apply(3))
  have "P N (c_state ?c0)" using assms(4) by (simp add: group_ctx_def new_Ctx_def fresh_ctx_def)
  then have "P N (c_state c2)"
    using ledger_inv.keepsD [OF law_inv setters_keep(7) 1(1)] ledger_inv.keepsD [OF law_inv setters_keep(8) 1(2)] by blast
  moreover have "c_gtxs c2 = getEncodedGroupTxns Q sts"
    using gt.holdsD [OF gtxs_ops(3) 1(1)] gt.holdsD [OF gtxs_ops(4) 1(2)]
    by (simp add: same_gtxs_def group_ctx_def new_Ctx_def fresh_ctx_def)
  ultimately show ?thesis
    using process_all_law [OF assms(1,3) _ _ _ 1(3), of N "[]"] committed by (simp add: getEncodedGroupTxns_def)
qed simp_all

end

section \<open>The balances\<close>

definition money :: "int \<Rightarrow> ledger \<Rightarrow> bool" where
  "money N st \<longleftrightarrow> wf_ledger st \<and> algos st = N"

interpretation mon: ledger_inv "money N" for N
  by unfold_locales (simp add: money_def wf_ledger_def algos_def)

definition money_frame :: "(account, 'a) exec \<Rightarrow> bool" where
  "money_frame m \<longleftrightarrow> (\<forall>a. address (snd (m a)) = address a \<and> amount (snd (m a)) = amount a)"

lemma money_put:
  assumes "money N st" "map_of (accounts st) x = Some a" "address a' = address a" "amount a' = amount a"
  shows "money N (put_account x a' st)"
  using assms wf_ledgerD [of st x a] by (auto simp: money_def algos_put put_account_wf balance_def)

lemma money_keeps: "money_frame m \<Longrightarrow> mon.keeps N (on_ledger (on_account x m))"
  by (intro mon.keeps_on_account) (auto simp: money_frame_def intro: money_put)

lemma money_methods:
  "money_frame (getM g)" "money_frame (optInToASA j h)" "money_frame (closeAsset j)" "money_frame (modifyAsset j md)"
  "money_frame (setFreezeState j b)" "money_frame (destroyAsset j)" "money_frame (addAsset j nm d)"
  by (auto simp: money_frame_def exec_simps optInToASA_def closeAsset_def modifyAsset_def setFreezeState_def
      destroyAsset_def addAsset_def Let_def split: option.splits prod.splits)

lemma money_add_holding: "mon.keeps N (add_holding j x n)"
  unfolding add_holding_def
  by (intro money_keeps) (simp add: money_frame_def exec_simps split: option.splits)

lemma money_receipt: "mon.keeps N (set_receipt rc)"
  by (rule mon.keeps_same) (simp_all add: set_receipt_def)

lemma money_ledger:
  assumes "\<And>st. accounts (f st) = accounts st"
  shows "mon.keeps N (on_ledger (modifyM f))"
  unfolding mon.keeps_def using assms by (simp add: exec_simps money_def wf_ledger_def algos_def)

lemma money_drop: "mon.keeps N (on_ledger (modifyM (drop_holdings j)))"
proof -
  let ?f = "\<lambda>a. a\<lparr>assets := AList.delete j (assets a)\<rparr>"
  have m: "accounts (drop_holdings j st) = List.map (\<lambda>(k, a). (k, ?f a)) (accounts st)" for st
    by (simp add: drop_holdings_def)
  have f: "List.map fst (accounts (drop_holdings j st)) = List.map fst (accounts st)"
    "map_of (accounts (drop_holdings j st)) x = map_option ?f (map_of (accounts st) x)"
    "algos (drop_holdings j st) = algos st" for st x
    unfolding algos_def m map_of_map by (simp_all add: comp_def split_def)
  have "wf_ledger st \<Longrightarrow> wf_ledger (drop_holdings j st)" for st
    unfolding wf_ledger_def wf_map_def f(1,2) by auto
  then show ?thesis unfolding mon.keeps_def by (simp add: exec_simps money_def f(3))
qed

lemmas money_intros = money_add_holding money_receipt money_keeps money_methods money_drop money_ledger
  mon.keeps_bind mon.keeps_seq mon.keeps_basic mon.keeps_modify mon.keeps_if mon.keeps_let mon.keeps_cases

lemma money_ops:
  "mon.keeps N (transferAsset L t)" "mon.keeps N (revokeAsset x j y n)" "mon.keeps N (ctx_optInToASA L j x flags)"
  "mon.keeps N (ctx_modifyAsset j md)" "mon.keeps N (freezeAsset j x fr)" "mon.keeps N (ctx_destroyAsset j)"
  "mon.keeps N (ctx_deployASADef L nm d x flags)"
  unfolding asset_defs assertAccBalAboveMin_def setAndGetTxReceipt_def verifyCloseRemainderTo_def
    ctx_deployASADef_def mkAssetCreateTx_def
  by (intro money_intros; simp)+

lemma money_fee:
  assumes "money N (c_state c)" "i < length (c_gtxs c)" "deductFee s i flags c = (Inr u, c')"
  shows "\<exists>f. fee_due flags (tx_fee (c_gtxs c ! i)) = Inr f \<and> money (N - f) (c_state c')"
  using deductFee_effect [where c = c and i = i and sender = s and params = flags] assms by (auto simp: money_def)

interpretation mn: group_law money
proof (rule group_law.intro)
  fix N :: int
  show "ledger_inv (money N)" by (rule mon.ledger_inv_axioms)
  show "money N (put_account x a' st)" if "money N st" "map_of (accounts st) x = Some a" "address a' = address a"
    "amount a' = amount a" for st x and a a' :: account
    using that by (rule money_put)
  show "money N (put_account x (new_AccountStore 0 x [] None) st)" if "money N st" "map_of (accounts st) x = None" for st x
    using that by (simp add: money_def algos_put put_account_wf balance_def new_AccountStore_def)
  show "mon.keeps N (transferAlgo X t)" for X t
    unfolding mon.keeps_def money_def using transferAlgo_effect [of c X t for c] by (metis prod.collapse)
qed (rule money_ops money_fee)+

section \<open>The supply of assets\<close>

interpretation sp: group_law "\<lambda>N. assets_ok"
proof (rule group_law.intro)
  show "ledger_inv assets_ok" by (rule ai.ledger_inv_axioms)
  show "assets_ok (put_account x a' st)" if "assets_ok st" "map_of (accounts st) x = Some a" "address a' = address a"
    "assets a' = assets a" "createdAssets a' = createdAssets a" for st x and a a' :: account
    using assets_off_acct [OF that(1,2)] assets_off_address [OF that(1,2)] that
    by (intro assets_off_same [OF that(1,2)]) (simp_all add: acct_ok_def totals_def held_def)
  show "assets_ok (put_account x (new_AccountStore 0 x [] None) st)" if "assets_ok st" "map_of (accounts st) x = None" for st x
    using that by (rule assets_off_new) (simp_all add: new_AccountStore_def)
  show "\<exists>f. fee_due flags (tx_fee (c_gtxs c ! i)) = Inr f \<and> assets_ok (c_state c')"
    if ok: "assets_ok (c_state c)" and i: "i < length (c_gtxs c)" and d: "deductFee s i flags c = (Inr u, c')"
    for c c' i s flags u
  proof -
    have "assets_ok (c_state c')" by (rule ai.keepsD [OF keeps_payments(7) d ok])
    moreover obtain f where "fee_due flags (tx_fee (c_gtxs c ! i)) = Inr f"
      using i d by (auto simp: deductFee_def exec_simps split: sum.splits)
    ultimately show ?thesis by blast
  qed
qed (rule keeps_payments keeps_transferAsset keeps_revokeAsset keeps_optIn keeps_ctx_modifyAsset keeps_freezeAsset
    keeps_destroyAsset keeps_deploy | assumption)+

section \<open>Properties\<close>


lemma bank_wf: "wf_ledger (rt_store bank)"
proof -
  have "money (algos (c_state rich_ctx)) (c_state rich_ctx)" using rich_wf by (simp add: money_def)
  then show ?thesis
    using money_ops(7) by (simp add: bank_def bank_store_def mon.keeps_def money_def)
qed


end
