(* ===== verification/TEAL_FieldTables.thy ===== *)
theory TEAL_FieldTables
  imports TEAL_Codec "HOL-Library.Char_ord"
begin

text \<open>
  The tables of field names of \<^verbatim>\<open>lib/constants.ts\<close>, by version of the language, the regular expressions
  of that file, and the reading of numerals. A table of version \<open>v\<close> spreads the one before it, so it is
  the concatenation of what versions \<open>1\<close> to \<open>v\<close> add. Names that every object of the platform inherits
  (\<^verbatim>\<open>constructor\<close>, \<^verbatim>\<open>toString\<close>, ...) are taken to be absent.
\<close>

section \<open>Transaction fields\<close>

text \<open>A field stands for a key of the encoded transaction, or for nothing (\<^verbatim>\<open>null\<close>) when it is computed.\<close>

definition txn_fields_1 :: "(string, string option) jsmap" where
  "txn_fields_1 = [
     (''Sender'', Some ''snd''), (''Fee'', Some ''fee''), (''FirstValid'', Some ''fv''),
     (''LastValid'', Some ''lv''), (''Note'', Some ''note''), (''Lease'', Some ''lx''),
     (''Receiver'', Some ''rcv''), (''Amount'', Some ''amt''), (''CloseRemainderTo'', Some ''close''),
     (''VotePK'', Some ''votekey''), (''SelectionPK'', Some ''selkey''),
     (''VoteFirst'', Some ''votefst''), (''VoteLast'', Some ''votelst''),
     (''VoteKeyDilution'', Some ''votekd''), (''Type'', Some ''type''), (''TypeEnum'', None),
     (''XferAsset'', Some ''xaid''), (''AssetAmount'', Some ''aamt''), (''AssetSender'', Some ''asnd''),
     (''AssetReceiver'', Some ''arcv''), (''AssetCloseTo'', Some ''aclose''), (''GroupIndex'', None),
     (''TxID'', None)]"

definition txn_fields_2 :: "(string, string option) jsmap" where
  "txn_fields_2 = [
     (''ApplicationID'', Some ''apid''), (''OnCompletion'', Some ''apan''),
     (''ApplicationArgs'', Some ''apaa''), (''NumAppArgs'', None), (''Accounts'', Some ''apat''),
     (''NumAccounts'', None), (''ApprovalProgram'', Some ''apap''),
     (''ClearStateProgram'', Some ''apsu''), (''RekeyTo'', Some ''rekey''),
     (''ConfigAsset'', Some ''caid''), (''ConfigAssetTotal'', Some ''t''),
     (''ConfigAssetDecimals'', Some ''dc''), (''ConfigAssetDefaultFrozen'', Some ''df''),
     (''ConfigAssetUnitName'', Some ''un''), (''ConfigAssetName'', Some ''an''),
     (''ConfigAssetURL'', Some ''au''), (''ConfigAssetMetadataHash'', Some ''am''),
     (''ConfigAssetManager'', Some ''m''), (''ConfigAssetReserve'', Some ''r''),
     (''ConfigAssetFreeze'', Some ''f''), (''ConfigAssetClawback'', Some ''c''),
     (''FreezeAsset'', Some ''faid''), (''FreezeAssetAccount'', Some ''fadd''),
     (''FreezeAssetFrozen'', Some ''afrz'')]"

definition txn_fields_3 :: "(string, string option) jsmap" where
  "txn_fields_3 = [
     (''Assets'', Some ''apas''), (''NumAssets'', None), (''Applications'', Some ''apfa''),
     (''NumApplications'', None), (''GlobalNumUint'', Some ''nui''),
     (''GlobalNumByteSlice'', Some ''nbs''), (''LocalNumUint'', Some ''nui''),
     (''LocalNumByteSlice'', Some ''nbs'')]"

definition txn_fields_4 :: "(string, string option) jsmap" where
  "txn_fields_4 = [
     (''ExtraProgramPages'', Some ''apep'')]"

definition txn_fields_5 :: "(string, string option) jsmap" where
  "txn_fields_5 = [
     (''CreatedAssetID'', None), (''CreatedApplicationID'', None),
     (''Nonparticipation'', Some ''nonpart'')]"

definition txn_fields_6 :: "(string, string option) jsmap" where
  "txn_fields_6 = [
     (''LastLog'', None), (''StateProofPK'', None)]"

definition txn_fields_7 :: "(string, string option) jsmap" where
  "txn_fields_7 = [
     (''ApprovalProgramPages'', None), (''ClearStateProgramPages'', None),
     (''NumApprovalProgramPages'', None), (''NumClearStateProgramPages'', None),
     (''FirstValidTime'', None)]"

definition TxnFields :: "nat \<Rightarrow> (string, string option) jsmap" where
  "TxnFields v = (if v = 0 \<or> MaxTEALVersion < v then [] else
     concat (take v [txn_fields_1, txn_fields_2, txn_fields_3, txn_fields_4, txn_fields_5, txn_fields_6,
       txn_fields_7]))"

definition ITxnFields :: "nat \<Rightarrow> (string, string option) jsmap" where
  "ITxnFields v = (if v < 5 \<or> MaxTEALVersion < v then []
     else [(''Logs'', None), (''NumLogs'', None), (''CreatedAssetID'', None), (''CreatedApplicationID'', None)])"

text \<open>The fields that are arrays.\<close>

definition TxArrFields :: "nat \<Rightarrow> string list" where
  "TxArrFields v = (if v = 0 \<or> MaxTEALVersion < v then [] else
     concat (take v [[], [''Accounts'', ''ApplicationArgs''], [''Assets'', ''Applications''], [], [''Logs''], [],
       [''ApprovalProgramPages'', ''ClearStateProgramPages'']]))"

definition ITxArrFields :: "nat \<Rightarrow> string list" where
  "ITxArrFields v = (if v < 5 \<or> MaxTEALVersion < v then [] else [''Logs''])"

text \<open>\<^verbatim>\<open>TxFieldDefaults\<close>; the two arrays are constants of the module.\<close>

datatype field_default = ZeroAddress | ZeroUint64 | ZeroByte

definition TxFieldDefaults :: "string \<Rightarrow> field_default option" where
  "TxFieldDefaults f =
    (if f \<in> set [
     ''Sender'', ''Receiver'', ''CloseRemainderTo'', ''VotePK'', ''SelectionPK'', ''AssetSender'',
     ''AssetReceiver'', ''AssetCloseTo'', ''RekeyTo'', ''ConfigAssetManager'', ''ConfigAssetReserve'',
     ''ConfigAssetFreeze'', ''ConfigAssetClawback'', ''FreezeAssetAccount''] then Some ZeroAddress
     else if f \<in> set [
     ''Note'', ''Lease'', ''Type'', ''ApplicationArgs'', ''Accounts'', ''ApprovalProgram'',
     ''ClearStateProgram'', ''ConfigAssetUnitName'', ''ConfigAssetName'', ''ConfigAssetURL'',
     ''ConfigAssetMetadataHash'', ''Assets'', ''Applications''] then Some ZeroByte
     else if f \<in> set [
     ''Fee'', ''FirstValid'', ''LastValid'', ''Amount'', ''VoteFirst'', ''VoteLast'',
     ''VoteKeyDilution'', ''TypeEnum'', ''XferAsset'', ''AssetAmount'', ''GroupIndex'',
     ''ApplicationID'', ''OnCompletion'', ''NumAppArgs'', ''NumAccounts'', ''ConfigAsset'',
     ''ConfigAssetTotal'', ''ConfigAssetDecimals'', ''ConfigAssetDefaultFrozen'', ''FreezeAsset'',
     ''FreezeAssetFrozen'', ''NumAssets'', ''NumApplications'', ''GlobalNumUint'',
     ''GlobalNumByteSlice'', ''LocalNumUint'', ''LocalNumByteSlice'', ''ExtraProgramPages'',
     ''Nonparticipation''] then Some ZeroUint64
     else None)"

definition TxnFieldsIndex :: "string list" where
  "TxnFieldsIndex = [
     ''Sender'', ''Fee'', ''FirstValid'', ''FirstValidTime'', ''LastValid'', ''Note'', ''Lease'',
     ''Receiver'', ''Amount'', ''CloseRemainderTo'', ''VotePK'', ''SelectionPK'', ''VoteFirst'',
     ''VoteLast'', ''VoteKeyDilution'', ''Type'', ''TypeEnum'', ''XferAsset'', ''AssetAmount'',
     ''AssetSender'', ''AssetReceiver'', ''AssetCloseTo'', ''GroupIndex'', ''TxID'', ''ApplicationID'',
     ''OnCompletion'', ''ApplicationArgs'', ''NumAppArgs'', ''Accounts'', ''NumAccounts'',
     ''ApprovalProgram'', ''ClearStateProgram'', ''RekeyTo'', ''ConfigAsset'', ''ConfigAssetTotal'',
     ''ConfigAssetDecimals'', ''ConfigAssetDefaultFrozen'', ''ConfigAssetUnitName'',
     ''ConfigAssetName'', ''ConfigAssetURL'', ''ConfigAssetMetadataHash'', ''ConfigAssetManager'',
     ''ConfigAssetReserve'', ''ConfigAssetFreeze'', ''ConfigAssetClawback'', ''FreezeAsset'',
     ''FreezeAssetAccount'', ''FreezeAssetFrozen'', ''Assets'', ''NumAssets'', ''Applications'',
     ''NumApplications'', ''GlobalNumUint'', ''GlobalNumByteSlice'', ''LocalNumUint'',
     ''LocalNumByteSlice'', ''ExtraProgramPages'', ''Nonparticipation'', ''Logs'', ''NumLogs'',
     ''CreatedAssetID'', ''CreatedApplicationID'', ''LastLog'', ''StateProofPK'',
     ''ApprovalProgramPages'', ''NumApprovalProgramPages'', ''ClearStateProgramPages'',
     ''NumClearStateProgramPages'']"

definition GlobalFieldsIndex :: "string list" where
  "GlobalFieldsIndex = [
     ''MinTxnFee'', ''MinBalance'', ''MaxTxnLife'', ''ZeroAddress'', ''GroupSize'', ''LogicSigVersion'',
     ''Round'', ''LatestTimestamp'', ''CurrentApplicationID'', ''CreatorAddress'',
     ''CurrentApplicationAddress'', ''GroupID'', ''OpcodeBudget'', ''CallerApplicationID'',
     ''CallerApplicationAddress'']"

section \<open>Other fields\<close>

definition asset_param_map_1 :: "(string, string) jsmap" where
  "asset_param_map_1 = [
     (''AssetTotal'', ''total''),
     (''AssetDecimals'', ''decimals''),
     (''AssetDefaultFrozen'', ''defaultFrozen''),
     (''AssetUnitName'', ''unitName''),
     (''AssetName'', ''name''),
     (''AssetURL'', ''url''),
     (''AssetMetadataHash'', ''metadataHash''),
     (''AssetManager'', ''manager''),
     (''AssetReserve'', ''reserve''),
     (''AssetFreeze'', ''freeze''),
     (''AssetClawback'', ''clawback'')]"

definition AssetParamMap :: "nat \<Rightarrow> (string, string) jsmap" where
  "AssetParamMap v =
     (if v = 0 \<or> MaxTEALVersion < v then []
      else asset_param_map_1 @ (if v < 5 then [] else [(''AssetCreator'', ''creator'')]))"

definition AssetParamMapIndex :: "string list" where
  "AssetParamMapIndex = List.map fst asset_param_map_1 @ [''AssetCreator'']"

definition AppParamDefinedIndex :: "string list" where
  "AppParamDefinedIndex = [
     ''AppApprovalProgram'', ''AppClearStateProgram'', ''AppGlobalNumUint'', ''AppGlobalNumByteSlice'',
     ''AppLocalNumUint'', ''AppLocalNumByteSlice'', ''AppExtraProgramPages'', ''AppCreator'', ''AppAddress'']"

definition AppParamDefined :: "nat \<Rightarrow> string list" where
  "AppParamDefined v = (if 5 \<le> v \<and> v \<le> MaxTEALVersion then AppParamDefinedIndex else [])"

definition AcctParamQueryFieldsIndex :: "string list" where
  "AcctParamQueryFieldsIndex = [''AcctBalance'', ''AcctMinBalance'', ''AcctAuthAddr'']"

definition AcctParamQueryFields :: "(string, nat) jsmap" where
  "AcctParamQueryFields = [(''AcctBalance'', 6), (''AcctMinBalance'', 6), (''AcctAuthAddr'', 6)]"

definition blockFieldIndex :: "string list" where
  "blockFieldIndex = [''BlkSeed'', ''BlkTimestamp'']"

definition CurveTypeIndex :: "string list" where
  "CurveTypeIndex = [''Secp256k1'', ''Secp256r1'']"

section \<open>Global fields\<close>

text \<open>The values of \<^verbatim>\<open>GlobalFields\<close>: a number, the zero address, or \<^verbatim>\<open>null\<close> for a computed field.\<close>

datatype global_value = GNumber int | GZeroAddress | GNull

definition global_fields_1 :: "(string, global_value) jsmap" where
  "global_fields_1 = [
     (''MinTxnFee'', GNumber ALGORAND_MIN_TX_FEE), (''MinBalance'', GNumber 10000),
     (''MaxTxnLife'', GNumber MaxTxnLife), (''ZeroAddress'', GZeroAddress), (''GroupSize'', GNull)]"

definition global_fields_2 :: "(string, global_value) jsmap" where
  "global_fields_2 = [
     (''LogicSigVersion'', GNumber (int MaxTEALVersion)), (''Round'', GNumber 1),
     (''LatestTimestamp'', GNumber 1), (''CurrentApplicationID'', GNull)]"

definition global_fields_5 :: "(string, global_value) jsmap" where
  "global_fields_5 = [(''GroupID'', GNull), (''CurrentApplicationAddress'', GNull)]"

definition global_fields_6 :: "(string, global_value) jsmap" where
  "global_fields_6 = [
     (''OpcodeBudget'', GNumber 0), (''CallerApplicationID'', GNull), (''CallerApplicationAddress'', GNull)]"

definition GlobalFields :: "nat \<Rightarrow> (string, global_value) jsmap" where
  "GlobalFields v = (if v = 0 \<or> MaxTEALVersion < v then [] else
     concat (take v [global_fields_1, global_fields_2, [(''CreatorAddress'', GNull)], [],
       global_fields_5, global_fields_6]))"

section \<open>Numerals\<close>

definition is_digit :: "char \<Rightarrow> bool" where
  "is_digit c \<longleftrightarrow> CHR ''0'' \<le> c \<and> c \<le> CHR ''9''"

definition reDigit :: "string \<Rightarrow> bool" where
  "reDigit s \<longleftrightarrow> s \<noteq> [] \<and> list_all is_digit s"

definition reDec :: "string \<Rightarrow> bool" where
  "reDec s \<longleftrightarrow> s = ''0'' \<or> (reDigit s \<and> hd s \<noteq> CHR ''0'')"

definition is_hex_digit :: "char \<Rightarrow> bool" where
  "is_hex_digit c \<longleftrightarrow> is_digit c \<or> (CHR ''a'' \<le> c \<and> c \<le> CHR ''f'') \<or> (CHR ''A'' \<le> c \<and> c \<le> CHR ''F'')"

definition reHex :: "string \<Rightarrow> bool" where
  "reHex s \<longleftrightarrow> take 2 s = ''0x'' \<and> drop 2 s \<noteq> [] \<and> list_all is_hex_digit (drop 2 s)"

text \<open>The character class of the code is \<^verbatim>\<open>[0-8]\<close>.\<close>

definition reOct :: "string \<Rightarrow> bool" where
  "reOct s \<longleftrightarrow> take 1 s = ''0'' \<and> tl s \<noteq> [] \<and> list_all (\<lambda>c. CHR ''0'' \<le> c \<and> c \<le> CHR ''8'') (tl s)"

definition is_alnum :: "char \<Rightarrow> bool" where
  "is_alnum c \<longleftrightarrow> is_digit c \<or> (CHR ''a'' \<le> c \<and> c \<le> CHR ''z'') \<or> (CHR ''A'' \<le> c \<and> c \<le> CHR ''Z'')"

text \<open>Groups of four characters; the last may end in one or two \<^verbatim>\<open>=\<close>.\<close>

fun b64_shape :: "(char \<Rightarrow> bool) \<Rightarrow> string \<Rightarrow> bool" where
    "b64_shape ok [] = True"
  | "b64_shape ok [a, b, c, d] =
      (ok a \<and> ok b \<and> ((ok c \<and> ok d) \<or> (c = CHR ''='' \<and> d = CHR ''='') \<or> (ok c \<and> d = CHR ''='')))"
  | "b64_shape ok (a # b # c # d # r) = (ok a \<and> ok b \<and> ok c \<and> ok d \<and> b64_shape ok r)"
  | "b64_shape ok _ = False"

definition reBase64 :: "string \<Rightarrow> bool" where
  "reBase64 = b64_shape (\<lambda>c. is_alnum c \<or> c = CHR ''+'' \<or> c = CHR ''/'')"

definition reBase64Url :: "string \<Rightarrow> bool" where
  "reBase64Url = b64_shape (\<lambda>c. is_alnum c \<or> c = CHR ''_'' \<or> c = CHR ''-'')"

definition reBase32 :: "string \<Rightarrow> bool" where
  "reBase32 s \<longleftrightarrow>
     (let ok = \<lambda>c. (CHR ''A'' \<le> c \<and> c \<le> CHR ''Z'') \<or> (CHR ''2'' \<le> c \<and> c \<le> CHR ''7'')
      in takeWhile ok s \<noteq> [] \<and> list_all (\<lambda>c. c = CHR ''='') (dropWhile ok s))"

text \<open>
  \<^verbatim>\<open>Number(text)\<close>, as far as it is an integer: decimal digits with an optional sign, fraction and exponent,
  or the prefixes \<^verbatim>\<open>0x\<close>, \<^verbatim>\<open>0o\<close>, \<^verbatim>\<open>0b\<close>; the empty text is 0. A text that is no numeral (\<^verbatim>\<open>NaN\<close>) and one that is not
  an integer give \<^const>\<open>None\<close>.
\<close>

definition js_space :: "char \<Rightarrow> bool" where
  "js_space c \<longleftrightarrow> c = CHR '' '' \<or> (let n = of_char c :: nat in 9 \<le> n \<and> n \<le> 13)"

definition js_trim :: "string \<Rightarrow> string" where
  "js_trim s = rev (dropWhile js_space (rev (dropWhile js_space s)))"

definition js_radix :: "string \<Rightarrow> nat option" where
  "js_radix s =
     (if take 1 s \<noteq> ''0'' then None
      else if take 1 (tl s) \<in> {''x'', ''X''} then Some 16
      else if take 1 (tl s) \<in> {''o'', ''O''} then Some 8
      else if take 1 (tl s) \<in> {''b'', ''B''} then Some 2 else None)"

definition radix_numeral :: "nat \<Rightarrow> string \<Rightarrow> nat option" where
  "radix_numeral r ds =
     (if ds \<noteq> [] \<and> list_all (\<lambda>c. is_hex_digit c \<and> char_digit c < r) ds then Some (of_radix r ds) else None)"

definition js_sign :: "string \<Rightarrow> bool \<times> string" where
  "js_sign s = (if take 1 s = ''-'' then (True, tl s) else if take 1 s = ''+'' then (False, tl s) else (False, s))"

definition js_exponent :: "string \<Rightarrow> int option" where
  "js_exponent s =
     (if s = [] then Some 0
      else if hd s = CHR ''e'' \<or> hd s = CHR ''E''
      then (case js_sign (tl s) of (neg, ds) \<Rightarrow>
              if reDigit ds then Some (if neg then - int (of_radix 10 ds) else int (of_radix 10 ds)) else None)
      else None)"

definition scaled :: "nat \<Rightarrow> int \<Rightarrow> nat option" where
  "scaled n e =
     (if n = 0 then Some 0
      else if 0 \<le> e then Some (n * 10 ^ nat e)
      else if 10 ^ nat (- e) dvd n then Some (n div 10 ^ nat (- e)) else None)"

text \<open>The sign, the digits and the power of ten of a decimal numeral.\<close>

definition js_decimal_parts :: "string \<Rightarrow> (bool \<times> nat \<times> int) option" where
  "js_decimal_parts s =
     (case js_sign s of (neg, u) \<Rightarrow>
        (let whole = takeWhile is_digit u; r1 = dropWhile is_digit u;
             frac = (if take 1 r1 = ''.'' then takeWhile is_digit (tl r1) else []);
             r2 = (if take 1 r1 = ''.'' then dropWhile is_digit (tl r1) else r1)
         in if whole @ frac = [] then None
            else map_option (\<lambda>e. (neg, of_radix 10 (whole @ frac), e - int (length frac))) (js_exponent r2)))"

definition js_decimal :: "string \<Rightarrow> int option" where
  "js_decimal s =
     (case js_decimal_parts s of
        None \<Rightarrow> None
      | Some (neg, n, e) \<Rightarrow> map_option (\<lambda>n. if neg then - int n else int n) (scaled n e))"

definition js_Number_text :: "string \<Rightarrow> int option" where
  "js_Number_text text =
     (let s = js_trim text
      in if s = [] then Some 0
         else (case js_radix s of
                 Some r \<Rightarrow> map_option int (radix_numeral r (drop 2 s))
               | None \<Rightarrow> js_decimal s))"

text \<open>\<^verbatim>\<open>Number(text) <= k\<close>, which no text but a numeral satisfies; the numeral need not be an integer.\<close>

definition js_at_most :: "nat \<Rightarrow> string \<Rightarrow> bool" where
  "js_at_most k text =
     (let s = js_trim text
      in s = [] \<or> s = ''-Infinity'' \<or>
         (case js_radix s of
            Some r \<Rightarrow> (case radix_numeral r (drop 2 s) of None \<Rightarrow> False | Some n \<Rightarrow> n \<le> k)
          | None \<Rightarrow> (case js_decimal_parts s of
                None \<Rightarrow> False
              | Some (neg, n, e) \<Rightarrow> neg \<or> (if 0 \<le> e then n * 10 ^ nat e \<le> k else n \<le> k * 10 ^ nat (- e)))))"

section \<open>Fields by number\<close>

text \<open>\<^verbatim>\<open>assertFieldIndex\<close>: a numeral that is an index of the list stands for the field there.\<close>

definition assertFieldIndex :: "string \<Rightarrow> string list \<Rightarrow> string" where
  "assertFieldIndex arg indexArray =
     (case js_Number_text arg of
        None \<Rightarrow> arg
      | Some n \<Rightarrow> if 0 \<le> n \<and> n < int (length indexArray) then indexArray ! nat n else arg)"

end
