(* ===== verification/TEAL_CryptoOps.thy ===== *)
theory TEAL_CryptoOps
  imports TEAL_FieldTables TEAL_State
begin

text \<open>
  The opcodes on hashes, signatures and curves, and the two that decode texts. The primitives of the
  cryptographic packages are fields of the parameter \<^typ>\<open>sdk\<close>; what is modelled is what the opcodes do
  around them: the order and the types of what they pop, which bytes they hand over, their checks,
  what they push and what they charge.
\<close>

section \<open>Hashes\<close>

text \<open>\<^verbatim>\<open>OpGasCost[version][name]\<close>, with the version the program runs at.\<close>

definition version_gas :: "string \<Rightarrow> int opM" where
  "version_gas name = bindM (getM i_tealVersion) (\<lambda>v. someM (JsError TypeError) (OpGasCost v name))"

fun hash_cost :: "hash_alg \<Rightarrow> int opM" where
    "hash_cost SHA256 = version_gas ''sha256''"
  | "hash_cost SHA512_256 = version_gas ''sha512_256''"
  | "hash_cost KECCAK256 = version_gas ''keccak256''"
  | "hash_cost SHA3_256 = returnM (the (OpGasCost 7 ''sha3_256''))"

text \<open>The SHA-2 hashes take the bytes; the other two the text the bytes decode to.\<close>

fun hashed :: "hash_alg \<Rightarrow> bytes \<Rightarrow> bytes" where
    "hashed SHA256 b = b"
  | "hashed SHA512_256 b = b"
  | "hashed KECCAK256 b = stringToBytes (convertToString b)"
  | "hashed SHA3_256 b = stringToBytes (convertToString b)"

definition HashOp_execute :: "sdk \<Rightarrow> hash_alg \<Rightarrow> int opM" where
  "HashOp_execute X alg =
     seqM (assertMinStackLen 1)
    (bindM popBytes (\<lambda>val. seqM (pushBytesM (hash_digest X alg (hashed alg val))) (hash_cost alg)))"

section \<open>Signatures\<close>

definition hex_text :: "bytes \<Rightarrow> string" where
  "hex_text b = concat (List.map (\<lambda>w. hex2 (unat w)) b)"

definition Ed25519verify_execute :: "sdk \<Rightarrow> string \<Rightarrow> int opM" where
  "Ed25519verify_execute X program =
     seqM (assertMinStackLen 3)
    (bindM popBytes (\<lambda>addr. bindM popBytes (\<lambda>signature. bindM popBytes (\<lambda>data.
     (let toBeHashed = ''ProgData'' @ program;
          programHash = stringToBytes (hex_text (hash_digest X SHA512_256 (stringToBytes toBeHashed)))
      in bindM (liftM (decodeAddress X (encodeAddress X addr))) (\<lambda>pk.
         bindM (liftM (detached_verify X (programHash @ data) signature pk)) (\<lambda>isValid.
         seqM (pushBooleanCheck isValid) (returnM (the (OpGasCost 1 ''ed25519verify''))))))))))"

definition Ed25519verify_bare_execute :: "sdk \<Rightarrow> int opM" where
  "Ed25519verify_bare_execute X =
     seqM (assertMinStackLen 3)
    (bindM popBytes (\<lambda>pubKey. bindM popBytes (\<lambda>signature. bindM popBytes (\<lambda>data.
     bindM (liftM (verifyBytes X data signature (encodeAddress X pubKey))) (\<lambda>isValid.
     seqM (pushBooleanCheck isValid) (returnM (the (OpGasCost 7 ''ed25519verify_bare''))))))))"

definition curve_cost :: "nat \<Rightarrow> string \<Rightarrow> int" where
  "curve_cost curveIndex name = the (OpGasCost (if curveIndex = 0 then 5 else 7) name)"

definition EcdsaVerify_execute :: "sdk \<Rightarrow> nat \<Rightarrow> int opM" where
  "EcdsaVerify_execute X curveIndex =
     seqM (assertMinStackLen 5)
    (bindM popBytes (\<lambda>pubkeyE. bindM popBytes (\<lambda>pubkeyD. bindM popBytes (\<lambda>signatureC.
     bindM popBytes (\<lambda>signatureB. bindM popBytes (\<lambda>dataA.
     bindM (liftM (ec_verify X curveIndex (pubkeyD, pubkeyE) dataA (signatureB, signatureC))) (\<lambda>ok.
     seqM (pushBooleanCheck ok) (returnM (curve_cost curveIndex ''ecdsa_verify'')))))))))"

definition push_point :: "bytes \<times> bytes \<Rightarrow> unit opM" where
  "push_point p = seqM (pushBytesM (fst p)) (pushBytesM (snd p))"

definition EcdsaPkDecompress_execute :: "sdk \<Rightarrow> nat \<Rightarrow> int opM" where
  "EcdsaPkDecompress_execute X curveIndex =
     seqM (assertMinStackLen 1)
    (bindM popBytes (\<lambda>pubkeyCompressed.
     bindM (liftM (ec_decompress X curveIndex pubkeyCompressed)) (\<lambda>p.
     seqM (push_point p) (returnM (curve_cost curveIndex ''ecdsa_pk_decompress'')))))"

definition EcdsaPkRecover_execute :: "sdk \<Rightarrow> nat \<Rightarrow> int opM" where
  "EcdsaPkRecover_execute X curveIndex =
     seqM (assertMinStackLen 4)
    (bindM popBytes (\<lambda>signatureD. bindM popBytes (\<lambda>signatureC. bindM popBigInt (\<lambda>recoverId.
     bindM popBytes (\<lambda>data.
     bindM (liftM (ec_recover X curveIndex data (signatureC, signatureD) (js_Number recoverId))) (\<lambda>p.
     seqM (push_point p) (returnM (the (OpGasCost 5 ''ecdsa_pk_recover'')))))))))"

section \<open>The curve BN254\<close>

definition Bn254Add_execute :: "sdk \<Rightarrow> int opM" where
  "Bn254Add_execute X =
     seqM (assertMinStackLen 2)
    (bindM popBytes (\<lambda>aBytes. bindM popBytes (\<lambda>bBytes.
     seqM (assertM (length aBytes = 64 \<and> length bBytes = 64) (JsError (PlainError ''expect G1 in 64 bytes'')))
    (bindM (liftM (bn254_add X (aBytes @ bBytes))) (\<lambda>result. seqM (pushBytesM result) computeCost)))))"

definition Bn254ScalarMul_execute :: "sdk \<Rightarrow> int opM" where
  "Bn254ScalarMul_execute X =
     seqM (assertMinStackLen 2)
    (bindM popBytes (\<lambda>aBytes. bindM popBytes (\<lambda>kBytes.
     seqM (assertM (length aBytes = 64) (JsError (PlainError ''expect G1 in 64 bytes'')))
    (bindM (liftM (bn254_mul X (aBytes @ kBytes))) (\<lambda>result. seqM (pushBytesM result) computeCost)))))"

text \<open>
  The last byte of the result is pushed as a number of the platform, which is neither of the two kinds a
  stack element has and which every later check of a type refuses; the model stops there.
\<close>

definition Bn254Pairing_execute :: "sdk \<Rightarrow> int opM" where
  "Bn254Pairing_execute X =
     seqM (assertMinStackLen 2)
    (bindM popBytes (\<lambda>G2Bytes. bindM popBytes (\<lambda>G1Bytes.
     seqM (assertM (length G1Bytes = 64 \<and> length G2Bytes = 128)
       (JsError (PlainError ''expect G1 in 64 bytes or/and G2 bytes in 128 bytes'')))
    (bindM (liftM (bn254_pairing X (G1Bytes @ G2Bytes))) (\<lambda>result.
       throwM (JsError (PlainError ''number on the stack'')))))))"

section \<open>Verifiable random functions\<close>

text \<open>\<^verbatim>\<open>Buffer.from(s, "hex")\<close>: pairs of digits, up to the first that is not one.\<close>

fun hex_decode :: "string \<Rightarrow> bytes" where
    "hex_decode (a # b # r) =
      (if is_hex_digit a \<and> is_hex_digit b
       then word_of_nat (char_digit a * 16 + char_digit b) # hex_decode r else [])"
  | "hex_decode _ = []"

definition proofLength :: nat where "proofLength = 80"
definition publicKeyLength :: nat where "publicKeyLength = 32"

definition VrfVerify_execute :: "sdk \<Rightarrow> string \<Rightarrow> int opM" where
  "VrfVerify_execute X vrfType =
     seqM (assertMinStackLen 3)
    (bindM popBytes (\<lambda>msg. bindM popBytes (\<lambda>prf. bindM popBytes (\<lambda>publicKey.
     seqM (assertM (length prf = proofLength) (TEAL INVALID_PROOF_LENGTH))
    (seqM (assertM (length publicKey = publicKeyLength) (TEAL INVALID_PUB_KEY_LENGTH))
     (if vrfType = ''VrfAlgorand''
      then seqM (pushBytesM (hex_decode (sha512_hex X prf)))
          (seqM (pushBigInt 1) (returnM (the (OpGasCost 7 ''vrf_verify''))))
      else throwM (TEAL UNSUPPORTED_VRF_STANDARD)))))))"

section \<open>Base64 and JSON\<close>

definition assertBase64 :: "string \<Rightarrow> error + unit" where
  "assertBase64 str = (if reBase64 str then Inr () else Inl (TEAL INVALID_BASE64))"

definition assertBase64Url :: "string \<Rightarrow> error + unit" where
  "assertBase64Url str = (if reBase64Url str then Inr () else Inl (TEAL INVALID_BASE64URL))"

text \<open>\<^verbatim>\<open>new TextDecoder("utf-8").decode(b)\<close>: as \<^const>\<open>convertToString\<close>, less a byte order mark.\<close>

definition decode_text :: "bytes \<Rightarrow> string" where
  "decode_text b = convertToString (if take 3 b = [0xEF, 0xBB, 0xBF] then drop 3 b else b)"

definition ceil_div :: "nat \<Rightarrow> nat \<Rightarrow> int" where
  "ceil_div n k = int ((n + k - 1) div k)"

definition Base64Decode_execute :: "string \<Rightarrow> int opM" where
  "Base64Decode_execute encoding =
     seqM (assertMinStackLen 1)
    (bindM popBytes (\<lambda>last.
     seqM (if encoding = ''base64url'' then liftM (assertBase64Url (convertToString last))
           else if encoding = ''base64'' then liftM (assertBase64 (convertToString last))
           else returnM ())
    (seqM (pushBytesM (base64_decode (decode_text last))) (returnM (1 + ceil_div (length last) 16)))))"

fun json_push :: "string \<Rightarrow> json_value \<Rightarrow> unit opM" where
    "json_push _ JUndefined = throwM (TEAL UNKNOWN_KEY_JSON)"
  | "json_push tp (JString t) =
      (if tp = ''byte'' then pushBytesM (stringToBytes t) else throwM (TEAL INVALID_TYPE))"
  | "json_push tp (JNumber n) =
      (if tp = ''int''
       then (case n of
               None \<Rightarrow> throwM (JsError RangeError)
             | Some i \<Rightarrow> seqM (checkOverflow i MAX_UINT64) (pushBigInt i))
       else throwM (TEAL INVALID_TYPE))"
  | "json_push tp (JBigInt i) =
      (if tp = ''int'' then seqM (checkOverflow i MAX_UINT64) (pushBigInt i) else throwM (TEAL INVALID_TYPE))"
  | "json_push tp (JObject t) =
      (if tp = ''object'' then pushBytesM (stringToBytes t) else throwM (TEAL INVALID_TYPE))"
  | "json_push _ JOther = throwM (TEAL INVALID_TYPE)"

definition Json_ref_execute :: "sdk \<Rightarrow> string \<Rightarrow> int opM" where
  "Json_ref_execute X jsonType =
     seqM (assertMinStackLen 2)
    (bindM popBytes (\<lambda>key. bindM popBytes (\<lambda>obj.
     (let decodedObj = decode_text obj; keyString = decode_text key
      in seqM (assertM (json_valid X decodedObj) (TEAL INVALID_JSON_PARSING))
        (bindM (liftM (json_get X decodedObj keyString)) (\<lambda>value.
         seqM (json_push jsonType value) (returnM (25 + 2 * ceil_div (length obj) 7))))))))"

section \<open>Dispatch\<close>

fun crypto_execute :: "sdk \<Rightarrow> crypto_op \<Rightarrow> int opM" where
    "crypto_execute X (HashOp alg) = HashOp_execute X alg"
  | "crypto_execute X (Ed25519verify p) = Ed25519verify_execute X p"
  | "crypto_execute X Ed25519verify_bare = Ed25519verify_bare_execute X"
  | "crypto_execute X (EcdsaVerify c) = EcdsaVerify_execute X c"
  | "crypto_execute X (EcdsaPkDecompress c) = EcdsaPkDecompress_execute X c"
  | "crypto_execute X (EcdsaPkRecover c) = EcdsaPkRecover_execute X c"
  | "crypto_execute X Bn254Add = Bn254Add_execute X"
  | "crypto_execute X Bn254ScalarMul = Bn254ScalarMul_execute X"
  | "crypto_execute X Bn254Pairing = Bn254Pairing_execute X"
  | "crypto_execute X (VrfVerify t) = VrfVerify_execute X t"
  | "crypto_execute X (Base64Decode e) = Base64Decode_execute e"
  | "crypto_execute X (Json_ref t) = Json_ref_execute X t"

lemmas crypto_defs =
  HashOp_execute_def Ed25519verify_execute_def Ed25519verify_bare_execute_def EcdsaVerify_execute_def
  EcdsaPkDecompress_execute_def EcdsaPkRecover_execute_def Bn254Add_execute_def Bn254ScalarMul_execute_def
  Bn254Pairing_execute_def VrfVerify_execute_def Base64Decode_execute_def Json_ref_execute_def

lemma hex_decode_text: "hex_decode (hex_text b) = b"
proof -
  have digit: "is_hex_digit (digit_char d)" if "d < 16" for d
  proof -
    have "d \<in> set [0..<16]" using that by simp
    moreover have "list_all (\<lambda>d. is_hex_digit (digit_char d)) [0..<16]" by code_simp
    ultimately show ?thesis by (auto simp: list_all_iff)
  qed
  have half: "unat w div 16 < 16" for w :: byte
    using unat_byte_less [of w] by (simp add: div_less_iff_less_mult)
  have "word_of_nat (char_digit (digit_char (unat w div 16)) * 16 + char_digit (digit_char (unat w mod 16))) = w"
    for w :: byte
  proof -
    have "unat w div 16 < 36" "unat w mod 16 < 36" using half [of w] mod_less_divisor [of 16 "unat w"] by linarith+
    then show ?thesis by (simp only: char_digit_digit) simp
  qed
  then show ?thesis
    using digit half
    by (induction b) (simp_all only: hex_text_def hex2_def list.map concat.simps append.simps hex_decode.simps
        mod_less_divisor zero_less_numeral simp_thms if_True)
qed

end
