(* ===== verification/TEAL_FieldOps.thy ===== *)
theory TEAL_FieldOps
  imports TEAL_FieldTables TEAL_LedgerOps TEAL_Txn
begin

text \<open>
  The opcodes that read fields: of the transactions of the group (\<^verbatim>\<open>lib/txn.ts\<close>: \<^verbatim>\<open>txnSpecByField\<close>,
  \<^verbatim>\<open>txAppArg\<close>, \<^verbatim>\<open>parseToStackElem\<close>), of the globals, of applications and assets, and of blocks.
\<close>

section \<open>Raw values\<close>

text \<open>
  What reading a property of an encoded transaction gives: a \<^verbatim>\<open>Buffer\<close> is copied when it is pushed, a
  \<^verbatim>\<open>Uint8Array\<close> is pushed itself, and an array of something else becomes an empty byte array.
\<close>

datatype raw = RUndef | RNum int | RBuf bytes | RArr nat | RStr string | ROther

definition raw_num :: "int option \<Rightarrow> raw" where
  "raw_num v = (case v of None \<Rightarrow> RUndef | Some n \<Rightarrow> RNum n)"

definition raw_buf :: "bytes option \<Rightarrow> raw" where
  "raw_buf v = (case v of None \<Rightarrow> RUndef | Some b \<Rightarrow> RBuf b)"

definition raw_str :: "string option \<Rightarrow> raw" where
  "raw_str v = (case v of None \<Rightarrow> RUndef | Some t \<Rightarrow> RStr t)"

definition raw_list :: "'a list option \<Rightarrow> raw" where
  "raw_list v = (case v of None \<Rightarrow> RUndef | Some _ \<Rightarrow> ROther)"

text \<open>\<^verbatim>\<open>tx[s]\<close>; \<^const>\<open>None\<close> is the key \<^verbatim>\<open>null\<close>, which no transaction has.\<close>

definition enc_fields :: "enc_tx \<Rightarrow> (string, raw) jsmap" where
  "enc_fields tx = [
     (''snd'', RBuf (tx_snd tx)), (''fee'', raw_num (tx_fee tx)), (''fv'', raw_num (tx_fv tx)),
     (''lv'', RNum (tx_lv tx)), (''note'', raw_buf (tx_note tx)), (''lx'', raw_buf (tx_lx tx)),
     (''rekey'', raw_buf (tx_rekey tx)), (''rcv'', raw_buf (tx_rcv tx)), (''amt'', raw_num (tx_amt tx)),
     (''close'', raw_buf (tx_close tx)), (''votekey'', raw_buf (tx_votekey tx)),
     (''selkey'', raw_buf (tx_selkey tx)), (''votefst'', raw_num (tx_votefst tx)),
     (''votelst'', raw_num (tx_votelst tx)), (''votekd'', raw_num (tx_votekd tx)),
     (''nonpart'', raw_num (tx_nonpart tx)), (''type'', RStr (tx_type tx)), (''xaid'', raw_num (tx_xaid tx)),
     (''aamt'', raw_num (tx_aamt tx)), (''asnd'', raw_buf (tx_asnd tx)), (''arcv'', raw_buf (tx_arcv tx)),
     (''aclose'', raw_buf (tx_aclose tx)), (''caid'', raw_num (tx_caid tx)), (''faid'', raw_num (tx_faid tx)),
     (''fadd'', raw_buf (tx_fadd tx)), (''afrz'', raw_num (tx_afrz tx)), (''apid'', raw_num (tx_apid tx)),
     (''apan'', raw_num (tx_apan tx)), (''apaa'', raw_list (tx_apaa tx)), (''apat'', raw_list (tx_apat tx)),
     (''apfa'', raw_list (tx_apfa tx)), (''apas'', raw_list (tx_apas tx)), (''apap'', raw_buf (tx_apap tx)),
     (''apsu'', raw_buf (tx_apsu tx)), (''apep'', raw_num (tx_apep tx))]"

definition raw_field :: "(string, raw) jsmap \<Rightarrow> string option \<Rightarrow> raw" where
  "raw_field m s = (case Option.bind s (map_of m) of None \<Rightarrow> RUndef | Some v \<Rightarrow> v)"

definition asset_fields :: "enc_asset option \<Rightarrow> (string, raw) jsmap" where
  "asset_fields apar = (case apar of None \<Rightarrow> [] | Some p \<Rightarrow> [
     (''t'', raw_num (par_t p)), (''dc'', raw_num (par_dc p)), (''df'', raw_num (par_df p)),
     (''un'', raw_str (par_un p)), (''an'', raw_str (par_an p)), (''au'', raw_str (par_au p)),
     (''am'', raw_buf (par_am p)), (''m'', raw_buf (par_m p)), (''r'', raw_buf (par_r p)),
     (''f'', raw_buf (par_f p)), (''c'', raw_buf (par_c p))])"

definition schema_fields :: "enc_schema option \<Rightarrow> (string, raw) jsmap" where
  "schema_fields sch = (case sch of None \<Rightarrow> [] | Some e \<Rightarrow>
     [(''nui'', raw_num (enc_nui e)), (''nbs'', raw_num (enc_nbs e))])"

text \<open>The value of a field in a transaction that does not have it; \<^const>\<open>None\<close> is \<^verbatim>\<open>undefined\<close>.\<close>

definition default_elem :: "string \<Rightarrow> stack_elem option opM" where
  "default_elem field =
     (case TxFieldDefaults field of
        None \<Rightarrow> returnM None
      | Some ZeroAddress \<Rightarrow> bindM (getM c_zeroAddress) (\<lambda>r. returnM (Some (Bytes r)))
      | Some ZeroByte \<Rightarrow> bindM (newM []) (\<lambda>r. returnM (Some (Bytes r)))
      | Some ZeroUint64 \<Rightarrow> returnM (Some (BigInt 0)))"

definition check_bytes :: "string \<Rightarrow> bytes \<Rightarrow> unit opM" where
  "check_bytes field b =
     seqM (assertM (length b \<le> maxStringSize) (TEAL MAX_BYTE_ARRAY_EXCEEDED))
      (assertM (\<not> (field \<in> {''ApprovalProgram'', ''ClearStateProgram''} \<and> MaxAppProgramLen < length b))
        (TEAL PROGRAM_LENGTH_EXCEEDED))"

definition copied :: "string \<Rightarrow> bytes \<Rightarrow> stack_elem option opM" where
  "copied field b = seqM (check_bytes field b) (bindM (newM b) (\<lambda>r. returnM (Some (Bytes r))))"

definition parseToStackElem :: "raw \<Rightarrow> string \<Rightarrow> stack_elem option opM" where
  "parseToStackElem a field =
     (case a of
        RNum n \<Rightarrow> returnM (Some (BigInt n))
      | RUndef \<Rightarrow> default_elem field
      | RArr r \<Rightarrow> bindM (derefM r) (\<lambda>b. seqM (check_bytes field b) (returnM (Some (Bytes r))))
      | RBuf b \<Rightarrow> copied field b
      | RStr t \<Rightarrow> copied field (stringToBytes t)
      | ROther \<Rightarrow> copied field [])"

text \<open>
  The stack of the model holds no \<^verbatim>\<open>undefined\<close>. Where the code pushes one, which every later type check
  refuses, the model stops with the plain error of this definition.
\<close>

definition push_elem :: "stack_elem option \<Rightarrow> unit opM" where
  "push_elem x = (case x of None \<Rightarrow> throwM (JsError (PlainError ''undefined on the stack'')) | Some e \<Rightarrow> pushM e)"

section \<open>Fields of a transaction\<close>

definition assetTxnFields :: "string list" where
  "assetTxnFields = [
     ''ConfigAssetTotal'', ''ConfigAssetDecimals'', ''ConfigAssetDefaultFrozen'', ''ConfigAssetUnitName'',
     ''ConfigAssetName'', ''ConfigAssetURL'', ''ConfigAssetMetadataHash'', ''ConfigAssetManager'',
     ''ConfigAssetReserve'', ''ConfigAssetFreeze'', ''ConfigAssetClawback'']"

definition globalAndLocalNumTxnFields :: "string list" where
  "globalAndLocalNumTxnFields = [''GlobalNumUint'', ''GlobalNumByteSlice'', ''LocalNumUint'', ''LocalNumByteSlice'']"

definition TxnType :: "(string, int) jsmap" where
  "TxnType = [(''unknown'', 0), (''pay'', 1), (''keyreg'', 2), (''acfg'', 3), (''axfer'', 4), (''afrz'', 5), (''appl'', 6)]"

definition assertRoundIsAvailable :: "int \<Rightarrow> unit opM" where
  "assertRoundIsAvailable rnd =
     bindM (getM c_tx) (\<lambda>tx.
     (let first = tx_lv tx - MaxTxnLife - 1;
          firstAvail = (if first > tx_lv tx \<or> first = 0 then 1 else first);
          lastAvail = (case tx_fv tx of None \<Rightarrow> 0 | Some fv \<Rightarrow> if fv - 1 > fv then 0 else fv - 1)
      in assertM (\<not> (firstAvail > rnd \<or> rnd > lastAvail \<or> rnd = 0)) (GENERAL ROUND_NOT_AVAILABLE)))"

definition interp_getBlock :: "int \<Rightarrow> block opM" where
  "interp_getBlock rnd = bindM (getM c_blocks) (\<lambda>bs. someM (GENERAL INVALID_BLOCK) (map_of bs rnd))"

definition receipt_of :: "enc_tx \<Rightarrow> receipt option opM" where
  "receipt_of tx = getM (\<lambda>s. map_of (txReceipts (c_state s)) (tx_txID tx))"

definition pages :: "bytes \<Rightarrow> int" where
  "pages b = (int (length b) + int maxStringSize - 1) div int maxStringSize"

text \<open>The fields that are computed, with \<open>at\<close> the position of the transaction in its group.\<close>

definition computed_field :: "string \<Rightarrow> enc_tx \<Rightarrow> int \<Rightarrow> raw opM" where
  "computed_field txField tx at =
     (if txField = ''FirstValidTime'' then
        (let oneBeforeFirstValid = or_zero (tx_fv tx) - 1
         in seqM (assertRoundIsAvailable oneBeforeFirstValid)
           (bindM (interp_getBlock oneBeforeFirstValid) (\<lambda>b. returnM (RNum (blk_timestamp b)))))
      else if txField = ''TypeEnum'' then
        (case map_of TxnType (tx_type tx) of None \<Rightarrow> throwM (JsError RangeError) | Some n \<Rightarrow> returnM (RNum n))
      else if txField = ''GroupIndex'' then returnM (RNum at)
      else if txField = ''NumAppArgs'' then returnM (raw_num (map_option (int \<circ> length) (tx_apaa tx)))
      else if txField = ''NumAccounts'' then returnM (raw_num (map_option (int \<circ> length) (tx_apat tx)))
      else if txField = ''NumAssets'' then returnM (raw_num (map_option (int \<circ> length) (tx_apas tx)))
      else if txField = ''NumApplications'' then returnM (raw_num (map_option (int \<circ> length) (tx_apfa tx)))
      else if txField = ''AssetSender'' then
        (if tx_type tx = ''axfer''
         then (case tx_asnd tx of
                 Some b \<Rightarrow> returnM (RBuf b)
               | None \<Rightarrow> getM (\<lambda>s. RBuf (deref (c_heap s) (c_zeroAddress s))))
         else returnM RUndef)
      else if txField = ''CreatedAssetID'' then
        bindM (receipt_of tx) (\<lambda>asaInfo.
          (case asaInfo of
             None \<Rightarrow> returnM (RNum 0)
           | Some rc \<Rightarrow> (case rc_assetIndex rc of None \<Rightarrow> throwM (JsError TypeError) | Some n \<Rightarrow> returnM (RNum n))))
      else if txField = ''CreatedApplicationID'' then
        bindM (receipt_of tx) (\<lambda>appInfo.
          (case appInfo of
             None \<Rightarrow> throwM (JsError TypeError)
           | Some rc \<Rightarrow> (case rc_appID rc of
                 Some n \<Rightarrow> returnM (RNum n)
               | None \<Rightarrow> if isEncTxApplicationCreate tx
                         then getM (\<lambda>s. RNum (appCounter (c_state s) + 1)) else returnM (RNum 0))))
      else if txField = ''LastLog'' then getM (\<lambda>s. RArr (c_lastLog s))
      else if txField = ''StateProofPK'' then returnM (RBuf (replicate 64 0))
      else if txField = ''NumApprovalProgramPages'' then
        returnM (RNum (case tx_apap tx of None \<Rightarrow> 0 | Some b \<Rightarrow> pages b))
      else if txField = ''NumClearStateProgramPages'' then
        returnM (RNum (case tx_apsu tx of None \<Rightarrow> 0 | Some b \<Rightarrow> pages b))
      else bindM (getM i_tealVersion) (\<lambda>v.
        returnM (raw_field (enc_fields tx) (Option.bind (map_of (TxnFields v) txField) (\<lambda>s. s)))))"

definition txnSpecByField :: "string \<Rightarrow> enc_tx \<Rightarrow> int \<Rightarrow> stack_elem option opM" where
  "txnSpecByField txField tx at =
     bindM (getM i_tealVersion) (\<lambda>v.
     (let s = Option.bind (map_of (TxnFields v) txField) (\<lambda>s. s)
      in if txField \<in> set assetTxnFields
         then parseToStackElem (raw_field (asset_fields (tx_apar tx)) s) txField
         else if txField \<in> set globalAndLocalNumTxnFields
         then parseToStackElem (raw_field (schema_fields
                (if take 6 txField = ''Global'' then tx_apgs tx else tx_apls tx)) s) txField
         else if txField = ''TxID''
         then bindM (newM (stringToBytes (tx_txID tx))) (\<lambda>r. returnM (Some (Bytes r)))
         else bindM (computed_field txField tx at) (\<lambda>result. parseToStackElem result txField)))"

text \<open>
  \<^verbatim>\<open>tx[s]\<close> where an array is expected; \<^const>\<open>None\<close> when it is false. A number, which has no length, refuses
  every index, as an empty array does.
\<close>

definition raw_array :: "enc_tx \<Rightarrow> string option \<Rightarrow> raw list option" where
  "raw_array tx s =
     (if s = Some ''apaa'' then map_option (List.map RBuf) (tx_apaa tx)
      else if s = Some ''apat'' then map_option (List.map RBuf) (tx_apat tx)
      else if s = Some ''apfa'' then map_option (List.map RNum) (tx_apfa tx)
      else if s = Some ''apas'' then map_option (List.map RNum) (tx_apas tx)
      else (case raw_field (enc_fields tx) s of
              RBuf b \<Rightarrow> Some (List.map (\<lambda>w. RNum (uint w)) b)
            | RStr t \<Rightarrow> (if t = [] then None else Some (List.map (\<lambda>c. RStr [c]) t))
            | RNum n \<Rightarrow> (if n = 0 then None else Some [])
            | _ \<Rightarrow> None))"

definition program_page :: "string \<Rightarrow> bytes \<Rightarrow> int \<Rightarrow> string \<Rightarrow> stack_elem option opM" where
  "program_page msg prog idx txField =
     seqM (assertM (idx \<le> pages prog) (JsError (PlainError msg)))
      (let first = idx * int maxStringSize; last = min (first + int maxStringSize) (int (length prog))
       in parseToStackElem (RBuf (js_array_slice prog first last)) txField)"

definition array_elem :: "string \<Rightarrow> enc_tx \<Rightarrow> int \<Rightarrow> stack_elem option opM" where
  "array_elem txField tx idx =
     bindM (getM i_tealVersion) (\<lambda>v.
       case raw_array tx (Option.bind (map_of (TxnFields v) txField) (\<lambda>s. s)) of
         None \<Rightarrow> default_elem txField
       | Some result \<Rightarrow>
           if txField = ''Accounts'' \<and> idx = 0 then parseToStackElem (RBuf (tx_snd tx)) txField
           else if txField = ''Applications'' \<and> idx = 0 then parseToStackElem (RNum (or_zero (tx_apid tx))) txField
           else (let i = (if txField \<in> {''Accounts'', ''Applications''} then idx - 1 else idx)
                 in seqM (checkIndexBound i result) (parseToStackElem (result ! nat i) txField)))"

definition txAppArg :: "string \<Rightarrow> enc_tx \<Rightarrow> int \<Rightarrow> stack_elem option opM" where
  "txAppArg txField tx idx =
     (if txField = ''Logs'' then
        bindM (receipt_of tx) (\<lambda>rc.
        (let logs = or_empty (Option.bind rc rc_logs)
         in seqM (checkIndexBound idx logs) (parseToStackElem (RArr (logs ! nat idx)) txField)))
      else if txField = ''ApprovalProgramPages'' \<and> tx_apap tx \<noteq> None then
        program_page ''invalid ApprovalProgramPages page index'' (the (tx_apap tx)) idx txField
      else if txField = ''NumApprovalProgramPages'' \<and> tx_apap tx \<noteq> None then
        parseToStackElem (RNum (pages (the (tx_apap tx)))) txField
      else if txField = ''ClearStateProgramPages'' \<and> tx_apsu tx \<noteq> None then
        program_page ''invalid ClearStateProgramPages page index'' (the (tx_apsu tx)) idx txField
      else if txField = ''NumClearStateProgramPages'' \<and> tx_apsu tx \<noteq> None then
        parseToStackElem (RNum (pages (the (tx_apsu tx)))) txField
      else array_elem txField tx idx)"

section \<open>The opcodes on transactions\<close>

text \<open>A field of one transaction, an element of it when there is an index.\<close>

definition tx_value :: "string \<Rightarrow> int option \<Rightarrow> enc_tx \<Rightarrow> int \<Rightarrow> stack_elem option opM" where
  "tx_value field idx tx at =
     (case idx of None \<Rightarrow> txnSpecByField field tx at | Some i \<Rightarrow> txAppArg field tx i)"

definition Txn_execute :: "string \<Rightarrow> int option \<Rightarrow> int opM" where
  "Txn_execute field idx =
     bindM (getM c_tx) (\<lambda>tx. bindM (getM c_txAt) (\<lambda>at.
     bindM (tx_value field idx tx at) (\<lambda>result. seqM (push_elem result) computeCost)))"

text \<open>Reading a member of a group: the group of the context, or the last inner group.\<close>

definition group_value :: "enc_tx list \<Rightarrow> int \<Rightarrow> string \<Rightarrow> int option \<Rightarrow> int opM" where
  "group_value groupTxn txIdx field fieldIdx =
     bindM (assertUint8 txIdx) (\<lambda>_.
     seqM (checkIndexBound txIdx groupTxn)
    (bindM (tx_value field fieldIdx (groupTxn ! nat txIdx) txIdx) (\<lambda>result.
     seqM (push_elem result) computeCost)))"

definition Gtxn_execute :: "int \<Rightarrow> string \<Rightarrow> int option \<Rightarrow> int opM" where
  "Gtxn_execute txIdx field fieldIdx =
     bindM (getM c_gtxs) (\<lambda>groupTxn. group_value groupTxn txIdx field fieldIdx)"

definition Txna_execute :: "string \<Rightarrow> int \<Rightarrow> int opM" where
  "Txna_execute field fieldIdx =
     bindM (getM c_tx) (\<lambda>tx. bindM (txAppArg field tx fieldIdx) (\<lambda>result.
     seqM (push_elem result) computeCost))"

definition Gtxna_execute :: "int \<Rightarrow> string \<Rightarrow> int \<Rightarrow> int opM" where
  "Gtxna_execute txIdx field fieldIdx =
     bindM (getM c_gtxs) (\<lambda>groupTxn. group_value groupTxn txIdx field (Some fieldIdx))"

definition Gtxns_execute :: "string \<Rightarrow> int option \<Rightarrow> int opM" where
  "Gtxns_execute field fieldIdx =
     seqM (assertMinStackLen 1)
    (bindM popBigInt (\<lambda>top. bindM (assertUint8 top) (\<lambda>_.
     seqM (Gtxn_execute (js_Number top) field fieldIdx) computeCost)))"

definition Gtxnsa_execute :: "string \<Rightarrow> int \<Rightarrow> int opM" where
  "Gtxnsa_execute field fieldIdx =
     seqM (assertMinStackLen 1)
    (bindM popBigInt (\<lambda>top. bindM (assertUint8 top) (\<lambda>_. Gtxna_execute (js_Number top) field fieldIdx)))"

definition Txnas_execute :: "string \<Rightarrow> int opM" where
  "Txnas_execute field =
     seqM (assertMinStackLen 1) (bindM popBigInt (\<lambda>top. Txna_execute field (js_Number top)))"

definition Gtxnas_execute :: "int \<Rightarrow> string \<Rightarrow> int opM" where
  "Gtxnas_execute txIdx field =
     seqM (assertMinStackLen 1) (bindM popBigInt (\<lambda>top. Gtxna_execute txIdx field (js_Number top)))"

definition Gtxnsas_execute :: "string \<Rightarrow> int opM" where
  "Gtxnsas_execute field =
     seqM (assertMinStackLen 2)
    (bindM popBigInt (\<lambda>arrFieldIdx. bindM popBigInt (\<lambda>txIdxInGrp.
       Gtxna_execute (js_Number txIdxInGrp) field (js_Number arrFieldIdx))))"

section \<open>Globals, applications, assets and blocks\<close>

definition getCallerApplicationID :: "'x ctx_scheme \<Rightarrow> int" where
  "getCallerApplicationID c =
     (let ids = c_innerTxAppIDCallStack c in if 1 < length ids then ids ! (length ids - 2) else 0)"

definition getCallerApplicationAddress :: "sdk \<Rightarrow> 'x ctx_scheme \<Rightarrow> string" where
  "getCallerApplicationAddress X c =
     (let i = getCallerApplicationID c in if i = 0 then ZERO_ADDRESS_STR else getApplicationAddress X i)"

definition push_address :: "sdk \<Rightarrow> string \<Rightarrow> unit opM" where
  "push_address X addr = bindM (liftM (decodeAddress X addr)) pushBytesM"

definition getBudget :: "interp \<Rightarrow> int" where
  "getBudget s = (if i_mode s = SIGNATURE then LOGIC_SIG_MAX_COST else c_budget s)"

definition push_global :: "sdk \<Rightarrow> string \<Rightarrow> unit opM" where
  "push_global X field =
     (if field = ''GroupSize'' then bindM (getM (\<lambda>s. int (length (c_gtxs s)))) pushBigInt
      else if field = ''CurrentApplicationID'' then
        bindM (getM (\<lambda>s. tx_apid (c_tx s))) (\<lambda>i. bindM (askM (ctx_getApp i)) (\<lambda>_. pushBigInt (the i)))
      else if field = ''Round'' then bindM (getM c_round) pushBigInt
      else if field = ''LatestTimestamp'' then bindM (getM c_timestamp) pushBigInt
      else if field = ''CreatorAddress'' then
        bindM (getM current_app) (\<lambda>i. bindM (askM (ctx_getApp (Some i))) (\<lambda>app. push_address X (app_creator app)))
      else if field = ''GroupID'' then
        bindM (getM (\<lambda>s. case tx_grp (c_tx s) of Some g \<Rightarrow> g | None \<Rightarrow> deref (c_heap s) (c_zeroAddress s))) pushBytesM
      else if field = ''CurrentApplicationAddress'' then
        bindM (getM current_app) (\<lambda>i. push_address X (getApplicationAddress X i))
      else if field = ''CallerApplicationID'' then bindM (getM getCallerApplicationID) pushBigInt
      else if field = ''CallerApplicationAddress'' then
        bindM (getM (getCallerApplicationAddress X)) (push_address X)
      else if field = ''OpcodeBudget'' then
        bindM (getM (\<lambda>s. getBudget s - ((if i_mode s = SIGNATURE then i_cost s else c_pooledApplCost s) + 1)))
          pushBigInt
      else bindM (getM i_tealVersion) (\<lambda>v.
        case map_of (GlobalFields v) field of
          Some (GNumber n) \<Rightarrow> pushBigInt n
        | Some GZeroAddress \<Rightarrow> bindM (getM c_zeroAddress) (\<lambda>r. pushM (Bytes r))
        | _ \<Rightarrow> push_elem None))"

definition Global_execute :: "sdk \<Rightarrow> string \<Rightarrow> int opM" where
  "Global_execute X field = seqM (push_global X field) computeCost"

definition interp_getAssetDef :: "int option \<Rightarrow> ledger \<Rightarrow> error + asset_params option" where
  "interp_getAssetDef assetId st =
     (case Option.bind assetId (map_of (assetDefs st)) of
        None \<Rightarrow> Inr None
      | Some accountAddr \<Rightarrow>
          if accountAddr = '''' then Inr None
          else (case ctx_getAccount accountAddr st of
                  Inl e \<Rightarrow> Inl e
                | Inr account \<Rightarrow> Inr (Option.bind assetId (map_of (createdAssets account)))))"

text \<open>The text properties of a definition, by the name \<^const>\<open>AssetParamMap\<close> gives.\<close>

definition asset_texts :: "asset_params \<Rightarrow> (string, string option) jsmap" where
  "asset_texts d = [
     (''unitName'', ap_unitName d), (''name'', Some (ap_name d)), (''url'', ap_url d),
     (''metadataHash'', map_option (List.map (\<lambda>w. char_of (unat w))) (ap_metadataHash d)),
     (''manager'', ap_manager d), (''reserve'', ap_reserve d), (''freeze'', ap_freeze d),
     (''clawback'', ap_clawback d), (''creator'', Some (ap_creator d))]"

definition push_asset_param :: "sdk \<Rightarrow> string \<Rightarrow> asset_params \<Rightarrow> unit opM" where
  "push_asset_param X field d =
     (if field = ''AssetTotal'' then pushBigInt (ap_total d)
      else if field = ''AssetDecimals'' then pushBigInt (ap_decimals d)
      else if field = ''AssetDefaultFrozen'' then pushBigInt (if ap_defaultFrozen d then 1 else 0)
      else bindM (getM i_tealVersion) (\<lambda>v.
        case Option.bind (Option.bind (map_of (AssetParamMap v) field) (map_of (asset_texts d))) (\<lambda>t. t) of
          None \<Rightarrow> throwM (JsError TypeError)
        | Some def \<Rightarrow> if isValidAddress X def then push_address X def else pushBytesM (stringToBytes def)))"

definition GetAssetDef_execute :: "sdk \<Rightarrow> string \<Rightarrow> int opM" where
  "GetAssetDef_execute X field =
     seqM (assertMinStackLen 1)
    (bindM popBigInt (\<lambda>assetRef. bindM (getAssetIDByReference (js_Number assetRef) True) (\<lambda>assetID.
     bindM (askM (interp_getAssetDef assetID)) (\<lambda>AssetDefinition.
      (case AssetDefinition of
         None \<Rightarrow> seqM (pushBigInt 0) (seqM (pushBigInt 0) computeCost)
       | Some d \<Rightarrow> seqM (push_asset_param X field d) (seqM (pushBigInt 1) computeCost))))))"

definition push_app_param :: "sdk \<Rightarrow> string \<Rightarrow> int \<Rightarrow> app_attrs \<Rightarrow> unit opM" where
  "push_app_param X field appID app =
     (if field = ''AppApprovalProgram'' then pushBytesM (stringToBytes (approval_program app))
      else if field = ''AppClearStateProgram'' then pushBytesM (stringToBytes (clear_state_program app))
      else if field = ''AppGlobalNumUint'' then pushBigInt (numUint (global_schema app))
      else if field = ''AppGlobalNumByteSlice'' then pushBigInt (numByteSlice (global_schema app))
      else if field = ''AppLocalNumUint'' then pushBigInt (numUint (local_schema app))
      else if field = ''AppLocalNumByteSlice'' then pushBigInt (numByteSlice (local_schema app))
      else if field = ''AppExtraProgramPages'' then pushBigInt 1
      else if field = ''AppCreator'' then push_address X (app_creator app)
      else if field = ''AppAddress'' then push_address X (getApplicationAddress X appID)
      else pushBigInt 0)"

definition AppParamsGet_execute :: "sdk \<Rightarrow> string \<Rightarrow> int opM" where
  "AppParamsGet_execute X field =
     seqM (assertMinStackLen 1)
    (bindM popBigInt (\<lambda>appID. bindM (getM (\<lambda>s. map_of (globalApps (c_state s)) (js_Number appID))) (\<lambda>has.
      if has \<noteq> None
      then bindM (askM (ctx_getApp (Some (js_Number appID)))) (\<lambda>appDef.
        seqM (push_app_param X field appID appDef) (seqM (pushBigInt 1) computeCost))
      else seqM (pushBigInt 0) (seqM (pushBigInt 0) computeCost))))"

definition Block_execute :: "string \<Rightarrow> int opM" where
  "Block_execute field =
     seqM (assertMinStackLen 1)
    (bindM popBigInt (\<lambda>top.
     (let rnd = js_Number top
      in seqM (assertRoundIsAvailable rnd)
        (bindM (interp_getBlock rnd) (\<lambda>b.
         seqM (if field = ''BlkSeed'' then pushBytesM (blk_seed b) else pushBigInt (blk_timestamp b)) computeCost)))))"

definition Addr_execute :: "sdk \<Rightarrow> string \<Rightarrow> int opM" where
  "Addr_execute X addr = seqM (push_address X addr) computeCost"

fun field_execute :: "sdk \<Rightarrow> field_op \<Rightarrow> int opM" where
    "field_execute X (Txn f i) = Txn_execute f i"
  | "field_execute X (Gtxn t f i) = Gtxn_execute t f i"
  | "field_execute X (Txna f i) = Txna_execute f i"
  | "field_execute X (Gtxna t f i) = Gtxna_execute t f i"
  | "field_execute X (Gtxns f i) = Gtxns_execute f i"
  | "field_execute X (Gtxnsa f i) = Gtxnsa_execute f i"
  | "field_execute X (Txnas f) = Txnas_execute f"
  | "field_execute X (Gtxnas t f) = Gtxnas_execute t f"
  | "field_execute X (Gtxnsas f) = Gtxnsas_execute f"
  | "field_execute X (Global f) = Global_execute X f"
  | "field_execute X (GetAssetDef f) = GetAssetDef_execute X f"
  | "field_execute X (AppParamsGet f) = AppParamsGet_execute X f"
  | "field_execute X (Block f) = Block_execute f"
  | "field_execute X (Addr a) = Addr_execute X a"

lemmas field_defs =
  Txn_execute_def group_value_def Gtxn_execute_def Txna_execute_def Gtxna_execute_def Gtxns_execute_def
  Gtxnsa_execute_def Txnas_execute_def Gtxnas_execute_def Gtxnsas_execute_def Global_execute_def
  GetAssetDef_execute_def AppParamsGet_execute_def Block_execute_def Addr_execute_def

end
