(* ===== verification/TEAL_InnerOps.thy ===== *)
theory TEAL_InnerOps
  imports TEAL_FieldOps
begin

text \<open>
  The opcodes on inner transactions (\<^verbatim>\<open>lib/itxn.ts\<close> and the classes \<^verbatim>\<open>ITxnBegin\<close> to \<^verbatim>\<open>Gitxnas\<close> of the opcode
  list): how a program builds a group of transactions field by field, submits it, and reads the last group it
  submitted. Submitting runs the group in the context of the program itself; the execution of a group
  is a parameter here, which the runtime instantiates.
\<close>

section \<open>Setting a field\<close>

text \<open>
  The sets of fields of \<^verbatim>\<open>itxn.ts\<close>, by what the value on the stack must be; \<open>v\<close> is the version, at least 5:
  for the versions before, one of the sets does not exist.
\<close>

definition uintTxnFields :: "string list" where
  "uintTxnFields = [''Amount'', ''AssetAmount'', ''TypeEnum'', ''ConfigAssetTotal'']"

definition numberTxnFields :: "nat \<Rightarrow> string list" where
  "numberTxnFields v =
     [''Fee'', ''FreezeAssetFrozen'', ''ConfigAssetDecimals'', ''ConfigAssetDefaultFrozen''] @
     (if 6 \<le> v then [''VoteFirst'', ''VoteLast'', ''VoteKeyDilution'', ''Nonparticipation'', ''ApplicationID''] else [])"

definition assetIDFields :: "string list" where
  "assetIDFields = [''XferAsset'', ''FreezeAsset'', ''ConfigAsset'']"

definition byteTxnFields :: "nat \<Rightarrow> string list" where
  "byteTxnFields v =
     [''ConfigAssetMetadataHash''] @
     (if 6 \<le> v then [''VotePK'', ''SelectionPK'', ''Note'', ''ApplicationArgs'', ''ApprovalProgram'', ''ClearStateProgram''] else []) @
     (if 7 \<le> v then [''ApprovalProgramPages'', ''ClearStateProgramPages''] else [])"

definition strTxnFields :: "string list" where
  "strTxnFields = [''Type'', ''ConfigAssetName'', ''ConfigAssetUnitName'', ''ConfigAssetURL'']"

definition acfgAddrTxnFields :: "string list" where
  "acfgAddrTxnFields = [''ConfigAssetManager'', ''ConfigAssetReserve'', ''ConfigAssetFreeze'', ''ConfigAssetClawback'']"

definition otherAddrTxnFields :: "nat \<Rightarrow> string list" where
  "otherAddrTxnFields v =
     [''Sender'', ''Receiver'', ''CloseRemainderTo'', ''AssetSender'', ''AssetCloseTo'', ''AssetReceiver'',
      ''FreezeAssetAccount''] @ (if 6 \<le> v then [''RekeyTo''] else [])"

definition inner_txTypes :: "nat \<Rightarrow> string list" where
  "inner_txTypes v = [''pay'', ''axfer'', ''acfg'', ''afrz''] @ (if 6 \<le> v then [''keyreg'', ''appl''] else [])"

definition TxnTypeMap :: "(int, nat \<times> string) jsmap" where
  "TxnTypeMap = [(1, 5, ''pay''), (2, 6, ''keyreg''), (3, 5, ''acfg''), (4, 5, ''axfer''), (5, 5, ''afrz''), (6, 6, ''appl'')]"

text \<open>
  A value for a field. Byte arrays are copied into the transaction here; the code keeps the array of the stack,
  so that a program that writes to that array after \<^verbatim>\<open>itxn_field\<close> changes the field too.
\<close>

datatype itxn_value = FNum int | FText string | FBytes bytes

definition field_value :: "sdk \<Rightarrow> string \<Rightarrow> stack_elem \<Rightarrow> itxn_value option opM" where
  "field_value X field val =
     bindM (getM i_tealVersion) (\<lambda>v.
     seqM (assertM (5 \<le> v \<and> v \<le> MaxTEALVersion) (JsError TypeError))
      (if field \<in> set uintTxnFields then bindM (assertBigInt val) (\<lambda>n. returnM (Some (FNum n)))
       else if field \<in> set (numberTxnFields v) then bindM (assertBigInt val) (\<lambda>n. returnM (Some (FNum (js_Number n))))
       else if field \<in> set assetIDFields then
         bindM (assertBigInt val) (\<lambda>n. bindM (getAssetIDByReference (js_Number n) False) (\<lambda>i.
           returnM (map_option FNum i)))
       else if field \<in> set strTxnFields then
         bindM (assertBytes val) (\<lambda>r. bindM (derefM r) (\<lambda>b. returnM (Some (FText (convertToString b)))))
       else if field \<in> set (byteTxnFields v) then
         bindM (assertBytes val) (\<lambda>r. bindM (derefM r) (\<lambda>b. returnM (Some (FBytes b))))
       else if field \<in> set (otherAddrTxnFields v) then
         bindM (assertBytes val) (\<lambda>r. bindM (interp_getAccount X (Bytes r) False True) (\<lambda>accountState.
         bindM (liftM (decodeAddress X (address accountState))) (\<lambda>pk. returnM (Some (FBytes pk)))))
       else if field \<in> set acfgAddrTxnFields then
         bindM (assertAlgorandAddress X val) (\<lambda>r. bindM (derefM r) (\<lambda>b. returnM (Some (FBytes b))))
       else returnM None))"

text \<open>\<^verbatim>\<open>text.length\<close> of the platform: the UTF-16 units of the text.\<close>

definition text_length :: "string \<Rightarrow> nat" where
  "text_length t = (\<Sum>c \<leftarrow> t. let n = of_char c :: nat in if n < 128 \<or> (192 \<le> n \<and> n < 240) then 1 else if 240 \<le> n then 2 else 0)"

definition MaxTxnNoteBytes :: nat where [simp]: "MaxTxnNoteBytes = 1024"
definition max_pages_len :: nat where [simp]: "max_pages_len = MaxAppProgramLen * (1 + 3)"

text \<open>\<^verbatim>\<open>ApprovalProgramPages\<close> and \<^verbatim>\<open>ClearStateProgramPages\<close> append to the program, which is stored under another key.\<close>

definition paged_key :: "string \<Rightarrow> string option \<Rightarrow> string option" where
  "paged_key field encodedField =
     (if field = ''ApprovalProgramPages'' then Some ''apap''
      else if field = ''ClearStateProgramPages'' then Some ''apsu'' else encodedField)"

definition appended :: "enc_tx \<Rightarrow> string \<Rightarrow> itxn_value \<Rightarrow> itxn_value" where
  "appended tx field value =
     (case value of
        FBytes b \<Rightarrow>
          FBytes ((if field = ''ApprovalProgramPages'' then (case tx_apap tx of None \<Rightarrow> [] | Some p \<Rightarrow> p)
                   else if field = ''ClearStateProgramPages'' then (case tx_apsu tx of None \<Rightarrow> [] | Some p \<Rightarrow> p)
                   else []) @ b)
      | _ \<Rightarrow> value)"

definition itxn_field_ok :: "nat \<Rightarrow> string \<Rightarrow> itxn_value \<Rightarrow> bool" where
  "itxn_field_ok v field value \<longleftrightarrow>
     (case value of
        FText t \<Rightarrow>
          (if field = ''Type'' then t \<in> set (inner_txTypes v)
           else if field = ''ConfigAssetUnitName'' then text_length t \<le> 8
           else if field = ''ConfigAssetName'' then text_length t \<le> 32
           else if field = ''ConfigAssetURL'' then text_length t \<le> 96 else True)
      | FNum n \<Rightarrow>
          (if field = ''TypeEnum'' then
             (case map_of TxnTypeMap (js_Number n) of None \<Rightarrow> False | Some (w, _) \<Rightarrow> w \<le> v)
           else if field = ''ConfigAssetDecimals'' then 0 \<le> n \<and> n \<le> 19 else True)
      | FBytes b \<Rightarrow>
          (if field \<in> {''ConfigAssetMetadataHash'', ''VotePK'', ''SelectionPK''} then length b = 32
           else if field = ''Note'' then length b \<le> MaxTxnNoteBytes
           else if field \<in> {''ApprovalProgramPages'', ''ClearStateProgramPages''} then length b \<le> max_pages_len
           else True))"

definition empty_asset :: enc_asset where
  "empty_asset = \<lparr>par_t = None, par_dc = None, par_df = None, par_un = None, par_an = None, par_au = None,
     par_am = None, par_m = None, par_r = None, par_f = None, par_c = None\<rparr>"

text \<open>\<^verbatim>\<open>apar[key] = value\<close> and \<^verbatim>\<open>subTxn[key] = value\<close>, for the keys that a value of the kind can be given.\<close>

definition set_asset :: "string \<Rightarrow> itxn_value \<Rightarrow> enc_asset \<Rightarrow> enc_asset" where
  "set_asset key value p =
     (case value of
        FNum n \<Rightarrow>
          (if key = ''t'' then p\<lparr>par_t := Some n\<rparr> else if key = ''dc'' then p\<lparr>par_dc := Some n\<rparr>
           else if key = ''df'' then p\<lparr>par_df := Some n\<rparr> else p)
      | FText t \<Rightarrow>
          (if key = ''un'' then p\<lparr>par_un := Some t\<rparr> else if key = ''an'' then p\<lparr>par_an := Some t\<rparr>
           else if key = ''au'' then p\<lparr>par_au := Some t\<rparr> else p)
      | FBytes b \<Rightarrow>
          (if key = ''am'' then p\<lparr>par_am := Some b\<rparr> else if key = ''m'' then p\<lparr>par_m := Some b\<rparr>
           else if key = ''r'' then p\<lparr>par_r := Some b\<rparr> else if key = ''f'' then p\<lparr>par_f := Some b\<rparr>
           else if key = ''c'' then p\<lparr>par_c := Some b\<rparr> else p))"

definition set_number :: "string \<Rightarrow> int \<Rightarrow> enc_tx \<Rightarrow> enc_tx" where
  "set_number key n tx =
     (if key = ''amt'' then tx\<lparr>tx_amt := Some n\<rparr> else if key = ''aamt'' then tx\<lparr>tx_aamt := Some n\<rparr>
      else if key = ''fee'' then tx\<lparr>tx_fee := Some n\<rparr> else if key = ''afrz'' then tx\<lparr>tx_afrz := Some n\<rparr>
      else if key = ''votefst'' then tx\<lparr>tx_votefst := Some n\<rparr> else if key = ''votelst'' then tx\<lparr>tx_votelst := Some n\<rparr>
      else if key = ''votekd'' then tx\<lparr>tx_votekd := Some n\<rparr> else if key = ''nonpart'' then tx\<lparr>tx_nonpart := Some n\<rparr>
      else if key = ''apid'' then tx\<lparr>tx_apid := Some n\<rparr> else if key = ''xaid'' then tx\<lparr>tx_xaid := Some n\<rparr>
      else if key = ''faid'' then tx\<lparr>tx_faid := Some n\<rparr> else if key = ''caid'' then tx\<lparr>tx_caid := Some n\<rparr> else tx)"

definition set_bytes :: "string \<Rightarrow> bytes \<Rightarrow> enc_tx \<Rightarrow> enc_tx" where
  "set_bytes key b tx =
     (if key = ''snd'' then tx\<lparr>tx_snd := b\<rparr> else if key = ''rcv'' then tx\<lparr>tx_rcv := Some b\<rparr>
      else if key = ''close'' then tx\<lparr>tx_close := Some b\<rparr> else if key = ''asnd'' then tx\<lparr>tx_asnd := Some b\<rparr>
      else if key = ''aclose'' then tx\<lparr>tx_aclose := Some b\<rparr> else if key = ''arcv'' then tx\<lparr>tx_arcv := Some b\<rparr>
      else if key = ''fadd'' then tx\<lparr>tx_fadd := Some b\<rparr> else if key = ''rekey'' then tx\<lparr>tx_rekey := Some b\<rparr>
      else if key = ''votekey'' then tx\<lparr>tx_votekey := Some b\<rparr> else if key = ''selkey'' then tx\<lparr>tx_selkey := Some b\<rparr>
      else if key = ''note'' then tx\<lparr>tx_note := Some b\<rparr> else if key = ''apap'' then tx\<lparr>tx_apap := Some b\<rparr>
      else if key = ''apsu'' then tx\<lparr>tx_apsu := Some b\<rparr> else tx)"

definition set_field :: "string \<Rightarrow> itxn_value \<Rightarrow> enc_tx \<Rightarrow> enc_tx" where
  "set_field key value tx =
     (case value of
        FNum n \<Rightarrow> set_number key n tx
      | FText t \<Rightarrow> (if key = ''type'' then tx\<lparr>tx_type := t\<rparr> else tx)
      | FBytes b \<Rightarrow> set_bytes key b tx)"

definition store_field :: "string \<Rightarrow> string option \<Rightarrow> itxn_value \<Rightarrow> enc_tx \<Rightarrow> enc_tx" where
  "store_field field encodedField value tx =
     (case encodedField of
        None \<Rightarrow>
          (case value of
             FNum n \<Rightarrow> (if field = ''TypeEnum'' then
                 (case map_of TxnTypeMap (js_Number n) of None \<Rightarrow> tx | Some (_, t) \<Rightarrow> tx\<lparr>tx_type := t\<rparr>) else tx)
           | _ \<Rightarrow> tx)
      | Some key \<Rightarrow>
          if field \<in> set assetTxnFields
          then tx\<lparr>tx_apar := Some (set_asset key value (case tx_apar tx of None \<Rightarrow> empty_asset | Some p \<Rightarrow> p))\<rparr>
          else if field = ''ApplicationArgs''
          then (case value of FBytes b \<Rightarrow> tx\<lparr>tx_apaa := Some (or_empty (tx_apaa tx) @ [b])\<rparr> | _ \<Rightarrow> tx)
          else set_field key value tx)"

definition setInnerTxField :: "sdk \<Rightarrow> enc_tx \<Rightarrow> string \<Rightarrow> stack_elem \<Rightarrow> enc_tx opM" where
  "setInnerTxField X subTxn field val =
     bindM (field_value X field val) (\<lambda>txValue. bindM (someM (TEAL ITXN_FIELD_ERR) txValue) (\<lambda>v0.
     bindM (getM i_tealVersion) (\<lambda>v.
     (let value = appended subTxn field v0;
          encodedField = paged_key field (Option.bind (map_of (TxnFields v) field) (\<lambda>s. s))
      in seqM (assertM (itxn_field_ok v field value) (TEAL ITXN_FIELD_ERR))
           (returnM (store_field field encodedField value subTxn))))))"

section \<open>Building a group\<close>

definition calculateInnerTxCredit :: "interp \<Rightarrow> credit" where
  "calculateInnerTxCredit s =
     (let feeInfo = calculateFeeCredit (i_currentInnerTxnGroup s);
          collected = cr_collectedFee feeInfo + c_remainingFee s
      in feeInfo\<lparr>cr_collectedFee := collected, cr_remainingFee := collected - cr_requiredFee feeInfo\<rparr>)"

definition getInnerTxDefaultFee :: "interp \<Rightarrow> int" where
  "getInnerTxDefaultFee s =
     (if cr_remainingFee (calculateInnerTxCredit s) \<ge> ALGORAND_MIN_TX_FEE then 0 else ALGORAND_MIN_TX_FEE)"

definition addInnerTransaction :: "sdk \<Rightarrow> enc_tx opM" where
  "addInnerTransaction X =
     bindM (getM current_app) (\<lambda>appID.
     seqM (askM (ctx_getApp (Some appID)))
    (bindM (askM (ctx_getAccount (getApplicationAddress X appID))) (\<lambda>applicationAccount.
     bindM (liftM (decodeAddress X (address applicationAccount))) (\<lambda>pk.
     getM (\<lambda>s. (bare_tx ''unknown'' '''' pk)\<lparr>tx_fee := Some (getInnerTxDefaultFee s),
       tx_fv := tx_fv (c_tx s), tx_lv := tx_lv (c_tx s)\<rparr>)))))"

definition set_current :: "enc_tx list \<Rightarrow> unit opM" where
  "set_current g = modifyM (\<lambda>s. s\<lparr>i_currentInnerTxnGroup := g\<rparr>)"

definition assertInnerRoom :: "unit opM" where
  "assertInnerRoom = bindM (getM i_innerTxnGroups) (\<lambda>gs.
     assertM (length gs < MAX_INNER_TRANSACTIONS) (GENERAL MAX_INNER_TRANSACTIONS_EXCEEDED))"

definition ITxnBegin_execute :: "sdk \<Rightarrow> int opM" where
  "ITxnBegin_execute X =
     bindM (getM i_currentInnerTxnGroup) (\<lambda>cur.
     seqM (assertM (cur = []) (TEAL ITXN_BEGIN_WITHOUT_ITXN_SUBMIT))
    (seqM assertInnerRoom
    (bindM (getM c_tx) (\<lambda>tx.
     seqM (assertM (tx_apan tx \<noteq> Some 3) (TEAL ISSUE_ITXN_WHEN_CLEAR_PROGRAM))
    (bindM (addInnerTransaction X) (\<lambda>itx. seqM (set_current [itx]) computeCost))))))"

definition ITxnField_execute :: "sdk \<Rightarrow> string \<Rightarrow> int opM" where
  "ITxnField_execute X field =
     seqM (assertMinStackLen 1)
    (bindM popM (\<lambda>valToSet. bindM (getM i_currentInnerTxnGroup) (\<lambda>cur.
     seqM (assertM (cur \<noteq> []) (TEAL ITXN_FIELD_WITHOUT_ITXN_BEGIN))
    (bindM (setInnerTxField X (last cur) field valToSet) (\<lambda>lastInnerTx.
     seqM (set_current (butlast cur @ [lastInnerTx])) computeCost)))))"

definition ITxnNext_execute :: "sdk \<Rightarrow> int opM" where
  "ITxnNext_execute X =
     bindM (getM i_currentInnerTxnGroup) (\<lambda>cur.
     seqM (assertM (cur \<noteq> []) (TEAL ITXN_NEXT_WITHOUT_ITXN_BEGIN))
    (seqM assertInnerRoom
    (bindM (addInnerTransaction X) (\<lambda>itx. seqM (set_current (cur @ [itx])) computeCost))))"

section \<open>Submitting\<close>

text \<open>
  What submitting a group needs of the runtime: \<^verbatim>\<open>runtime.getAccount\<close>, which looks into the store of the runtime and
  not into the context; and the conversion of the encoded transactions, with the account of the
  application as the sender and signer, to what \<^verbatim>\<open>processTransactions\<close> then does to the context.
\<close>

record submitter =
  sub_account :: "string \<Rightarrow> error + account"
  sub_convert :: "string \<Rightarrow> ctx \<Rightarrow> enc_tx list \<Rightarrow> error + (ctx, unit) exec"

text \<open>
  An error of the group is thrown again as an error of the same description; an error of the platform has none,
  and making the new error throws.
\<close>

definition rethrown :: "error \<Rightarrow> error" where
  "rethrown e = (case e of JsError _ \<Rightarrow> JsError TypeError | _ \<Rightarrow> e)"

definition enter_inner :: "enc_tx list \<Rightarrow> int \<Rightarrow> ctx \<Rightarrow> ctx" where
  "enter_inner g fee c = c\<lparr>c_remainingFee := fee, c_tx := hd g, c_txAt := 0, c_gtxs := g, c_isInnerTx := True\<rparr>"

text \<open>The current transaction and its group are put back as copies, so that neither is a member of the other any more.\<close>

definition leave_inner :: "interp \<Rightarrow> ctx \<Rightarrow> ctx" where
  "leave_inner s c = c\<lparr>c_tx := c_tx s, c_txAt := -1, c_gtxs := c_gtxs s, c_isInnerTx := False\<rparr>"

text \<open>The interpreter with another context.\<close>

definition with_ctx :: "interp \<Rightarrow> ctx \<Rightarrow> interp" where
  "with_ctx s c = ctx.extend c (ctx.more s)"

definition run_inner :: "(ctx, unit) exec \<Rightarrow> int \<Rightarrow> unit opM" where
  "run_inner act fee = (\<lambda>s.
     let g = i_currentInnerTxnGroup s
     in case act (enter_inner g fee (ctx.truncate s)) of
          (Inl e, c) \<Rightarrow>
            (Inl (rethrown e), (with_ctx s (c\<lparr>c_isInnerTx := False\<rparr>))\<lparr>i_currentInnerTxnGroup := []\<rparr>)
        | (Inr _, c) \<Rightarrow>
            (Inr (), (with_ctx s (leave_inner s c))\<lparr>i_currentInnerTxnGroup := [],
               i_innerTxnGroups := i_innerTxnGroups s @ [g]\<rparr>))"

text \<open>A group with a call that is not to an existing application is not submitted, and stays the current one.\<close>

definition submit_group :: "submitter \<Rightarrow> enc_tx list \<Rightarrow> int \<Rightarrow> account \<Rightarrow> int opM" where
  "submit_group U cur fee contractAccount =
     (if list_ex (\<lambda>tx. tx_type tx = APPLICATION_CALL \<and> \<not> isEncTxApplicationCall tx) cur then computeCost
      else
        seqM (modifyM (\<lambda>s. s\<lparr>c_budget := c_budget s +
            MAX_APP_PROGRAM_COST * int (length (filter (\<lambda>txn. tx_type txn = APPLICATION_CALL) cur))\<rparr>))
       (bindM (getM (\<lambda>s. sub_convert U (address contractAccount) (ctx.truncate s) cur)) (\<lambda>r.
        bindM (liftM r) (\<lambda>act. seqM (run_inner act fee) computeCost))))"

definition ITxnSubmit_execute :: "sdk \<Rightarrow> submitter \<Rightarrow> int opM" where
  "ITxnSubmit_execute X U =
     bindM (getM i_currentInnerTxnGroup) (\<lambda>cur.
     seqM (assertM (cur \<noteq> []) (TEAL ITXN_SUBMIT_WITHOUT_ITXN_BEGIN))
    (bindM (getM calculateInnerTxCredit) (\<lambda>credit.
     seqM (assertM (0 \<le> cr_remainingFee credit) (TRANSACTION FEES_NOT_ENOUGH))
    (bindM (getM current_app) (\<lambda>appID.
     bindM (liftM (sub_account U (getApplicationAddress X appID))) (\<lambda>contractAccount.
       submit_group U cur (cr_remainingFee credit) contractAccount))))))"

section \<open>Reading the last group\<close>

definition assertInnerTransactionExists :: "unit opM" where
  "assertInnerTransactionExists =
     bindM (getM i_innerTxnGroups) (\<lambda>gs. assertM (gs \<noteq> []) (TEAL NO_INNER_TRANSACTION_AVAILABLE))"

text \<open>\<^verbatim>\<open>result === undefined || Object(result).length === 0\<close>\<close>

definition no_value :: "stack_elem option \<Rightarrow> bool opM" where
  "no_value x = (case x of
     None \<Rightarrow> returnM True
   | Some (BigInt _) \<Rightarrow> returnM False
   | Some (Bytes r) \<Rightarrow> bindM (derefM r) (\<lambda>b. returnM (b = [])))"

definition executeITxn :: "string \<Rightarrow> int \<Rightarrow> stack_elem option opM" where
  "executeITxn field idx =
     bindM (getM (\<lambda>s. last (last (i_innerTxnGroups s)))) (\<lambda>tx.
      if field = ''Logs'' then
        bindM (receipt_of tx) (\<lambda>rc. let logs = or_empty (Option.bind rc rc_logs)
          in seqM (checkIndexBound idx logs) (returnM (Some (Bytes (logs ! nat idx)))))
      else if field = ''NumLogs'' then
        bindM (receipt_of tx) (\<lambda>rc. returnM (Some (BigInt (int (length (or_empty (Option.bind rc rc_logs)))))))
      else bindM (txnSpecByField field tx 0) (\<lambda>result. bindM (no_value result) (\<lambda>none.
             if none then txAppArg field tx idx else returnM result)))"

definition ITxn_execute :: "string \<Rightarrow> int \<Rightarrow> int opM" where
  "ITxn_execute field idx =
     seqM assertInnerTransactionExists
    (bindM (executeITxn field idx) (\<lambda>result. seqM (push_elem result) computeCost))"

definition ITxna_execute :: "string \<Rightarrow> int \<Rightarrow> int opM" where
  "ITxna_execute field idx =
     seqM assertInnerTransactionExists
    (bindM (executeITxn field idx) (\<lambda>result. seqM (push_elem result) computeCost))"

definition ITxnas_execute :: "string \<Rightarrow> int opM" where
  "ITxnas_execute field =
     seqM (assertMinStackLen 1) (bindM popBigInt (\<lambda>idx. ITxna_execute field (js_Number idx)))"

definition last_group_value :: "int \<Rightarrow> string \<Rightarrow> int option \<Rightarrow> int opM" where
  "last_group_value txIdx field fieldIdx =
     bindM (getM i_innerTxnGroups) (\<lambda>gs.
       if gs = [] then bindM (assertUint8 txIdx) (\<lambda>_. throwM (JsError TypeError))
       else group_value (last gs) txIdx field fieldIdx)"

definition Gitxn_execute :: "int \<Rightarrow> string \<Rightarrow> int option \<Rightarrow> int opM" where
  "Gitxn_execute txIdx field fieldIdx = last_group_value txIdx field fieldIdx"

definition Gitxna_execute :: "int \<Rightarrow> string \<Rightarrow> int \<Rightarrow> int opM" where
  "Gitxna_execute txIdx field fieldIdx = last_group_value txIdx field (Some fieldIdx)"

definition Gitxnas_execute :: "int \<Rightarrow> string \<Rightarrow> int opM" where
  "Gitxnas_execute txIdx field =
     seqM (assertMinStackLen 1) (bindM popBigInt (\<lambda>top. Gitxna_execute txIdx field (js_Number top)))"

fun inner_execute :: "sdk \<Rightarrow> submitter \<Rightarrow> inner_op \<Rightarrow> int opM" where
    "inner_execute X U ITxnBegin = ITxnBegin_execute X"
  | "inner_execute X U (ITxnField f) = ITxnField_execute X f"
  | "inner_execute X U ITxnNext = ITxnNext_execute X"
  | "inner_execute X U ITxnSubmit = ITxnSubmit_execute X U"
  | "inner_execute X U (ITxn f i) = ITxn_execute f i"
  | "inner_execute X U (ITxna f i) = ITxna_execute f i"
  | "inner_execute X U (ITxnas f) = ITxnas_execute f"
  | "inner_execute X U (Gitxn t f i) = Gitxn_execute t f i"
  | "inner_execute X U (Gitxna t f i) = Gitxna_execute t f i"
  | "inner_execute X U (Gitxnas t f) = Gitxnas_execute t f"

lemmas inner_defs =
  ITxnBegin_execute_def ITxnField_execute_def ITxnNext_execute_def ITxnSubmit_execute_def submit_group_def
  ITxn_execute_def
  ITxna_execute_def ITxnas_execute_def Gitxn_execute_def Gitxna_execute_def Gitxnas_execute_def
  last_group_value_def executeITxn_def assertInnerTransactionExists_def no_value_def

text \<open>A submitter that runs nothing, for the witnesses.\<close>

definition idle_submitter :: submitter where
  "idle_submitter = \<lparr>sub_account = (\<lambda>a. Inr (new_AccountStore 0 a [] None)), sub_convert = (\<lambda>a c g. Inr (returnM ()))\<rparr>"

end
