(* ===== verification/TEAL_Frame.thy ===== *)
theory TEAL_Frame
  imports TEAL_Flow TEAL_LedgerOps TEAL_Bytes TEAL_CryptoOps TEAL_InnerOps
begin

text \<open>
  What every opcode leaves alone, and what it charges. Two syntax-directed calculi over the monad: one for
  the parts of the interpreter that no opcode but a jump changes, one for the lower bound of the cost
  an opcode returns. They carry the termination proof of the main loop.
\<close>

named_theorems frame_intros \<open>rules for the frame of a method\<close>
named_theorems cost_intros \<open>rules for the cost of a method\<close>

section \<open>Dispatch\<close>

fun op_execute :: "sdk \<Rightarrow> submitter \<Rightarrow> instr \<Rightarrow> int opM" where
    "op_execute X U (Arith a) = arith_execute X a"
  | "op_execute X U (BytesI b) = bytes_execute b"
  | "op_execute X U (StackI t) = stack_execute t"
  | "op_execute X U (Const c) = const_execute c"
  | "op_execute X U (Flow f) = flow_execute f"
  | "op_execute X U (Ledger l) = ledger_execute X l"
  | "op_execute X U (Crypto c) = crypto_execute X c"
  | "op_execute X U (Field f) = field_execute X f"
  | "op_execute X U (Inner i) = inner_execute X U i"

section \<open>Frames\<close>

fun flow_of :: "instr \<Rightarrow> flow_op option" where
    "flow_of (Flow f) = Some f"
  | "flow_of _ = None"

text \<open>
  The program, with its version and mode, the costs counted so far and the current transaction:
  \<^verbatim>\<open>extract\<close> may store into its own instruction, but never into a branch or a label. Then what only
  submitting an inner group changes, and what only building one does.
\<close>

definition same_program :: "interp \<Rightarrow> interp \<Rightarrow> bool" where
  "same_program s t \<longleftrightarrow>
     i_tealVersion t = i_tealVersion s \<and> i_mode t = i_mode s \<and> i_gas t = i_gas s \<and> i_cost t = i_cost s \<and>
     c_tx t = c_tx s \<and> i_labelMap t = i_labelMap s \<and>
     length (i_instructions t) = length (i_instructions s) \<and>
     List.map flow_of (i_instructions t) = List.map flow_of (i_instructions s)"

definition same_counts :: "interp \<Rightarrow> interp \<Rightarrow> bool" where
  "same_counts s t \<longleftrightarrow> c_budget t = c_budget s \<and> c_pooledApplCost t = c_pooledApplCost s \<and>
     i_innerTxnGroups t = i_innerTxnGroups s"

definition same_control :: "interp \<Rightarrow> interp \<Rightarrow> bool" where
  "same_control s t \<longleftrightarrow> same_program s t \<and> same_counts s t \<and> c_isInnerTx t = c_isInnerTx s \<and>
     i_currentInnerTxnGroup t = i_currentInnerTxnGroup s"

lemmas control_defs = same_control_def same_program_def same_counts_def

definition same_frame :: "interp \<Rightarrow> interp \<Rightarrow> bool" where
  "same_frame s t \<longleftrightarrow> same_control s t \<and> i_instructionIndex t = i_instructionIndex s"

definition quiet :: "'a opM \<Rightarrow> bool" where
  "quiet m \<longleftrightarrow> (\<forall>s. same_frame s (snd (m s)))"

lemma same_control_refl [simp]: "same_control s s"
  by (simp add: control_defs)

lemma same_control_trans: "same_control s t \<Longrightarrow> same_control t u \<Longrightarrow> same_control s u"
  by (simp add: control_defs)

lemma same_frame_refl [simp]: "same_frame s s"
  by (simp add: same_frame_def)

lemma same_frame_trans: "same_frame s t \<Longrightarrow> same_frame t u \<Longrightarrow> same_frame s u"
  by (auto simp: same_frame_def intro: same_control_trans)

lemma quietD: "quiet m \<Longrightarrow> same_frame s (snd (m s))"
  by (simp add: quiet_def)

lemma quiet_bind [frame_intros]: "quiet m \<Longrightarrow> (\<And>a. quiet (f a)) \<Longrightarrow> quiet (bindM m f)"
  unfolding quiet_def bindM_def
  by (auto split: prod.splits sum.splits) (metis same_frame_trans snd_conv)+

lemma quiet_seq [frame_intros]: "quiet m \<Longrightarrow> quiet n \<Longrightarrow> quiet (seqM m n)"
  unfolding seqM_def by (rule quiet_bind)

lemma quiet_basic [frame_intros]:
  "quiet (returnM a)" "quiet (throwM e)" "quiet (getM g)" "quiet (assertM c e)" "quiet (liftM r)"
  "quiet (askM q)" "quiet (someM e x)"
  by (auto simp: quiet_def exec_simps someM_def split: option.splits)

lemma quiet_read [frame_intros]: "quiet (\<lambda>s. (g s, s))"
  by (simp add: quiet_def)

lemma quiet_if [frame_intros]: "(c \<Longrightarrow> quiet m) \<Longrightarrow> (\<not> c \<Longrightarrow> quiet n) \<Longrightarrow> quiet (if c then m else n)"
  by simp

lemma quiet_let [frame_intros]: "quiet (f x) \<Longrightarrow> quiet (Let x f)"
  by simp

lemma quiet_cases [frame_intros]:
  "(\<And>n. quiet (f n)) \<Longrightarrow> (\<And>r. quiet (g r)) \<Longrightarrow> quiet (case x of BigInt n \<Rightarrow> f n | Bytes r \<Rightarrow> g r)"
  "quiet m \<Longrightarrow> (\<And>a. quiet (k a)) \<Longrightarrow> quiet (case z of None \<Rightarrow> m | Some a \<Rightarrow> k a)"
  "(\<And>a b. quiet (p a b)) \<Longrightarrow> quiet (case y of (a, b) \<Rightarrow> p a b)"
  "(\<And>n. quiet (u n)) \<Longrightarrow> (\<And>b. quiet (v b)) \<Longrightarrow> quiet (case w of MInt n \<Rightarrow> u n | MBool b \<Rightarrow> v b)"
  by (simp_all split: stack_elem.split option.split prod.split math_result.split)

lemma quiet_modify [frame_intros]:
  "(\<And>s. same_frame s (f s)) \<Longrightarrow> quiet (modifyM f)"
  by (simp add: quiet_def exec_simps)

lemma quiet_on_ledger [frame_intros]: "quiet (on_ledger m)"
  by (simp add: quiet_def exec_simps same_frame_def control_defs)

lemma quiet_primitives [frame_intros]:
  "quiet popM" "quiet (pushM x)" "quiet (newM b)" "quiet (derefM r)" "quiet (assertMinStackLen n)"
  by (auto simp: quiet_def popM_def pushM_def newM_def derefM_def assertMinStackLen_def exec_simps
      same_frame_def control_defs split: sum.splits prod.splits)

lemma quiet_forM [frame_intros]: "(\<And>x. quiet (f x)) \<Longrightarrow> quiet (forM xs f)"
  by (induction xs) (auto intro: frame_intros)

lemma quiet_popsM [frame_intros]: "quiet (popsM n)"
  by (induction n) (auto intro!: frame_intros)

lemma quiet_checks [frame_intros]:
  "quiet (pushBigInt n)" "quiet (pushBytesM b)" "quiet (checkOverflow n v)" "quiet (checkUnderflow n)"
  "quiet (checkIndexBound i xs)" "quiet (assertArrLength xs)" "quiet (assertBigInt a)" "quiet (assertBytes a)"
  "quiet (assertBytesMax a k)" "quiet (assertUint8 n)" "quiet (assert64BitIndex n)" "quiet (assertBytesIndex i b)"
  "quiet (subString b i j)" "quiet (opExtractImpl b i j)" "quiet (pushBooleanCheck c)" "quiet computeCost"
  unfolding pushBytesM_def pushBigInt_def checkOverflow_def checkUnderflow_def checkIndexBound_def
    assertArrLength_def assertBigInt_def assertBytes_def assertBytesMax_def assertUint8_def
    assert64BitIndex_def assertBytesIndex_def subString_def opExtractImpl_def pushBooleanCheck_def
    computeCost_def
  by (intro frame_intros)+

lemma quiet_pops [frame_intros]:
  "quiet popBigInt" "quiet popBytesRef" "quiet popBytes" "quiet (popBytesMax k)" "quiet (push_wide n)"
  "quiet (pushBytesMax b k)" "quiet (pushesM xs)" "quiet scratchM"
  unfolding popBigInt_def popBytesRef_def popBytes_def popBytesMax_def push_wide_def pushBytesMax_def
    pushesM_def scratchM_def
  by (intro frame_intros)+

lemmas bytes_defs = Len_execute_def Concat_execute_def Substring_execute_def Substring3_execute_def
  SetBit_execute_def GetBit_execute_def SetByte_execute_def GetByte_execute_def Extract3_execute_def
  ExtractUintN_execute_def ByteOp_execute_def ByteBitwiseInvert_execute_def ByteZero_execute_def
  Bsqrt_execute_def Replace_execute_def Replace2_execute_def Replace3_execute_def writeM_def

lemmas ledger_defs = find_account_def getAccountFromAddr_def getAccountFromReference_def
  interp_getAccount_def getAppIDByReference_def getAssetIDByReference_def interp_getGlobalState_def
  interp_setGlobalState_def push_value_def push_value_flag_def AppOptedIn_execute_def
  AppLocalGet_execute_def AppLocalGetEx_execute_def AppGlobalGet_execute_def AppGlobalGetEx_execute_def
  AppLocalPut_execute_def AppGlobalPut_execute_def AppLocalDel_execute_def AppGlobalDel_execute_def
  Balance_execute_def MinBalance_execute_def GetAssetHolding_execute_def assertAlgorandAddress_def
  AcctParamsGet_execute_def put_logs_def Log_execute_def Gaid_execute_def Gaids_execute_def

lemma quiet_createAccount [frame_intros]: "quiet (createAccountIfAbsent a)"
  by (auto simp: createAccountIfAbsent_def same_frame_def control_defs split: option.splits
      intro!: frame_intros)

lemma quiet_arith [frame_intros]: "quiet (arith_execute X op)"
  by (cases op; simp only: arith_execute.simps arith_defs; intro frame_intros)

lemma quiet_stack [frame_intros]: "quiet (stack_execute op)"
  by (cases op; simp only: stack_execute.simps stack_defs; intro frame_intros;
      simp add: same_frame_def control_defs)

lemma quiet_const [frame_intros]: "quiet (const_execute op)"
  by (cases op; simp only: const_execute.simps const_defs; intro frame_intros;
      simp add: same_frame_def control_defs)

lemma quiet_write [frame_intros]: "quiet (writeM r i v)"
  by (auto simp: writeM_def same_frame_def control_defs intro!: frame_intros)

lemma quiet_ledger [frame_intros]: "quiet (ledger_execute X op)"
  by (cases op; simp only: ledger_execute.simps ledger_defs; intro frame_intros;
      auto simp: same_frame_def control_defs split: acct_field.splits holding_field.splits intro!: frame_intros)

lemma quiet_bytes:
  assumes "\<And>a b. op \<noteq> Extract a b"
  shows "quiet (bytes_execute op)"
proof (cases op)
  case (Extract a b)
  then show ?thesis using assms by blast
qed (simp only: bytes_execute.simps bytes_defs; intro frame_intros;
     auto simp: same_frame_def control_defs intro!: frame_intros)+

text \<open>The readers of fields, from the values up.\<close>

lemma quiet_data_cases [frame_intros]:
  "quiet m1 \<Longrightarrow> (\<And>n. quiet (m2 n)) \<Longrightarrow> (\<And>b. quiet (m3 b)) \<Longrightarrow> (\<And>r. quiet (m4 r)) \<Longrightarrow> (\<And>t. quiet (m5 t)) \<Longrightarrow>
    quiet m6 \<Longrightarrow> quiet (case x of RUndef \<Rightarrow> m1 | RNum n \<Rightarrow> m2 n | RBuf b \<Rightarrow> m3 b | RArr r \<Rightarrow> m4 r | RStr t \<Rightarrow> m5 t | ROther \<Rightarrow> m6)"
  "quiet d1 \<Longrightarrow> quiet d2 \<Longrightarrow> quiet d3 \<Longrightarrow> quiet (case y of ZeroAddress \<Rightarrow> d1 | ZeroUint64 \<Rightarrow> d2 | ZeroByte \<Rightarrow> d3)"
  "(\<And>n. quiet (g1 n)) \<Longrightarrow> quiet g2 \<Longrightarrow> quiet g3 \<Longrightarrow> quiet (case z of GNumber n \<Rightarrow> g1 n | GZeroAddress \<Rightarrow> g2 | GNull \<Rightarrow> g3)"
  by (simp_all split: raw.split field_default.split global_value.split)

lemma quiet_values [frame_intros]:
  "quiet (default_elem f)" "quiet (check_bytes f b)" "quiet (copied f b)" "quiet (parseToStackElem a f)"
  "quiet (push_elem x)" "quiet (receipt_of tx)" "quiet (assertRoundIsAvailable i)" "quiet (interp_getBlock i)"
  unfolding default_elem_def check_bytes_def copied_def parseToStackElem_def push_elem_def receipt_of_def
    assertRoundIsAvailable_def interp_getBlock_def
  by (intro frame_intros)+

lemma quiet_fields [frame_intros]:
  "quiet (computed_field f tx i)" "quiet (txnSpecByField f tx i)" "quiet (program_page e b i f)"
  "quiet (array_elem f tx i)" "quiet (txAppArg f tx i)" "quiet (tx_value f o' tx i)" "quiet (group_value g i f o')"
  unfolding computed_field_def txnSpecByField_def program_page_def array_elem_def txAppArg_def tx_value_def
    group_value_def
  by (intro frame_intros)+

lemma quiet_pushes [frame_intros]:
  "quiet (push_address X a)" "quiet (push_global X f)" "quiet (push_asset_param X f d)" "quiet (push_app_param X f i app)"
  unfolding push_address_def push_global_def push_asset_param_def push_app_param_def
  by (intro frame_intros)+

lemma quiet_refs [frame_intros]:
  "quiet (getAssetIDByReference i b)" "quiet (interp_getAccount X x b1 b2)" "quiet (assertAlgorandAddress X x)"
  unfolding ledger_defs by (intro frame_intros)+

lemma quiet_field [frame_intros]: "quiet (field_execute X op)"
  by (cases op; simp only: field_execute.simps field_defs; intro frame_intros)

lemma quiet_crypto_parts [frame_intros]: "quiet (hash_cost a)" "quiet (push_point q)" "quiet (json_push t v)"
proof -
  show "quiet (hash_cost a)"
    by (cases a; simp only: hash_cost.simps version_gas_def; intro frame_intros)
  show "quiet (push_point q)" unfolding push_point_def by (intro frame_intros)
  show "quiet (json_push t v)" by (cases v; simp only: json_push.simps; intro frame_intros)
qed

lemma quiet_crypto [frame_intros]: "quiet (crypto_execute X op)"
  by (cases op; simp only: crypto_execute.simps crypto_defs; intro frame_intros)

text \<open>Of the inner family, everything but the four opcodes that build and submit a group.\<close>

fun builds :: "inner_op \<Rightarrow> bool" where
    "builds ITxnBegin = True"
  | "builds (ITxnField _) = True"
  | "builds ITxnNext = True"
  | "builds ITxnSubmit = True"
  | "builds _ = False"

lemma quiet_inner_read: "\<not> builds op \<Longrightarrow> quiet (inner_execute X U op)"
  by (cases op; simp only: inner_execute.simps inner_defs builds.simps; intro frame_intros; simp)

text \<open>\<^verbatim>\<open>extract\<close> replaces its own instruction by an \<^verbatim>\<open>extract\<close>.\<close>

definition at_plain :: "interp \<Rightarrow> bool" where
  "at_plain s \<longleftrightarrow> i_instructionIndex s < length (i_instructions s) \<and>
     flow_of (i_instructions s ! i_instructionIndex s) = None"

lemma at_plain_frame: "at_plain s \<Longrightarrow> same_frame s t \<Longrightarrow> at_plain t"
  unfolding at_plain_def same_frame_def control_defs by (metis nth_map)

lemma frame_bind_plain:
  assumes "at_plain s" "quiet m" "\<And>a u. at_plain u \<Longrightarrow> same_frame u (snd (f a u))"
  shows "same_frame s (snd (bindM m f s))"
proof (cases "m s")
  case (Pair r u)
  have u: "same_frame s u" using assms(2) Pair by (simp add: quiet_def) (metis snd_conv)
  then have "at_plain u" by (rule at_plain_frame [OF assms(1)])
  then show ?thesis
    using u assms(3) [of u] Pair by (cases r) (auto simp: bindM_def intro: same_frame_trans)
qed

lemma frame_seq_quiet:
  assumes "same_frame s (snd (m s))" "quiet n"
  shows "same_frame s (snd (seqM m n s))"
proof (cases "m s")
  case (Pair r u)
  then show ?thesis
    using assms(1) quietD [OF assms(2), of u]
    by (cases r) (auto simp: seqM_def bindM_def intro: same_frame_trans)
qed

lemma set_instr_plain:
  assumes "at_plain s"
  shows "same_frame s (snd (set_instr (BytesI b) s))"
proof -
  have "List.map flow_of (i_instructions s) ! i_instructionIndex s = None"
    using assms by (simp add: at_plain_def)
  then have "(List.map flow_of (i_instructions s))[i_instructionIndex s := None] = List.map flow_of (i_instructions s)"
    by (metis list_update_id)
  then show ?thesis
    by (simp add: set_instr_def exec_simps same_frame_def control_defs map_update)
qed

lemma Extract_frame:
  assumes "at_plain s"
  shows "same_frame s (snd (Extract_execute a b s))"
proof -
  have rest: "same_frame u (snd (seqM (if b = 0 then set_instr (BytesI (Extract a l)) else returnM ())
      (bindM (opExtractImpl x a l) (\<lambda>y. seqM (pushBytesM y) computeCost)) u))"
    if u: "at_plain u" for u x l
  proof -
    have q: "quiet (bindM (opExtractImpl x a l) (\<lambda>y. seqM (pushBytesM y) computeCost))"
      by (intro frame_intros)
    have "same_frame u (snd ((if b = 0 then set_instr (BytesI (Extract a l)) else returnM ()) u))"
      using set_instr_plain [OF u] by (simp add: exec_simps)
    then show ?thesis by (rule frame_seq_quiet [OF _ q])
  qed
  show ?thesis
    unfolding Extract_execute_def seqM_def [of "assertMinStackLen 1"]
    by (rule frame_bind_plain [OF assms quiet_primitives(5)], rule frame_bind_plain [OF _ quiet_pops(3)],
        assumption) (simp only: Let_def rest)
qed

section \<open>Costs\<close>

text \<open>Whatever an opcode returns is at least 1; it throws or returns.\<close>

definition costs :: "int opM \<Rightarrow> bool" where
  "costs m \<longleftrightarrow> (\<forall>s c t. m s = (Inr c, t) \<longrightarrow> 1 \<le> c)"

lemma costs_bind [cost_intros]: "(\<And>a. costs (f a)) \<Longrightarrow> costs (bindM m f)"
  by (fastforce simp: costs_def bindM_def split: prod.splits sum.splits)

lemma costs_seq [cost_intros]: "costs n \<Longrightarrow> costs (seqM m n)"
  unfolding seqM_def by (rule costs_bind)

lemma costs_basic [cost_intros]: "costs computeCost" "costs (throwM e)" "1 \<le> c \<Longrightarrow> costs (returnM c)"
  by (simp_all add: costs_def exec_simps)

lemma costs_if [cost_intros]: "(c \<Longrightarrow> costs m) \<Longrightarrow> (\<not> c \<Longrightarrow> costs n) \<Longrightarrow> costs (if c then m else n)"
  by simp

lemma costs_let [cost_intros]: "costs (f x) \<Longrightarrow> costs (Let x f)"
  by simp

lemma costs_cases [cost_intros]:
  "(\<And>n. costs (f n)) \<Longrightarrow> (\<And>r. costs (g r)) \<Longrightarrow> costs (case x of BigInt n \<Rightarrow> f n | Bytes r \<Rightarrow> g r)"
  "costs m \<Longrightarrow> (\<And>a. costs (k a)) \<Longrightarrow> costs (case z of None \<Rightarrow> m | Some a \<Rightarrow> k a)"
  "(\<And>a b. costs (p a b)) \<Longrightarrow> costs (case y of (a, b) \<Rightarrow> p a b)"
  by (simp_all split: stack_elem.split option.split prod.split)

lemma gas_ge1: "1 \<le> the (OpGasCost 4 ''b~'')" "1 \<le> the (OpGasCost 6 ''bsqrt'')"
  "1 \<le> the (OpGasCost 4 ''b+'')" "1 \<le> the (OpGasCost 4 ''b*'')" "1 \<le> the (OpGasCost 4 ''b|'')"
  by code_simp+

lemma byteop_cost_ge1: "1 \<le> byteop_cost op"
  by (cases op) (simp_all add: gas_ge1)

lemma costs_arith [cost_intros]: "costs (arith_execute X op)"
  by (cases op; simp only: arith_execute.simps arith_defs; intro cost_intros)

lemma costs_bytes [cost_intros]: "costs (bytes_execute op)"
  by (cases op; simp only: bytes_execute.simps bytes_defs Extract_execute_def; intro cost_intros byteop_cost_ge1 gas_ge1)

lemma costs_stack [cost_intros]: "costs (stack_execute op)"
  by (cases op; simp only: stack_execute.simps stack_defs; intro cost_intros)

lemma costs_const [cost_intros]: "costs (const_execute op)"
  by (cases op; simp only: const_execute.simps const_defs; intro cost_intros)

lemma costs_ledger [cost_intros]: "costs (ledger_execute X op)"
  by (cases op; simp only: ledger_execute.simps ledger_defs; intro cost_intros)

lemma costs_fields [cost_intros]:
  "costs (group_value g i f o')"
  unfolding group_value_def by (intro cost_intros)

lemma costs_field [cost_intros]: "costs (field_execute X op)"
  by (cases op; simp only: field_execute.simps field_defs; intro cost_intros)

lemma crypto_cost_ge1:
  "1 \<le> the (OpGasCost 1 ''ed25519verify'')" "1 \<le> the (OpGasCost 7 ''ed25519verify_bare'')"
  "1 \<le> the (OpGasCost 5 ''ecdsa_pk_recover'')" "1 \<le> the (OpGasCost 7 ''vrf_verify'')"
  "1 \<le> the (OpGasCost 7 ''sha3_256'')"
  "1 \<le> curve_cost c ''ecdsa_verify''" "1 \<le> curve_cost c ''ecdsa_pk_decompress''"
proof -
  show "1 \<le> the (OpGasCost 1 ''ed25519verify'')" "1 \<le> the (OpGasCost 7 ''ed25519verify_bare'')"
    "1 \<le> the (OpGasCost 5 ''ecdsa_pk_recover'')" "1 \<le> the (OpGasCost 7 ''vrf_verify'')"
    "1 \<le> the (OpGasCost 7 ''sha3_256'')"
    by code_simp+
  have "1 \<le> the (OpGasCost 5 ''ecdsa_verify'') \<and> 1 \<le> the (OpGasCost 7 ''ecdsa_verify'') \<and>
      1 \<le> the (OpGasCost 5 ''ecdsa_pk_decompress'') \<and> 1 \<le> the (OpGasCost 7 ''ecdsa_pk_decompress'')"
    by code_simp
  then show "1 \<le> curve_cost c ''ecdsa_verify''" "1 \<le> curve_cost c ''ecdsa_pk_decompress''"
    by (simp_all add: curve_cost_def)
qed

lemma costs_hash [cost_intros]: "costs (hash_cost a)"
  by (cases a) (auto simp: costs_def version_gas_def bindM_Inr getM_def returnM_def throwM_def someM_def crypto_cost_ge1
      split: option.splits dest: OpGasCost_ge1)

lemma ceil_div_ge0: "0 \<le> ceil_div n k"
  by (simp add: ceil_div_def)

lemma costs_crypto [cost_intros]: "costs (crypto_execute X op)"
  by (cases op; simp only: crypto_execute.simps crypto_defs; intro cost_intros crypto_cost_ge1;
      simp add: ceil_div_ge0)

lemma costs_inner [cost_intros]: "costs (inner_execute X U op)"
  by (cases op; simp only: inner_execute.simps inner_defs; intro cost_intros)

lemma costs_flow [cost_intros]:
  assumes "\<And>n. op \<noteq> Pragma n" "\<And>l. op \<noteq> Label l"
  shows "costs (flow_execute op)"
proof (cases op)
  case (Pragma n)
  then show ?thesis using assms by blast
next
  case (Label l)
  then show ?thesis using assms by blast
qed (simp only: flow_execute.simps flow_defs; intro cost_intros)+

section \<open>Inner groups\<close>

text \<open>A group is under construction only while fewer than 16 were submitted.\<close>

definition room :: "interp \<Rightarrow> bool" where
  "room s \<longleftrightarrow> (i_currentInnerTxnGroup s \<noteq> [] \<longrightarrow> length (i_innerTxnGroups s) < MAX_INNER_TRANSACTIONS)"

text \<open>What running a group may do to the costs of the context: they and the budget only grow.\<close>

definition grows :: "submitter \<Rightarrow> bool" where
  "grows U \<longleftrightarrow> (\<forall>a c0 g act c r c'. sub_convert U a c0 g = Inr act \<longrightarrow> act c = (r, c') \<longrightarrow>
     c_pooledApplCost c \<le> c_pooledApplCost c' \<and> c_budget c \<le> c_budget c')"

lemma grows_idle: "grows idle_submitter"
  by (auto simp: grows_def idle_submitter_def returnM_def)

lemma with_ctx_simps [simp]:
  "c_tx (with_ctx s c) = c_tx c" "c_budget (with_ctx s c) = c_budget c"
  "c_pooledApplCost (with_ctx s c) = c_pooledApplCost c" "c_isInnerTx (with_ctx s c) = c_isInnerTx c"
  "c_state (with_ctx s c) = c_state c" "c_gtxs (with_ctx s c) = c_gtxs c" "c_txAt (with_ctx s c) = c_txAt c"
  "i_tealVersion (with_ctx s c) = i_tealVersion s" "i_mode (with_ctx s c) = i_mode s"
  "i_gas (with_ctx s c) = i_gas s" "i_cost (with_ctx s c) = i_cost s" "i_labelMap (with_ctx s c) = i_labelMap s"
  "i_instructions (with_ctx s c) = i_instructions s" "i_stack (with_ctx s c) = i_stack s"
  "i_instructionIndex (with_ctx s c) = i_instructionIndex s"
  "i_innerTxnGroups (with_ctx s c) = i_innerTxnGroups s"
  "i_currentInnerTxnGroup (with_ctx s c) = i_currentInnerTxnGroup s"
  by (cases s; simp add: with_ctx_def ctx.defs)+

lemma frame_program: "same_frame s u \<Longrightarrow> same_program s u \<and> same_counts s u \<and> i_instructionIndex u = i_instructionIndex s"
  by (simp add: same_frame_def same_control_def)

lemma quiet_Inr: "quiet m \<Longrightarrow> m s = (Inr a, u) \<Longrightarrow> same_frame s u"
  using quietD [of m s] by simp

lemma quiet_inner_parts [frame_intros]:
  "quiet (addInnerTransaction X)" "quiet (field_value X f v)" "quiet assertInnerRoom"
  unfolding addInnerTransaction_def field_value_def assertInnerRoom_def by (intro frame_intros)+

lemma quiet_setInnerTxField [frame_intros]: "quiet (setInnerTxField X tx f v)"
  unfolding setInnerTxField_def by (intro frame_intros)

lemma set_current_Inr [simp]: "set_current g s = (Inr x, u) \<longleftrightarrow> u = s\<lparr>i_currentInnerTxnGroup := g\<rparr>"
  by (auto simp: set_current_def exec_simps)

lemma assertInnerRoom_Inr:
  "assertInnerRoom s = (Inr x, u) \<longleftrightarrow> u = s \<and> length (i_innerTxnGroups s) < MAX_INNER_TRANSACTIONS"
  by (auto simp: assertInnerRoom_def exec_simps)

lemma computeCost_Inr [simp]: "computeCost s = (Inr c, u) \<longleftrightarrow> c = 1 \<and> u = s"
  by (auto simp: computeCost_def exec_simps)

lemma monad_Inr:
  "getM f s = (Inr a, t) \<longleftrightarrow> a = f s \<and> t = s"
  "assertM b e s = (Inr x, t) \<longleftrightarrow> b \<and> t = s"
  "liftM r s = (Inr a, t) \<longleftrightarrow> r = Inr a \<and> t = s"
  "modifyM h s = (Inr x, t) \<longleftrightarrow> t = h s"
  "returnM d s = (Inr a, t) \<longleftrightarrow> a = d \<and> t = s"
  "seqM m n s = (Inr d, t) \<longleftrightarrow> (\<exists>y s'. m s = (Inr y, s') \<and> n s' = (Inr d, t))"
  by (auto simp: monad_apply bindM_Inr)

lemma run_inner_Inr:
  "run_inner act fee s = (Inr x, u) \<longleftrightarrow> (\<exists>y c'. act (enter_inner (i_currentInnerTxnGroup s) fee (ctx.truncate s)) = (Inr y, c') \<and>
     u = (with_ctx s (leave_inner s c'))\<lparr>i_currentInnerTxnGroup := [],
               i_innerTxnGroups := i_innerTxnGroups s @ [i_currentInnerTxnGroup s]\<rparr>)"
  by (auto simp: run_inner_def Let_def split: prod.splits sum.splits)

text \<open>\<^verbatim>\<open>itxn_begin\<close>, \<^verbatim>\<open>itxn_next\<close> and \<^verbatim>\<open>itxn_field\<close> leave a group that is not empty.\<close>

lemma build_Inr:
  assumes "inner_execute X U op s = (Inr c, u)" "op \<noteq> ITxnSubmit" "room s"
  shows "same_program s u \<and> same_counts s u \<and> i_instructionIndex u = i_instructionIndex s \<and> room u"
proof (cases "builds op")
  case False
  from quiet_Inr [OF quiet_inner_read [OF False] assms(1)] show ?thesis
    using assms(3) by (simp add: same_frame_def control_defs room_def)
next
  case True
  have "\<exists>v g. same_frame s v \<and> u = v\<lparr>i_currentInnerTxnGroup := g\<rparr> \<and> length (i_innerTxnGroups s) < MAX_INNER_TRANSACTIONS"
  proof (cases op)
    case ITxnBegin
    then obtain v itx where a: "addInnerTransaction X s = (Inr itx, v)" "u = v\<lparr>i_currentInnerTxnGroup := [itx]\<rparr>"
      "length (i_innerTxnGroups s) < MAX_INNER_TRANSACTIONS"
      using assms(1)
      by (auto simp: ITxnBegin_execute_def bindM_Inr monad_Inr assertInnerRoom_Inr)
    have "same_frame s v" using quietD [OF quiet_inner_parts(1), of s X] a(1) by simp
    then show ?thesis using a(2,3) by blast
  next
    case ITxnNext
    then obtain v itx where a: "addInnerTransaction X s = (Inr itx, v)"
      "u = v\<lparr>i_currentInnerTxnGroup := i_currentInnerTxnGroup s @ [itx]\<rparr>"
      "length (i_innerTxnGroups s) < MAX_INNER_TRANSACTIONS"
      using assms(1)
      by (auto simp: ITxnNext_execute_def bindM_Inr monad_Inr assertInnerRoom_Inr)
    have "same_frame s v" using quietD [OF quiet_inner_parts(1), of s X] a(1) by simp
    then show ?thesis using a(2,3) by blast
  next
    case (ITxnField f)
    then obtain w x v itx where a: "popM s = (Inr x, w)" "i_currentInnerTxnGroup w \<noteq> []"
      "setInnerTxField X (last (i_currentInnerTxnGroup w)) f x w = (Inr itx, v)"
      "u = v\<lparr>i_currentInnerTxnGroup := butlast (i_currentInnerTxnGroup w) @ [itx]\<rparr>"
      using assms(1)
      by (auto simp: ITxnField_execute_def bindM_Inr monad_Inr assertMinStackLen_def split: if_splits)
    have w: "same_frame s w" using quietD [OF quiet_primitives(1), of s] a(1) by simp
    have v: "same_frame w v" by (rule quiet_Inr [OF quiet_setInnerTxField a(3)])
    have "length (i_innerTxnGroups s) < MAX_INNER_TRANSACTIONS"
      using a(2) w assms(3) by (simp add: same_frame_def control_defs room_def)
    then show ?thesis using a(4) same_frame_trans [OF w v] by blast
  qed (use True assms(2) in simp_all)
  then show ?thesis by (auto simp: same_frame_def control_defs room_def)
qed

text \<open>\<^verbatim>\<open>itxn_submit\<close> uses up one of the 16 groups, or does nothing but cost.\<close>

lemma submit_Inr:
  assumes "ITxnSubmit_execute X U s = (Inr c, u)"
  obtains (unsupported) "u = s" "c = 1"
  | (submitted) a act b x c' where "sub_convert U a (ctx.truncate (s\<lparr>c_budget := b\<rparr>)) (i_currentInnerTxnGroup s) = Inr act"
      "c_budget s \<le> b"
      "act (enter_inner (i_currentInnerTxnGroup s) (cr_remainingFee (calculateInnerTxCredit s)) (ctx.truncate (s\<lparr>c_budget := b\<rparr>))) = (Inr x, c')"
      "u = (with_ctx (s\<lparr>c_budget := b\<rparr>) (leave_inner s c'))\<lparr>i_currentInnerTxnGroup := [],
               i_innerTxnGroups := i_innerTxnGroups s @ [i_currentInnerTxnGroup s]\<rparr>"
      "i_currentInnerTxnGroup s \<noteq> []" "c = 1"
proof -
  define b where "b = c_budget s + MAX_APP_PROGRAM_COST *
    int (length (filter (\<lambda>txn. tx_type txn = APPLICATION_CALL) (i_currentInnerTxnGroup s)))"
  have same: "leave_inner (s\<lparr>c_budget := b\<rparr>) c' = leave_inner s c'" for c' by (simp add: leave_inner_def)
  let ?g = "i_currentInnerTxnGroup s" and ?fee = "cr_remainingFee (calculateInnerTxCredit s)"
  obtain acc where a: "?g \<noteq> []" "submit_group U ?g ?fee acc s = (Inr c, u)"
    using assms by (auto simp: ITxnSubmit_execute_def bindM_Inr monad_Inr)
  show thesis
  proof (cases "list_ex (\<lambda>tx. tx_type tx = APPLICATION_CALL \<and> \<not> isEncTxApplicationCall tx) ?g")
    case True
    then show thesis using a(2) unsupported by (simp add: submit_group_def)
  next
    case False
    then obtain act where act: "sub_convert U (address acc) (ctx.truncate (s\<lparr>c_budget := b\<rparr>)) ?g = Inr act"
      "seqM (run_inner act ?fee) computeCost (s\<lparr>c_budget := b\<rparr>) = (Inr c, u)"
      using a(2) unfolding submit_group_def if_not_P [OF False] bindM_Inr monad_Inr b_def by auto
    then obtain y c' where "act (enter_inner ?g ?fee (ctx.truncate (s\<lparr>c_budget := b\<rparr>))) = (Inr y, c')" "c = 1"
      "u = (with_ctx (s\<lparr>c_budget := b\<rparr>) (leave_inner s c'))\<lparr>i_currentInnerTxnGroup := [],
               i_innerTxnGroups := i_innerTxnGroups s @ [?g]\<rparr>"
      by (auto simp: monad_Inr run_inner_Inr same)
    moreover have "c_budget s \<le> b" by (simp add: b_def)
    ultimately show thesis using submitted act a(1) by blast
  qed
qed

lemma submit_effect:
  assumes "ITxnSubmit_execute X U s = (Inr c, u)"
  shows "same_program s u \<and> i_instructionIndex u = i_instructionIndex s"
    and "room s \<Longrightarrow> room u"
    and "u = s \<or> (i_currentInnerTxnGroup s \<noteq> [] \<and> length (i_innerTxnGroups u) = Suc (length (i_innerTxnGroups s)))"
    and "grows U \<Longrightarrow> c_pooledApplCost s \<le> c_pooledApplCost u \<and> c_budget s \<le> c_budget u"
proof -
  show "same_program s u \<and> i_instructionIndex u = i_instructionIndex s"
    using assms by (cases rule: submit_Inr) (simp_all add: same_program_def leave_inner_def)
  show "room s \<Longrightarrow> room u"
    using assms by (cases rule: submit_Inr) (simp_all add: room_def)
  show "u = s \<or> (i_currentInnerTxnGroup s \<noteq> [] \<and> length (i_innerTxnGroups u) = Suc (length (i_innerTxnGroups s)))"
    using assms by (cases rule: submit_Inr) simp_all
  show "c_pooledApplCost s \<le> c_pooledApplCost u \<and> c_budget s \<le> c_budget u" if "grows U"
    using assms
  proof (cases rule: submit_Inr)
    case (submitted a act b x c')
    let ?c = "enter_inner (i_currentInnerTxnGroup s) (cr_remainingFee (calculateInnerTxCredit s)) (ctx.truncate (s\<lparr>c_budget := b\<rparr>))"
    have "c_pooledApplCost ?c \<le> c_pooledApplCost c' \<and> c_budget ?c \<le> c_budget c'"
      using that submitted(1,3) unfolding grows_def by blast
    moreover have "c_pooledApplCost ?c = c_pooledApplCost s" "c_budget ?c = b"
      by (simp_all add: enter_inner_def ctx.defs)
    ultimately show ?thesis using submitted(2,4) by (simp add: leave_inner_def)
  qed simp
qed

end
