(* ===== verification/TEAL_Interp.thy ===== *)
theory TEAL_Interp
  imports TEAL_Frame
begin

text \<open>
  The main loop of the interpreter (\<^verbatim>\<open>Interpreter.execute\<close>, \<^verbatim>\<open>executeWithResult\<close>) on a parsed program,
  with the accounting of opcode costs (\<^verbatim>\<open>assertMaxCost\<close>, \<^verbatim>\<open>getBudget\<close>, \<^verbatim>\<open>isAddIntcblock\<close>,
  \<^verbatim>\<open>isAddedBytecblock\<close>) and the check of the transaction's reference arrays. The loop is a
  \<^theory_text>\<open>partial_function\<close>: that it ends is a theorem, which the budget and, in the versions without
  backward jumps, the position in the program give.
\<close>

section \<open>Costs\<close>

definition assertMaxCost :: "int \<Rightarrow> mode \<Rightarrow> int option \<Rightarrow> unit opM" where
  "assertMaxCost gas md maxPooledApplCost =
     (case md of
        SIGNATURE \<Rightarrow> assertM (gas \<le> LOGIC_SIG_MAX_COST) (TEAL MAX_COST_EXCEEDED)
      | APPLICATION \<Rightarrow>
          assertM (gas \<le> (case maxPooledApplCost of None \<Rightarrow> MAX_APP_PROGRAM_COST | Some b \<Rightarrow> b))
            (TEAL MAX_COST_EXCEEDED))"

text \<open>\<^verbatim>\<open>txReceipt.gas = g\<close>; the receipt was looked up before the loop, and is \<^verbatim>\<open>undefined\<close> when there is none.\<close>

definition set_gas :: "int \<Rightarrow> unit opM" where
  "set_gas g = (\<lambda>s.
     case map_of (txReceipts (c_state s)) (tx_txID (c_tx s)) of
       None \<Rightarrow> (Inl (JsError TypeError), s)
     | Some rc \<Rightarrow> (Inr (), s\<lparr>c_state := (c_state s)\<lparr>txReceipts :=
         AList.update (tx_txID (c_tx s)) (rc\<lparr>rc_gas := Some g\<rparr>) (txReceipts (c_state s))\<rparr>\<rparr>))"

definition account_cost :: "int \<Rightarrow> unit opM" where
  "account_cost costFromExecute =
     bindM (getM i_tealVersion) (\<lambda>v.
       if v < 4 then bindM (getM i_gas) set_gas
       else bindM (getM i_mode) (\<lambda>md.
         if md = SIGNATURE
         then bindM (getM i_cost) (\<lambda>cost. seqM (assertMaxCost cost md None) (set_gas cost))
         else seqM (modifyM (\<lambda>s. s\<lparr>c_pooledApplCost := c_pooledApplCost s + costFromExecute\<rparr>))
             (bindM (getM c_pooledApplCost) (\<lambda>pooled. bindM (getM getBudget) (\<lambda>b.
                seqM (assertMaxCost pooled APPLICATION (Some b)) (set_gas pooled))))))"

text \<open>
  The compiler's constant blocks: whether some constant occurs often enough that one would be added.
  \<^verbatim>\<open>counts\<close> is an object used as a map, so a key that every object inherits never counts.
\<close>

definition object_keys :: "string set" where
  "object_keys = {''constructor'', ''__defineGetter__'', ''__defineSetter__'', ''hasOwnProperty'',
     ''__lookupGetter__'', ''__lookupSetter__'', ''isPrototypeOf'', ''propertyIsEnumerable'',
     ''toString'', ''valueOf'', ''__proto__'', ''toLocaleString''}"

fun counts_twice :: "string list \<Rightarrow> (string, nat) jsmap \<Rightarrow> bool" where
    "counts_twice [] counts = False"
  | "counts_twice (k # ks) counts =
      (if k \<in> object_keys then counts_twice ks counts
       else let n = (case map_of counts k of None \<Rightarrow> 0 | Some c \<Rightarrow> c) + 1
            in if 2 \<le> n then True else counts_twice ks (AList.update k n counts))"

fun int_key :: "instr \<Rightarrow> string option" where
    "int_key (Const (IntOp n)) = Some (js_toString 10 n)"
  | "int_key _ = None"

fun byte_key :: "instr \<Rightarrow> string option" where
    "byte_key (Const (Byte str _)) = Some str"
  | "byte_key _ = None"

fun is_Intcblock :: "instr \<Rightarrow> bool" where
    "is_Intcblock (Const (Intcblock _)) = True"
  | "is_Intcblock _ = False"

fun is_Bytecblock :: "instr \<Rightarrow> bool" where
    "is_Bytecblock (Const (Bytecblock _)) = True"
  | "is_Bytecblock _ = False"

definition isAddIntcblock :: "interp \<Rightarrow> bool" where
  "isAddIntcblock s =
     (if i_tealVersion s < 4 then False
      else if list_ex is_Intcblock (take 2 (i_instructions s)) then False
      else counts_twice (List.map_filter int_key (i_instructions s))
        (fold (\<lambda>n. AList.update (js_toString 10 n) 1) (i_intcblock s) []))"

definition isAddedBytecblock :: "interp \<Rightarrow> bool" where
  "isAddedBytecblock s =
     (if i_tealVersion s < 4 then False
      else if list_ex is_Bytecblock (take 2 (i_instructions s)) then False
      else counts_twice (List.map_filter byte_key (i_instructions s))
        (fold (\<lambda>r. AList.update (bytes_toString (deref (c_heap s) r)) 1) (i_bytecblock s) []))"

definition add_block_cost :: "bool \<Rightarrow> unit opM" where
  "add_block_cost b =
     (if b then modifyM (\<lambda>s. s\<lparr>c_pooledApplCost := c_pooledApplCost s + 1, i_cost := i_cost s + 1\<rparr>)
      else returnM ())"

section \<open>The loop\<close>

definition assertValidTxArray :: "unit opM" where
  "assertValidTxArray =
     bindM (getM c_tx) (\<lambda>tx.
     (let appArgsLen = length (or_empty (tx_apaa tx)); foreignAppsLen = length (or_empty (tx_apfa tx));
          foreignAssetsLen = length (or_empty (tx_apas tx)); txAccountsLen = length (or_empty (tx_apat tx));
          totalLen = txAccountsLen + foreignAppsLen + foreignAssetsLen
      in seqM (assertM (appArgsLen \<le> ALGORAND_MAX_APP_ARGS_LEN) (GENERAL INVALID_APP_ARGS_LEN))
        (seqM (assertM (txAccountsLen \<le> ALGORAND_MAX_TX_ACCOUNTS_LEN) (GENERAL INVALID_TX_ACCOUNTS_LEN))
        (assertM (totalLen \<le> ALGORAND_MAX_TX_ARRAY_LEN) (GENERAL MAX_REFERENCES_EXCEEDED)))))"

definition assertInnerVersion :: "unit opM" where
  "assertInnerVersion = (\<lambda>s.
     if c_isInnerTx s \<and> tx_type (c_tx s) = APPLICATION_CALL \<and> i_tealVersion s < MinVersionSupportC2CCall
     then (Inl (TRANSACTION INNER_APP_CALL_INVALID_VERSION), s) else (Inr (), s))"

text \<open>One round of the loop of \<^verbatim>\<open>executeWithResult\<close>.\<close>

definition step :: "sdk \<Rightarrow> submitter \<Rightarrow> unit opM" where
  "step X U =
     bindM (getM (\<lambda>s. i_instructions s ! i_instructionIndex s)) (\<lambda>instruction.
     seqM assertInnerVersion
    (bindM (op_execute X U instruction) (\<lambda>costFromExecute.
     seqM (modifyM (\<lambda>s. s\<lparr>i_cost := i_cost s + costFromExecute\<rparr>))
    (seqM (account_cost costFromExecute)
     (modifyM (\<lambda>s. s\<lparr>i_instructionIndex := i_instructionIndex s + 1\<rparr>))))))"

partial_function (option) run_loop :: "sdk \<Rightarrow> submitter \<Rightarrow> interp \<Rightarrow> ((error + unit) \<times> interp) option" where
  "run_loop X U s =
     (if i_instructionIndex s < length (i_instructions s)
      then (let r = step X U s
            in if isl (fst r) then Some r else run_loop X U (snd r))
      else Some (Inr (), s))"

declare run_loop.simps [code]

definition run_result :: "stack_elem option opM" where
  "run_result = (\<lambda>s. if stack_length (i_stack s) = 1
     then (case popM s of (Inl e, s') \<Rightarrow> (Inl e, s') | (Inr x, s') \<Rightarrow> (Inr (Some x), s'))
     else (Inr None, s))"

definition before_loop :: "unit opM" where
  "before_loop =
     seqM mapLabelWithIndexes
    (bindM (getM i_mode) (\<lambda>md.
     seqM (if md = APPLICATION then assertValidTxArray else returnM ())
    (seqM (\<lambda>s. add_block_cost (isAddIntcblock s) s)
     (\<lambda>s. add_block_cost (isAddedBytecblock s) s))))"

text \<open>\<^const>\<open>None\<close>: the loop does not end.\<close>

definition executeWithResult :: "sdk \<Rightarrow> submitter \<Rightarrow> interp \<Rightarrow> ((error + stack_elem option) \<times> interp) option" where
  "executeWithResult X U s =
     (case before_loop s of
        (Inl e, s1) \<Rightarrow> Some (Inl e, s1)
      | (Inr _, s1) \<Rightarrow> (case run_loop X U s1 of
            None \<Rightarrow> None
          | Some (Inl e, s2) \<Rightarrow> Some (Inl e, s2)
          | Some (Inr _, s2) \<Rightarrow> Some (run_result s2)))"

definition interp_execute :: "sdk \<Rightarrow> submitter \<Rightarrow> interp \<Rightarrow> ((error + unit) \<times> interp) option" where
  "interp_execute X U s =
     (case executeWithResult X U s of
        None \<Rightarrow> None
      | Some (Inl e, t) \<Rightarrow> Some (Inl e, t)
      | Some (Inr r, t) \<Rightarrow> Some
          (case r of
             Some (BigInt n) \<Rightarrow> if n > 0 then (Inr (), t) else (Inl (TEAL REJECTED_BY_LOGIC), t)
           | _ \<Rightarrow> (Inl (TEAL REJECTED_BY_LOGIC), t)))"

section \<open>The step and its frame\<close>

lemma quiet_set_gas [frame_intros]: "quiet (set_gas g)"
  by (auto simp: quiet_def set_gas_def same_frame_def control_defs split: option.splits)

lemma quiet_assertMaxCost [frame_intros]: "quiet (assertMaxCost g md b)"
  unfolding assertMaxCost_def by (cases md) (simp_all only: mode.simps, intro frame_intros, intro frame_intros)

lemma quiet_inner [frame_intros]: "quiet assertInnerVersion"
  by (simp add: quiet_def assertInnerVersion_def)

definition jumps :: "'a opM \<Rightarrow> bool" where
  "jumps m \<longleftrightarrow> (\<forall>s. same_control s (snd (m s)))"

lemma jumps_quiet: "quiet m \<Longrightarrow> jumps m"
  by (simp add: quiet_def jumps_def same_frame_def)

lemma jumps_bind: "jumps m \<Longrightarrow> (\<And>a. jumps (f a)) \<Longrightarrow> jumps (bindM m f)"
  unfolding jumps_def bindM_def
  by (auto split: prod.splits sum.splits) (metis same_control_trans snd_conv)+

lemma jumps_seq: "jumps m \<Longrightarrow> jumps n \<Longrightarrow> jumps (seqM m n)"
  unfolding seqM_def by (rule jumps_bind)

lemma jumps_if: "(c \<Longrightarrow> jumps m) \<Longrightarrow> (\<not> c \<Longrightarrow> jumps n) \<Longrightarrow> jumps (if c then m else n)"
  by simp

lemma jumps_let: "jumps (f x) \<Longrightarrow> jumps (Let x f)"
  by simp

lemma jumps_modify: "(\<And>s. same_control s (f s)) \<Longrightarrow> jumps (modifyM f)"
  by (simp add: jumps_def exec_simps)

lemma jumps_jumpForward: "jumps (jumpForward l)"
  by (auto simp: jumps_def jumpForward_def control_defs split: option.splits)

lemma jumps_jumpToLabel: "jumps (jumpToLabel l)"
  by (auto simp: jumps_def jumpToLabel_def control_defs Let_def split: option.splits)

lemma jumps_callStack: "jumps (callStack_push i)" "jumps callStack_pop"
  by (auto simp: jumps_def callStack_push_def callStack_pop_def control_defs split: sum.splits prod.splits)

lemma jumps_clear: "jumps clear_stack"
  unfolding clear_stack_def by (intro jumps_quiet frame_intros)

lemmas jumps_intros = jumps_bind jumps_seq jumps_if jumps_let jumps_jumpForward jumps_jumpToLabel
  jumps_callStack jumps_clear

lemma flow_control: "same_control s (snd (flow_execute op s))"
proof -
  have "jumps (flow_execute op)"
    by (cases op; simp only: flow_execute.simps flow_defs; (intro jumps_intros)?;
        (rule jumps_modify, simp add: control_defs | rule jumps_quiet, intro frame_intros))
  then show ?thesis by (simp add: jumps_def)
qed

text \<open>The branches of the versions up to 3.\<close>

fun forward_only :: "flow_op option \<Rightarrow> bool" where
    "forward_only (Some (Branchv4 _)) = False"
  | "forward_only (Some (BranchIfZerov4 _)) = False"
  | "forward_only (Some (BranchIfNotZerov4 _)) = False"
  | "forward_only (Some (Callsub _)) = False"
  | "forward_only (Some Retsub) = False"
  | "forward_only (Some (Switch _)) = False"
  | "forward_only _ = True"

definition forward :: "'a opM \<Rightarrow> bool" where
  "forward m \<longleftrightarrow> (\<forall>s a t. i_instructionIndex s \<le> length (i_instructions s) \<longrightarrow> m s = (Inr a, t) \<longrightarrow>
     i_instructionIndex s \<le> i_instructionIndex t \<and> i_instructionIndex t \<le> length (i_instructions t))"

lemma forward_quiet:
  assumes "quiet m"
  shows "forward m"
proof -
  have "same_frame s t" if "m s = (Inr a, t)" for s a t
    using quietD [OF assms, of s] that by simp
  then show ?thesis by (fastforce simp: forward_def same_frame_def control_defs)
qed

lemma forward_bind: "forward m \<Longrightarrow> (\<And>a. forward (f a)) \<Longrightarrow> forward (bindM m f)"
  unfolding forward_def bindM_Inr by (meson order_trans)

lemma forward_seq: "forward m \<Longrightarrow> forward n \<Longrightarrow> forward (seqM m n)"
  unfolding seqM_def by (rule forward_bind)

lemma forward_if: "(c \<Longrightarrow> forward m) \<Longrightarrow> (\<not> c \<Longrightarrow> forward n) \<Longrightarrow> forward (if c then m else n)"
  by simp

lemma find_forward_bounds:
  "find_forward is l i = Some j \<Longrightarrow> i < j \<and> j < length is"
  using skip_labels_ge skip_labels_less
  by (fastforce simp: find_forward_decl dest: next_decl_Some intro: less_le_trans)

lemma forward_jump: "forward (jumpForward l)"
  by (auto simp: forward_def jumpForward_def split: option.splits dest: find_forward_bounds)

lemma forward_end: "forward (modifyM (\<lambda>s. s\<lparr>i_instructionIndex := length (i_instructions s)\<rparr>))"
  by (simp add: forward_def exec_simps)

lemma forward_clear: "forward clear_stack"
  unfolding clear_stack_def by (intro forward_quiet frame_intros)

lemma forward_flow: "forward_only (Some op) \<Longrightarrow> forward (flow_execute op)"
  by (cases op; simp only: flow_execute.simps flow_defs forward_only.simps;
      (intro forward_bind forward_seq forward_if forward_jump forward_end forward_clear)?;
      (rule forward_quiet, intro frame_intros))

section \<open>The loop ends\<close>

definition program_ok :: "interp \<Rightarrow> bool" where
  "program_ok s \<longleftrightarrow> (i_tealVersion s < 4 \<longrightarrow> list_all forward_only (List.map flow_of (i_instructions s)))"

text \<open>The cost the budget is compared with, and what is left of the budget.\<close>

definition used :: "interp \<Rightarrow> int" where
  "used s = (if i_mode s = SIGNATURE then i_cost s else c_pooledApplCost s)"

definition budget_left :: "interp \<Rightarrow> nat" where
  "budget_left s = (if i_tealVersion s < 4 then 0 else nat (getBudget s - used s))"

lemma frame_op:
  assumes "at_plain s" "i_instructions s ! i_instructionIndex s = ins"
    and "\<not> (\<exists>i. ins = Inner i \<and> builds i)"
  shows "same_frame s (snd (op_execute X U ins s))"
proof -
  have no: "flow_of ins = None" using assms by (auto simp: at_plain_def)
  show ?thesis
  proof (cases ins)
    case (BytesI b)
    show ?thesis
    proof (cases "\<exists>x y. b = Extract x y")
      case True
      then show ?thesis using Extract_frame [OF assms(1)] BytesI by auto
    next
      case False
      then show ?thesis using quietD [OF quiet_bytes] BytesI by simp
    qed
  next
    case (Inner i)
    then show ?thesis using assms(3) quietD [OF quiet_inner_read] by simp
  qed (use no in \<open>auto intro!: quietD frame_intros\<close>)
qed

text \<open>What an instruction that returns has done, the costs apart.\<close>

definition op_effect :: "submitter \<Rightarrow> interp \<Rightarrow> int \<Rightarrow> interp \<Rightarrow> bool" where
  "op_effect U s c u \<longleftrightarrow> same_program s u \<and> (1 \<le> c \<or> (c = 0 \<and> u = s)) \<and> (room s \<longrightarrow> room u) \<and>
     (same_counts s u \<or> (i_instructionIndex u = i_instructionIndex s \<and> i_currentInnerTxnGroup s \<noteq> [] \<and>
        length (i_innerTxnGroups u) = Suc (length (i_innerTxnGroups s)))) \<and>
     (grows U \<longrightarrow> c_pooledApplCost s \<le> c_pooledApplCost u \<and> c_budget s \<le> c_budget u) \<and>
     (program_ok s \<longrightarrow> i_tealVersion s < 4 \<longrightarrow>
        i_instructionIndex s \<le> i_instructionIndex u \<and> i_instructionIndex u \<le> length (i_instructions u))"

lemma op_effect_control:
  assumes "same_control s u" "1 \<le> c \<or> (c = 0 \<and> u = s)"
    and "program_ok s \<Longrightarrow> i_tealVersion s < 4 \<Longrightarrow>
      i_instructionIndex s \<le> i_instructionIndex u \<and> i_instructionIndex u \<le> length (i_instructions u)"
  shows "op_effect U s c u"
  using assms by (auto simp: op_effect_def same_control_def same_counts_def room_def)

lemma op_cases:
  assumes "i_instructionIndex s < length (i_instructions s)" "room s"
    and "i_instructions s ! i_instructionIndex s = ins" "op_execute X U ins s = (Inr c, u)"
  shows "op_effect U s c u"
proof -
  consider (flow) f where "ins = Flow f" | (inner) i where "ins = Inner i" "builds i"
    | (plain) "flow_of ins = None" "\<not> (\<exists>i. ins = Inner i \<and> builds i)" by (cases ins) auto
  then show ?thesis
  proof cases
    case flow
    have e: "flow_execute f s = (Inr c, u)" using assms(4) flow by simp
    have cost: "1 \<le> c \<or> (c = 0 \<and> u = s)"
    proof (cases "(\<exists>n. f = Pragma n) \<or> (\<exists>l. f = Label l)")
      case True
      then show ?thesis using e by (auto simp: Pragma_execute_def Label_execute_def exec_simps)
    next
      case False
      then have "costs (flow_execute f)" by (intro costs_flow) auto
      then show ?thesis using e by (auto simp: costs_def)
    qed
    show ?thesis
    proof (rule op_effect_control [OF _ cost])
      show "same_control s u" using flow_control [of s f] e by simp
      assume "program_ok s" "i_tealVersion s < 4"
      moreover have "flow_of ins \<in> set (List.map flow_of (i_instructions s))"
        using assms by (metis imageI list.set_map nth_mem)
      ultimately have "forward (flow_execute f)"
        using flow by (intro forward_flow) (auto simp: program_ok_def list_all_iff)
      then show "i_instructionIndex s \<le> i_instructionIndex u \<and> i_instructionIndex u \<le> length (i_instructions u)"
        using e less_imp_le [OF assms(1)] unfolding forward_def by blast
    qed
  next
    case inner
    have e: "inner_execute X U i s = (Inr c, u)" using assms(4) inner by simp
    have c: "1 \<le> c" using costs_inner [of X U i] e unfolding costs_def by blast
    have "same_program s u \<and> i_instructionIndex u = i_instructionIndex s \<and> room u \<and>
        (same_counts s u \<or> (i_currentInnerTxnGroup s \<noteq> [] \<and>
          length (i_innerTxnGroups u) = Suc (length (i_innerTxnGroups s)))) \<and>
        (grows U \<longrightarrow> c_pooledApplCost s \<le> c_pooledApplCost u \<and> c_budget s \<le> c_budget u)"
    proof (cases "i = ITxnSubmit")
      case True
      then have e: "ITxnSubmit_execute X U s = (Inr c, u)" using e by simp
      show ?thesis using submit_effect [OF e] assms(2) by (auto simp: same_counts_def)
    next
      case False
      from build_Inr [OF e False assms(2)] show ?thesis by (simp add: same_counts_def)
    qed
    then show ?thesis using c assms(1) by (auto simp: op_effect_def same_program_def)
  next
    case plain
    then have "at_plain s" using assms by (simp add: at_plain_def)
    from frame_op [OF this assms(3) plain(2)] have f: "same_frame s u" using assms(4) by (metis snd_conv)
    have "costs (op_execute X U ins)" using plain by (cases ins) (auto intro: cost_intros)
    then have "1 \<le> c" using assms by (auto simp: costs_def)
    then show ?thesis using f assms(1)
      by (intro op_effect_control) (auto simp: same_frame_def control_defs)
  qed
qed

definition gas_recorded :: "int \<Rightarrow> ledger \<Rightarrow> string \<Rightarrow> bool" where
  "gas_recorded g st txID \<longleftrightarrow> (\<exists>rc. map_of (txReceipts st) txID = Some rc \<and> rc_gas rc = Some g)"

lemma set_gas_Inr:
  "set_gas g s = (Inr r, t) \<Longrightarrow> \<exists>st. t = s\<lparr>c_state := st\<rparr> \<and> gas_recorded g st (tx_txID (c_tx s))"
  by (auto simp: set_gas_def gas_recorded_def split: option.splits)

lemma assertMaxCost_Inr: "assertMaxCost g md b s = (Inr r, t) \<longleftrightarrow>
    t = s \<and> g \<le> (case md of SIGNATURE \<Rightarrow> LOGIC_SIG_MAX_COST
      | APPLICATION \<Rightarrow> (case b of None \<Rightarrow> MAX_APP_PROGRAM_COST | Some n \<Rightarrow> n))"
  by (cases md) (auto simp: assertMaxCost_def exec_simps split: if_splits)

lemma account_cost_Inr:
  assumes "account_cost c s = (Inr r, t)"
  shows "\<exists>st. t = s\<lparr>c_pooledApplCost := c_pooledApplCost s +
        (if i_tealVersion s < 4 \<or> i_mode s = SIGNATURE then 0 else c), c_state := st\<rparr>"
    and "4 \<le> i_tealVersion s \<Longrightarrow> used t \<le> getBudget t \<and> gas_recorded (used t) (c_state t) (tx_txID (c_tx t))"
proof -
  have "(\<exists>st. t = s\<lparr>c_pooledApplCost := c_pooledApplCost s +
        (if i_tealVersion s < 4 \<or> i_mode s = SIGNATURE then 0 else c), c_state := st\<rparr>) \<and>
      (4 \<le> i_tealVersion s \<longrightarrow> used t \<le> getBudget t \<and> gas_recorded (used t) (c_state t) (tx_txID (c_tx t)))"
    using assms
    by (cases "i_mode s")
      (auto simp: account_cost_def bindM_Inr seqM_def getM_def modifyM_def assertMaxCost_Inr used_def
        getBudget_def split: if_splits dest!: set_gas_Inr)
  then show "\<exists>st. t = s\<lparr>c_pooledApplCost := c_pooledApplCost s +
        (if i_tealVersion s < 4 \<or> i_mode s = SIGNATURE then 0 else c), c_state := st\<rparr>"
    "4 \<le> i_tealVersion s \<Longrightarrow> used t \<le> getBudget t \<and> gas_recorded (used t) (c_state t) (tx_txID (c_tx t))"
    by blast+
qed

lemma step_Inr:
  assumes "step X U s = (Inr r, t)" "i_instructionIndex s < length (i_instructions s)" "room s"
  obtains c u where "op_effect U s c u"
    "i_instructions t = i_instructions u" "i_instructionIndex t = i_instructionIndex u + 1"
    "i_tealVersion t = i_tealVersion s" "i_mode t = i_mode s" "c_budget t = c_budget u" "room t"
    "i_innerTxnGroups t = i_innerTxnGroups u"
    "4 \<le> i_tealVersion s \<longrightarrow> used t = used u + c \<and> used t \<le> getBudget t \<and>
      gas_recorded (used t) (c_state t) (tx_txID (c_tx t))"
proof -
  obtain c u w where e: "op_execute X U (i_instructions s ! i_instructionIndex s) s = (Inr c, u)"
    "account_cost c (u\<lparr>i_cost := i_cost u + c\<rparr>) = (Inr (), w)"
    "t = w\<lparr>i_instructionIndex := i_instructionIndex w + 1\<rparr>"
    using assms(1)
    by (auto simp: step_def bindM_Inr seqM_def getM_def modifyM_def assertInnerVersion_def split: if_splits)
  have oc: "op_effect U s c u"
    using op_cases [OF assms(2,3) refl e(1)] .
  then have p: "same_program s u" "room u" using assms(3) by (simp_all add: op_effect_def)
  obtain st where w: "w = u\<lparr>i_cost := i_cost u + c, c_pooledApplCost := c_pooledApplCost u +
        (if i_tealVersion u < 4 \<or> i_mode u = SIGNATURE then 0 else c), c_state := st\<rparr>"
    using account_cost_Inr(1) [OF e(2)] by auto
  have b: "4 \<le> i_tealVersion u \<Longrightarrow> used w \<le> getBudget w \<and> gas_recorded (used w) (c_state w) (tx_txID (c_tx w))"
    using account_cost_Inr(2) [OF e(2)] by simp
  show thesis
  proof (rule that [OF oc])
    show "4 \<le> i_tealVersion s \<longrightarrow> used t = used u + c \<and> used t \<le> getBudget t \<and>
      gas_recorded (used t) (c_state t) (tx_txID (c_tx t))"
      using b p(1) by (auto simp: e(3) w used_def getBudget_def same_program_def)
  qed (use p in \<open>simp_all add: e(3) w same_program_def room_def\<close>)
qed

definition groups_left :: "interp \<Rightarrow> nat" where
  "groups_left s = MAX_INNER_TRANSACTIONS - length (i_innerTxnGroups s)"

definition left_over :: "interp \<Rightarrow> nat \<times> nat \<times> nat" where
  "left_over s = (groups_left s, budget_left s, length (i_instructions s) - i_instructionIndex s)"

text \<open>
  Every step brings the end nearer: a submitted group is one of 16, and between two of them the budget
  or the rest of the program shrinks.
\<close>

lemma step_decreases:
  assumes "step X U s = (Inr r, t)" "i_instructionIndex s < length (i_instructions s)" "program_ok s" "room s"
  shows "program_ok t \<and> room t \<and> (left_over t, left_over s) \<in> less_than <*lex*> less_than <*lex*> less_than"
proof -
  obtain c u where u: "op_effect U s c u"
    "i_instructions t = i_instructions u" "i_instructionIndex t = i_instructionIndex u + 1"
    "i_tealVersion t = i_tealVersion s" "i_mode t = i_mode s" "c_budget t = c_budget u" "room t"
    "i_innerTxnGroups t = i_innerTxnGroups u"
    "4 \<le> i_tealVersion s \<longrightarrow> used t = used u + c \<and> used t \<le> getBudget t \<and>
      gas_recorded (used t) (c_state t) (tx_txID (c_tx t))"
    by (rule step_Inr [OF assms(1,2,4)])
  have p: "same_program s u" using u(1) by (simp add: op_effect_def)
  have "program_ok t" using assms(3) u p by (simp add: program_ok_def same_program_def)
  moreover have "(left_over t, left_over s) \<in> less_than <*lex*> less_than <*lex*> less_than"
  proof (cases "same_counts s u")
    case True
    have len: "length (i_instructions t) = length (i_instructions s)" using u p by (simp add: same_program_def)
    have groups: "groups_left t = groups_left s" using True u by (simp add: groups_left_def same_counts_def)
    have used: "used u = used s" using True p by (simp add: used_def same_program_def same_counts_def)
    show ?thesis
    proof (cases "i_tealVersion s < 4")
      case v: True
      then have "i_instructionIndex s \<le> i_instructionIndex u" using u(1) assms(3) by (simp add: op_effect_def)
      then show ?thesis using v u len groups assms(2) by (simp add: left_over_def budget_left_def)
    next
      case v: False
      have g: "getBudget t = getBudget s" using u True by (simp add: getBudget_def same_counts_def)
      show ?thesis
      proof (cases "1 \<le> c")
        case True
        then have "budget_left t < budget_left s" using u v g used by (simp add: budget_left_def)
        then show ?thesis using groups by (simp add: left_over_def)
      next
        case False
        then have "c = 0" "u = s" using u(1) by (auto simp: op_effect_def)
        then show ?thesis using u v g len groups assms(2) by (auto simp: left_over_def budget_left_def)
      qed
    qed
  next
    case False
    then have "i_currentInnerTxnGroup s \<noteq> []" "length (i_innerTxnGroups t) = Suc (length (i_innerTxnGroups s))"
      using u by (auto simp: op_effect_def)
    then have "groups_left t < groups_left s" using assms(4) by (simp add: room_def groups_left_def)
    then show ?thesis by (simp add: left_over_def)
  qed
  ultimately show ?thesis using u(7) by simp
qed

lemma run_loop_ends:
  assumes "program_ok s" "room s"
  shows "\<exists>r. run_loop X U s = Some r"
proof -
  have wf: "wf (inv_image (less_than <*lex*> less_than <*lex*> less_than) left_over)"
    by (intro wf_inv_image wf_lex_prod wf_less_than)
  show ?thesis using assms
  proof (induction s rule: wf_induct_rule [OF wf])
    case (1 s)
    show ?case
    proof (cases "i_instructionIndex s < length (i_instructions s)")
      case True
      obtain r t where st: "step X U s = (r, t)" by fastforce
      show ?thesis
      proof (cases r)
        case (Inl e)
        then show ?thesis using True st by (subst run_loop.simps) simp
      next
        case (Inr x)
        then have "\<exists>r. run_loop X U t = Some r"
          using step_decreases [of X U s x t] st True 1 by (simp add: inv_image_def)
        then show ?thesis using True st Inr by (subst run_loop.simps) simp
      qed
    next
      case False
      then show ?thesis by (subst run_loop.simps) simp
    qed
  qed
qed

lemma before_loop_frame:
  "before_loop s = (r, t) \<Longrightarrow> i_instructions t = i_instructions s \<and> i_tealVersion t = i_tealVersion s \<and>
     i_instructionIndex t = i_instructionIndex s \<and> i_stack t = i_stack s \<and>
     i_currentInnerTxnGroup t = i_currentInnerTxnGroup s \<and> i_innerTxnGroups t = i_innerTxnGroups s"
  by (auto simp: before_loop_def mapLabelWithIndexes_def assertValidTxArray_def add_block_cost_def exec_simps
      Let_def split: if_splits prod.splits sum.splits)

section \<open>Properties\<close>

text \<open>
  The loop always comes to an end: from version 4 on because every opcode but a label or a pragma costs
  at least 1 and the budget is checked after each, and up to version 3 because the branches of those
  versions only go forward. A submitted inner group may raise the budget, by whatever amount, but a
  program submits at most 16 of them.
\<close>

lemma execution_ends:
  assumes "i_tealVersion s < 4 \<Longrightarrow> list_all forward_only (List.map flow_of (i_instructions s))"
    and "i_currentInnerTxnGroup s = []"
  shows "\<exists>r t. interp_execute X U s = Some (r, t)"
proof -
  obtain r1 s1 where b: "before_loop s = (r1, s1)" by fastforce
  then have "program_ok s1" "room s1"
    using before_loop_frame [OF b] assms by (simp_all add: program_ok_def room_def)
  then obtain r2 s2 where l: "run_loop X U s1 = Some (r2, s2)"
    using run_loop_ends [of s1 X U] by fastforce
  then obtain r3 t where "executeWithResult X U s = Some (r3, t)"
    using b by (cases r1; cases r2; cases "run_result s2") (auto simp: executeWithResult_def)
  then show ?thesis
    by (cases r3) (auto simp: interp_execute_def split: option.splits stack_elem.splits)
qed

definition sample_program :: "nat \<Rightarrow> instr list \<Rightarrow> interp" where
  "sample_program v is = (sample_interp [] [])\<lparr>i_tealVersion := v, i_instructions := is,
     c_state := sample_ledger\<lparr>txReceipts := [(''TX'', \<lparr>rc_txID = ''TX'', rc_gas = None, rc_logs = None, rc_appID = None, rc_assetIndex = None\<rparr>)]\<rparr>\<rparr>"

definition charged :: "interp \<Rightarrow> interp \<Rightarrow> bool" where
  "charged s t \<longleftrightarrow> used t \<le> getBudget t \<and> used s \<le> used t \<and> getBudget s \<le> getBudget t \<and>
     length (i_innerTxnGroups s) \<le> length (i_innerTxnGroups t) \<and>
     (length (i_innerTxnGroups t) = length (i_innerTxnGroups s) \<longrightarrow> getBudget t = getBudget s) \<and>
     gas_recorded (used t) (c_state t) (tx_txID (c_tx t))"

lemma step_charged:
  assumes "step X U s = (Inr r, t)" "i_instructionIndex s < length (i_instructions s)" "4 \<le> i_tealVersion s"
    and "room s" "grows U"
  shows "charged s t \<and> i_tealVersion t = i_tealVersion s \<and> room t"
proof -
  obtain c u where u: "op_effect U s c u"
    "i_tealVersion t = i_tealVersion s" "i_mode t = i_mode s" "c_budget t = c_budget u" "room t"
    "i_innerTxnGroups t = i_innerTxnGroups u"
    "4 \<le> i_tealVersion s \<longrightarrow> used t = used u + c \<and> used t \<le> getBudget t \<and>
      gas_recorded (used t) (c_state t) (tx_txID (c_tx t))"
    by (rule step_Inr [OF assms(1,2,4)])
  have "used s \<le> used u" "0 \<le> c" "getBudget s \<le> getBudget t"
    using u assms(5) by (auto simp: op_effect_def used_def getBudget_def same_program_def)
  moreover have "length (i_innerTxnGroups s) \<le> length (i_innerTxnGroups t)"
    "length (i_innerTxnGroups t) = length (i_innerTxnGroups s) \<Longrightarrow> getBudget t = getBudget s"
    using u by (auto simp: op_effect_def same_counts_def getBudget_def)
  ultimately show ?thesis using u assms(3) by (auto simp: charged_def)
qed

lemma charged_trans: "charged s t \<Longrightarrow> charged t u \<Longrightarrow> charged s u"
  by (auto simp: charged_def)

lemma run_loop_charged:
  assumes "run_loop X U s = Some out" "grows U"
  shows "\<forall>r t. out = (Inr r, t) \<longrightarrow> 4 \<le> i_tealVersion s \<longrightarrow> room s \<longrightarrow>
     (if i_instructionIndex s < length (i_instructions s) then charged s t else t = s)"
  using assms(2)
proof (induction rule: run_loop.raw_induct [OF _ assms(1), rotated])
  case (1 f X U s out)
  show ?case
  proof (intro allI impI)
    fix r t
    assume out: "out = (Inr r, t)" and v: "4 \<le> i_tealVersion s" and rm: "room s"
    show "if i_instructionIndex s < length (i_instructions s) then charged s t else t = s"
    proof (cases "i_instructionIndex s < length (i_instructions s)")
      case True
      obtain r1 u where st: "step X U s = (r1, u)" by fastforce
      with 1(2) out True obtain r2 where r1: "r1 = Inr r2" and f: "f X U u = Some (Inr r, t)"
        by (cases r1) (auto simp: Let_def)
      have u: "charged s u" "i_tealVersion u = i_tealVersion s" "room u"
        using step_charged [of X U s r2 u] st r1 True v rm 1(3) by auto
      have "charged u t \<or> t = u" using 1(1) [OF f] 1(3) u v
        by (cases "i_instructionIndex u < length (i_instructions u)") auto
      then show ?thesis using True u(1) charged_trans by auto
    next
      case False
      then show ?thesis using 1(2) out by simp
    qed
  qed
qed



end
