(* ===== verification/TEAL_Parser.thy ===== *)
theory TEAL_Parser
  imports TEAL_Interp
begin

text \<open>
  The parser (\<^verbatim>\<open>parser/parser.ts\<close>) with the constructors of the opcodes: splitting a line into words, the
  tables of opcodes by version, the checks each constructor makes of its arguments, the static cost, and
  the version of a program. A missing argument is \<^verbatim>\<open>undefined\<close>, which reads as that word wherever
  a text is expected. The numerals of the arguments are read exactly, without the rounding of the
  platform's numbers, and one that is not an integer as \<^verbatim>\<open>NaN\<close>.
\<close>

section \<open>Words\<close>

definition substr :: "string \<Rightarrow> nat \<Rightarrow> nat \<Rightarrow> string" where
  "substr s i n = take n (drop i s)"

definition is_base64_word :: "string \<Rightarrow> bool" where
  "is_base64_word w \<longleftrightarrow> w = ''base64'' \<or> w = ''b64''"

definition skip_spaces :: "string \<Rightarrow> nat \<Rightarrow> nat" where
  "skip_spaces line i = i + length (takeWhile (\<lambda>c. c = CHR '' '') (drop i line))"

lemma skip_spaces_ge: "i \<le> skip_spaces line i"
  by (simp add: skip_spaces_def)

text \<open>What a character other than a space does to the two flags, within the word that began at \<open>start\<close>.\<close>

definition string_flag :: "string \<Rightarrow> nat \<Rightarrow> bool \<Rightarrow> bool" where
  "string_flag line i inString =
     (if line ! i \<noteq> CHR ''\"'' then inString
      else if inString then line ! (i - 1) = CHR 0x5C
      else i = 0 \<or> line ! (i - 1) = CHR '' '')"

definition base64_flag :: "string \<Rightarrow> nat \<Rightarrow> nat \<Rightarrow> bool \<Rightarrow> bool" where
  "base64_flag line start i inBase64 =
     (if line ! i = CHR ''('' then is_base64_word (substr line start (i - start)) \<or> inBase64
      else if line ! i = CHR '')'' then False else inBase64)"

function words_loop :: "string \<Rightarrow> nat \<Rightarrow> nat \<Rightarrow> bool \<Rightarrow> bool \<Rightarrow> string list \<Rightarrow> string list" where
  "words_loop line i start inString inBase64 words =
     (if length line \<le> i then (if start < length line then words @ [drop start line] else words)
      else if line ! i \<noteq> CHR '' '' then
        (if line ! i = CHR ''/'' \<and> i + 1 < length line \<and> line ! (i + 1) = CHR ''/'' \<and> \<not> inBase64 \<and> \<not> inString
         then (if start \<noteq> i then words @ [substr line start (i - start)] else words)
         else words_loop line (i + 1) start (string_flag line i inString) (base64_flag line start i inBase64) words)
      else if inString then words_loop line (i + 1) start inString inBase64 words
      else (let v = substr line start (i - start); j = skip_spaces line (i + 1)
            in words_loop line j j inString (is_base64_word v) (words @ [v])))"
  by pat_completeness auto
termination
  by (relation "measure (\<lambda>(line, i, _). length line - i)") (auto simp: Let_def skip_spaces_def)

declare words_loop.simps [simp del]

definition wordsFromLine :: "string \<Rightarrow> string list" where
  "wordsFromLine text = (let line = js_trim text in words_loop line 0 0 False False [])"

section \<open>Arguments\<close>

definition arg_at :: "string list \<Rightarrow> nat \<Rightarrow> string" where
  "arg_at args n = (if n < length args then args ! n else ''undefined'')"

definition assertLen :: "nat \<Rightarrow> nat \<Rightarrow> unit opM" where
  "assertLen val expected = assertM (val = expected) (TEAL ASSERT_LENGTH)"

definition assertOnlyDigits :: "string \<Rightarrow> unit opM" where
  "assertOnlyDigits val = assertM (reDigit val) (TEAL INVALID_TYPE)"

text \<open>\<^verbatim>\<open>BigInt(text)\<close> of digits, and \<^verbatim>\<open>Number(text)\<close>; an integer that is out of every bound stands for \<^verbatim>\<open>NaN\<close>.\<close>

definition digits_value :: "string \<Rightarrow> int" where
  "digits_value s = int (of_radix 10 s)"

definition NaN :: int where "NaN = - (2 ^ 60)"

definition number_arg :: "string \<Rightarrow> int" where
  "number_arg s = (case js_Number_text s of None \<Rightarrow> NaN | Some n \<Rightarrow> n)"

text \<open>\<^verbatim>\<open>BigInt(assertNumber(text))\<close>\<close>

definition integer_literal :: "string \<Rightarrow> error + int" where
  "integer_literal val =
     (if reOct val then
        (if list_all (\<lambda>c. c \<noteq> CHR ''8'') (tl val) then Inr (int (of_radix 8 (tl val))) else Inl (JsError SyntaxError))
      else if reDec val then Inr (digits_value val)
      else if reHex val then Inr (int (of_radix 16 (drop 2 val)))
      else Inl (TEAL INVALID_TYPE))"

definition named_constants :: "(string, int) jsmap" where
  "named_constants = [(''NoOp'', 0), (''OptIn'', 1), (''CloseOut'', 2), (''ClearState'', 3),
     (''UpdateApplication'', 4), (''DeleteApplication'', 5)] @ TxnType"

datatype EncodingType = BASE64 | BASE32 | HEX | UTF8

definition assertBase32 :: "string \<Rightarrow> error + unit" where
  "assertBase32 str = (if reBase32 str then Inr () else Inl (TEAL INVALID_BASE32))"

definition ends_with :: "string \<Rightarrow> string \<Rightarrow> bool" where
  "ends_with suffix s \<longleftrightarrow> length suffix \<le> length s \<and> drop (length s - length suffix) s = suffix"

definition starts_with :: "string \<Rightarrow> string \<Rightarrow> bool" where
  "starts_with prefix s \<longleftrightarrow> take (length prefix) s = prefix"

definition checked :: "error + unit \<Rightarrow> 'a \<Rightarrow> error + 'a" where
  "checked c x = (case c of Inl e \<Rightarrow> Inl e | Inr _ \<Rightarrow> Inr x)"

definition base64OrBase32 :: "string \<Rightarrow> error + string \<times> EncodingType" where
  "base64OrBase32 arg =
     (if (starts_with ''base64('' arg \<or> starts_with ''b64('' arg) \<and> ends_with '')'' arg then
        (let str = (if starts_with ''b64('' arg then js_slice arg 4 (length arg - 1) else js_slice arg 7 (length arg - 1))
         in checked (assertBase64 str) (str, BASE64))
      else if (starts_with ''base32('' arg \<or> starts_with ''b32('' arg) \<and> ends_with '')'' arg then
        (let str = (if starts_with ''b32('' arg then js_slice arg 4 (length arg - 1) else js_slice arg 7 (length arg - 1))
         in checked (assertBase32 str) (str, BASE32))
      else Inl (TEAL DECODE_ERROR))"

definition getEncoding :: "string list \<Rightarrow> error + string \<times> EncodingType" where
  "getEncoding args =
     (case args of
        [a] \<Rightarrow>
          (if starts_with ''\"'' a \<and> ends_with ''\"'' a then Inr (js_slice a 1 (length a - 1), UTF8)
           else if starts_with ''0x'' a then Inr (drop 2 a, HEX)
           else base64OrBase32 a)
      | [a, b] \<Rightarrow>
          (if a \<in> {''base64'', ''b64''} then checked (assertBase64 b) (b, BASE64)
           else if a \<in> {''base32'', ''b32''} then checked (assertBase32 b) (b, BASE32)
           else Inl (TEAL UNKOWN_DECODE_TYPE))
      | _ \<Rightarrow> Inl (TEAL UNKOWN_DECODE_TYPE))"

definition convertToBuffer :: "sdk \<Rightarrow> string \<Rightarrow> EncodingType \<Rightarrow> error + bytes" where
  "convertToBuffer X s encoding =
     (case encoding of
        BASE64 \<Rightarrow> Inr (base64_decode s)
      | BASE32 \<Rightarrow> base32_decode X s
      | HEX \<Rightarrow> Inr (hex_decode s)
      | UTF8 \<Rightarrow> Inr (stringToBytes s))"

section \<open>Checks of fields\<close>

text \<open>The tables of a version that does not exist are \<^verbatim>\<open>undefined\<close>; a program never gets there with one.\<close>

definition assertTxFieldDefined :: "string \<Rightarrow> nat \<Rightarrow> unit opM" where
  "assertTxFieldDefined str v = assertM (map_of (TxnFields v) str \<noteq> None) (TEAL UNKNOWN_TRANSACTION_FIELD)"

definition assertTxArrFieldDefined :: "string \<Rightarrow> nat \<Rightarrow> unit opM" where
  "assertTxArrFieldDefined str v = assertM (str \<in> set (TxArrFields v)) (TEAL INVALID_OP_ARG)"

definition assertITxFieldDefined :: "string \<Rightarrow> nat \<Rightarrow> unit opM" where
  "assertITxFieldDefined str v =
     assertM (map_of (TxnFields v) str \<noteq> None \<or> map_of (ITxnFields v) str \<noteq> None) (TEAL UNKNOWN_TRANSACTION_FIELD)"

definition assertITxArrFieldDefined :: "string \<Rightarrow> nat \<Rightarrow> unit opM" where
  "assertITxArrFieldDefined str v =
     assertM (str \<in> set (TxArrFields v) \<or> str \<in> set (ITxArrFields v)) (TEAL INVALID_OP_ARG)"

definition assertGlobalDefined :: "string \<Rightarrow> nat \<Rightarrow> unit opM" where
  "assertGlobalDefined str v = assertM (map_of (GlobalFields v) str \<noteq> None) (TEAL UNKNOWN_GLOBAL_FIELD)"

section \<open>Constructors\<close>

text \<open>
  The classes of opcodes, by what their constructors do. \<open>Plain\<close> is a class whose constructor asserts that it
  gets no argument, and \<open>Unchecked\<close> one that does not look at them.
\<close>

datatype op_class =
    Plain instr | Unchecked instr
  | PragmaC | ArgC | ArgsC | BytecblockC | BytecC | IntcblockC | IntcC | StoreC | LoadC | LoadsC | Ed25519verifyC
  | SubstringC | TxnC | GtxnC | TxnaC | GtxnaC | GlobalC | GetAssetHoldingC | GetAssetDefC
  | IntC | ByteC | AddrC | PushIntC | PushBytesC | DigC | GtxnsC | GtxnsaC | GloadC | GloadsC | GloadssC
  | BranchC bool | BranchIfZeroC bool | BranchIfNotZeroC bool | CallsubC | SwitchC
  | GaidC | GaidsC | ExtractC | EcdsaC nat | CoverC | UncoverC | ITxnFieldC | ITxnC | ITxnaC | ITxnasC
  | TxnasC | GtxnasC | GtxnsasC | AppParamsGetC | AcctParamsGetC | GitxnC | GitxnaC | GitxnasC
  | Base64DecodeC | Replace2C | Json_refC | BlockC | VrfVerifyC

text \<open>\<^verbatim>\<open>interpreter.runtime.ctx.gtxs\<close>; the interpreter that only reads a version has no runtime.\<close>

definition needs_runtime :: "bool \<Rightarrow> unit opM" where
  "needs_runtime attached = assertM attached (JsError TypeError)"

definition makeM :: "instr \<Rightarrow> instr opM" where
  "makeM i = returnM i"

definition Pragma_new :: "string list \<Rightarrow> nat \<Rightarrow> instr opM" where
  "Pragma_new args line =
     seqM (assertLen (length args) 2)
    (seqM (assertM (line \<le> 1) (TEAL PRAGMA_NOT_AT_FIRST_LINE))
    (seqM (assertM (arg_at args 0 = ''version'' \<and> js_at_most MaxTEALVersion (arg_at args 1)) (TEAL PRAGMA_VERSION_ERROR))
     (let n = number_arg (arg_at args 1); v = (if 1 \<le> n \<and> n \<le> int MaxTEALVersion then nat n else 0)
      in seqM (modifyM (\<lambda>s. s\<lparr>i_tealVersion := v\<rparr>)) (makeM (Flow (Pragma v))))))"

definition one_arg :: "string list \<Rightarrow> (string \<Rightarrow> instr opM) \<Rightarrow> instr opM" where
  "one_arg args f = seqM (assertLen (length args) 1) (f (arg_at args 0))"

definition Arg_new :: "string list \<Rightarrow> (nat \<Rightarrow> instr) \<Rightarrow> instr opM" where
  "Arg_new args mk = one_arg args (\<lambda>a. seqM (assertOnlyDigits a) (makeM (mk (nat (digits_value a)))))"

definition Bytecblock_new :: "string list \<Rightarrow> instr opM" where
  "Bytecblock_new args = (\<lambda>s.
     (Inr (Const (Bytecblock [length (c_heap s)..<length (c_heap s) + length args])),
      s\<lparr>c_heap := c_heap s @ List.map stringToBytes args\<rparr>))"

definition Intcblock_new :: "string list \<Rightarrow> instr opM" where
  "Intcblock_new args =
     seqM (forM args assertOnlyDigits) (makeM (Const (Intcblock (List.map digits_value args))))"

definition Substring_new :: "string list \<Rightarrow> instr opM" where
  "Substring_new args =
     seqM (assertLen (length args) 2)
    (seqM (assertOnlyDigits (arg_at args 0))
    (seqM (assertOnlyDigits (arg_at args 1))
     (makeM (BytesI (Substring (digits_value (arg_at args 0)) (digits_value (arg_at args 1)))))))"

text \<open>The fields of transactions. \<open>v\<close> is the version; an array field needs an index.\<close>

definition field_arg :: "string list \<Rightarrow> nat \<Rightarrow> string" where
  "field_arg args n = assertFieldIndex (arg_at args n) TxnFieldsIndex"

definition Txn_new :: "string list \<Rightarrow> instr opM" where
  "Txn_new args =
     bindM (getM i_tealVersion) (\<lambda>v. let f = field_arg args 0 in
     seqM (assertTxFieldDefined f v)
     (if f \<in> set (TxArrFields v)
      then seqM (assertLen (length args) 2)
          (seqM (assertOnlyDigits (arg_at args 1)) (makeM (Field (Txn f (Some (digits_value (arg_at args 1)))))))
      else seqM (assertLen (length args) 1) (makeM (Field (Txn f None)))))"

text \<open>Whether an index is expected is decided by the text of the program, before a number is made a field.\<close>

definition Gtxn_new :: "bool \<Rightarrow> string list \<Rightarrow> (int \<Rightarrow> string \<Rightarrow> int option \<Rightarrow> instr) \<Rightarrow> instr opM" where
  "Gtxn_new attached args mk =
     bindM (getM i_tealVersion) (\<lambda>v.
     bindM (if arg_at args 1 \<in> set (TxArrFields v)
            then seqM (assertLen (length args) 3)
                (seqM (assertOnlyDigits (arg_at args 2)) (returnM (Some (digits_value (arg_at args 2)))))
            else seqM (assertLen (length args) 2) (returnM None)) (\<lambda>fieldIdx.
     seqM (assertOnlyDigits (arg_at args 0))
    (let f = field_arg args 1 in
     seqM (assertTxFieldDefined f v)
    (seqM (needs_runtime attached)
     (makeM (mk (digits_value (arg_at args 0)) f fieldIdx))))))"

definition Txna_new :: "string list \<Rightarrow> (string \<Rightarrow> int \<Rightarrow> instr) \<Rightarrow> instr opM" where
  "Txna_new args mk =
     seqM (assertLen (length args) 2)
    (seqM (assertOnlyDigits (arg_at args 1))
    (bindM (getM i_tealVersion) (\<lambda>v. let f = field_arg args 0 in
     seqM (assertTxArrFieldDefined f v) (makeM (mk f (digits_value (arg_at args 1)))))))"

definition Gtxna_new :: "bool \<Rightarrow> string list \<Rightarrow> (int \<Rightarrow> string \<Rightarrow> int \<Rightarrow> instr) \<Rightarrow> instr opM" where
  "Gtxna_new attached args mk =
     seqM (assertLen (length args) 3)
    (seqM (assertOnlyDigits (arg_at args 0))
    (seqM (assertOnlyDigits (arg_at args 2))
    (bindM (getM i_tealVersion) (\<lambda>v. let f = field_arg args 1 in
     seqM (assertTxArrFieldDefined f v)
    (seqM (needs_runtime attached)
     (makeM (mk (digits_value (arg_at args 0)) f (digits_value (arg_at args 2)))))))))"

definition mockTxIdx :: string where "mockTxIdx = ''100''"
definition mockTxFieldIdx :: string where "mockTxFieldIdx = ''200''"
definition mockScratchIndex :: string where "mockScratchIndex = ''100''"

definition Global_new :: "string list \<Rightarrow> instr opM" where
  "Global_new args = one_arg args (\<lambda>a.
     bindM (getM i_tealVersion) (\<lambda>v. let f = assertFieldIndex a GlobalFieldsIndex in
     seqM (assertGlobalDefined f v) (makeM (Field (Global f)))))"

definition GetAssetHolding_new :: "string list \<Rightarrow> instr opM" where
  "GetAssetHolding_new args = one_arg args (\<lambda>a. makeM (Ledger (GetAssetHolding
     (if a = ''AssetBalance'' then AssetBalance else if a = ''AssetFrozen'' then AssetFrozen else OtherField))))"

definition GetAssetDef_new :: "string list \<Rightarrow> instr opM" where
  "GetAssetDef_new args = one_arg args (\<lambda>a.
     bindM (getM i_tealVersion) (\<lambda>v. let f = assertFieldIndex a AssetParamMapIndex in
     seqM (assertM (map_of (AssetParamMap v) f \<noteq> None) (TEAL UNKNOWN_ASSET_FIELD)) (makeM (Field (GetAssetDef f)))))"

definition Int_new :: "string list \<Rightarrow> instr opM" where
  "Int_new args = one_arg args (\<lambda>a.
     bindM (liftM (if a \<in> object_keys then Inl (JsError SyntaxError)
       else case map_of named_constants a of Some n \<Rightarrow> Inr n | None \<Rightarrow> integer_literal a)) (\<lambda>uint64.
     seqM (checkOverflow uint64 MAX_UINT64) (makeM (Const (IntOp uint64)))))"

definition Byte_new :: "sdk \<Rightarrow> string list \<Rightarrow> instr opM" where
  "Byte_new X args =
     bindM (liftM (getEncoding args)) (\<lambda>(str, encoding). makeM (Const (Byte str (convertToBuffer X str encoding))))"

definition Addr_new :: "sdk \<Rightarrow> string list \<Rightarrow> instr opM" where
  "Addr_new X args = one_arg args (\<lambda>a. seqM (assertM (isValidAddress X a) (TEAL INVALID_ADDR)) (makeM (Field (Addr a))))"

definition PushInt_new :: "string list \<Rightarrow> instr opM" where
  "PushInt_new args = one_arg args (\<lambda>a.
     seqM (assertOnlyDigits a)
    (seqM (checkOverflow (digits_value a) MAX_UINT64) (makeM (Const (PushInt (digits_value a))))))"

definition PushBytes_new :: "string list \<Rightarrow> instr opM" where
  "PushBytes_new args =
     seqM (assertLen (length args) 1)
    (bindM (liftM (getEncoding args)) (\<lambda>(str, encoding).
     seqM (assertM (encoding = UTF8) (TEAL UNKOWN_DECODE_TYPE)) (makeM (Const (PushBytes (stringToBytes str))))))"

definition Dig_new :: "string list \<Rightarrow> instr opM" where
  "Dig_new args = one_arg args (\<lambda>a.
     seqM (assertOnlyDigits a) (bindM (assertUint8 (digits_value a)) (\<lambda>_. makeM (StackI (Dig (nat (digits_value a)))))))"

definition Gload_new :: "string list \<Rightarrow> (int \<Rightarrow> int \<Rightarrow> instr) \<Rightarrow> instr opM" where
  "Gload_new args mk =
     seqM (assertLen (length args) 2)
    (seqM (assertOnlyDigits (arg_at args 0))
    (seqM (assertOnlyDigits (arg_at args 1)) (makeM (mk (digits_value (arg_at args 0)) (digits_value (arg_at args 1))))))"

definition label_new :: "string list \<Rightarrow> (string \<Rightarrow> flow_op) \<Rightarrow> instr opM" where
  "label_new args mk = one_arg args (\<lambda>a. makeM (Flow (mk a)))"

definition Switch_new :: "string list \<Rightarrow> instr opM" where
  "Switch_new args = seqM (assertM (length args \<le> 255) (TEAL LABELS_LENGTH_INVALID)) (makeM (Flow (Switch args)))"

text \<open>A start that is no number makes the length one neither when the length is 0.\<close>

definition Extract_new :: "string list \<Rightarrow> instr opM" where
  "Extract_new args =
     seqM (assertLen (length args) 2)
     (let start = number_arg (arg_at args 0); len = number_arg (arg_at args 1)
      in makeM (BytesI (Extract start (if start = NaN \<and> len = 0 then NaN else len))))"

definition Ecdsa_new :: "string list \<Rightarrow> (nat \<Rightarrow> crypto_op) \<Rightarrow> instr opM" where
  "Ecdsa_new args mk = one_arg args (\<lambda>a. let argument = assertFieldIndex a CurveTypeIndex in
     if argument = ''Secp256k1'' then makeM (Crypto (mk 0))
     else if argument = ''Secp256r1'' then makeM (Crypto (mk 1))
     else throwM (TEAL CURVE_NOT_SUPPORTED))"

definition ITxnField_new :: "string list \<Rightarrow> instr opM" where
  "ITxnField_new args =
     bindM (getM i_tealVersion) (\<lambda>v. let f = field_arg args 0 in
     seqM (assertTxFieldDefined f v) (seqM (assertLen (length args) 1) (makeM (Inner (ITxnField f)))))"

definition ITxn_new :: "string list \<Rightarrow> instr opM" where
  "ITxn_new args =
     bindM (getM i_tealVersion) (\<lambda>v. let f = field_arg args 0 in
     seqM (assertITxFieldDefined f v)
     (if f \<in> set (TxArrFields v) \<or> f \<in> set (ITxArrFields v)
      then seqM (assertLen (length args) 2)
          (seqM (assertOnlyDigits (arg_at args 1)) (makeM (Inner (ITxn f (digits_value (arg_at args 1))))))
      else seqM (assertLen (length args) 1) (makeM (Inner (ITxn f (- 1))))))"

definition ITxna_new :: "string list \<Rightarrow> (string \<Rightarrow> int \<Rightarrow> instr) \<Rightarrow> instr opM" where
  "ITxna_new args mk =
     seqM (assertLen (length args) 2)
    (seqM (assertOnlyDigits (arg_at args 1))
    (bindM (getM i_tealVersion) (\<lambda>v. let f = field_arg args 0 in
     seqM (assertITxArrFieldDefined f v) (makeM (mk f (digits_value (arg_at args 1)))))))"

definition AppParamsGet_new :: "string list \<Rightarrow> instr opM" where
  "AppParamsGet_new args = one_arg args (\<lambda>a.
     bindM (getM i_tealVersion) (\<lambda>v. let f = assertFieldIndex a AppParamDefinedIndex in
     seqM (assertM (f \<in> set (AppParamDefined v)) (TEAL UNKNOWN_APP_FIELD)) (makeM (Field (AppParamsGet f)))))"

definition acct_field_of :: "string \<Rightarrow> acct_field" where
  "acct_field_of f = (if f = ''AcctBalance'' then AcctBalance else if f = ''AcctMinBalance'' then AcctMinBalance else AcctAuthAddr)"

definition AcctParamsGet_new :: "string list \<Rightarrow> instr opM" where
  "AcctParamsGet_new args = one_arg args (\<lambda>a.
     bindM (getM i_tealVersion) (\<lambda>v. let f = assertFieldIndex a AcctParamQueryFieldsIndex in
     seqM (assertM (case map_of AcctParamQueryFields f of None \<Rightarrow> False | Some w \<Rightarrow> w \<le> v) (TEAL UNKNOWN_ACCT_FIELD))
      (makeM (Ledger (AcctParamsGet (acct_field_of f))))))"

definition Base64Decode_new :: "string list \<Rightarrow> instr opM" where
  "Base64Decode_new args = one_arg args (\<lambda>a.
     if a = ''0'' \<or> a = ''URLEncoding'' then makeM (Crypto (Base64Decode ''base64url''))
     else if a = ''1'' \<or> a = ''StdEncoding'' then makeM (Crypto (Base64Decode ''base64''))
     else throwM (TEAL UNKNOWN_ENCODING))"

definition Json_ref_new :: "string list \<Rightarrow> instr opM" where
  "Json_ref_new args = one_arg args (\<lambda>a.
     if a = ''0'' \<or> a = ''JSONString'' then makeM (Crypto (Json_ref ''byte''))
     else if a = ''1'' \<or> a = ''JSONUint64'' then makeM (Crypto (Json_ref ''int''))
     else if a = ''2'' \<or> a = ''JSONObject'' then makeM (Crypto (Json_ref ''object''))
     else throwM (TEAL UNKNOWN_JSON_TYPE))"

definition Block_new :: "string list \<Rightarrow> instr opM" where
  "Block_new args = one_arg args (\<lambda>a. let f = assertFieldIndex a blockFieldIndex in
     seqM (assertM (f = ''BlkSeed'' \<or> f = ''BlkTimestamp'') (TEAL UNKNOWN_BLOCK_FIELD)) (makeM (Field (Block f))))"

text \<open>The index is kept as it was written, so only the name selects the supported scheme.\<close>

definition VrfVerify_new :: "string list \<Rightarrow> instr opM" where
  "VrfVerify_new args = one_arg args (\<lambda>a.
     seqM (assertM (a \<in> {''0'', ''VrfAlgorand'', ''1'', ''VrfStandard''}) (TEAL UNKNOWN_VRF_TYPE))
      (makeM (Crypto (VrfVerify a))))"

definition construct :: "sdk \<Rightarrow> bool \<Rightarrow> op_class \<Rightarrow> string list \<Rightarrow> nat \<Rightarrow> instr opM" where
  "construct X attached c args line =
     (case c of
        Plain i \<Rightarrow> seqM (assertLen (length args) 0) (makeM i)
      | Unchecked i \<Rightarrow> makeM i
      | PragmaC \<Rightarrow> Pragma_new args line
      | ArgC \<Rightarrow> Arg_new args (\<lambda>n. Const (Arg n))
      | ArgsC \<Rightarrow> seqM (Arg_new (args @ [mockTxIdx]) (\<lambda>n. Const Args)) (seqM (assertLen (length args) 0) (makeM (Const Args)))
      | BytecblockC \<Rightarrow> Bytecblock_new args
      | BytecC \<Rightarrow> one_arg args (\<lambda>a. makeM (Const (Bytec (number_arg a))))
      | IntcblockC \<Rightarrow> Intcblock_new args
      | IntcC \<Rightarrow> one_arg args (\<lambda>a. makeM (Const (Intc (number_arg a))))
      | StoreC \<Rightarrow> Arg_new args (\<lambda>n. StackI (Store n))
      | LoadC \<Rightarrow> Arg_new args (\<lambda>n. StackI (Load n))
      | LoadsC \<Rightarrow> Arg_new (mockScratchIndex # args) (\<lambda>n. StackI Loads)
      | Ed25519verifyC \<Rightarrow> seqM (assertLen (length args) 0) (bindM (getM i_program) (\<lambda>p. makeM (Crypto (Ed25519verify p))))
      | SubstringC \<Rightarrow> Substring_new args
      | TxnC \<Rightarrow> Txn_new args
      | GtxnC \<Rightarrow> Gtxn_new attached args (\<lambda>t f i. Field (Gtxn t f i))
      | TxnaC \<Rightarrow> Txna_new args (\<lambda>f i. Field (Txna f i))
      | GtxnaC \<Rightarrow> Gtxna_new attached args (\<lambda>t f i. Field (Gtxna t f i))
      | GlobalC \<Rightarrow> Global_new args
      | GetAssetHoldingC \<Rightarrow> GetAssetHolding_new args
      | GetAssetDefC \<Rightarrow> GetAssetDef_new args
      | IntC \<Rightarrow> Int_new args
      | ByteC \<Rightarrow> Byte_new X args
      | AddrC \<Rightarrow> Addr_new X args
      | PushIntC \<Rightarrow> PushInt_new args
      | PushBytesC \<Rightarrow> PushBytes_new args
      | DigC \<Rightarrow> Dig_new args
      | GtxnsC \<Rightarrow> Gtxn_new attached (mockTxIdx # args) (\<lambda>t f i. Field (Gtxns f i))
      | GtxnsaC \<Rightarrow> Gtxna_new attached (mockTxIdx # args) (\<lambda>t f i. Field (Gtxnsa f i))
      | GloadC \<Rightarrow> Gload_new args (\<lambda>t i. StackI (Gload t i))
      | GloadsC \<Rightarrow> Gload_new (mockTxIdx # args) (\<lambda>t i. StackI (Gloads i))
      | GloadssC \<Rightarrow> Gload_new (mockTxIdx # mockScratchIndex # args) (\<lambda>t i. StackI Gloadss)
      | BranchC v4 \<Rightarrow> label_new args (if v4 then Branchv4 else Branch)
      | BranchIfZeroC v4 \<Rightarrow> label_new args (if v4 then BranchIfZerov4 else BranchIfZero)
      | BranchIfNotZeroC v4 \<Rightarrow> label_new args (if v4 then BranchIfNotZerov4 else BranchIfNotZero)
      | CallsubC \<Rightarrow> label_new args Callsub
      | SwitchC \<Rightarrow> Switch_new args
      | GaidC \<Rightarrow> one_arg args (\<lambda>a. makeM (Ledger (Gaid (number_arg a))))
      | GaidsC \<Rightarrow> one_arg (mockTxIdx # args) (\<lambda>a. makeM (Ledger Gaids))
      | ExtractC \<Rightarrow> Extract_new args
      | EcdsaC k \<Rightarrow> Ecdsa_new args (if k = 0 then EcdsaVerify else if k = 1 then EcdsaPkDecompress else EcdsaPkRecover)
      | CoverC \<Rightarrow> one_arg args (\<lambda>a. makeM (StackI (Cover (number_arg a))))
      | UncoverC \<Rightarrow> one_arg args (\<lambda>a. makeM (StackI (Uncover (number_arg a))))
      | ITxnFieldC \<Rightarrow> ITxnField_new args
      | ITxnC \<Rightarrow> ITxn_new args
      | ITxnaC \<Rightarrow> ITxna_new args (\<lambda>f i. Inner (ITxna f i))
      | ITxnasC \<Rightarrow> ITxna_new (args @ [mockTxIdx]) (\<lambda>f i. Inner (ITxnas f))
      | TxnasC \<Rightarrow> seqM (assertLen (length args) 1) (Txna_new (args @ [mockTxFieldIdx]) (\<lambda>f i. Field (Txnas f)))
      | GtxnasC \<Rightarrow> seqM (assertLen (length args) 2) (Gtxna_new attached (args @ [mockTxFieldIdx]) (\<lambda>t f i. Field (Gtxnas t f)))
      | GtxnsasC \<Rightarrow> seqM (assertLen (length args) 1)
          (Gtxna_new attached [mockTxIdx, arg_at args 0, mockTxFieldIdx] (\<lambda>t f i. Field (Gtxnsas f)))
      | AppParamsGetC \<Rightarrow> AppParamsGet_new args
      | AcctParamsGetC \<Rightarrow> AcctParamsGet_new args
      | GitxnC \<Rightarrow> Gtxn_new attached args (\<lambda>t f i. Inner (Gitxn t f i))
      | GitxnaC \<Rightarrow> Gtxna_new attached args (\<lambda>t f i. Inner (Gitxna t f i))
      | GitxnasC \<Rightarrow> seqM (assertLen (length args) 2) (Gtxna_new attached (args @ [mockTxFieldIdx]) (\<lambda>t f i. Inner (Gitxnas t f)))
      | Base64DecodeC \<Rightarrow> Base64Decode_new args
      | Replace2C \<Rightarrow> one_arg args (\<lambda>a. makeM (BytesI (Replace2 (number_arg a))))
      | Json_refC \<Rightarrow> Json_ref_new args
      | BlockC \<Rightarrow> Block_new args
      | VrfVerifyC \<Rightarrow> VrfVerify_new args)"

section \<open>Opcodes by version\<close>

text \<open>
  What each version adds to the one before, or changes: the three branches become other classes in
  version 4, so the newest entry of a name counts.
\<close>

definition ops_1 :: "(string, op_class) jsmap" where
  "ops_1 = [
     (''#pragma'', PragmaC), (''len'', Plain (BytesI Len)), (''err'', Plain (Flow Err)),
     (''+'', Plain (Arith Add)), (''-'', Plain (Arith Sub)), (''/'', Plain (Arith Div)),
     (''*'', Plain (Arith Mul)), (''arg'', ArgC), (''bytecblock'', BytecblockC), (''bytec'', BytecC),
     (''intcblock'', IntcblockC), (''intc'', IntcC), (''%'', Plain (Arith Mod)),
     (''|'', Plain (Arith BitwiseOr)), (''&'', Plain (Arith BitwiseAnd)), (''^'', Plain (Arith BitwiseXor)),
     (''~'', Plain (Arith BitwiseNot)), (''store'', StoreC), (''load'', LoadC),
     (''sha256'', Plain (Crypto (HashOp SHA256))), (''sha512_256'', Plain (Crypto (HashOp SHA512_256))),
     (''keccak256'', Plain (Crypto (HashOp KECCAK256))), (''ed25519verify'', Ed25519verifyC),
     (''<'', Plain (Arith LessThan)), (''>'', Plain (Arith GreaterThan)),
     (''<='', Plain (Arith LessThanEqualTo)), (''>='', Plain (Arith GreaterThanEqualTo)),
     (''&&'', Plain (Arith AndOp)), (''||'', Plain (Arith OrOp)), (''=='', Plain (Arith EqualTo)),
     (''!='', Plain (Arith NotEqualTo)), (''!'', Plain (Arith NotOp)), (''itob'', Plain (Arith Itob)),
     (''btoi'', Plain (Arith Btoi)), (''mulw'', Plain (Arith Mulw)), (''pop'', Plain (StackI PopOp)),
     (''dup'', Plain (StackI Dup)), (''addr'', AddrC), (''int'', IntC), (''byte'', ByteC),
     (''bnz'', BranchIfNotZeroC False), (''txn'', TxnC), (''gtxn'', GtxnC), (''global'', GlobalC)]"

definition ops_2 :: "(string, op_class) jsmap" where
  "ops_2 = [
     (''addw'', Plain (Arith Addw)), (''txna'', TxnaC), (''gtxna'', GtxnaC), (''b'', BranchC False),
     (''bz'', BranchIfZeroC False), (''return'', Plain (Flow Return)), (''dup2'', Plain (StackI Dup2)),
     (''concat'', Plain (BytesI Concat)), (''substring'', SubstringC),
     (''substring3'', Plain (BytesI Substring3)), (''app_opted_in'', Plain (Ledger AppOptedIn)),
     (''app_local_get'', Plain (Ledger AppLocalGet)), (''app_local_get_ex'', Plain (Ledger AppLocalGetEx)),
     (''app_global_get'', Plain (Ledger AppGlobalGet)), (''app_global_get_ex'', Plain (Ledger AppGlobalGetEx)),
     (''app_local_put'', Plain (Ledger AppLocalPut)), (''app_global_put'', Plain (Ledger AppGlobalPut)),
     (''app_local_del'', Plain (Ledger AppLocalDel)), (''app_global_del'', Plain (Ledger AppGlobalDel)),
     (''balance'', Plain (Ledger Balance)), (''asset_holding_get'', GetAssetHoldingC),
     (''asset_params_get'', GetAssetDefC)]"

definition ops_3 :: "(string, op_class) jsmap" where
  "ops_3 = [
     (''assert'', Plain (Flow Assert)), (''swap'', Plain (StackI Swap)), (''pushint'', PushIntC),
     (''pushbytes'', PushBytesC), (''getbit'', Plain (BytesI GetBit)), (''setbit'', Plain (BytesI SetBit)),
     (''getbyte'', Plain (BytesI GetByte)), (''setbyte'', Plain (BytesI SetByte)), (''dig'', DigC),
     (''select'', Plain (StackI Select)), (''gtxns'', GtxnsC), (''gtxnsa'', GtxnsaC),
     (''min_balance'', Plain (Ledger MinBalance))]"

definition ops_4 :: "(string, op_class) jsmap" where
  "ops_4 = [
     (''gload'', GloadC), (''gloads'', GloadsC), (''callsub'', CallsubC), (''retsub'', Plain (Flow Retsub)),
     (''b'', BranchC True), (''bnz'', BranchIfNotZeroC True), (''bz'', BranchIfZeroC True),
     (''b+'', Plain (BytesI (ByteOp MAdd))), (''b-'', Plain (BytesI (ByteOp MSub))),
     (''b*'', Plain (BytesI (ByteOp MMul))), (''b/'', Plain (BytesI (ByteOp MDiv))),
     (''b%'', Plain (BytesI (ByteOp MMod))), (''b<'', Plain (BytesI (ByteOp MLessThan))),
     (''b>'', Plain (BytesI (ByteOp MGreaterThan))), (''b<='', Plain (BytesI (ByteOp MLessThanEqualTo))),
     (''b>='', Plain (BytesI (ByteOp MGreaterThanEqualTo))), (''b=='', Plain (BytesI (ByteOp MEqualTo))),
     (''b!='', Plain (BytesI (ByteOp MNotEqualTo))), (''b|'', Plain (BytesI (ByteOp MBitwiseOr))),
     (''b&'', Plain (BytesI (ByteOp MBitwiseAnd))), (''b^'', Plain (BytesI (ByteOp MBitwiseXor))),
     (''b~'', Plain (BytesI ByteBitwiseInvert)), (''bzero'', Plain (BytesI ByteZero)),
     (''divmodw'', Plain (Arith DivModw)), (''exp'', Plain (Arith Exp)), (''expw'', Plain (Arith Expw)),
     (''shl'', Plain (Arith Shl)), (''shr'', Plain (Arith Shr)), (''sqrt'', Plain (Arith Sqrt)),
     (''bitlen'', Plain (Arith BitLen)), (''gaid'', GaidC), (''gaids'', GaidsC)]"

definition ops_5 :: "(string, op_class) jsmap" where
  "ops_5 = [
     (''cover'', CoverC), (''uncover'', UncoverC), (''loads'', LoadsC), (''stores'', Plain (StackI Stores)),
     (''ecdsa_verify'', EcdsaC 0), (''ecdsa_pk_decompress'', EcdsaC 1), (''ecdsa_pk_recover'', EcdsaC 2),
     (''extract'', ExtractC), (''extract3'', Plain (BytesI Extract3)),
     (''extract_uint16'', Plain (BytesI (ExtractUintN 2))),
     (''extract_uint32'', Plain (BytesI (ExtractUintN 4))),
     (''extract_uint64'', Plain (BytesI (ExtractUintN 8))), (''itxn_begin'', Plain (Inner ITxnBegin)),
     (''itxn_field'', ITxnFieldC), (''itxn_submit'', Plain (Inner ITxnSubmit)), (''itxn'', ITxnC),
     (''itxna'', ITxnaC), (''txnas'', TxnasC), (''gtxnas'', GtxnasC), (''gtxnsas'', GtxnsasC),
     (''args'', ArgsC), (''log'', Plain (Ledger Log)), (''app_params_get'', AppParamsGetC)]"

definition ops_6 :: "(string, op_class) jsmap" where
  "ops_6 = [
     (''divw'', Plain (Arith Divw)), (''bsqrt'', Plain (BytesI Bsqrt)), (''gloadss'', GloadssC),
     (''acct_params_get'', AcctParamsGetC), (''itxn_next'', Plain (Inner ITxnNext)), (''gitxn'', GitxnC),
     (''gitxna'', GitxnaC), (''gitxnas'', GitxnasC), (''itxnas'', ITxnasC)]"

definition ops_7 :: "(string, op_class) jsmap" where
  "ops_7 = [
     (''base64_decode'', Base64DecodeC), (''replace2'', Replace2C), (''replace3'', Plain (BytesI Replace3)),
     (''sha3_256'', Plain (Crypto (HashOp SHA3_256))),
     (''ed25519verify_bare'', Plain (Crypto Ed25519verify_bare)), (''json_ref'', Json_refC),
     (''block'', BlockC), (''vrf_verify'', VrfVerifyC)]"

definition ops_8 :: "(string, op_class) jsmap" where
  "ops_8 = [
     (''bn254_add'', Unchecked (Crypto Bn254Add)), (''bn254_scalar_mul'', Unchecked (Crypto Bn254ScalarMul)),
     (''bn254_pairing'', Unchecked (Crypto Bn254Pairing)), (''switch'', SwitchC)]"

definition opCodeMap :: "nat \<Rightarrow> (string, op_class) jsmap" where
  "opCodeMap v = concat (rev (take v [ops_1, ops_2, ops_3, ops_4, ops_5, ops_6, ops_7, ops_8]))"

definition signatureModeOps :: "string list" where
  "signatureModeOps = [''arg'', ''args'', ''arg_0'', ''arg_1'', ''arg_2'', ''arg_3'']"

definition applicationModeOps :: "string list" where
  "applicationModeOps = [
     ''gload'', ''gloads'', ''gaid'', ''gaids'', ''balance'', ''app_opted_in'', ''app_local_get'', ''app_local_get_ex'',
     ''app_global_get'', ''app_global_get_ex'', ''app_local_put'', ''app_global_put'', ''app_local_del'',
     ''app_global_del'', ''asset_holding_get'', ''asset_params_get'', ''app_params_get'', ''min_balance'', ''log'',
     ''itxn_begin'', ''itxn_field'', ''itxn_submit'', ''itxn'', ''itxna'', ''gloadss'', ''acct_params_get'',
     ''itxn_next'', ''gitxn'', ''gitxna'', ''gitxnas'', ''itxnas'']"

section \<open>Sentences and programs\<close>

text \<open>\<^verbatim>\<open>arg_0\<close>, \<^verbatim>\<open>intc_1\<close>, \<^verbatim>\<open>bytec_2\<close> and their like: the opcode and its argument.\<close>

definition expand_pseudo :: "string \<Rightarrow> string list \<Rightarrow> error + string \<times> string list" where
  "expand_pseudo opCode args =
     (let split = (\<lambda>prefix name. if args = [] then Inr (name, [drop (length prefix) opCode]) else Inl (TEAL ASSERT_LENGTH))
      in if starts_with ''arg_'' opCode then split ''arg_'' ''arg''
         else if starts_with ''intc_'' opCode then split ''intc_'' ''intc''
         else if starts_with ''bytec_'' opCode then split ''bytec_'' ''bytec''
         else Inr (opCode, args))"

definition label_text :: "string \<Rightarrow> string" where
  "label_text w = takeWhile (\<lambda>c. c \<noteq> CHR '':'') w"

text \<open>
  The tables are objects, so the names that every object inherits are neither labels nor unknown
  opcodes; what they stand for is no class of an opcode (the one that is a class fails when it is run).
\<close>

definition opcodeFromSentence :: "sdk \<Rightarrow> bool \<Rightarrow> string list \<Rightarrow> nat \<Rightarrow> mode \<Rightarrow> instr opM" where
  "opcodeFromSentence X attached ws counter md =
     (case ws of
        [] \<Rightarrow> throwM (JsError TypeError)
      | w # rest \<Rightarrow>
          bindM (liftM (expand_pseudo w rest)) (\<lambda>(opCode, args).
          bindM (getM i_tealVersion) (\<lambda>v.
           if ends_with '':'' opCode then
             seqM (assertLen (length args) 0)
            (seqM (assertM (1 \<le> v \<and> v \<le> MaxTEALVersion) (JsError TypeError))
            (seqM (assertM (map_of (opCodeMap v) (butlast opCode) = None \<and> butlast opCode \<notin> object_keys) (TEAL INVALID_LABEL))
             (makeM (Flow (Label (label_text opCode))))))
           else
             seqM (assertM (1 \<le> v \<and> v \<le> MaxTEALVersion) (JsError TypeError))
            (bindM (someM (if opCode \<in> object_keys then JsError TypeError else TEAL UNKNOWN_OPCODE)
               (map_of (opCodeMap v) opCode)) (\<lambda>c.
             seqM (assertM (\<not> (md = APPLICATION \<and> opCode \<in> set signatureModeOps)) (TEAL EXECUTION_MODE_NOT_VALID))
            (seqM (assertM (\<not> (md = SIGNATURE \<and> opCode \<in> set applicationModeOps)) (TEAL EXECUTION_MODE_NOT_VALID))
            (seqM (modifyM (\<lambda>s. s\<lparr>i_gas := i_gas s +
               (if opCode = ''#pragma'' then 0 else case OpGasCost v opCode of None \<Rightarrow> 1 | Some g \<Rightarrow> g)\<rparr>))
             (construct X attached c args counter))))))))"

definition assertLogicMaxLen :: "nat \<Rightarrow> mode \<Rightarrow> unit opM" where
  "assertLogicMaxLen n md = assertM (\<not> (md = SIGNATURE \<and> LogicSigMaxSize < n)) (TEAL MAX_LEN_EXCEEDED)"

definition is_blank :: "string \<Rightarrow> bool" where
  "is_blank line \<longleftrightarrow> line = [] \<or> starts_with ''//'' line"

text \<open>\<open>n\<close> counts the lines before.\<close>

fun parse_lines :: "sdk \<Rightarrow> mode \<Rightarrow> string list \<Rightarrow> nat \<Rightarrow> instr list opM" where
    "parse_lines X md [] n = returnM []"
  | "parse_lines X md (line # rest) n =
      (if is_blank line \<or> wordsFromLine line = [] then parse_lines X md rest (Suc n)
       else bindM (opcodeFromSentence X True (wordsFromLine line) (Suc n) md) (\<lambda>i.
            bindM (parse_lines X md rest (Suc n)) (\<lambda>is. returnM (i # is))))"

fun split_lines :: "string \<Rightarrow> string list" where
    "split_lines [] = [[]]"
  | "split_lines (c # cs) =
      (case split_lines cs of
         [] \<Rightarrow> [[c]]
       | l # ls \<Rightarrow> if c = CHR 0x0A then [] # l # ls else (c # l) # ls)"

definition parser :: "sdk \<Rightarrow> string \<Rightarrow> mode \<Rightarrow> instr list opM" where
  "parser X program md =
     bindM (getM (\<lambda>s. sum_list (List.map (\<lambda>r. length (deref (c_heap s) r)) (c_args s)))) (\<lambda>argsSize.
     seqM (assertLogicMaxLen (length (base64_decode program) + argsSize) md)
    (bindM (parse_lines X md (split_lines program) 0) (\<lambda>opCodeList.
     bindM (getM i_tealVersion) (\<lambda>v.
     seqM (if v \<le> 3 then bindM (getM i_gas) (\<lambda>gas. assertMaxCost gas md None) else returnM ())
      (returnM opCodeList)))))"

text \<open>An interpreter without a runtime, for the version of a program.\<close>

definition blank_ctx :: ctx where
  "blank_ctx = \<lparr>c_heap = [], c_state = sample_ledger, c_tx = bare_tx '''' '''' [], c_txAt = 0, c_gtxs = [],
     c_args = [], c_round = 0, c_timestamp = 0, c_blocks = [], c_sharedScratchSpace = [], c_knowableID = [],
     c_pooledApplCost = 0, c_isInnerTx = False, c_innerTxAppIDCallStack = [], c_remainingTxns = 0,
     c_remainingFee = 0, c_budget = 0, c_lastLog = 0, c_zeroAddress = 0, c_txnType = None\<rparr>"

definition getProgramVersion :: "sdk \<Rightarrow> string \<Rightarrow> error + nat" where
  "getProgramVersion X program =
     (let firstLine = hd (split_lines program)
      in case opcodeFromSentence X False (wordsFromLine firstLine) 1 APPLICATION (new_Interpreter APPLICATION blank_ctx) of
           (Inl e, _) \<Rightarrow> Inl e
         | (Inr _, ip) \<Rightarrow> Inr (i_tealVersion ip))"

end
