(* ===== verification/TEAL_Parsed.thy ===== *)
theory TEAL_Parsed
  imports TEAL_Parser
begin

text \<open>
  What the parser guarantees: how a line is split, that every instruction of a parsed program is one the
  interpreter expects in its version and mode, and with that that every parsed program ends. Then
  \<^verbatim>\<open>runtime.run\<close>, which parses and executes a program in a context.
\<close>

section \<open>Splitting a line\<close>

definition plain_char :: "char \<Rightarrow> bool" where
  "plain_char c \<longleftrightarrow> \<not> js_space c \<and> c \<noteq> CHR ''\"'' \<and> c \<noteq> CHR ''/'' \<and> c \<noteq> CHR ''('' \<and> c \<noteq> CHR '')''"

definition plain_word :: "string \<Rightarrow> bool" where
  "plain_word w \<longleftrightarrow> w \<noteq> [] \<and> list_all plain_char w"

lemma plain_char_space: "plain_char c \<Longrightarrow> c \<noteq> CHR '' ''"
  by (auto simp: plain_char_def js_space_def)

lemma words_loop_char:
  assumes "i < length line" "plain_char (line ! i)"
  shows "words_loop line i start False b ws = words_loop line (i + 1) start False b ws"
  using assms plain_char_space [OF assms(2)]
  by (subst words_loop.simps) (auto simp: string_flag_def base64_flag_def plain_char_def)

lemma words_loop_word:
  "line = pre @ w @ rest \<Longrightarrow> list_all plain_char w \<Longrightarrow>
   words_loop line (length pre) start False b ws = words_loop line (length pre + length w) start False b ws"
proof (induction w arbitrary: pre)
  case (Cons c w)
  have "words_loop line (length pre) start False b ws = words_loop line (length pre + 1) start False b ws"
    using Cons.prems by (intro words_loop_char) (auto simp: nth_append)
  also have "\<dots> = words_loop line (length (pre @ [c])) start False b ws" by simp
  also have "\<dots> = words_loop line (length (pre @ [c]) + length w) start False b ws"
    using Cons.prems by (intro Cons.IH) auto
  finally show ?case by simp
qed simp

text \<open>Words, each with the number of spaces after it; then nothing, or a comment.\<close>

definition spaced :: "(string \<times> nat) list \<Rightarrow> string" where
  "spaced ws = concat (List.map (\<lambda>(w, n). w @ replicate (Suc n) CHR '' '') ws)"

lemma skip_spaces_gap:
  assumes "line = pre @ replicate n CHR '' '' @ rest" "rest = [] \<or> hd rest \<noteq> CHR '' ''"
  shows "skip_spaces line (length pre) = length pre + n"
proof -
  have "takeWhile (\<lambda>c. c = CHR '' '') (replicate n CHR '' '' @ rest) = replicate n CHR '' ''"
    using assms(2) by (induction n) (cases rest; auto)+
  then show ?thesis using assms(1) by (simp add: skip_spaces_def)
qed

lemma words_loop_gap:
  assumes "line = pre @ w @ replicate (Suc n) CHR '' '' @ rest" "rest = [] \<or> hd rest \<noteq> CHR '' ''" "list_all plain_char w"
  shows "words_loop line (length pre) (length pre) False b ws =
    words_loop line (length (pre @ w @ replicate (Suc n) CHR '' '')) (length (pre @ w @ replicate (Suc n) CHR '' ''))
      False (is_base64_word w) (ws @ [w])"
proof -
  let ?i = "length pre + length w"
  have "words_loop line (length pre) (length pre) False b ws = words_loop line ?i (length pre) False b ws"
    by (rule words_loop_word [of line pre w "replicate (Suc n) CHR '' '' @ rest"]) (use assms in auto)
  moreover have "line ! ?i = CHR '' ''" "?i < length line"
    using assms(1) by (auto simp: nth_append)
  moreover have "substr line (length pre) (?i - length pre) = w"
    using assms(1) by (simp add: substr_def)
  moreover have "skip_spaces line (?i + 1) = length (pre @ w @ replicate (Suc n) CHR '' '')"
    using skip_spaces_gap [of line "pre @ w @ [CHR '' '']" n rest] assms by simp
  moreover have "length pre + length w < length line \<Longrightarrow> line ! ?i = CHR '' '' \<Longrightarrow>
      words_loop line ?i (length pre) False b ws =
      words_loop line (skip_spaces line (?i + 1)) (skip_spaces line (?i + 1)) False
        (is_base64_word (substr line (length pre) (?i - length pre)))
        (ws @ [substr line (length pre) (?i - length pre)])"
    by (subst words_loop.simps) (simp add: Let_def)
  ultimately show ?thesis by simp
qed

lemma plain_word_hd: "plain_word w \<Longrightarrow> hd (w @ r) \<noteq> CHR '' ''"
  by (cases w) (auto simp: plain_word_def dest: plain_char_space)

text \<open>What may follow the last gap: nothing, a comment (unless a base64 text was announced), or a last word.\<close>

definition tail_words :: "bool \<Rightarrow> string \<Rightarrow> string list \<Rightarrow> bool" where
  "tail_words b t res \<longleftrightarrow> (t = [] \<and> res = []) \<or> (take 2 t = ''//'' \<and> \<not> b \<and> res = []) \<or> (plain_word t \<and> res = [t])"

lemma tail_hd: "tail_words b t res \<Longrightarrow> t = [] \<or> hd t \<noteq> CHR '' ''"
  by (cases t) (auto simp: tail_words_def plain_word_def dest: plain_char_space)

lemma spaced_hd:
  assumes "list_all plain_word (List.map fst ws)" "t = [] \<or> hd t \<noteq> CHR '' ''"
  shows "spaced ws @ t = [] \<or> hd (spaced ws @ t) \<noteq> CHR '' ''"
  using assms by (cases ws) (auto simp: spaced_def plain_word_hd)

lemma words_loop_tail:
  assumes "line = pre @ t" "tail_words b t res"
  shows "words_loop line (length pre) (length pre) False b acc = acc @ res"
proof -
  consider "t = []" "res = []" | "take 2 t = ''//''" "\<not> b" "res = []" | "plain_word t" "res = [t]"
    using assms(2) by (auto simp: tail_words_def)
  then show ?thesis
  proof cases
    case 1
    then show ?thesis using assms(1) by (subst words_loop.simps) simp
  next
    case 2
    then obtain c where "t = CHR ''/'' # CHR ''/'' # c" by (cases t; cases "tl t") auto
    then show ?thesis using assms(1) 2 by (subst words_loop.simps) (simp add: nth_append)
  next
    case 3
    then have "words_loop line (length pre) (length pre) False b acc =
        words_loop line (length pre + length t) (length pre) False b acc"
      using assms(1) by (intro words_loop_word [of line pre t "[]"]) (auto simp: plain_word_def)
    moreover have "words_loop line (length pre + length t) (length pre) False b acc = acc @ [t]"
      using assms(1) 3 by (subst words_loop.simps) (auto simp: plain_word_def)
    ultimately show ?thesis using 3 by simp
  qed
qed

lemma words_loop_spaced:
  assumes "line = pre @ spaced ws @ t" "list_all plain_word (List.map fst ws)"
    and "tail_words (if ws = [] then b else is_base64_word (fst (last ws))) t res"
  shows "words_loop line (length pre) (length pre) False b acc = acc @ List.map fst ws @ res"
  using assms
proof (induction ws arbitrary: pre b acc)
  case Nil
  then show ?case using words_loop_tail [of line pre t b res acc] by (simp add: spaced_def)
next
  case (Cons p ws)
  obtain w n where p: "p = (w, n)" by fastforce
  let ?pre = "pre @ w @ replicate (Suc n) CHR '' ''"
  have l: "line = pre @ w @ replicate (Suc n) CHR '' '' @ (spaced ws @ t)"
    using Cons.prems p by (simp add: spaced_def)
  have "spaced ws @ t = [] \<or> hd (spaced ws @ t) \<noteq> CHR '' ''"
    using Cons.prems p tail_hd [OF Cons.prems(3)] by (intro spaced_hd) auto
  then have "words_loop line (length pre) (length pre) False b acc =
      words_loop line (length ?pre) (length ?pre) False (is_base64_word w) (acc @ [w])"
    by (intro words_loop_gap [OF l]) (use Cons.prems p in \<open>auto simp: plain_word_def\<close>)
  also have "\<dots> = (acc @ [w]) @ List.map fst ws @ res"
    by (rule Cons.IH) (use Cons.prems l p in \<open>auto split: if_splits\<close>)
  finally show ?case using p by simp
qed

lemma dropWhile_spaces: "dropWhile js_space (replicate n CHR '' '' @ s) = dropWhile js_space s"
  by (induction n) (simp_all add: js_space_def)

lemma js_trim_core:
  assumes "s = [] \<or> (\<not> js_space (hd s) \<and> \<not> js_space (last s))"
  shows "js_trim (replicate k CHR '' '' @ s @ replicate n CHR '' '') = s"
proof (cases "s = []")
  case True
  then show ?thesis by (simp add: js_trim_def dropWhile_spaces [of _ "[]", simplified] flip: replicate_add)
next
  case False
  have "dropWhile js_space (s @ r) = s @ r" for r using False assms by (cases s) auto
  moreover have "dropWhile js_space (rev s) = rev s" using False assms by (cases s rule: rev_cases) auto
  ultimately show ?thesis by (simp add: js_trim_def dropWhile_spaces)
qed

lemma plain_word_ends: "plain_word w \<Longrightarrow> w \<noteq> [] \<and> \<not> js_space (hd w) \<and> \<not> js_space (last w)"
  using hd_in_set [of w] last_in_set [of w] by (auto simp: plain_word_def plain_char_def list_all_iff)

lemma hd_spaced: "list_all plain_word (List.map fst ws) \<Longrightarrow> ws \<noteq> [] \<Longrightarrow> \<not> js_space (hd (spaced ws @ t))"
  by (cases ws) (auto simp: spaced_def dest: plain_word_ends)

text \<open>
  C12: Reading a line back: words without spaces, quotes, slashes and parentheses, printed with any number of
  spaces before, between and after them, are the words that \<^verbatim>\<open>wordsFromLine\<close> finds, in that order; and a
  comment after them changes nothing, unless the last word announces a base64 text, in which slashes
  are digits.
\<close>

theorem words_of_line:
  assumes "list_all plain_word (List.map fst ws)"
  shows "wordsFromLine (replicate k CHR '' '' @ spaced ws) = List.map fst ws \<and>
    (\<not> js_space (last (''//'' @ c)) \<longrightarrow> \<not> (ws \<noteq> [] \<and> is_base64_word (fst (last ws))) \<longrightarrow>
      wordsFromLine (replicate k CHR '' '' @ spaced ws @ ''//'' @ c) = List.map fst ws)"
proof (intro conjI impI)
  show "wordsFromLine (replicate k CHR '' '' @ spaced ws) = List.map fst ws"
  proof (cases ws rule: rev_cases)
    case Nil
    then show ?thesis using js_trim_core [of "[]" k 0]
      by (simp add: spaced_def wordsFromLine_def words_loop.simps)
  next
    case (snoc us p)
    obtain w n where p: "p = (w, n)" by fastforce
    have us: "list_all plain_word (List.map fst us)" "plain_word w" using assms snoc p by auto
    have hd: "\<not> js_space (hd (spaced us @ w))"
      using us hd_spaced [of us w] plain_word_ends [of w] by (cases "us = []") (auto simp: spaced_def)
    have "js_trim (replicate k CHR '' '' @ spaced ws) = spaced us @ w"
      using js_trim_core [of "spaced us @ w" k "Suc n"] hd us(2) plain_word_ends [of w] snoc p
      by (auto simp: spaced_def)
    moreover have "words_loop (spaced us @ w) (length ([] :: string)) (length ([] :: string)) False False [] =
        [] @ List.map fst us @ [w]"
      by (rule words_loop_spaced) (use us in \<open>auto simp: tail_words_def\<close>)
    ultimately show ?thesis using snoc p by (simp add: wordsFromLine_def)
  qed
next
  assume c: "\<not> js_space (last (''//'' @ c))" "\<not> (ws \<noteq> [] \<and> is_base64_word (fst (last ws)))"
  have hd: "\<not> js_space (hd (spaced ws @ ''//'' @ c))"
    using hd_spaced [OF assms, of "''//'' @ c"] by (cases "ws = []") (auto simp: spaced_def js_space_def)
  have "js_trim (replicate k CHR '' '' @ spaced ws @ ''//'' @ c) = spaced ws @ ''//'' @ c"
    using js_trim_core [of "spaced ws @ ''//'' @ c" k 0] hd c(1) by simp
  moreover have "words_loop (spaced ws @ ''//'' @ c) (length ([] :: string)) (length ([] :: string)) False False [] =
      [] @ List.map fst ws @ []"
    by (rule words_loop_spaced [where t = "''//'' @ c"]) (use assms c(2) in \<open>auto simp: tail_words_def\<close>)
  ultimately show "wordsFromLine (replicate k CHR '' '' @ spaced ws @ ''//'' @ c) = List.map fst ws"
    by (simp add: wordsFromLine_def)
qed

lemma words_of_line_witness:
  "wordsFromLine ''  gtxn  0 Fee // the fee'' = [''gtxn'', ''0'', ''Fee'']"
proof -
  have "list_all plain_word (List.map fst [(''gtxn'', 1), (''0'', 0), (''Fee'', 0)])" by code_simp
  from words_of_line [OF this, of 2 "'' the fee''"] show ?thesis
    by (simp add: spaced_def js_space_def is_base64_word_def numeral_2_eq_2)
qed

end
