(* ===== verification/TEAL_Checked.thy ===== *)
theory TEAL_Checked
  imports TEAL_Parser
begin

text \<open>
  What the parser guarantees of a program it accepts: every instruction is one that its version has and its
  mode allows, with arguments in the ranges and fields in the tables that the interpreter relies on. From
  that it follows that every accepted program comes to an end, with no condition left on the program.
\<close>

section \<open>Well-formed instructions\<close>

definition known_field :: "nat \<Rightarrow> string \<Rightarrow> bool" where
  "known_field v f \<longleftrightarrow> map_of (TxnFields v) f \<noteq> None"

definition array_field :: "nat \<Rightarrow> string \<Rightarrow> bool" where
  "array_field v f \<longleftrightarrow> f \<in> set (TxArrFields v)"

definition inner_array_field :: "nat \<Rightarrow> string \<Rightarrow> bool" where
  "inner_array_field v f \<longleftrightarrow> f \<in> set (TxArrFields v) \<or> f \<in> set (ITxArrFields v)"

definition index_ok :: "int option \<Rightarrow> bool" where
  "index_ok i \<longleftrightarrow> (case i of None \<Rightarrow> True | Some n \<Rightarrow> 0 \<le> n)"

fun const_ok :: "mode \<Rightarrow> const_op \<Rightarrow> bool" where
    "const_ok md (IntOp n) \<longleftrightarrow> 0 \<le> n \<and> n \<le> MAX_UINT64"
  | "const_ok md (PushInt n) \<longleftrightarrow> 0 \<le> n \<and> n \<le> MAX_UINT64"
  | "const_ok md (Intcblock ns) \<longleftrightarrow> list_all (\<lambda>n. 0 \<le> n) ns"
  | "const_ok md (Arg n) \<longleftrightarrow> md = SIGNATURE"
  | "const_ok md Args \<longleftrightarrow> md = SIGNATURE"
  | "const_ok md _ \<longleftrightarrow> True"

fun flow_ok :: "nat \<Rightarrow> flow_op \<Rightarrow> bool" where
    "flow_ok v (Switch ls) \<longleftrightarrow> 8 \<le> v \<and> length ls \<le> 255"
  | "flow_ok v f \<longleftrightarrow> (v < 4 \<longrightarrow> forward_only (Some f))"

fun stack_ok :: "mode \<Rightarrow> stack_op \<Rightarrow> bool" where
    "stack_ok md (Dig n) \<longleftrightarrow> n \<le> 255"
  | "stack_ok md (Gload t i) \<longleftrightarrow> md = APPLICATION \<and> 0 \<le> t \<and> 0 \<le> i"
  | "stack_ok md (Gloads i) \<longleftrightarrow> md = APPLICATION \<and> 0 \<le> i"
  | "stack_ok md Gloadss \<longleftrightarrow> md = APPLICATION"
  | "stack_ok md _ \<longleftrightarrow> True"

fun crypto_ok :: "crypto_op \<Rightarrow> bool" where
    "crypto_ok (EcdsaVerify k) \<longleftrightarrow> k \<le> 1"
  | "crypto_ok (EcdsaPkDecompress k) \<longleftrightarrow> k \<le> 1"
  | "crypto_ok (EcdsaPkRecover k) \<longleftrightarrow> k \<le> 1"
  | "crypto_ok (Base64Decode e) \<longleftrightarrow> e \<in> {''base64url'', ''base64''}"
  | "crypto_ok (Json_ref t) \<longleftrightarrow> t \<in> {''byte'', ''int'', ''object''}"
  | "crypto_ok _ \<longleftrightarrow> True"

fun field_ok :: "sdk \<Rightarrow> nat \<Rightarrow> mode \<Rightarrow> field_op \<Rightarrow> bool" where
    "field_ok X v md (Txn f i) \<longleftrightarrow> known_field v f \<and> index_ok i \<and> (array_field v f \<longleftrightarrow> i \<noteq> None)"
  | "field_ok X v md (Gtxn t f i) \<longleftrightarrow> 0 \<le> t \<and> known_field v f \<and> index_ok i"
  | "field_ok X v md (Txna f i) \<longleftrightarrow> array_field v f \<and> 0 \<le> i"
  | "field_ok X v md (Gtxna t f i) \<longleftrightarrow> 0 \<le> t \<and> array_field v f \<and> 0 \<le> i"
  | "field_ok X v md (Gtxns f i) \<longleftrightarrow> known_field v f \<and> index_ok i"
  | "field_ok X v md (Gtxnsa f i) \<longleftrightarrow> array_field v f \<and> 0 \<le> i"
  | "field_ok X v md (Txnas f) \<longleftrightarrow> array_field v f"
  | "field_ok X v md (Gtxnas t f) \<longleftrightarrow> 0 \<le> t \<and> array_field v f"
  | "field_ok X v md (Gtxnsas f) \<longleftrightarrow> array_field v f"
  | "field_ok X v md (Global f) \<longleftrightarrow> map_of (GlobalFields v) f \<noteq> None"
  | "field_ok X v md (GetAssetDef f) \<longleftrightarrow> md = APPLICATION \<and> map_of (AssetParamMap v) f \<noteq> None"
  | "field_ok X v md (AppParamsGet f) \<longleftrightarrow> md = APPLICATION \<and> f \<in> set (AppParamDefined v)"
  | "field_ok X v md (Block f) \<longleftrightarrow> f \<in> {''BlkSeed'', ''BlkTimestamp''}"
  | "field_ok X v md (Addr a) \<longleftrightarrow> isValidAddress X a"

fun inner_ok :: "nat \<Rightarrow> inner_op \<Rightarrow> bool" where
    "inner_ok v (ITxnField f) \<longleftrightarrow> known_field v f"
  | "inner_ok v (ITxn f i) \<longleftrightarrow> (if inner_array_field v f then 0 \<le> i else i = -1)"
  | "inner_ok v (ITxna f i) \<longleftrightarrow> inner_array_field v f \<and> 0 \<le> i"
  | "inner_ok v (ITxnas f) \<longleftrightarrow> inner_array_field v f"
  | "inner_ok v (Gitxn t f i) \<longleftrightarrow> 0 \<le> t \<and> known_field v f \<and> index_ok i"
  | "inner_ok v (Gitxna t f i) \<longleftrightarrow> 0 \<le> t \<and> array_field v f \<and> 0 \<le> i"
  | "inner_ok v (Gitxnas t f) \<longleftrightarrow> 0 \<le> t \<and> array_field v f"
  | "inner_ok v _ \<longleftrightarrow> True"

fun instr_ok :: "sdk \<Rightarrow> nat \<Rightarrow> mode \<Rightarrow> instr \<Rightarrow> bool" where
    "instr_ok X v md (Const c) \<longleftrightarrow> const_ok md c"
  | "instr_ok X v md (Flow f) \<longleftrightarrow> flow_ok v f"
  | "instr_ok X v md (StackI i) \<longleftrightarrow> stack_ok md i"
  | "instr_ok X v md (Ledger _) \<longleftrightarrow> md = APPLICATION"
  | "instr_ok X v md (Crypto c) \<longleftrightarrow> crypto_ok c"
  | "instr_ok X v md (Field f) \<longleftrightarrow> field_ok X v md f"
  | "instr_ok X v md (Inner i) \<longleftrightarrow> md = APPLICATION \<and> 5 \<le> v \<and> inner_ok v i"
  | "instr_ok X v md _ \<longleftrightarrow> True"

section \<open>The tables of opcodes\<close>

text \<open>What a class needs of its entry in the tables: the mode, the version, and nothing else of a plain one.\<close>

definition class_modes :: "op_class \<Rightarrow> mode list" where [simp]:
  "class_modes c =
     (case c of
        Plain i \<Rightarrow> (case i of Ledger _ \<Rightarrow> [APPLICATION] | Inner _ \<Rightarrow> [APPLICATION] | _ \<Rightarrow> [SIGNATURE, APPLICATION])
      | _ \<Rightarrow>
          if c \<in> {ArgC, ArgsC} then [SIGNATURE]
          else if c \<in> {GetAssetHoldingC, GetAssetDefC, GloadC, GloadsC, GloadssC, GaidC, GaidsC, ITxnFieldC, ITxnC,
            ITxnaC, ITxnasC, AppParamsGetC, AcctParamsGetC, GitxnC, GitxnaC, GitxnasC} then [APPLICATION]
          else [SIGNATURE, APPLICATION])"

definition class_since :: "op_class \<Rightarrow> nat" where [simp]:
  "class_since c =
     (case c of
        Plain i \<Rightarrow> (case i of Inner _ \<Rightarrow> 5 | Flow f \<Rightarrow> if f = Retsub then 4 else 1 | _ \<Rightarrow> 1)
      | BranchC v4 \<Rightarrow> if v4 then 4 else 1
      | BranchIfZeroC v4 \<Rightarrow> if v4 then 4 else 1
      | BranchIfNotZeroC v4 \<Rightarrow> if v4 then 4 else 1
      | _ \<Rightarrow>
          if c = SwitchC then 8 else if c = CallsubC then 4
          else if c \<in> {ITxnFieldC, ITxnC, ITxnaC, ITxnasC, GitxnC, GitxnaC, GitxnasC} then 5 else 1)"

fun plain_ok :: "op_class \<Rightarrow> bool" where
    "plain_ok (Plain i) = (case i of
       Arith _ \<Rightarrow> True | BytesI _ \<Rightarrow> True | Ledger _ \<Rightarrow> True
     | StackI o1 \<Rightarrow> o1 \<in> {PopOp, Dup, Dup2, Swap, Select, Stores}
     | Flow o2 \<Rightarrow> o2 \<in> {Return, Assert, Err, Retsub}
     | Crypto o3 \<Rightarrow> crypto_ok o3
     | Inner o4 \<Rightarrow> o4 \<in> {ITxnBegin, ITxnNext, ITxnSubmit}
     | _ \<Rightarrow> False)"
  | "plain_ok (Unchecked i) = (case i of Crypto o3 \<Rightarrow> crypto_ok o3 | _ \<Rightarrow> False)"
  | "plain_ok _ = True"

definition mode_allows :: "mode \<Rightarrow> string \<Rightarrow> bool" where
  "mode_allows md name \<longleftrightarrow> (case md of
     APPLICATION \<Rightarrow> name \<notin> set signatureModeOps | SIGNATURE \<Rightarrow> name \<notin> set applicationModeOps)"

definition entry_ok :: "nat \<Rightarrow> string \<times> op_class \<Rightarrow> bool" where
  "entry_ok v e \<longleftrightarrow> class_since (snd e) \<le> v \<and> plain_ok (snd e) \<and>
     (mode_allows APPLICATION (fst e) \<longrightarrow> APPLICATION \<in> set (class_modes (snd e))) \<and>
     (mode_allows SIGNATURE (fst e) \<longrightarrow> SIGNATURE \<in> set (class_modes (snd e)))"

lemma tables_ok:
  "list_all (entry_ok 1) ops_1" "list_all (entry_ok 2) ops_2" "list_all (entry_ok 3) ops_3"
  "list_all (entry_ok 4) ops_4" "list_all (entry_ok 5) ops_5" "list_all (entry_ok 6) ops_6"
  "list_all (entry_ok 7) ops_7" "list_all (entry_ok 8) ops_8"
  by code_simp+

lemma entry_ok_mono: "entry_ok k e \<Longrightarrow> k \<le> v \<Longrightarrow> entry_ok v e"
  by (auto simp: entry_ok_def)

lemma opCodeMap_ok:
  assumes "map_of (opCodeMap v) name = Some c" "v \<le> 8"
  shows "entry_ok v (name, c)"
proof -
  have all: "list_all (\<lambda>k. list_all (entry_ok (Suc k)) ([ops_1, ops_2, ops_3, ops_4, ops_5, ops_6, ops_7, ops_8] ! k)) [0..<8]"
    using tables_ok by (simp add: upt_rec numeral_eq_Suc)
  obtain l where l: "l \<in> set (take v [ops_1, ops_2, ops_3, ops_4, ops_5, ops_6, ops_7, ops_8])" "(name, c) \<in> set l"
    using map_of_SomeD [OF assms(1)] by (auto simp: opCodeMap_def)
  then obtain k where k: "k < v" "k < 8" "l = [ops_1, ops_2, ops_3, ops_4, ops_5, ops_6, ops_7, ops_8] ! k"
    by (auto simp: in_set_conv_nth)
  then have "entry_ok (Suc k) (name, c)" using all l(2) by (auto simp: list_all_iff)
  then show ?thesis using k(1) entry_ok_mono by fastforce
qed

section \<open>Constructors\<close>

lemma digits_nonneg: "0 \<le> digits_value a"
  by (simp add: digits_value_def)

lemma integer_literal_nonneg: "integer_literal a = Inr n \<Longrightarrow> 0 \<le> n"
  by (auto simp: integer_literal_def digits_value_def split: if_splits)

lemma named_constants_nonneg: "map_of named_constants a = Some n \<Longrightarrow> 0 \<le> n"
  by (drule map_of_SomeD) (auto simp: named_constants_def TxnType_def)

lemma makeM_Inr: "makeM i s = (Inr j, t) \<longleftrightarrow> j = i \<and> t = s"
  by (auto simp: makeM_def monad_Inr)

lemma assertLen_Inr: "assertLen n k s = (Inr x, t) \<longleftrightarrow> n = k \<and> t = s"
  by (auto simp: assertLen_def monad_Inr)

lemma assertOnlyDigits_Inr: "assertOnlyDigits a s = (Inr x, t) \<longleftrightarrow> reDigit a \<and> t = s"
  by (auto simp: assertOnlyDigits_def monad_Inr)

lemma throwM_Inr: "throwM e s \<noteq> (Inr x, t)"
  by (simp add: throwM_def)

lemma checkOverflow_Inr: "checkOverflow n 18446744073709551615 s = (Inr x, t) \<longleftrightarrow> n \<le> 18446744073709551615 \<and> t = s"
  by (auto simp: checkOverflow_def monad_Inr)

lemma assertUint8_Inr: "assertUint8 n s = (Inr x, t) \<longleftrightarrow> x = n \<and> 0 \<le> n \<and> n \<le> 255 \<and> t = s"
  by (auto simp: assertUint8_def bindM_Inr monad_Inr)

lemma forM_digits: "forM as assertOnlyDigits s = (Inr x, t) \<Longrightarrow> t = s"
  by (induction as) (auto simp: monad_Inr assertOnlyDigits_Inr)

lemmas new_Inr = monad_Inr bindM_Inr makeM_Inr assertLen_Inr assertOnlyDigits_Inr throwM_Inr checkOverflow_Inr
  assertUint8_Inr

lemmas new_defs =
  one_arg_def Arg_new_def Intcblock_new_def Substring_new_def Txn_new_def Gtxn_new_def Txna_new_def Gtxna_new_def
  Global_new_def GetAssetHolding_new_def GetAssetDef_new_def Int_new_def Byte_new_def Addr_new_def PushInt_new_def
  PushBytes_new_def Dig_new_def Gload_new_def label_new_def Switch_new_def Extract_new_def Ecdsa_new_def
  ITxnField_new_def ITxn_new_def ITxna_new_def AppParamsGet_new_def AcctParamsGet_new_def Base64Decode_new_def
  Json_ref_new_def Block_new_def VrfVerify_new_def

lemmas new_checks =
  assertTxFieldDefined_def assertTxArrFieldDefined_def assertITxFieldDefined_def assertITxArrFieldDefined_def
  assertGlobalDefined_def needs_runtime_def

text \<open>What a constructor may change: a pragma sets the version, a byte block makes its arrays.\<close>

definition parsing_frame :: "interp \<Rightarrow> interp \<Rightarrow> bool" where
  "parsing_frame s t \<longleftrightarrow> i_mode t = i_mode s \<and> i_stack t = i_stack s \<and> i_instructions t = i_instructions s \<and>
     i_instructionIndex t = i_instructionIndex s \<and> i_currentInnerTxnGroup t = i_currentInnerTxnGroup s \<and>
     i_innerTxnGroups t = i_innerTxnGroups s \<and> i_program t = i_program s \<and> c_state t = c_state s \<and>
     c_tx t = c_tx s \<and> i_cost t = i_cost s \<and> c_budget t = c_budget s \<and> c_pooledApplCost t = c_pooledApplCost s \<and>
     (\<exists>h. c_heap t = c_heap s @ h)"

lemma parsing_frame_refl [simp]: "parsing_frame s s"
  by (simp add: parsing_frame_def)

lemma parsing_frame_trans: "parsing_frame s t \<Longrightarrow> parsing_frame t u \<Longrightarrow> parsing_frame s u"
  by (auto simp: parsing_frame_def)

lemma construct_frame:
  assumes "construct X att c args n s = (Inr i, t)"
  shows "parsing_frame s t \<and> (c \<noteq> PragmaC \<longrightarrow> i_tealVersion t = i_tealVersion s) \<and> i_gas t = i_gas s"
proof (cases "c = PragmaC \<or> c = BytecblockC")
  case True
  then show ?thesis using assms
    by (auto simp: construct_def Pragma_new_def Bytecblock_new_def new_Inr Let_def parsing_frame_def)
next
  case False
  then have "t = s" using assms
    by (cases c) (auto simp: construct_def new_defs new_checks new_Inr Let_def split: if_splits prod.splits dest: forM_digits)
  then show ?thesis by simp
qed

lemma plain_instr_ok:
  "plain_ok (Plain i) \<Longrightarrow> class_since (Plain i) \<le> v \<Longrightarrow> md \<in> set (class_modes (Plain i)) \<Longrightarrow> instr_ok X v md i"
  "plain_ok (Unchecked i) \<Longrightarrow> instr_ok X v md i"
  by (cases i; auto)+

lemma digits_list_ok: "list_all (\<lambda>n. 0 \<le> n) (List.map digits_value args)"
  by (simp add: list_all_iff digits_nonneg)

lemma construct_ok:
  assumes "construct X att c args n s = (Inr i, t)" "c \<noteq> PragmaC"
    and "class_since c \<le> i_tealVersion s" "plain_ok c" "md \<in> set (class_modes c)"
  shows "instr_ok X (i_tealVersion s) md i"
proof (cases "\<exists>j. c = Plain j \<or> c = Unchecked j")
  case True
  then show ?thesis using assms plain_instr_ok
    by (auto simp: construct_def new_Inr)
next
  case False
  then show ?thesis using assms
    by (cases c) (auto simp: construct_def new_defs new_checks new_Inr Bytecblock_new_def Let_def known_field_def
      array_field_def inner_array_field_def index_ok_def digits_nonneg digits_list_ok [simplified]
      mockTxIdx_def mockTxFieldIdx_def mockScratchIndex_def split: if_splits prod.splits option.splits
      intro: integer_literal_nonneg named_constants_nonneg)
qed

section \<open>Sentences and programs\<close>

lemma Pragma_Inr:
  "Pragma_new args n s = (Inr i, t) \<Longrightarrow> n \<le> 1 \<and> i_tealVersion t \<le> MaxTEALVersion \<and> i = Flow (Pragma (i_tealVersion t))"
  by (auto simp: Pragma_new_def new_Inr Let_def)

text \<open>A sentence that parses gives an instruction of the version that the program has after it.\<close>

definition sentence_effect :: "nat \<Rightarrow> interp \<Rightarrow> instr \<Rightarrow> interp \<Rightarrow> bool" where
  "sentence_effect n s i t \<longleftrightarrow> parsing_frame s t \<and> i_gas s \<le> i_gas t \<and> (i_tealVersion s \<le> MaxTEALVersion \<longrightarrow> i_tealVersion t \<le> MaxTEALVersion) \<and>
     (i_tealVersion t = i_tealVersion s \<or> n \<le> 1 \<and> i = Flow (Pragma (i_tealVersion t)))"

lemma gas_nonneg: "OpGasCost v name = Some g \<Longrightarrow> 0 \<le> g"
  by (drule OpGasCost_ge1) simp

lemma parsing_frame_gas: "parsing_frame (s\<lparr>i_gas := g\<rparr>) t \<longleftrightarrow> parsing_frame s t"
  by (simp add: parsing_frame_def)

lemma opcodeFromSentence_ok:
  assumes "opcodeFromSentence X att ws n md s = (Inr i, t)"
  shows "sentence_effect n s i t \<and> instr_ok X (i_tealVersion t) md i"
proof -
  obtain w rest where ws: "ws = w # rest" using assms by (cases ws) (auto simp: opcodeFromSentence_def throwM_Inr)
  obtain name args where p: "expand_pseudo w rest = Inr (name, args)"
    using assms ws by (auto simp: opcodeFromSentence_def new_Inr)
  let ?v = "i_tealVersion s"
  show ?thesis
  proof (cases "ends_with '':'' name")
    case True
    then show ?thesis using assms ws p
      by (auto simp: opcodeFromSentence_def new_Inr sentence_effect_def)
  next
    case False
    let ?g = "if name = ''#pragma'' then 0 else case OpGasCost ?v name of None \<Rightarrow> 1 | Some g \<Rightarrow> g"
    have someM_Inr: "someM e x u = (Inr a, u') \<longleftrightarrow> x = Some a \<and> u' = u" for e x u a u'
      by (cases x) (auto simp: monad_apply)
    obtain c s1 where v: "?v \<le> 8" and c: "map_of (opCodeMap ?v) name = Some c"
      and modes: "\<not> (md = APPLICATION \<and> name \<in> set signatureModeOps)" "\<not> (md = SIGNATURE \<and> name \<in> set applicationModeOps)"
      and s1: "s1 = s\<lparr>i_gas := i_gas s + ?g\<rparr>" "construct X att c args n s1 = (Inr i, t)"
      using assms ws p False by (auto simp: opcodeFromSentence_def new_Inr someM_Inr)
    have g: "0 \<le> ?g" using gas_nonneg by (auto split: option.splits)
    have md: "mode_allows md name" using modes by (cases md) (auto simp: mode_allows_def)
    note f = construct_frame [OF s1(2)]
    have e: "entry_ok ?v (name, c)" using opCodeMap_ok [OF c] v by simp
    show ?thesis
    proof (cases "c = PragmaC")
      case True
      then have "Pragma_new args n s1 = (Inr i, t)" using s1(2) by (simp add: construct_def)
      then show ?thesis using Pragma_Inr [of args n s1 i t] f s1(1) g
        by (auto simp: sentence_effect_def parsing_frame_gas)
    next
      case no: False
      have "instr_ok X (i_tealVersion s1) md i"
        by (rule construct_ok [OF s1(2) no]) (use e s1(1) md in \<open>cases md; auto simp: entry_ok_def\<close>)+
      then show ?thesis using f no s1(1) g by (auto simp: sentence_effect_def parsing_frame_gas)
    qed
  qed
qed

lemma parse_rest_ok:
  assumes "parse_lines X md ls n s = (Inr is, t)" "1 \<le> n" "i_tealVersion s \<le> MaxTEALVersion"
  shows "parsing_frame s t \<and> i_gas s \<le> i_gas t \<and> i_tealVersion t = i_tealVersion s \<and>
    list_all (instr_ok X (i_tealVersion t) md) is"
  using assms
proof (induction ls arbitrary: n s "is" t)
  case (Cons l ls)
  show ?case
  proof (cases "is_blank l \<or> wordsFromLine l = []")
    case True
    then show ?thesis using Cons.IH [of "Suc n" s "is" t] Cons.prems by auto
  next
    case False
    then obtain i js u where u: "opcodeFromSentence X True (wordsFromLine l) (Suc n) md s = (Inr i, u)"
      "parse_lines X md ls (Suc n) u = (Inr js, t)" "is = i # js"
      using Cons.prems(1) by (auto simp: new_Inr)
    have "sentence_effect (Suc n) s i u" "instr_ok X (i_tealVersion u) md i"
      using opcodeFromSentence_ok [OF u(1)] by auto
    then have e: "parsing_frame s u" "i_gas s \<le> i_gas u" "i_tealVersion u = i_tealVersion s" "instr_ok X (i_tealVersion u) md i"
      using Cons.prems(2) by (auto simp: sentence_effect_def)
    then show ?thesis using Cons.IH [OF u(2)] Cons.prems u(3) by (auto intro: parsing_frame_trans)
  qed
qed (simp add: new_Inr)

lemma parse_lines_ok:
  assumes "parse_lines X md ls n s = (Inr is, t)" "i_tealVersion s \<le> MaxTEALVersion"
  shows "parsing_frame s t \<and> i_gas s \<le> i_gas t \<and> i_tealVersion t \<le> MaxTEALVersion \<and>
    list_all (instr_ok X (i_tealVersion t) md) is"
proof (cases ls)
  case (Cons l ls)
  show ?thesis
  proof (cases "is_blank l \<or> wordsFromLine l = []")
    case True
    then show ?thesis using parse_rest_ok [of X md ls "Suc n" s "is" t] assms Cons by auto
  next
    case False
    then obtain i js u where u: "opcodeFromSentence X True (wordsFromLine l) (Suc n) md s = (Inr i, u)"
      "parse_lines X md ls (Suc n) u = (Inr js, t)" "is = i # js"
      using assms(1) Cons by (auto simp: new_Inr)
    have e: "sentence_effect (Suc n) s i u" "instr_ok X (i_tealVersion u) md i"
      using opcodeFromSentence_ok [OF u(1)] by auto
    then show ?thesis using parse_rest_ok [OF u(2)] assms(2) u(3)
      by (auto simp: sentence_effect_def intro: parsing_frame_trans)
  qed
qed (use assms in \<open>simp add: new_Inr\<close>)

lemma static_cost_Inr:
  "assertMaxCost g md None s = (Inr x, t) \<longleftrightarrow>
     g \<le> (case md of SIGNATURE \<Rightarrow> LOGIC_SIG_MAX_COST | APPLICATION \<Rightarrow> MAX_APP_PROGRAM_COST) \<and> t = s"
  by (cases md) (auto simp: assertMaxCost_def monad_Inr)

lemma parse_ok:
  assumes "parser X program md s = (Inr is, t)" "i_tealVersion s \<le> MaxTEALVersion"
  shows "list_all (instr_ok X (i_tealVersion t) md) is \<and> i_tealVersion t \<le> MaxTEALVersion \<and>
    (i_tealVersion t \<le> 3 \<longrightarrow>
      i_gas t \<le> (case md of SIGNATURE \<Rightarrow> LOGIC_SIG_MAX_COST | APPLICATION \<Rightarrow> MAX_APP_PROGRAM_COST)) \<and>
    parsing_frame s t"
proof -
  obtain u where "parse_lines X md (split_lines program) 0 s = (Inr is, u)" "t = u"
    "i_tealVersion u \<le> 3 \<longrightarrow> i_gas u \<le> (case md of SIGNATURE \<Rightarrow> LOGIC_SIG_MAX_COST | APPLICATION \<Rightarrow> MAX_APP_PROGRAM_COST)"
    using assms(1)
    by (auto simp: parser_def new_Inr assertLogicMaxLen_def static_cost_Inr split: if_splits)
  then show ?thesis using parse_lines_ok assms(2) by blast
qed


definition fresh :: "mode \<Rightarrow> string \<Rightarrow> interp" where
  "fresh md program = (new_Interpreter md sample_ctx)\<lparr>i_program := program\<rparr>"

definition two_line_program :: string where
  "two_line_program = ''#pragma version 6'' @ [CHR 0x0A] @ ''int 3 // three''"


section \<open>Running a program\<close>

text \<open>\<^verbatim>\<open>interpreter.execute\<close> on the text of a program.\<close>

definition execute_program :: "sdk \<Rightarrow> submitter \<Rightarrow> string \<Rightarrow> interp \<Rightarrow> ((error + unit) \<times> interp) option" where
  "execute_program X U program s =
     (let s0 = s\<lparr>i_program := program\<rparr>
      in case parser X program (i_mode s0) s0 of
           (Inl e, t) \<Rightarrow> Some (Inl e, t)
         | (Inr is, t) \<Rightarrow> interp_execute X U (t\<lparr>i_instructions := is\<rparr>))"

lemma instr_ok_forward: "instr_ok X v md i \<Longrightarrow> v < 4 \<Longrightarrow> forward_only (flow_of i)"
proof (cases i)
  case (Flow f)
  assume "instr_ok X v md i" "v < 4"
  then show ?thesis using Flow by (cases f) auto
qed auto

lemma forward_program:
  "list_all (instr_ok X v md) is \<Longrightarrow> v < 4 \<Longrightarrow> list_all forward_only (List.map flow_of is)"
  by (auto simp: list_all_iff instr_ok_forward)

lemma program_ends:
  "\<exists>r t. execute_program X U program (new_Interpreter md c) = Some (r, t)"
proof (cases "parser X program md ((new_Interpreter md c)\<lparr>i_program := program\<rparr>)")
  case (Pair r t)
  let ?s = "(new_Interpreter md c)\<lparr>i_program := program\<rparr>"
  have new: "i_mode ?s = md" "i_tealVersion ?s \<le> MaxTEALVersion" "i_currentInnerTxnGroup ?s = []"
    by (simp_all add: new_Interpreter_def ctx.defs)
  show ?thesis
  proof (cases r)
    case (Inr "is")
    have ok: "list_all (instr_ok X (i_tealVersion t) md) is" "parsing_frame ?s t"
      using parse_ok [of X program md ?s "is" t] Pair Inr new(2) by simp_all
    have "\<exists>r u. interp_execute X U (t\<lparr>i_instructions := is\<rparr>) = Some (r, u)"
      using execution_ends [of "t\<lparr>i_instructions := is\<rparr>" X U] forward_program [OF ok(1)] ok(2) new(3)
      by (simp add: parsing_frame_def)
    then show ?thesis using Pair Inr new(1) by (auto simp: execute_program_def)
  qed (use Pair new(1) in \<open>simp add: execute_program_def\<close>)
qed

text \<open>
  C7: Every program that the parser accepts comes to an end, in every version and mode, for every ledger and
  whatever the inner groups do: the conditions of the theorem about the loop hold of all parsed
  programs. A program the parser refuses has ended with an error. So \<^verbatim>\<open>interpreter.execute\<close> always returns
  or throws.
\<close>

theorem every_program_ends:
  "\<exists>r t. execute_program X U program (new_Interpreter md c) = Some (r, t)"
  by (rule program_ends)

end
