(* ===== verification/TEAL_Laws.thy ===== *)
theory TEAL_Laws
  imports TEAL_Process TEAL_Checked
begin

text \<open>
  What a program may do to the ledger. The locale states the laws that a relation between the ledger before and
  after needs, together with the number of transactions that the context may still run, so that every
  opcode, the parser and the loop of the interpreter stay within it, also when they throw; inner
  groups are a hypothesis. One pass over the opcodes serves every interpretation.
\<close>

section \<open>The law\<close>

definition purse :: "'x ctx_scheme \<Rightarrow> ledger \<times> int" where
  "purse c = (c_state c, c_remainingTxns c)"

lemma bind_getM: "bindM (getM g) h s = h (g s) s"
  by (simp add: bindM_def getM_def)

locale program_law =
  fixes K :: "ledger \<times> int \<Rightarrow> ledger \<times> int \<Rightarrow> bool"
  assumes same_law: "accounts L' = accounts L \<Longrightarrow> assetCounter L' = assetCounter L \<Longrightarrow> K (L, n) (L', n)"
    and trans_law: "K p q \<Longrightarrow> K q r \<Longrightarrow> K p r"
    and plain_law: "map_of (accounts L) x = Some a \<Longrightarrow> address a' = address a \<Longrightarrow> amount a' = amount a \<Longrightarrow>
      assets a' = assets a \<Longrightarrow> createdAssets a' = createdAssets a \<Longrightarrow> K (L, n) (put_account x a' L, n)"
    and new_law: "map_of (accounts L) x = None \<Longrightarrow> K (L, n) (put_account x (new_AccountStore 0 x [] None) L, n)"
begin

lemma refl_law: "K p p"
  by (cases p) (simp add: same_law)

end

sublocale program_law \<subseteq> pr: stable "\<lambda>s t :: interp. K (purse s) (purse t)"
  by unfold_locales (auto intro: refl_law trans_law)

sublocale program_law \<subseteq> cx: stable "\<lambda>s t :: ctx. K (purse s) (purse t)"
  by unfold_locales (auto intro: refl_law trans_law)

context program_law
begin

lemma kept_purse: "(\<And>s. purse (snd (m s)) = purse s) \<Longrightarrow> pr.holds m"
  by (simp add: pr.holds_def refl_law)

lemma kept_modify: "(\<And>s. purse (f s) = purse s) \<Longrightarrow> pr.holds (modifyM f)"
  by (intro pr.holds_modify) (simp add: refl_law)

lemma kept_ask: "pr.holds (askM q)"
  by (simp add: pr.holds_def exec_simps refl_law)

lemma plain_account_law:
  assumes "plain_method m"
  shows "K (L, n) (snd (on_account x m L), n)"
proof (cases "map_of (accounts L) x")
  case (Some a)
  then have "K (L, n) (put_account x (snd (m a)) L, n)"
    using assms by (intro plain_law) (simp_all add: plain_method_def)
  then show ?thesis using Some by (simp add: on_account_Some)
qed (simp add: on_account_def refl_law)

lemma kept_account: "plain_method m \<Longrightarrow> pr.holds (on_ledger (on_account x m))"
  unfolding pr.holds_def by (simp add: exec_simps purse_def plain_account_law)

lemma kept_create: "pr.holds (createAccountIfAbsent a)"
  unfolding createAccountIfAbsent_def
  by (intro pr.holds_modify) (auto simp: purse_def refl_law split: option.split intro: new_law)

lemma kept_primitives:
  "pr.holds popM" "pr.holds (pushM x)" "pr.holds (newM b)" "pr.holds (derefM r)" "pr.holds (assertMinStackLen n)"
  by (rule kept_purse; auto simp: popM_def pushM_def newM_def derefM_def assertMinStackLen_def exec_simps
      purse_def split: sum.splits prod.splits)+

lemma kept_cases:
  "(\<And>n. pr.holds (f n)) \<Longrightarrow> (\<And>r. pr.holds (g r)) \<Longrightarrow> pr.holds (case x of BigInt n \<Rightarrow> f n | Bytes r \<Rightarrow> g r)"
  "(\<And>n. pr.holds (u n)) \<Longrightarrow> (\<And>b. pr.holds (v b)) \<Longrightarrow> pr.holds (case w of MInt n \<Rightarrow> u n | MBool b \<Rightarrow> v b)"
  "pr.holds m1 \<Longrightarrow> (\<And>n. pr.holds (m2 n)) \<Longrightarrow> (\<And>b. pr.holds (m3 b)) \<Longrightarrow> (\<And>r. pr.holds (m4 r)) \<Longrightarrow> (\<And>t. pr.holds (m5 t)) \<Longrightarrow>
    pr.holds m6 \<Longrightarrow> pr.holds (case y of RUndef \<Rightarrow> m1 | RNum n \<Rightarrow> m2 n | RBuf b \<Rightarrow> m3 b | RArr r \<Rightarrow> m4 r | RStr t \<Rightarrow> m5 t | ROther \<Rightarrow> m6)"
  "pr.holds d1 \<Longrightarrow> pr.holds d2 \<Longrightarrow> pr.holds d3 \<Longrightarrow>
    pr.holds (case z of ZeroAddress \<Rightarrow> d1 | ZeroUint64 \<Rightarrow> d2 | ZeroByte \<Rightarrow> d3)"
  "(\<And>n. pr.holds (g1 n)) \<Longrightarrow> pr.holds g2 \<Longrightarrow> pr.holds g3 \<Longrightarrow>
    pr.holds (case h of GNumber n \<Rightarrow> g1 n | GZeroAddress \<Rightarrow> g2 | GNull \<Rightarrow> g3)"
  by (simp_all split: stack_elem.split math_result.split raw.split field_default.split global_value.split)

lemmas kept_intros = pr.holds_bind pr.holds_seq pr.holds_basic pr.holds_if pr.holds_let pr.holds_cases kept_cases
  kept_ask kept_account kept_create kept_primitives plain_methods

lemma kept_forM: "(\<And>x. pr.holds (f x)) \<Longrightarrow> pr.holds (forM xs f)"
  by (induction xs) (auto intro!: kept_intros)

lemma kept_popsM: "pr.holds (popsM n)"
  by (induction n) (auto intro!: kept_intros)

section \<open>Opcodes\<close>

lemma kept_checks:
  "pr.holds (pushBigInt n)" "pr.holds (pushBytesM b)" "pr.holds (checkOverflow n v)" "pr.holds (checkUnderflow n)"
  "pr.holds (checkIndexBound i xs)" "pr.holds (assertArrLength xs)" "pr.holds (assertBigInt a)" "pr.holds (assertBytes a)"
  "pr.holds (assertBytesMax a k)" "pr.holds (assertUint8 n)" "pr.holds (assert64BitIndex n)" "pr.holds (assertBytesIndex i b)"
  "pr.holds (subString b i j)" "pr.holds (opExtractImpl b i j)" "pr.holds (pushBooleanCheck c)" "pr.holds computeCost"
  unfolding pushBytesM_def pushBigInt_def checkOverflow_def checkUnderflow_def checkIndexBound_def
    assertArrLength_def assertBigInt_def assertBytes_def assertBytesMax_def assertUint8_def
    assert64BitIndex_def assertBytesIndex_def subString_def opExtractImpl_def pushBooleanCheck_def
    computeCost_def
  by (intro kept_intros)+

lemma kept_pops:
  "pr.holds popBigInt" "pr.holds popBytesRef" "pr.holds popBytes" "pr.holds (popBytesMax k)" "pr.holds (push_wide n)"
  "pr.holds (pushBytesMax b k)" "pr.holds (pushesM xs)" "pr.holds scratchM"
  unfolding popBigInt_def popBytesRef_def popBytes_def popBytesMax_def push_wide_def pushBytesMax_def
    pushesM_def scratchM_def
  by (intro kept_intros kept_checks kept_forM kept_popsM)+

lemmas kept_ops = kept_intros kept_checks kept_pops kept_forM kept_popsM

lemma kept_arith: "pr.holds (arith_execute X op)"
  by (cases op; simp only: arith_execute.simps arith_defs; intro kept_ops)

lemma kept_stack: "pr.holds (stack_execute op)"
  by (cases op; simp only: stack_execute.simps stack_defs; intro kept_ops kept_modify; simp add: purse_def)

lemma kept_const: "pr.holds (const_execute op)"
  by (cases op; simp only: const_execute.simps const_defs; intro kept_ops kept_modify; simp add: purse_def)

lemma kept_writes: "pr.holds (writeM r i v)" "pr.holds (set_instr ins)"
  unfolding writeM_def set_instr_def
  by (intro kept_ops kept_modify; simp add: purse_def; fail)+

lemma kept_bytes: "pr.holds (bytes_execute op)"
  by (cases op; simp only: bytes_execute.simps bytes_defs Extract_execute_def; intro kept_ops kept_writes kept_modify;
      simp add: purse_def)

lemma kept_ledger_parts:
  "pr.holds (find_account a b)" "pr.holds (getAccountFromAddr X pk b i)" "pr.holds (getAccountFromReference X n b)"
  "pr.holds (interp_getAccount X x b i)" "pr.holds (getAppIDByReference n b)" "pr.holds (getAssetIDByReference n b)"
  "pr.holds (interp_getGlobalState j key)" "pr.holds (interp_setGlobalState n key v)" "pr.holds (push_value val)"
  "pr.holds (push_value_flag val)" "pr.holds (assertAlgorandAddress X x)"
  unfolding find_account_def getAccountFromAddr_def getAccountFromReference_def interp_getAccount_def
    getAppIDByReference_def getAssetIDByReference_def interp_getGlobalState_def interp_setGlobalState_def
    push_value_def push_value_flag_def assertAlgorandAddress_def
  by (intro kept_ops)+

lemma kept_receipts: "pr.holds (modifyM (\<lambda>s. s\<lparr>c_state := (c_state s)\<lparr>txReceipts := f s\<rparr>\<rparr>))"
  by (intro pr.holds_modify) (simp add: purse_def same_law)

lemma kept_logs: "pr.holds (put_logs tx rc ls)"
  unfolding put_logs_def by (rule kept_receipts)

lemma kept_field_cases:
  "pr.holds a1 \<Longrightarrow> pr.holds a2 \<Longrightarrow> pr.holds a3 \<Longrightarrow>
    pr.holds (case f of AcctBalance \<Rightarrow> a1 | AcctMinBalance \<Rightarrow> a2 | AcctAuthAddr \<Rightarrow> a3)"
  "pr.holds a1 \<Longrightarrow> pr.holds a2 \<Longrightarrow> pr.holds a3 \<Longrightarrow>
    pr.holds (case g of AssetBalance \<Rightarrow> a1 | AssetFrozen \<Rightarrow> a2 | OtherField \<Rightarrow> a3)"
  by (simp_all split: acct_field.split holding_field.split)

lemmas ledger_op_defs =
  AppOptedIn_execute_def AppLocalGet_execute_def AppLocalGetEx_execute_def AppGlobalGet_execute_def AppGlobalGetEx_execute_def
  AppLocalPut_execute_def AppGlobalPut_execute_def AppLocalDel_execute_def AppGlobalDel_execute_def
  Balance_execute_def MinBalance_execute_def GetAssetHolding_execute_def AcctParamsGet_execute_def Log_execute_def
  Gaid_execute_def Gaids_execute_def

lemma kept_ledger: "pr.holds (ledger_execute X op)"
  by (cases op; simp only: ledger_execute.simps ledger_op_defs;
      intro kept_ops kept_ledger_parts kept_logs kept_field_cases kept_modify; simp add: purse_def)

lemma kept_values:
  "pr.holds (default_elem f)" "pr.holds (check_bytes f b)" "pr.holds (copied f b)" "pr.holds (parseToStackElem a f)"
  "pr.holds (push_elem x)" "pr.holds (receipt_of tx)" "pr.holds (assertRoundIsAvailable i)" "pr.holds (interp_getBlock i)"
  unfolding default_elem_def check_bytes_def copied_def parseToStackElem_def push_elem_def receipt_of_def
    assertRoundIsAvailable_def interp_getBlock_def
  by (intro kept_ops)+

lemma kept_fields:
  "pr.holds (computed_field f tx i)" "pr.holds (txnSpecByField f tx i)" "pr.holds (program_page e b i f)"
  "pr.holds (array_elem f tx i)" "pr.holds (txAppArg f tx i)" "pr.holds (tx_value f o' tx i)" "pr.holds (group_value g i f o')"
  unfolding computed_field_def txnSpecByField_def program_page_def array_elem_def txAppArg_def tx_value_def
    group_value_def
  by (intro kept_ops kept_values)+

lemma kept_pushes:
  "pr.holds (push_address X a)" "pr.holds (push_global X f)" "pr.holds (push_asset_param X f d)"
  "pr.holds (push_app_param X f i app)"
  unfolding push_address_def push_global_def push_asset_param_def push_app_param_def
  by (intro kept_ops kept_values kept_fields)+

lemmas kept_reads = kept_ops kept_ledger_parts kept_values kept_fields kept_pushes

lemma kept_field: "pr.holds (field_execute X op)"
  by (cases op; simp only: field_execute.simps field_defs; intro kept_reads)

lemma kept_crypto_parts: "pr.holds (hash_cost a)" "pr.holds (push_point q)" "pr.holds (json_push t v)"
  by ((cases a; simp only: hash_cost.simps version_gas_def; intro kept_ops)
    | (simp only: push_point_def; intro kept_ops)
    | (cases v; simp only: json_push.simps; intro kept_ops))+

lemma kept_crypto: "pr.holds (crypto_execute X op)"
  by (cases op; simp only: crypto_execute.simps crypto_defs; intro kept_ops kept_crypto_parts)

lemma kept_jumps: "pr.holds (jumpForward l)" "pr.holds (jumpToLabel k)" "pr.holds (callStack_push i)" "pr.holds callStack_pop"
  by (rule kept_purse; auto simp: jumpForward_def jumpToLabel_def callStack_push_def callStack_pop_def purse_def Let_def
      split: option.splits sum.splits prod.splits)+

lemma kept_clear: "pr.holds clear_stack"
  unfolding clear_stack_def by (intro kept_ops)

lemma kept_flow: "pr.holds (flow_execute op)"
  by (cases op; simp only: flow_execute.simps flow_defs; intro kept_ops kept_jumps kept_clear kept_modify; simp add: purse_def)

section \<open>Inner groups\<close>

definition lawful :: "submitter \<Rightarrow> bool" where
  "lawful U \<longleftrightarrow> (\<forall>a c0 g act. sub_convert U a c0 g = Inr act \<longrightarrow> cx.holds act)"

lemma kept_building:
  "pr.holds (addInnerTransaction X)" "pr.holds (field_value X f v)" "pr.holds (setInnerTxField X tx f v)"
  "pr.holds assertInnerRoom" "pr.holds (set_current g)" "pr.holds assertInnerTransactionExists" "pr.holds (no_value x)"
  "pr.holds (executeITxn f i)"
  unfolding addInnerTransaction_def field_value_def setInnerTxField_def assertInnerRoom_def set_current_def
    assertInnerTransactionExists_def no_value_def executeITxn_def
  by (intro kept_reads kept_modify; simp add: purse_def field_value_def; (intro kept_reads)?; fail)+

lemma kept_run_inner:
  assumes "cx.holds act"
  shows "pr.holds (run_inner act fee)"
proof -
  have "K (purse s) (purse (snd (run_inner act fee s)))" for s
  proof (cases "act (enter_inner (i_currentInnerTxnGroup s) fee (ctx.truncate s))")
    case (Pair r c)
    then have "K (purse s) (purse c)"
      using cx.holdsD [OF assms Pair] by (simp add: purse_def enter_inner_def ctx.defs)
    then show ?thesis
      using Pair by (cases r) (simp_all add: run_inner_def purse_def leave_inner_def with_ctx_def ctx.defs)
  qed
  then show ?thesis by (simp add: pr.holds_def)
qed

lemma kept_submit:
  assumes "lawful U"
  shows "pr.holds (submit_group U cur fee acc)"
proof -
  have conv: "pr.holds (bindM (getM (\<lambda>s. sub_convert U (address acc) (ctx.truncate s) cur)) (\<lambda>r.
      bindM (liftM r) (\<lambda>act. seqM (run_inner act fee) computeCost)))"
  proof -
    have "K (purse s) (purse (snd (bindM (liftM (sub_convert U (address acc) (ctx.truncate s) cur))
        (\<lambda>act. seqM (run_inner act fee) computeCost) s)))" for s
    proof (cases "sub_convert U (address acc) (ctx.truncate s) cur")
      case (Inr act)
      then have "cx.holds act" using assms unfolding lawful_def by blast
      then have "pr.holds (seqM (run_inner act fee) computeCost)" by (intro kept_ops kept_run_inner)
      then show ?thesis using Inr by (simp add: bindM_def liftM_def pr.holds_def)
    qed (simp add: bindM_def liftM_def refl_law)
    then show ?thesis by (simp add: pr.holds_def bind_getM)
  qed
  then show ?thesis
    unfolding submit_group_def
    by (intro pr.holds_if kept_checks pr.holds_seq conv kept_modify) (simp add: purse_def)
qed

lemmas inner_op_defs = ITxnBegin_execute_def ITxnField_execute_def ITxnNext_execute_def ITxnSubmit_execute_def
  ITxn_execute_def ITxna_execute_def ITxnas_execute_def Gitxn_execute_def Gitxna_execute_def Gitxnas_execute_def
  last_group_value_def

lemma kept_inner: "lawful U \<Longrightarrow> pr.holds (inner_execute X U op)"
  by (cases op; simp only: inner_execute.simps inner_op_defs; intro kept_reads kept_building kept_submit; assumption?)

lemma kept_op: "lawful U \<Longrightarrow> pr.holds (op_execute X U ins)"
  by (cases ins) (simp_all add: kept_arith kept_bytes kept_stack kept_const kept_flow kept_ledger kept_crypto kept_field
      kept_inner)

section \<open>Parsing and running\<close>

lemma kept_checks_new:
  "pr.holds (assertLen n k)" "pr.holds (assertOnlyDigits a)" "pr.holds (makeM i)" "pr.holds (assertMaxCost g md b)"
  unfolding assertLen_def assertOnlyDigits_def makeM_def assertMaxCost_def
  by (intro kept_ops | cases md; simp; intro kept_ops)+

lemma kept_new:
  "pr.holds (Pragma_new args n)" "pr.holds (Bytecblock_new args)"
  unfolding Pragma_new_def
  by (intro kept_ops kept_checks_new kept_modify; simp add: purse_def)
    (rule kept_purse, simp add: Bytecblock_new_def purse_def)

lemma kept_construct: "pr.holds (construct X att c args n)"
  by (cases c; simp only: construct_def op_class.simps new_defs new_checks;
      intro kept_ops kept_checks_new kept_new)

lemma kept_sentence: "pr.holds (opcodeFromSentence X att ws n md)"
  unfolding opcodeFromSentence_def
  by (cases ws; simp only: list.case; intro kept_ops kept_checks_new kept_construct kept_modify; simp add: purse_def)

lemma kept_lines: "pr.holds (parse_lines X md ls n)"
  by (induction ls arbitrary: n) (auto intro!: kept_ops kept_sentence)

lemma kept_parser: "pr.holds (parser X program md)"
  unfolding parser_def assertLogicMaxLen_def by (intro kept_ops kept_checks_new kept_lines)

lemma kept_set_gas: "pr.holds (set_gas g)"
proof -
  have "K (purse s) (purse (snd (set_gas g s)))" for s
    by (auto simp: set_gas_def purse_def refl_law same_law split: option.split)
  then show ?thesis by (simp add: pr.holds_def)
qed

lemma kept_account_cost: "pr.holds (account_cost c)"
  unfolding account_cost_def
  by (intro kept_ops kept_checks_new kept_set_gas kept_modify) (simp add: purse_def)

lemma kept_step: "lawful U \<Longrightarrow> pr.holds (step X U)"
proof -
  assume U: "lawful U"
  have "pr.holds assertInnerVersion" by (rule kept_purse) (simp add: assertInnerVersion_def)
  then show ?thesis
    unfolding step_def by (intro kept_ops kept_op [OF U] kept_account_cost kept_modify) (simp_all add: purse_def)
qed

lemma kept_before: "pr.holds before_loop"
  by (rule kept_purse) (auto simp: before_loop_def mapLabelWithIndexes_def assertValidTxArray_def add_block_cost_def
      exec_simps Let_def purse_def split: if_splits prod.splits sum.splits)

lemma kept_result: "pr.holds run_result"
  by (rule kept_purse) (auto simp: run_result_def popM_def purse_def split: if_splits sum.splits prod.splits)

lemma kept_loop:
  assumes "run_loop X U s = Some out" "lawful U"
  shows "K (purse s) (purse (snd out))"
  using assms(2)
proof (induction rule: run_loop.raw_induct [OF _ assms(1), rotated])
  case (1 f X U s out)
  show ?case
  proof (cases "i_instructionIndex s < length (i_instructions s)")
    case True
    obtain r u where st: "step X U s = (r, u)" by fastforce
    have u: "K (purse s) (purse u)" by (rule pr.holdsD [OF kept_step [OF 1(3)] st])
    show ?thesis
    proof (cases r)
      case (Inr x)
      then have "f X U u = Some out" using 1(2) True st by (simp add: Let_def)
      from trans_law [OF u 1(1) [OF this 1(3)]] show ?thesis .
    qed (use 1(2) True st u in \<open>auto simp: Let_def\<close>)
  qed (use 1(2) in \<open>auto simp: refl_law\<close>)
qed

lemma kept_interp:
  assumes "interp_execute X U s = Some (r, t)" "lawful U"
  shows "K (purse s) (purse t)"
proof -
  obtain r1 s1 where b: "before_loop s = (r1, s1)" by fastforce
  have 1: "K (purse s) (purse s1)" by (rule pr.holdsD [OF kept_before b])
  have "t = s1 \<or> (\<exists>r2 s2. run_loop X U s1 = Some (r2, s2) \<and> (t = s2 \<or> (\<exists>q. run_result s2 = (q, t))))"
    using assms(1) b
    by (auto simp: interp_execute_def executeWithResult_def split: sum.splits option.splits prod.splits stack_elem.splits if_splits)
  then show ?thesis
    using 1 kept_loop [OF _ assms(2)] pr.holdsD [OF kept_result] by (auto intro: trans_law) (metis snd_conv trans_law)+
qed

lemma kept_program:
  assumes "execute_program X U program s = Some (r, t)" "lawful U"
  shows "K (purse s) (purse t)"
proof -
  obtain r1 s1 where p: "parser X program (i_mode s) (s\<lparr>i_program := program\<rparr>) = (r1, s1)" by fastforce
  have "K (purse s) (purse s1)" using pr.holdsD [OF kept_parser p] by (simp add: purse_def)
  moreover have "t = s1 \<or> (\<exists>is. interp_execute X U (s1\<lparr>i_instructions := is\<rparr>) = Some (r, t))"
    using assms(1) p by (auto simp: execute_program_def Let_def split: sum.splits)
  moreover have "K (purse s1) (purse t)" if "interp_execute X U (s1\<lparr>i_instructions := is\<rparr>) = Some (r, t)" for "is"
    using kept_interp [OF that assms(2)] by (simp add: purse_def)
  ultimately show ?thesis by (auto intro: trans_law)
qed

end

section \<open>Two laws\<close>

text \<open>The transactions the context may still run become fewer, not negative; the supply of the assets stays right.\<close>

definition fewer :: "ledger \<times> int \<Rightarrow> ledger \<times> int \<Rightarrow> bool" where
  "fewer p q \<longleftrightarrow> snd q \<le> snd p \<and> (0 \<le> snd p \<longrightarrow> 0 \<le> snd q)"

definition supplied :: "ledger \<times> int \<Rightarrow> ledger \<times> int \<Rightarrow> bool" where
  "supplied p q \<longleftrightarrow> (assets_ok (fst p) \<longrightarrow> assets_ok (fst q))"

interpretation fe: program_law fewer
  by unfold_locales (auto simp: fewer_def)

lemma supplied_plain:
  assumes "map_of (accounts L) x = Some a" "address a' = address a" "assets a' = assets a" "createdAssets a' = createdAssets a"
  shows "supplied (L, n) (put_account x a' L, n)"
proof -
  have "assets_ok (put_account x a' L)" if ok: "assets_ok L"
    using assets_off_acct [OF ok assms(1)] assets_off_address [OF ok assms(1)] assms
    by (intro assets_off_same [OF ok assms(1)]) (simp_all add: acct_ok_def totals_def held_def)
  then show ?thesis by (simp add: supplied_def)
qed

interpretation su: program_law supplied
proof
  show "supplied (L, n) (put_account x (new_AccountStore 0 x [] None) L, n)" if "map_of (accounts L) x = None" for L x n
    using that by (auto simp: supplied_def new_AccountStore_def intro!: assets_off_new)
  show "supplied (L, n) (put_account x a' L, n)" if "map_of (accounts L) x = Some a" "address a' = address a"
    "assets a' = assets a" "createdAssets a' = createdAssets a" for L x a a' n
    using that by (rule supplied_plain)
  show "supplied (L, n) (L', n)" if "accounts L' = accounts L" "assetCounter L' = assetCounter L" for L L' n
    using that ai.inv_cong by (simp add: supplied_def)
qed (simp add: supplied_def)

end
