(* ===== verification/TEAL_Params.thy ===== *)
theory TEAL_Params
  imports TEAL_Group TEAL_Parser
begin

text \<open>
  Transaction parameters (\<^verbatim>\<open>ExecParams\<close> of \<^verbatim>\<open>packages/web/src/types.ts\<close>): making a transaction of them
  (\<^verbatim>\<open>mkTransaction\<close> of \<^verbatim>\<open>packages/web/src/lib/txn.ts\<close>, with the parsing of application arguments), and
  the way back from an encoded transaction (\<^verbatim>\<open>encTxToExecParams\<close> of \<^verbatim>\<open>lib/txn.ts\<close>), by which a program's
  inner transactions are executed. The functions of the SDK that build a transaction are parameters.
\<close>

section \<open>Parameters\<close>

datatype memo = NoteText string | NoteBytes bytes

record pay_flags = tx_params +
  fl_note :: "memo option"
  fl_noteb64 :: "string option"

datatype app_arg = ArgBytes bytes | ArgText string

record app_flags =
  af_appArgs :: "app_arg list option"
  af_accounts :: "string list option"
  af_foreignApps :: "int list option"
  af_foreignAssets :: "int list option"
  af_lease :: "bytes option"

datatype app_action = CallApp | ClearApp | CloseApp | DeleteApp | OptInToApp

datatype key = KeyText string | KeyBytes bytes

text \<open>The signature: by the secret key of an account, perhaps for another address, or another one for an address.\<close>

datatype signing = SignWithSk string "string option" | SignOther string

text \<open>A value that need not be given is an option; \<open>total\<close> is \<^const>\<open>None\<close> when the code's is \<^verbatim>\<open>NaN\<close> or missing.\<close>

datatype exec_kind =
    TransferAlgo string int
  | TransferAsset string int int
  | KeyRegistration "key option" "key option" "int option" "int option" "int option" "bool option"
  | AppCalls app_action "int option" app_flags
  | ModifyAsset "int option" asset_mod
  | FreezeAsset "int option" "string option" bool
  | RevokeAsset string "string option" int int
  | DestroyAsset "int option"
  | DeployASA "string option" "(int option \<times> asa_def) option"
  | DeployApp app_definition app_flags
  | OptInASA int
  | UpdateApp int program_source app_flags
  | UnknownKind

record params =
  pr_sign :: signing
  pr_payFlags :: pay_flags
  pr_kind :: exec_kind

section \<open>The makers of the SDK\<close>

text \<open>The arguments are those of the functions of \<^verbatim>\<open>algosdk\<close>, in their order.\<close>

record makers =
  makePayment :: "string \<Rightarrow> string \<Rightarrow> int \<Rightarrow> string option \<Rightarrow> bytes option \<Rightarrow> suggested \<Rightarrow> string option \<Rightarrow> error + transaction"
  makeAssetTransfer :: "string \<Rightarrow> string \<Rightarrow> string option \<Rightarrow> string option \<Rightarrow> int \<Rightarrow> bytes option \<Rightarrow> int \<Rightarrow> suggested \<Rightarrow>
    string option \<Rightarrow> error + transaction"
  makeAssetConfig :: "string \<Rightarrow> bytes option \<Rightarrow> int option \<Rightarrow> asset_mod \<Rightarrow> suggested \<Rightarrow> string option \<Rightarrow> error + transaction"
  makeAssetFreeze :: "string \<Rightarrow> bytes option \<Rightarrow> int option \<Rightarrow> string option \<Rightarrow> bool \<Rightarrow> suggested \<Rightarrow> string option \<Rightarrow> error + transaction"
  makeAssetDestroy :: "string \<Rightarrow> bytes option \<Rightarrow> int option \<Rightarrow> suggested \<Rightarrow> string option \<Rightarrow> error + transaction"
  makeAssetCreate :: "string \<Rightarrow> bytes option \<Rightarrow> int \<Rightarrow> asa_def \<Rightarrow> string option \<Rightarrow> suggested \<Rightarrow> string option \<Rightarrow> error + transaction"
  makeApplication :: "app_action \<Rightarrow> string \<Rightarrow> suggested \<Rightarrow> int option \<Rightarrow> bytes list option \<Rightarrow> app_flags \<Rightarrow> bytes option \<Rightarrow>
    string option \<Rightarrow> error + transaction"
  makeApplicationCreate :: "string \<Rightarrow> suggested \<Rightarrow> bytes \<Rightarrow> bytes \<Rightarrow> app_definition \<Rightarrow> bytes list option \<Rightarrow> app_flags \<Rightarrow>
    bytes option \<Rightarrow> string option \<Rightarrow> error + transaction"
  makeApplicationUpdate :: "string \<Rightarrow> suggested \<Rightarrow> int \<Rightarrow> bytes \<Rightarrow> bytes \<Rightarrow> bytes list option \<Rightarrow> app_flags \<Rightarrow>
    bytes option \<Rightarrow> string option \<Rightarrow> error + transaction"
  makeKeyRegistration :: "string \<Rightarrow> bytes option \<Rightarrow> key option \<Rightarrow> key option \<Rightarrow> int option \<Rightarrow> int option \<Rightarrow> int option \<Rightarrow>
    suggested \<Rightarrow> string option \<Rightarrow> bool option \<Rightarrow> error + transaction"

section \<open>Making a transaction\<close>

text \<open>
  Both forms of the note at once are refused, where an empty text is as good as none. The errors of the
  web package are not those of the runtime and are named by their text.
\<close>

definition encodeNote :: "memo option \<Rightarrow> string option \<Rightarrow> error + bytes option" where
  "encodeNote memo noteb64 =
     (if memo = None \<and> noteb64 = None then Inr None
      else if given noteb64 \<and> memo \<noteq> None \<and> memo \<noteq> Some (NoteText '''')
      then Inl (JsError (PlainError ''INVALID_TX_PARAM''))
      else if given noteb64 then Inr (Some (base64_decode (the noteb64)))
      else Inr (Some (case memo of
             Some (NoteBytes b) \<Rightarrow> b | Some (NoteText t) \<Rightarrow> stringToBytes t | None \<Rightarrow> [])))"

definition getFromAddress :: "params \<Rightarrow> string" where
  "getFromAddress p =
     (case pr_sign p of
        SignWithSk acc addr \<Rightarrow> if given addr then the addr else acc
      | SignOther addr \<Rightarrow> addr)"

definition updateTxFee :: "pay_flags \<Rightarrow> transaction \<Rightarrow> transaction" where
  "updateTxFee fl t = (case fl_totalFee fl of None \<Rightarrow> t | Some f \<Rightarrow> t\<lparr>t_fee := f\<rparr>)"

text \<open>\<^verbatim>\<open>[s.slice(0, i), s.slice(i + 1)]\<close> with \<^verbatim>\<open>i = s.indexOf(":")\<close>, which is -1 when there is none.\<close>

definition split_arg :: "string \<Rightarrow> string \<times> string" where
  "split_arg s =
     (if CHR '':'' \<in> set s
      then (takeWhile (\<lambda>c. c \<noteq> CHR '':'') s, tl (dropWhile (\<lambda>c. c \<noteq> CHR '':'') s))
      else (butlast s, s))"

definition format_error :: error where
  "format_error = JsError (PlainError ''Format of arguments passed to stateful smart is invalid'')"

definition parse_arg :: "sdk \<Rightarrow> app_arg \<Rightarrow> error + bytes" where
  "parse_arg X a =
     (case a of
        ArgBytes b \<Rightarrow> Inr b
      | ArgText s \<Rightarrow>
          (let (tp, v) = split_arg s in
           if tp = ''int'' then (if reDigit v then uint64ToBigEndian X (digits_value v) else Inl format_error)
           else if tp = ''str'' then Inr (stringToBytes v)
           else if tp = ''addr'' then decodeAddress X v
           else if tp = ''b64'' then Inr (base64_decode v)
           else Inl format_error))"

fun parse_args :: "sdk \<Rightarrow> app_arg list \<Rightarrow> error + bytes list" where
    "parse_args X [] = Inr []"
  | "parse_args X (a # as) =
      (case parse_arg X a of
         Inl e \<Rightarrow> Inl e
       | Inr b \<Rightarrow> (case parse_args X as of Inl e \<Rightarrow> Inl e | Inr bs \<Rightarrow> Inr (b # bs)))"

definition parseAppArgs :: "sdk \<Rightarrow> app_arg list option \<Rightarrow> error + bytes list option" where
  "parseAppArgs X appArgs =
     (case appArgs of
        None \<Rightarrow> Inr None
      | Some as \<Rightarrow> (case parse_args X as of Inl e \<Rightarrow> Inl e | Inr bs \<Rightarrow> Inr (Some bs)))"

text \<open>\<^verbatim>\<open>a !== "" ? a : undefined\<close> for each of the four addresses.\<close>

definition blank_mod :: "asset_mod \<Rightarrow> asset_mod" where
  "blank_mod f = \<lparr>mod_manager = blank_undefined (mod_manager f), mod_reserve = blank_undefined (mod_reserve f),
     mod_freeze = blank_undefined (mod_freeze f), mod_clawback = blank_undefined (mod_clawback f)\<rparr>"

definition blank_asa :: "asa_def \<Rightarrow> asa_def" where
  "blank_asa d = d\<lparr>def_defaultFrozen := Some (def_defaultFrozen d = Some True),
     def_manager := blank_undefined (def_manager d), def_reserve := blank_undefined (def_reserve d),
     def_freeze := blank_undefined (def_freeze d), def_clawback := blank_undefined (def_clawback d)\<rparr>"

definition with_args :: "sdk \<Rightarrow> app_flags \<Rightarrow> (bytes list option \<Rightarrow> error + transaction) \<Rightarrow> error + transaction" where
  "with_args X af f = (case parseAppArgs X (af_appArgs af) of Inl e \<Rightarrow> Inl e | Inr as \<Rightarrow> f as)"

definition only_bytes :: "error + transaction" where
  "only_bytes = Inl (JsError (PlainError ''Only MetaType.BYTES is supported for deploying apps in the web mode''))"

definition make_kind :: "sdk \<Rightarrow> makers \<Rightarrow> string \<Rightarrow> pay_flags \<Rightarrow> bytes option \<Rightarrow> suggested \<Rightarrow> exec_kind \<Rightarrow>
    error + transaction" where
  "make_kind X W from flags nt sp k =
     (let close = fl_closeRemainderTo flags; rekey = fl_rekeyTo flags
      in case k of
           TransferAsset to n assetID \<Rightarrow> makeAssetTransfer W from to close None n nt assetID sp rekey
         | ModifyAsset assetID flds \<Rightarrow> makeAssetConfig W from nt assetID (blank_mod flds) sp rekey
         | FreezeAsset assetID holder st \<Rightarrow> makeAssetFreeze W from nt assetID holder st sp rekey
         | RevokeAsset recipient holder n assetID \<Rightarrow> makeAssetTransfer W from recipient close holder n nt assetID sp rekey
         | DestroyAsset assetID \<Rightarrow> makeAssetDestroy W from nt assetID sp rekey
         | TransferAlgo to n \<Rightarrow> makePayment W from to n close nt sp rekey
         | AppCalls act appID af \<Rightarrow> with_args X af (\<lambda>as. makeApplication W act from sp appID as af nt rekey)
         | DeployASA nm d \<Rightarrow>
             (case d of
                None \<Rightarrow> Inl (JsError (PlainError ''PARAM_PARSE_ERROR''))
              | Some (tot, def) \<Rightarrow>
                  makeAssetCreate W from nt (or_zero tot) (blank_asa def) nm sp rekey)
         | DeployApp d af \<Rightarrow>
             (case ad_source d of
                SourceCompiled approval clear \<Rightarrow>
                  with_args X af (\<lambda>as. makeApplicationCreate W from sp approval clear d as af nt rekey)
              | _ \<Rightarrow> only_bytes)
         | UpdateApp appID src af \<Rightarrow>
             (case src of
                SourceCompiled approval clear \<Rightarrow>
                  with_args X af (\<lambda>as. makeApplicationUpdate W from sp appID approval clear as af nt rekey)
              | _ \<Rightarrow> only_bytes)
         | OptInASA assetID \<Rightarrow> makeAssetTransfer W from from None None 0 nt assetID sp rekey
         | KeyRegistration voteK selK voteF voteL voteD nonP \<Rightarrow> makeKeyRegistration W from nt voteK selK voteF voteL voteD sp rekey nonP
         | UnknownKind \<Rightarrow> Inl (JsError (PlainError ''TRANSACTION_TYPE_ERROR'')))"

definition mkTransaction :: "sdk \<Rightarrow> makers \<Rightarrow> params \<Rightarrow> suggested \<Rightarrow> error + transaction" where
  "mkTransaction X W p sp =
     (case encodeNote (fl_note (pr_payFlags p)) (fl_noteb64 (pr_payFlags p)) of
        Inl e \<Rightarrow> Inl e
      | Inr nt \<Rightarrow>
          (case make_kind X W (getFromAddress p) (pr_payFlags p) nt sp (pr_kind p) of
             Inl e \<Rightarrow> Inl e
           | Inr t \<Rightarrow> Inr (updateTxFee (pr_payFlags p) t)))"

section \<open>Parameters of an encoded transaction\<close>

definition encoded_address :: "sdk \<Rightarrow> bytes option \<Rightarrow> string option" where
  "encoded_address X addr = map_option (encodeAddress X) addr"

definition getASAConfigAddr :: "sdk \<Rightarrow> bytes option \<Rightarrow> string" where
  "getASAConfigAddr X addr = (case addr of None \<Rightarrow> '''' | Some a \<Rightarrow> encodeAddress X a)"

definition getRuntimeAccountAddr :: "sdk \<Rightarrow> bytes option \<Rightarrow> ledger \<Rightarrow> error + string option" where
  "getRuntimeAccountAddr X pk st =
     (case pk of
        None \<Rightarrow> Inr None
      | Some k \<Rightarrow> (case ctx_getAccount (encodeAddress X k) st of
                     Inl e \<Rightarrow> Inl e | Inr acc \<Rightarrow> Inr (Some (address acc))))"

definition plain_flags :: "int option \<Rightarrow> string option \<Rightarrow> string option \<Rightarrow> pay_flags" where
  "plain_flags fee close rekey = \<lparr>fl_closeRemainderTo = close, fl_rekeyTo = rekey, fl_firstValid = None,
     fl_validRounds = None, fl_totalFee = fee, fl_flatFee = None, fl_feePerByte = None, fl_note = None, fl_noteb64 = None\<rparr>"

definition no_app_flags :: app_flags where
  "no_app_flags = \<lparr>af_appArgs = None, af_accounts = None, af_foreignApps = None, af_foreignAssets = None, af_lease = None\<rparr>"

text \<open>\<^verbatim>\<open>a ?? ZERO_ADDRESS_STR\<close>\<close>

definition or_zero_address :: "string option \<Rightarrow> string" where
  "or_zero_address a = (case a of None \<Rightarrow> ZERO_ADDRESS_STR | Some s \<Rightarrow> s)"

text \<open>The two addresses of a transfer; the receiver is looked up before the account to close to.\<close>

definition two_addresses :: "sdk \<Rightarrow> ledger \<Rightarrow> bytes option \<Rightarrow> bytes option \<Rightarrow> error + string option \<times> string option" where
  "two_addresses X st a b =
     (case getRuntimeAccountAddr X a st of
        Inl e \<Rightarrow> Inl e
      | Inr x \<Rightarrow> (case getRuntimeAccountAddr X b st of Inl e \<Rightarrow> Inl e | Inr y \<Rightarrow> Inr (x, y)))"

definition asset_config_kind :: "sdk \<Rightarrow> enc_tx \<Rightarrow> exec_kind" where
  "asset_config_kind X tx =
     (let f = (\<lambda>sel. getASAConfigAddr X (Option.bind (tx_apar tx) sel))
      in if isEncTxAssetDeletion tx then DestroyAsset (tx_caid tx)
         else if isEncTxAssetConfig tx
         then ModifyAsset (tx_caid tx) \<lparr>mod_manager = Some (f par_m), mod_reserve = Some (f par_r),
                mod_freeze = Some (f par_f), mod_clawback = Some (f par_c)\<rparr>
         else DeployASA (Option.bind (tx_apar tx) par_an)
                (Some (map_option js_Number (Option.bind (tx_apar tx) par_t),
                  \<lparr>def_total = js_Number (or_zero (Option.bind (tx_apar tx) par_t)),
                   def_decimals = js_Number (or_zero (Option.bind (tx_apar tx) par_dc)),
                   def_defaultFrozen = Some (or_zero (Option.bind (tx_apar tx) par_df) = 1),
                   def_unitName = Option.bind (tx_apar tx) par_un, def_url = Option.bind (tx_apar tx) par_au,
                   def_metadataHash = map_option (\<lambda>b. MdString (convertToString b)) (Option.bind (tx_apar tx) par_am),
                   def_manager = Some (f par_m), def_reserve = Some (f par_r), def_freeze = Some (f par_f),
                   def_clawback = Some (f par_c), def_optInAccNames = None\<rparr>)))"

text \<open>\<^verbatim>\<open>Buffer.toString("base64")\<close> of a key is read back by the SDK as the same bytes.\<close>

definition encTxToExecParams :: "sdk \<Rightarrow> enc_tx \<Rightarrow> string \<Rightarrow> ledger \<Rightarrow> error + params" where
  "encTxToExecParams X tx signer st =
     (let mk = (\<lambda>snd close rekey k. Inr \<lparr>pr_sign = SignWithSk signer snd,
                  pr_payFlags = plain_flags (tx_fee tx) close rekey, pr_kind = k\<rparr>);
          rekey = encoded_address X (tx_rekey tx)
      in if tx_type tx = APPLICATION_CALL then
           (if isEncTxApplicationCreate tx
            then mk None None None (DeployApp \<lparr>ad_source = SourceFile ''undefined'' ''undefined'', ad_extraPages = None,
                   ad_appName = ''Mock'', ad_localInts = or_zero (Option.bind (tx_apls tx) enc_nui), ad_localBytes = or_zero (Option.bind (tx_apls tx) enc_nbs),
                   ad_globalInts = or_zero (Option.bind (tx_apgs tx) enc_nui), ad_globalBytes = or_zero (Option.bind (tx_apgs tx) enc_nbs)\<rparr> no_app_flags)
            else if isEncTxApplicationCall tx
            then mk None None None (AppCalls CallApp (tx_apid tx)
                   (no_app_flags\<lparr>af_appArgs := map_option (List.map ArgBytes) (tx_apaa tx)\<rparr>))
            else mk None None None UnknownKind)
         else if tx_type tx = ''pay'' then
           (case two_addresses X st (tx_rcv tx) (tx_close tx) of
              Inl e \<Rightarrow> Inl e
            | Inr (to, close) \<Rightarrow> mk (Some (encodeAddress X (tx_snd tx))) close rekey
                (TransferAlgo (or_zero_address to) (or_zero (tx_amt tx))))
         else if tx_type tx = ''afrz'' then
           (case getRuntimeAccountAddr X (tx_fadd tx) st of
              Inl e \<Rightarrow> Inl e
            | Inr holder \<Rightarrow> mk None None rekey (FreezeAsset (tx_faid tx) holder (or_zero (tx_afrz tx) = 1)))
         else if tx_type tx = ''axfer'' then
           (case getRuntimeAccountAddr X (tx_arcv tx) st of
              Inl e \<Rightarrow> Inl e
            | Inr to \<Rightarrow> (case two_addresses X st (tx_asnd tx) (tx_aclose tx) of
                Inl e \<Rightarrow> Inl e
              | Inr (holder, close) \<Rightarrow> mk None close rekey
                  (if tx_asnd tx \<noteq> None
                   then RevokeAsset (or_zero_address to) holder (or_zero (tx_aamt tx)) (or_zero (tx_xaid tx))
                   else TransferAsset (or_zero_address to) (or_zero (tx_aamt tx)) (or_zero (tx_xaid tx)))))
         else if tx_type tx = ''acfg'' then mk None None None (asset_config_kind X tx)
         else if tx_type tx = ''keyreg'' then
           mk None None None (KeyRegistration (map_option KeyBytes (tx_votekey tx)) (map_option KeyBytes (tx_selkey tx))
             (tx_votefst tx) (tx_votelst tx) (tx_votekd tx) None)
         else Inl (JsError (PlainError ''unsupported type for itxn_submit'')))"
section \<open>Who sends an inner transaction\<close>

lemma sender_mk: "getFromAddress \<lparr>pr_sign = SignWithSk signer None, pr_payFlags = f, pr_kind = k\<rparr> = signer"
  by (simp add: getFromAddress_def given_def)

lemma inner_sender_other:
  assumes "encTxToExecParams X tx signer st = Inr p" "tx_type tx \<noteq> ''pay''"
  shows "pr_sign p = SignWithSk signer None"
  using assms by (auto simp: encTxToExecParams_def Let_def split: if_splits sum.splits)

lemma inner_sender_pay:
  assumes "encTxToExecParams X tx signer st = Inr p" "tx_type tx = ''pay''"
  shows "pr_sign p = SignWithSk signer (Some (encodeAddress X (tx_snd tx)))"
  using assms by (auto simp: encTxToExecParams_def Let_def APPLICATION_CALL_def split: if_splits sum.splits)

text \<open>
  C18: The sender of an inner transaction. Only a payment is sent by the address that its field Sender names;
  every other inner transaction, a transfer or a freeze of an asset, a configuration, a key registration or a call,
  is executed in the name of the application's own account, whatever its Sender is. What a transaction that is made
  of the parameters costs is the fee of the field, when there is one.
\<close>

theorem inner_sender:
  assumes "encTxToExecParams X tx signer st = Inr p" "encodeAddress X (tx_snd tx) \<noteq> ''''"
  shows "getFromAddress p = (if tx_type tx = ''pay'' then encodeAddress X (tx_snd tx) else signer) \<and>
    fl_totalFee (pr_payFlags p) = tx_fee tx"
proof -
  have "fl_totalFee (pr_payFlags p) = tx_fee tx"
    using assms(1) by (auto simp: encTxToExecParams_def Let_def plain_flags_def split: if_splits sum.splits)
  then show ?thesis
    using assms inner_sender_other [OF assms(1)] inner_sender_pay [OF assms(1)]
    by (auto simp: getFromAddress_def given_def)
qed

definition sample_config :: enc_tx where
  "sample_config = (bare_tx ''acfg'' '''' [2])\<lparr>tx_caid := Some 5\<rparr>"

lemma inner_sender_witness:
  "\<exists>p. encTxToExecParams sample_sdk sample_config ''APP'' sample_ledger = Inr p \<and> getFromAddress p = ''APP''"
proof -
  obtain p where p: "encTxToExecParams sample_sdk sample_config ''APP'' sample_ledger = Inr p"
    by (simp add: encTxToExecParams_def sample_config_def bare_tx_def APPLICATION_CALL_def)
  have a: "encodeAddress sample_sdk (tx_snd sample_config) \<noteq> ''''"
    by (simp add: sample_config_def bare_tx_def) code_simp
  show ?thesis using inner_sender [OF p a] p by (simp add: sample_config_def bare_tx_def)
qed

section \<open>Application arguments in the notation of goal\<close>

datatype goal_arg = Raw bytes | GoalInt nat | GoalStr string | GoalAddr string | GoalB64 string

fun arg_text :: "goal_arg \<Rightarrow> app_arg" where
    "arg_text (Raw b) = ArgBytes b"
  | "arg_text (GoalInt n) = ArgText (''int:'' @ to_radix 10 n)"
  | "arg_text (GoalStr s) = ArgText (''str:'' @ s)"
  | "arg_text (GoalAddr a) = ArgText (''addr:'' @ a)"
  | "arg_text (GoalB64 s) = ArgText (''b64:'' @ s)"

fun arg_bytes :: "sdk \<Rightarrow> goal_arg \<Rightarrow> error + bytes" where
    "arg_bytes X (Raw b) = Inr b"
  | "arg_bytes X (GoalInt n) = (if n < 2 ^ 64 then encodeUint64 X (int n) else Inl (JsError (PlainError ''Invalid uint64'')))"
  | "arg_bytes X (GoalStr s) = Inr (stringToBytes s)"
  | "arg_bytes X (GoalAddr a) = decodeAddress X a"
  | "arg_bytes X (GoalB64 s) = Inr (base64_decode s)"

lemma digit_char_is_digit: "d < 10 \<Longrightarrow> is_digit (digit_char d)"
proof -
  assume "d < 10"
  moreover have "list_all (\<lambda>d. is_digit (digit_char d)) [0..<10]" by code_simp
  ultimately show ?thesis by (simp add: list_all_iff)
qed

lemma decimal_digits: "reDigit (to_radix 10 n)"
proof (induction n rule: less_induct)
  case (less n)
  show ?case
  proof (cases "n < 10")
    case True
    then show ?thesis by (simp add: to_radix.simps [of 10 n] reDigit_def digit_char_is_digit)
  next
    case False
    then show ?thesis using less.IH [of "n div 10"]
      by (simp add: to_radix.simps [of 10 n] reDigit_def digit_char_is_digit)
  qed
qed

lemma parse_goal_arg: "parse_arg X (arg_text g) = arg_bytes X g"
  by (cases g) (auto simp: parse_arg_def split_arg_def decimal_digits digits_value_def uint64ToBigEndian_def
      MIN_UINT64_def MAX_UINT64_def)

text \<open>
  C19: Application arguments in the notation of goal are parsed to the bytes they stand for. A list of typed
  arguments, printed as `int:`, `str:`, `addr:` and `b64:` with the value after the colon (which may hold more
  colons), is parsed to the big-endian integer, the bytes of the text, the public key and the decoded
  text; an integer above 64 bits is an error, and the first error of the list is the error of all.
\<close>

theorem parseAppArgs_roundtrip:
  "parseAppArgs X (Some (List.map arg_text gs)) =
     (case List.map_filter (\<lambda>g. case arg_bytes X g of Inl e \<Rightarrow> Some e | Inr _ \<Rightarrow> None) gs of
        e # _ \<Rightarrow> Inl e
      | [] \<Rightarrow> Inr (Some (List.map (projr \<circ> arg_bytes X) gs)))"
proof -
  have "parse_args X (List.map arg_text gs) =
     (case List.map_filter (\<lambda>g. case arg_bytes X g of Inl e \<Rightarrow> Some e | Inr _ \<Rightarrow> None) gs of
        e # _ \<Rightarrow> Inl e | [] \<Rightarrow> Inr (List.map (projr \<circ> arg_bytes X) gs))"
    by (induction gs) (auto simp: parse_goal_arg map_filter_simps split: sum.split list.split)
  then show ?thesis by (simp add: parseAppArgs_def split: list.split)
qed

end
