(* ===== verification/TEAL_Machine.thy ===== *)
theory TEAL_Machine
  imports TEAL_Laws TEAL_Params
begin

text \<open>
  The machine closed over itself: \<^verbatim>\<open>Runtime.run\<close> of \<^verbatim>\<open>runtime.ts\<close> on the text of a program, and the submission of
  inner groups (\<^verbatim>\<open>ITxnSubmit\<close> of the opcode list), which makes transactions of what the program built and
  processes them in the context of the program, where they may call programs again. A level is one such nesting. The
  context counts the transactions it may still run, so the levels run out only where the context
  would refuse: how many levels there are makes no difference.
\<close>

section \<open>Running a program\<close>

text \<open>\<^verbatim>\<open>txReceipts.set(txID, txReceipt)\<close> and the reset of the pooled cost of a single transaction.\<close>

definition start_run :: "unit ctxM" where
  "start_run =
     seqM (modifyM (\<lambda>c. c\<lparr>c_state := (c_state c)\<lparr>txReceipts :=
             AList.update (tx_txID (c_tx c)) (new_receipt (tx_txID (c_tx c))) (txReceipts (c_state c))\<rparr>\<rparr>))
      (modifyM (\<lambda>c. if length (c_gtxs c) = 1 \<and> \<not> c_isInnerTx c then c\<lparr>c_pooledApplCost := 0\<rparr> else c))"

text \<open>\<^verbatim>\<open>interpreter.execute\<close> in the context, which always ends; its result is the scratch space of the interpreter.\<close>

definition interpret_program :: "sdk \<Rightarrow> submitter \<Rightarrow> string \<Rightarrow> mode \<Rightarrow> stack_elem list ctxM" where
  "interpret_program X U program md = (\<lambda>c.
     case the (execute_program X U program (new_Interpreter md c)) of
       (Inl e, t) \<Rightarrow> (Inl e, ctx.truncate t)
     | (Inr _, t) \<Rightarrow> (Inr (i_scratch t), ctx.truncate t))"

text \<open>
  The receipt is the object that the run has put into the map and charged; it is read there again at the end.
  The transactions that a program builds have the empty text as their identifier, so runs nested deeper than
  one level share one entry of the map, where the code keeps charging the object it has put there.
\<close>

definition run_program :: "sdk \<Rightarrow> submitter \<Rightarrow> string \<Rightarrow> mode \<Rightarrow> nat \<Rightarrow> receipt ctxM" where
  "run_program X U program md indexInGroup =
     seqM start_run
    (bindM (interpret_program X U program md) (\<lambda>scratch.
     seqM (if md = APPLICATION
           then modifyM (\<lambda>c. c\<lparr>c_sharedScratchSpace := AList.update (int indexInGroup) scratch (c_sharedScratchSpace c)\<rparr>)
           else returnM ())
      (getM (\<lambda>c. case map_of (txReceipts (c_state c)) (tx_txID (c_tx c)) of
                   Some rc \<Rightarrow> rc | None \<Rightarrow> new_receipt (tx_txID (c_tx c))))))"

section \<open>Submitting a group\<close>

fun all_or_error :: "('a \<Rightarrow> error + 'b) \<Rightarrow> 'a list \<Rightarrow> error + 'b list" where
    "all_or_error f [] = Inr []"
  | "all_or_error f (x # xs) =
      (case f x of
         Inl e \<Rightarrow> Inl e
       | Inr y \<Rightarrow> (case all_or_error f xs of Inl e \<Rightarrow> Inl e | Inr ys \<Rightarrow> Inr (y # ys)))"

text \<open>A signature of five zero bytes, the public key of the application as the signer, and the made transaction.\<close>

definition inner_signed :: "sdk \<Rightarrow> makers \<Rightarrow> string \<Rightarrow> params \<Rightarrow> error + signed_tx" where
  "inner_signed X W contractAddress p =
     (case decodeAddress X contractAddress of
        Inl e \<Rightarrow> Inl e
      | Inr pk \<Rightarrow>
          (case mkTransaction X W p (mockSuggestedParams (tx_params.truncate (pr_payFlags p)) 1) of
             Inl e \<Rightarrow> Inl e
           | Inr t \<Rightarrow> Inr \<lparr>st_txn = t, st_sig = Some (replicate 5 0), st_sgnr = Some pk, st_msig = None\<rparr>))"

text \<open>
  The parameters are read off the encoded transactions before the context is entered, and the transactions made
  after; \<open>S\<close> is the store of the runtime, which no group changes before it ends.
\<close>

definition submitter_for :: "platform \<Rightarrow> makers \<Rightarrow> ledger \<Rightarrow> machine \<Rightarrow> submitter" where
  "submitter_for P W S M =
     \<lparr>sub_account = (\<lambda>a. ctx_getAccount a S),
      sub_convert = (\<lambda>a c g.
        case all_or_error (\<lambda>tx. encTxToExecParams (core P) tx a (c_state c)) g of
          Inl e \<Rightarrow> Inl e
        | Inr ps \<Rightarrow> Inr (bindM (liftM (all_or_error (inner_signed (core P) W a) ps)) (\<lambda>sts.
            seqM (processTransactions P M S sts None []) (returnM ()))))\<rparr>"

text \<open>The machine with a number of levels; without any, running a program fails.\<close>

fun machine_at :: "platform \<Rightarrow> makers \<Rightarrow> ledger \<Rightarrow> nat \<Rightarrow> machine" where
    "machine_at P W S 0 = \<lparr>mc_run = (\<lambda>p md i. throwM (JsError (PlainError ''no level left''))),
       mc_version = getProgramVersion (core P)\<rparr>"
  | "machine_at P W S (Suc n) = \<lparr>mc_run = run_program (core P) (submitter_for P W S (machine_at P W S n)),
       mc_version = getProgramVersion (core P)\<rparr>"

text \<open>A context starts with 256 transactions, a program among them, so 257 levels are enough.\<close>

definition the_machine :: "platform \<Rightarrow> makers \<Rightarrow> ledger \<Rightarrow> machine" where
  "the_machine P W S = machine_at P W S 257"

section \<open>Laws of a group, with its programs\<close>

text \<open>
  What a law needs beyond the programs: the methods of the context. \<open>G\<close> is what it asks of the amount of a
  transfer of assets, \<open>C\<close> whether it allows an account to be put over another, as the creation of an
  application does.
\<close>

lemma lift_Inr: "bindM (liftM (Inr a)) f = f a"
  by (simp add: bindM_def liftM_def fun_eq_iff)

locale group_laws = program_law K for K :: "ledger \<times> int \<Rightarrow> ledger \<times> int \<Rightarrow> bool" +
  fixes G :: "int \<Rightarrow> bool" and C :: bool
  assumes use_law: "0 < n \<Longrightarrow> K (L, n) (L, n - 1)"
    and replace_law: "C \<Longrightarrow> K (L, n) (put_account x a L, n)"
    and pay_laws: "cx.holds (transferAlgo X t)" "cx.holds (deductFee s i flags)"
    and transfer_law: "G (t_amount t) \<Longrightarrow> cx.holds (transferAsset D t)"
    and revoke_law: "G amt \<Longrightarrow> cx.holds (revokeAsset x j y amt)"
    and asset_laws: "cx.holds (ctx_optInToASA D j x flags)" "cx.holds (ctx_modifyAsset j md)"
      "cx.holds (freezeAsset j x fr)" "cx.holds (ctx_destroyAsset j)" "cx.holds (ctx_deployASADef D nm d x flags)"
begin

lemma cx_modify: "(\<And>c. purse (f c) = purse c) \<Longrightarrow> cx.holds (modifyM f)"
  by (intro cx.holds_modify) (simp add: refl_law)

lemma cx_ask: "cx.holds (askM q)"
  by (simp add: cx.holds_def exec_simps refl_law)

lemma cx_account: "plain_method m \<Longrightarrow> cx.holds (on_ledger (on_account x m))"
  unfolding cx.holds_def by (simp add: exec_simps purse_def plain_account_law)

lemma cx_ledger:
  assumes "\<And>L. accounts (f L) = accounts L" "\<And>L. assetCounter (f L) = assetCounter L"
  shows "cx.holds (on_ledger (modifyM f))"
  unfolding cx.holds_def using assms by (simp add: exec_simps purse_def same_law)

lemma cx_put: "(\<And>L n. K (L, n) (f L, n)) \<Longrightarrow> cx.holds (put_ledger f)"
  unfolding cx.holds_def put_ledger_def by (simp add: exec_simps purse_def)

lemma cx_purse: "(\<And>c. purse (f c) = purse c) \<Longrightarrow> K (purse c) (purse (f c))"
  by (simp add: refl_law)

lemmas cx_intros = cx.holds_intros cx_ask cx_account plain_methods plain_modify pay_laws asset_laws

lemma cx_setters:
  "cx.holds (set_tx i)" "cx.holds (set_args as)" "cx.holds useTransaction" "cx.holds popInnerCallStack"
  "cx.holds (set_knowableID j n)" "cx.holds (require_role role e k x)" "cx.holds verifyMinimumFees"
  "cx.holds verifyAndUpdateInnerAppCallStack" "cx.holds (assertAccBalAboveMin x)"
proof -
  show "cx.holds useTransaction"
    unfolding cx.holds_def useTransaction_def by (simp add: exec_simps purse_def use_law refl_law)
qed (unfold set_tx_def set_args_def popInnerCallStack_def set_knowableID_def require_role_def verifyMinimumFees_def
  verifyAndUpdateInnerAppCallStack_def assertAccBalAboveMin_def, (intro cx_intros; simp add: purse_def Let_def refl_law)+)

lemma cx_apps: "cx.holds (ctx_deleteApp j)" "cx.holds (ctx_closeApp x j)" "cx.holds (ctx_rekeyTo X t auth)"
  unfolding ctx_deleteApp_def ctx_closeApp_def ctx_rekeyTo_def
  by (intro cx_intros cx_ledger; simp add: rekeyTo_def)+

definition lawful_machine :: "machine \<Rightarrow> bool" where
  "lawful_machine M \<longleftrightarrow> (\<forall>p md i. cx.holds (mc_run M p md i))"

lemma cx_signature:
  assumes "lawful_machine M"
  shows "cx.holds (check_signature Q M S lsigs i st r)"
  using assms unfolding check_signature_def validateLsigAndRun_def lawful_machine_def
  by (auto split: option.split bool.split simp: Let_def intro!: cx_intros cx_setters)

lemma cx_appl_parts:
  assumes "lawful_machine M"
  shows "cx.holds (ctx_optInToApp M x j i)" "cx.holds (ctx_updateApp Q M j d i)"
  using assms unfolding ctx_optInToApp_def ctx_updateApp_def lawful_machine_def
  by (auto intro!: cx_intros cx_setters)

lemma cx_creation:
  "cx.holds (registerApp f info d)" "cx.holds (renumberApp x)"
  unfolding registerApp_def renumberApp_def put_ledger_def
  by (intro cx_intros cx_ledger; simp)+

lemma cx_deploy:
  assumes "lawful_machine M" "C"
  shows "cx.holds (ctx_deployApp Q M x d i)"
proof -
  have put: "cx.holds (put_ledger (put_account y a))" for y a
    using assms(2) by (intro cx_put replace_law)
  have run: "cx.holds (mc_run M p md j)" for p md j using assms(1) by (simp add: lawful_machine_def)
  have apps: "cx.holds (put_ledger (\<lambda>st. st\<lparr>globalApps := f st\<rparr>))" for f
    unfolding put_ledger_def by (intro cx_ledger) simp_all
  show ?thesis
    unfolding ctx_deployApp_def Let_def by (intro cx_intros cx_setters cx_creation put run apps)
qed

definition lawful_tx :: "platform \<Rightarrow> (nat, app_definition) jsmap option \<Rightarrow> signed_tx \<Rightarrow> bool" where
  "lawful_tx Q defs st \<longleftrightarrow> G (t_amount (st_txn st)) \<and> (C \<or> defs = None \<or>
     \<not> (t_type (st_txn st) = ''appl'' \<and> t_appOnComplete (st_txn st) = NoOpOC \<and>
        isEncTxApplicationCreate (get_obj_for_encoding Q (st_txn st))))"

lemma cx_create:
  assumes "lawful_machine M" "C \<or> defs = None"
  shows "cx.holds (apply_create Q M defs i x)"
  using assms unfolding apply_create_def
  by (cases defs) (auto intro!: cx_intros cx_setters cx_deploy)

lemma cx_appl:
  assumes "lawful_machine M"
    and "C \<or> defs = None \<or> \<not> (t_appOnComplete t = NoOpOC \<and> isEncTxApplicationCreate (get_obj_for_encoding Q t))"
  shows "cx.holds (apply_appl Q M defs i t r)"
proof -
  have run: "cx.holds (mc_run M p md j)" for p md j using assms(1) by (simp add: lawful_machine_def)
  have create: "cx.holds (apply_create Q M defs i x)"
    if "t_appOnComplete t = NoOpOC" "isEncTxApplicationCreate (get_obj_for_encoding Q t)" for x
    using assms that by (intro cx_create) auto
  show ?thesis
    unfolding apply_appl_def Let_def
    by (auto split: on_complete.split
        intro!: create cx_intros cx_setters run cx_apps cx_appl_parts [OF assms(1)])
qed

lemma cx_asset_txs:
  assumes "G (t_amount t)"
  shows "cx.holds (apply_acfg Q i t r)" "cx.holds (apply_axfer Q t r)"
  unfolding apply_acfg_def apply_axfer_def Let_def
  by (intro cx_intros cx_setters transfer_law revoke_law assms)+

lemma cx_pay: "cx.holds (apply_pay Q t)"
proof -
  have "cx.holds (put_ledger (\<lambda>st. if map_of (accounts st) x = None then put_account x (new_AccountStore 0 x [] None) st else st))" for x
    by (rule cx_put) (simp add: refl_law new_law)
  then show ?thesis unfolding apply_pay_def by (intro cx_intros)
qed

lemma cx_apply:
  assumes "lawful_machine M" "lawful_tx Q defs st" "t = st_txn st"
  shows "cx.holds (apply_tx Q M defs i t r)"
  using assms unfolding apply_tx_def lawful_tx_def
  by (intro cx_intros cx_setters cx_pay cx_asset_txs cx_appl) auto

lemma cx_process:
  assumes "lawful_machine M" "lawful_tx Q defs st"
  shows "cx.holds (process_tx Q M S defs lsigs i st r)"
  unfolding process_tx_def Let_def
  by (intro cx_intros cx_setters cx_signature [OF assms(1)] cx_apply [OF assms refl] cx_apps) (simp add: purse_def refl_law)

lemma cx_process_all:
  assumes "lawful_machine M" "list_all (lawful_tx Q defs) sts"
  shows "cx.holds (process_all Q M S defs lsigs i sts r)"
  using assms(2) by (induction sts arbitrary: i r) (auto intro!: cx_intros cx_process [OF assms(1)])

lemma cx_group:
  assumes "lawful_machine M" "list_all (lawful_tx Q defs) sts"
  shows "cx.holds (processTransactions Q M S sts defs lsigs)"
  unfolding processTransactions_def by (intro cx_intros cx_setters cx_process_all [OF assms])

section \<open>The closed machine keeps the law\<close>

lemma cx_interpret:
  assumes "lawful U"
  shows "cx.holds (interpret_program X U p md)"
  unfolding cx.holds_def
proof
  fix c
  obtain r t where e: "execute_program X U p (new_Interpreter md c) = Some (r, t)"
    using program_ends by blast
  then have "K (purse c) (purse t)"
    using kept_program [OF e assms] by (simp add: purse_def new_Interpreter_def ctx.defs)
  then show "K (purse c) (purse (snd (interpret_program X U p md c)))"
    using e by (cases r) (simp_all add: interpret_program_def purse_def ctx.defs)
qed

lemma cx_run:
  assumes "lawful U"
  shows "cx.holds (run_program X U p md i)"
proof -
  have "cx.holds start_run"
    unfolding start_run_def by (intro cx_intros) (simp_all add: purse_def same_law refl_law)
  then show ?thesis
    unfolding run_program_def by (intro cx_intros cx_interpret [OF assms] cx_purse) (simp_all add: purse_def)
qed

definition lawful_makers :: "sdk \<Rightarrow> makers \<Rightarrow> bool" where
  "lawful_makers X W \<longleftrightarrow> (\<forall>p sp t. mkTransaction X W p sp = Inr t \<longrightarrow> G (t_amount t))"

lemma made_lawful:
  assumes "lawful_makers (core Q) W" "all_or_error (inner_signed (core Q) W a) ps = Inr sts"
  shows "list_all (lawful_tx Q None) sts"
  using assms(2)
proof (induction ps arbitrary: sts)
  case (Cons p ps)
  then show ?case using assms(1)
    by (auto simp: inner_signed_def lawful_tx_def lawful_makers_def split: sum.splits)
qed simp

lemma submitter_lawful:
  assumes "lawful_machine M" "lawful_makers (core Q) W"
  shows "lawful (submitter_for Q W S M)"
proof -
  have "cx.holds (bindM (liftM (all_or_error (inner_signed (core Q) W a) ps)) (\<lambda>sts.
      seqM (processTransactions Q M S sts None []) (returnM ())))" for a ps
  proof (cases "all_or_error (inner_signed (core Q) W a) ps")
    case (Inr sts)
    have "cx.holds (seqM (processTransactions Q M S sts None []) (returnM ()))"
      by (intro cx_intros cx_group [OF assms(1) made_lawful [OF assms(2) Inr]])
    then show ?thesis unfolding Inr lift_Inr .
  qed (simp add: cx.holds_def bindM_def liftM_def refl_law)
  then show ?thesis by (auto simp: lawful_def submitter_for_def split: sum.splits)
qed

lemma machine_lawful: "lawful_makers (core Q) W \<Longrightarrow> lawful_machine (machine_at Q W S n)"
proof (induction n)
  case 0
  show ?case by (simp add: lawful_machine_def cx.holds_basic)
next
  case (Suc n)
  then show ?case by (simp add: lawful_machine_def cx_run submitter_lawful)
qed

end

section \<open>The two laws of a group\<close>

definition same_remaining :: "ctx \<Rightarrow> ctx \<Rightarrow> bool" where
  "same_remaining c c' \<longleftrightarrow> c_remainingTxns c' = c_remainingTxns c"

interpretation rm: stable same_remaining by unfold_locales (simp_all add: same_remaining_def)

lemma remaining_basic: "rm.holds (on_ledger m)" "rm.holds (askM q)" "rm.holds (set_receipt rc)"
  by (simp_all add: rm.holds_def exec_simps same_remaining_def set_receipt_def)

lemma remaining_ops:
  "rm.holds (transferAlgo X t)" "rm.holds (deductFee x i p)" "rm.holds (transferAsset L t)" "rm.holds (revokeAsset x j y n)"
  "rm.holds (ctx_optInToASA L j x flags)" "rm.holds (ctx_modifyAsset j md)" "rm.holds (freezeAsset j x fr)"
  "rm.holds (ctx_destroyAsset j)" "rm.holds (ctx_deployASADef L nm d x flags)"
  unfolding payment_defs asset_defs add_holding_def ctx_deployASADef_def mkAssetCreateTx_def
  by (intro rm.holds_intros remaining_basic; simp add: same_remaining_def)+

lemma remaining_fewer: "rm.holds m \<Longrightarrow> fe.cx.holds m"
  unfolding fe.cx.holds_def rm.holds_def by (simp add: same_remaining_def fewer_def purse_def)

interpretation fg: group_laws fewer "\<lambda>n. True" True
  by unfold_locales ((rule remaining_fewer, rule remaining_ops) | simp add: fewer_def)+

lemma keeps_supplied: "ai.keeps (\<lambda>_. 0) m \<Longrightarrow> su.cx.holds m"
  unfolding su.cx.holds_def ai.keeps_def by (simp add: supplied_def purse_def)

interpretation sg: group_laws supplied "\<lambda>n. 0 \<le> n" False
  by unfold_locales ((rule keeps_supplied, rule keeps_payments keeps_transferAsset keeps_revokeAsset
    keeps_optIn keeps_ctx_modifyAsset keeps_freezeAsset keeps_destroyAsset keeps_deploy, assumption?)
    | simp add: supplied_def)+

end
