(* ===== verification/TEAL_Levels.thy ===== *)
theory TEAL_Levels
  imports TEAL_Machine
begin

text \<open>
  How many levels a machine has makes no difference to a context that may still run fewer transactions:
  a calculus for computations that do the same up to a number of transactions, through the processing of a
  group, the opcodes and the loop of the interpreter. Then the properties of a group with all the
  programs and inner groups that it runs.
\<close>

section \<open>Levels make no difference\<close>

text \<open>Two computations that do the same in every context that may still run at most \<open>k\<close> transactions.\<close>

definition same_upto :: "int \<Rightarrow> ('x ctx_scheme, 'a) exec \<Rightarrow> ('x ctx_scheme, 'a) exec \<Rightarrow> bool" where
  "same_upto k m m' \<longleftrightarrow> (\<forall>s. 0 \<le> c_remainingTxns s \<and> c_remainingTxns s \<le> k \<longrightarrow> m s = m' s)"

definition spends :: "('x ctx_scheme, 'a) exec \<Rightarrow> bool" where
  "spends m \<longleftrightarrow> (\<forall>s. fewer (purse s) (purse (snd (m s))))"

lemma spends_law: "fe.cx.holds m \<Longrightarrow> spends m" "fe.pr.holds m' \<Longrightarrow> spends m'"
  unfolding fe.cx.holds_def fe.pr.holds_def spends_def by blast+

lemma spendsD: "spends m \<Longrightarrow> m s = (r, t) \<Longrightarrow> 0 \<le> c_remainingTxns s \<Longrightarrow> c_remainingTxns s \<le> k \<Longrightarrow>
    0 \<le> c_remainingTxns t \<and> c_remainingTxns t \<le> k"
  unfolding spends_def fewer_def purse_def by (metis order_trans snd_conv)

lemma same_refl: "same_upto k m m"
  by (simp add: same_upto_def)

lemma same_mono: "same_upto k m m' \<Longrightarrow> j \<le> k \<Longrightarrow> same_upto j m m'"
  by (simp add: same_upto_def)

lemma same_bind:
  fixes m :: "('x ctx_scheme, 'a) exec"
  assumes "spends m" "same_upto k m m'" "\<And>a. same_upto k (f a) (f' a)"
  shows "same_upto k (bindM m f) (bindM m' f')"
  unfolding same_upto_def
proof (intro allI impI)
  fix s :: "'x ctx_scheme"
  assume s: "0 \<le> c_remainingTxns s \<and> c_remainingTxns s \<le> k"
  obtain r t where m: "m s = (r, t)" by fastforce
  then show "bindM m f s = bindM m' f' s"
    using assms(2,3) s spendsD [OF assms(1) m, of k] unfolding same_upto_def bindM_def by (cases r) auto
qed

lemma same_seq: "spends m \<Longrightarrow> same_upto k m m' \<Longrightarrow> same_upto k n n' \<Longrightarrow> same_upto k (seqM m n) (seqM m' n')"
  unfolding seqM_def by (rule same_bind)

lemma same_catch:
  fixes m :: "('x ctx_scheme, 'a) exec"
  assumes "spends m" "same_upto k m m'" "\<And>e. same_upto k (h e) (h' e)"
  shows "same_upto k (catchM m h) (catchM m' h')"
  unfolding same_upto_def
proof (intro allI impI)
  fix s :: "'x ctx_scheme"
  assume s: "0 \<le> c_remainingTxns s \<and> c_remainingTxns s \<le> k"
  obtain r t where m: "m s = (r, t)" by fastforce
  then show "catchM m h s = catchM m' h' s"
    using assms(2,3) s spendsD [OF assms(1) m, of k] unfolding same_upto_def catchM_def by (cases r) auto
qed

lemma same_if: "(b \<Longrightarrow> same_upto k m m') \<Longrightarrow> (\<not> b \<Longrightarrow> same_upto k n n') \<Longrightarrow>
    same_upto k (if b then m else n) (if b then m' else n')"
  by simp

lemma same_let: "same_upto k (f x) (f' x) \<Longrightarrow> same_upto k (Let x f) (Let x f')"
  by simp

lemma same_cases:
  "same_upto k m m' \<Longrightarrow> (\<And>a. same_upto k (f a) (f' a)) \<Longrightarrow>
    same_upto k (case x of None \<Rightarrow> m | Some a \<Rightarrow> f a) (case x of None \<Rightarrow> m' | Some a \<Rightarrow> f' a)"
  "(\<And>a b. same_upto k (g a b) (g' a b)) \<Longrightarrow> same_upto k (case z of (a, b) \<Rightarrow> g a b) (case z of (a, b) \<Rightarrow> g' a b)"
  by (simp_all split: option.split prod.split)

text \<open>One transaction is used up before its programs run.\<close>

lemma same_use:
  assumes "same_upto (k - 1) m m'"
  shows "same_upto k (seqM useTransaction m) (seqM useTransaction m')"
  using assms unfolding same_upto_def by (auto simp: useTransaction_def exec_simps seqM_def bindM_def)

definition same_machine :: "int \<Rightarrow> machine \<Rightarrow> machine \<Rightarrow> bool" where
  "same_machine k M M' \<longleftrightarrow> mc_version M = mc_version M' \<and> (\<forall>p md i. same_upto k (mc_run M p md i) (mc_run M' p md i))"

lemma same_machineD: "same_machine k M M' \<Longrightarrow> same_upto k (mc_run M p md i) (mc_run M' p md i)"
  by (simp add: same_machine_def)

lemma lawful_always: "fg.lawful_makers X W"
  by (simp add: fg.lawful_makers_def)

lemma fewer_tx: "fg.lawful_tx Q defs st"
  by (simp add: fg.lawful_tx_def)

lemma spends_basic:
  "spends (getM g)" "spends (liftM r)" "spends (askM q)" "spends (assertM b e)" "spends (someM e z)" "spends (set_tx i)"
  "spends (set_args as)" "spends (deductFee x i p)" "spends (on_ledger m)" "spends (assertAccBalAboveMin x)"
  "spends verifyMinimumFees" "spends verifyAndUpdateInnerAppCallStack"
proof -
  show "spends (on_ledger m)" by (simp add: spends_def fewer_def purse_def exec_simps)
  show "spends (getM g)" "spends (liftM r)" "spends (askM q)" "spends (assertM b e)" "spends (someM e z)"
    by (simp_all add: spends_def fewer_def purse_def exec_simps someM_def split: option.split)
qed (intro spends_law fg.cx_setters fg.pay_laws)+

lemmas same_intros = same_bind same_seq same_catch same_if same_let same_cases same_refl spends_basic

lemma same_version: "same_machine k M M' \<Longrightarrow> check_programs M = check_programs M'"
  by (simp add: same_machine_def check_programs_def verifyTEALVersionIsMatch_def fun_eq_iff split: sum.split)

lemma same_deploy:
  assumes "same_machine k M M'" "fg.lawful_machine M"
  shows "same_upto k (ctx_deployApp Q M x d i) (ctx_deployApp Q M' x d i)"
proof -
  have "spends (mc_run M p md j)" for p md j using assms(2) by (simp add: fg.lawful_machine_def spends_law)
  then show ?thesis
    unfolding ctx_deployApp_def same_version [OF assms(1)] put_ledger_def
    by (intro same_intros same_machineD [OF assms(1)])
qed

lemma same_appl_parts:
  assumes "same_machine k M M'" "fg.lawful_machine M"
  shows "same_upto k (ctx_optInToApp M x j i) (ctx_optInToApp M' x j i)"
    and "same_upto k (ctx_updateApp Q M j d i) (ctx_updateApp Q M' j d i)"
    and "same_upto k (apply_create Q M defs i x) (apply_create Q M' defs i x)"
proof -
  have m: "spends (mc_run M p md j)" for p md j using assms(2) by (simp add: fg.lawful_machine_def spends_law)
  have d: "spends (ctx_deployApp Q M x d i)" for d by (rule spends_law fg.cx_deploy assms TrueI)+
  show "same_upto k (ctx_optInToApp M x j i) (ctx_optInToApp M' x j i)"
    "same_upto k (ctx_updateApp Q M j d i) (ctx_updateApp Q M' j d i)"
    "same_upto k (apply_create Q M defs i x) (apply_create Q M' defs i x)"
    unfolding ctx_optInToApp_def ctx_updateApp_def apply_create_def same_version [OF assms(1)]
    by (intro same_intros m d same_machineD [OF assms(1)] same_deploy [OF assms])+
qed

lemma same_appl:
  assumes "same_machine k M M'" "fg.lawful_machine M"
  shows "same_upto k (apply_appl Q M defs i t r) (apply_appl Q M' defs i t r)"
proof -
  have run: "fe.cx.holds (mc_run M p md j)" for p md j using assms(2) by (simp add: fg.lawful_machine_def)
  have s: "spends (mc_run M p md j)" "spends (bindM (mc_run M p md j) (\<lambda>rc. returnM (Some rc)))"
    "spends (catchM (bindM (mc_run M p md j) (\<lambda>rc. returnM (Some rc))) (\<lambda>e. returnM r))"
    "spends (bindM (askM (ctx_getApp j')) (\<lambda>app. mc_run M (approval_program app) md j))"
    "spends (ctx_optInToApp M x j'' j)" "spends (ctx_updateApp Q M j'' d j)" "spends (apply_create Q M defs j x)"
    for p md j j' j'' x d
    by (intro spends_law(1) fg.cx_intros run fg.cx_appl_parts [OF assms(2)] fg.cx_create [OF assms(2)] disjI1 TrueI)+
  note i = same_intros s same_machineD [OF assms(1)] same_appl_parts [OF assms]
  show ?thesis
    unfolding apply_appl_def Let_def by (cases "t_appOnComplete t"; simp only: on_complete.case; intro i)
qed

lemma same_apply:
  assumes "same_machine k M M'" "fg.lawful_machine M"
  shows "same_upto k (apply_tx Q M defs i t r) (apply_tx Q M' defs i t r)"
  unfolding apply_tx_def by (intro same_if same_refl same_appl [OF assms])

text \<open>A group without logic signatures runs no program before a transaction is used up for it.\<close>

lemma same_lsig: "same_machine k M M' \<Longrightarrow> same_upto k (validateLsigAndRun Q M S lp) (validateLsigAndRun Q M' S lp)"
  unfolding validateLsigAndRun_def Let_def
  by (auto split: option.split bool.split intro!: same_bind same_seq spends_basic same_machineD same_refl)

lemma spends_lsig: "fg.lawful_machine M \<Longrightarrow> spends (validateLsigAndRun Q M S lp)"
  unfolding validateLsigAndRun_def Let_def fg.lawful_machine_def
  by (auto split: option.split bool.split intro!: spends_law(1) fg.cx_intros fg.cx_setters)

lemma same_signature:
  assumes "lsigs = [] \<or> same_machine k M M'" "fg.lawful_machine M"
  shows "same_upto k (check_signature Q M S lsigs i st r) (check_signature Q M' S lsigs i st r)"
  using assms(1)
proof
  assume m: "same_machine k M M'"
  show ?thesis
    unfolding check_signature_def
    by (auto split: option.split simp: same_refl
        intro!: same_bind same_seq spends_basic same_lsig [OF m] spends_lsig [OF assms(2)] same_refl)
qed (simp add: check_signature_def same_refl)

lemma same_process:
  assumes "same_machine (k - 1) M M'" "fg.lawful_machine M" "lsigs = [] \<or> same_machine k M M'"
  shows "same_upto k (process_tx Q M S defs lsigs i st r) (process_tx Q M' S defs lsigs i st r)"
proof -
  have "spends (modifyM (\<lambda>c. c\<lparr>c_txnType := Some ty\<rparr>))" for ty
    by (simp add: spends_def fewer_def purse_def exec_simps)
  moreover have "spends (check_signature Q M S lsigs i st r)"
    by (intro spends_law(1) fg.cx_signature assms)
  moreover have "spends (apply_tx Q M defs i (st_txn st) r1)" for r1
    by (rule spends_law(1) [OF fg.cx_apply [OF assms(2) fewer_tx refl]])
  ultimately show ?thesis
    unfolding process_tx_def Let_def
    by (intro same_bind same_seq same_use same_refl spends_basic same_signature [OF assms(3,2)]
        same_apply [OF assms(1,2)])
qed

lemma same_group:
  assumes "same_machine (k - 1) M M'" "fg.lawful_machine M" "lsigs = [] \<or> same_machine k M M'"
  shows "same_upto k (processTransactions Q M S sts defs lsigs) (processTransactions Q M' S sts defs lsigs)"
proof -
  have p: "spends (process_tx Q M S defs lsigs i st r)" "spends (process_all Q M S defs lsigs i sts r)" for i st sts r
    by (intro spends_law(1) fg.cx_process fg.cx_process_all assms fewer_tx; simp add: list_all_iff fewer_tx)+
  have "same_upto k (process_all Q M S defs lsigs i sts r) (process_all Q M' S defs lsigs i sts r)" for i r
    by (induction sts arbitrary: i r)
      (auto simp: same_refl intro!: same_bind same_process [OF assms] p same_refl)
  then show ?thesis
    unfolding processTransactions_def by (intro same_seq same_refl spends_basic)
qed

section \<open>Programs at different levels\<close>

text \<open>Submitters that differ only where the context may run more than \<open>k\<close> transactions.\<close>

definition same_submitter :: "int \<Rightarrow> submitter \<Rightarrow> submitter \<Rightarrow> bool" where
  "same_submitter k U U' \<longleftrightarrow> sub_account U = sub_account U' \<and>
     (\<forall>a c g. rel_sum (=) (same_upto k) (sub_convert U a c g) (sub_convert U' a c g))"

lemma same_submitter_for:
  assumes "same_machine (k - 1) M M'" "fg.lawful_machine M"
  shows "same_submitter k (submitter_for Q W S M) (submitter_for Q W S M')"
proof -
  have "spends (processTransactions Q M S sts None [])" for sts
    by (intro spends_law(1) fg.cx_group assms(2)) (simp add: list_all_iff fewer_tx)
  then have "same_upto k (bindM (liftM r) (\<lambda>sts. seqM (processTransactions Q M S sts None []) (returnM ())))
      (bindM (liftM r) (\<lambda>sts. seqM (processTransactions Q M' S sts None []) (returnM ())))" for r
    by (intro same_bind same_seq same_refl spends_basic same_group [OF assms] disjI1 refl)
  then show ?thesis by (auto simp: same_submitter_def submitter_for_def split: sum.split)
qed

lemma same_run_inner:
  assumes "same_upto k act act'"
  shows "same_upto k (run_inner act fee) (run_inner act' fee)"
  using assms unfolding same_upto_def run_inner_def Let_def by (simp add: enter_inner_def ctx.defs)

lemma same_submission:
  assumes "same_submitter k U U'" "fe.lawful U"
  shows "same_upto k (bindM (getM (\<lambda>s. sub_convert U a (ctx.truncate s) cur)) (\<lambda>r.
      bindM (liftM r) (\<lambda>act. seqM (run_inner act fee) computeCost)))
    (bindM (getM (\<lambda>s. sub_convert U' a (ctx.truncate s) cur)) (\<lambda>r.
      bindM (liftM r) (\<lambda>act. seqM (run_inner act fee) computeCost)))"
  unfolding same_upto_def bind_getM
proof (intro allI impI)
  fix s :: interp
  assume s: "0 \<le> c_remainingTxns s \<and> c_remainingTxns s \<le> k"
  let ?r = "sub_convert U a (ctx.truncate s) cur" and ?r' = "sub_convert U' a (ctx.truncate s) cur"
  have "rel_sum (=) (same_upto k) ?r ?r'" using assms(1) by (simp add: same_submitter_def)
  then show "bindM (liftM ?r) (\<lambda>act. seqM (run_inner act fee) computeCost) s =
      bindM (liftM ?r') (\<lambda>act. seqM (run_inner act fee) computeCost) s"
  proof cases
    case (2 act act')
    have "fe.cx.holds act" using assms(2) 2(1) unfolding fe.lawful_def by blast
    then have "spends (run_inner act fee)" by (intro spends_law(2) fe.kept_run_inner)
    then have "same_upto k (seqM (run_inner act fee) computeCost) (seqM (run_inner act' fee) computeCost)"
      by (intro same_seq same_refl same_run_inner 2(3))
    then show ?thesis using s unfolding 2 lift_Inr same_upto_def by blast
  qed (simp add: bindM_def liftM_def)
qed

lemma same_submit_group:
  assumes "same_submitter k U U'" "fe.lawful U"
  shows "same_upto k (submit_group U cur fee acc) (submit_group U' cur fee acc)"
  unfolding submit_group_def
  by (intro same_if same_seq same_refl same_submission [OF assms]) (simp add: spends_def fewer_def purse_def exec_simps)

lemma same_submit:
  assumes "same_submitter k U U'" "fe.lawful U"
  shows "same_upto k (ITxnSubmit_execute X U) (ITxnSubmit_execute X U')"
proof -
  have "sub_account U = sub_account U'" using assms(1) by (simp add: same_submitter_def)
  then show ?thesis
    unfolding ITxnSubmit_execute_def
    by (simp only:) (intro same_bind same_seq same_refl spends_basic same_submit_group [OF assms])
qed

lemma same_op:
  assumes "same_submitter k U U'" "fe.lawful U"
  shows "same_upto k (op_execute X U ins) (op_execute X U' ins)"
proof (cases ins)
  case (Inner i)
  then show ?thesis by (cases i) (simp_all add: same_refl same_submit [OF assms])
qed (simp_all add: same_refl)

lemma same_step:
  assumes "same_submitter k U U'" "fe.lawful U"
  shows "same_upto k (step X U) (step X U')"
proof -
  have "spends assertInnerVersion"
    by (simp add: spends_def assertInnerVersion_def fewer_def)
  moreover have "spends (op_execute X U ins)" for ins by (rule spends_law(2) [OF fe.kept_op [OF assms(2)]])
  ultimately show ?thesis
    unfolding step_def by (intro same_bind same_seq same_refl spends_basic same_op [OF assms])
qed

text \<open>The loop, in one direction; the other is the same with the submitters exchanged.\<close>

lemma same_loop_imp:
  assumes "run_loop X U s = Some out" "same_upto k (step X U) (step X U')" "spends (step X U)"
    and "0 \<le> c_remainingTxns s" "c_remainingTxns s \<le> k"
  shows "run_loop X U' s = Some out"
  using assms(2-)
proof (induction rule: run_loop.raw_induct [OF _ assms(1), rotated])
  case (1 f X U s out)
  show ?case
  proof (cases "i_instructionIndex s < length (i_instructions s)")
    case True
    obtain r u where st: "step X U s = (r, u)" by fastforce
    have st': "step X U' s = (r, u)" using 1(3,5,6) st unfolding same_upto_def by simp
    have u: "0 \<le> c_remainingTxns u" "c_remainingTxns u \<le> k"
      using spendsD [OF 1(4) st] 1(5,6) by simp_all
    show ?thesis
    proof (cases r)
      case (Inr x)
      then have "f X U u = Some out" using 1(2) True st by (simp add: Let_def)
      from 1(1) [OF this 1(3,4) u] show ?thesis using True st' Inr by (subst run_loop.simps) simp
    next
      case (Inl e)
      then have "out = (Inl e, u)" using 1(2) True st by simp
      then show ?thesis using True st' Inl by (subst run_loop.simps) simp
    qed
  qed (use 1(2) in \<open>subst run_loop.simps, simp\<close>)
qed

lemma same_loop:
  assumes "same_submitter k U U'" "fe.lawful U" "fe.lawful U'" "0 \<le> c_remainingTxns s" "c_remainingTxns s \<le> k"
  shows "run_loop X U s = run_loop X U' s"
proof -
  have st: "same_upto k (step X U) (step X U')" by (rule same_step [OF assms(1,2)])
  then have st': "same_upto k (step X U') (step X U)" by (simp add: same_upto_def)
  show ?thesis
    using same_loop_imp [OF _ st spends_law(2) [OF fe.kept_step [OF assms(2)]] assms(4,5)]
      same_loop_imp [OF _ st' spends_law(2) [OF fe.kept_step [OF assms(3)]] assms(4,5)]
    by (metis not_None_eq)
qed

lemma same_program_result:
  assumes "same_submitter k U U'" "fe.lawful U" "fe.lawful U'" "0 \<le> c_remainingTxns s" "c_remainingTxns s \<le> k"
  shows "execute_program X U p s = execute_program X U' p s"
proof -
  obtain r t where p: "parser X p (i_mode s) (s\<lparr>i_program := p\<rparr>) = (r, t)" by fastforce
  have t: "0 \<le> c_remainingTxns t \<and> c_remainingTxns t \<le> k"
    by (rule spendsD [OF spends_law(2) [OF fe.kept_parser] p]) (use assms(4,5) in simp_all)
  have "interp_execute X U (t\<lparr>i_instructions := is\<rparr>) = interp_execute X U' (t\<lparr>i_instructions := is\<rparr>)" for "is"
  proof -
    obtain r2 u where b: "before_loop (t\<lparr>i_instructions := is\<rparr>) = (r2, u)" by fastforce
    have "0 \<le> c_remainingTxns u \<and> c_remainingTxns u \<le> k"
      by (rule spendsD [OF spends_law(2) [OF fe.kept_before] b]) (use t in simp_all)
    then have "run_loop X U u = run_loop X U' u" by (intro same_loop [OF assms(1-3)]) simp_all
    then show ?thesis by (cases r2) (simp_all add: interp_execute_def executeWithResult_def b)
  qed
  then show ?thesis using p by (cases r) (simp_all add: execute_program_def)
qed

lemma same_run:
  assumes "same_submitter k U U'" "fe.lawful U" "fe.lawful U'"
  shows "same_upto k (run_program X U p md i) (run_program X U' p md i)"
proof -
  have "same_upto k (interpret_program X U p md) (interpret_program X U' p md)"
    unfolding same_upto_def interpret_program_def
    by (auto simp: new_Interpreter_def ctx.defs same_program_result [OF assms])
  moreover have "spends start_run"
    by (simp add: spends_def start_run_def fewer_def purse_def exec_simps seqM_def bindM_def)
  moreover have "spends (interpret_program X U p md)" by (rule spends_law(1) [OF fg.cx_interpret [OF assms(2)]])
  ultimately show ?thesis unfolding run_program_def by (intro same_bind same_seq same_refl)
qed

text \<open>Two machines with at least \<open>n\<close> levels.\<close>

lemma levels_agree: "n \<le> m \<Longrightarrow> same_machine (int n - 1) (machine_at Q W S n) (machine_at Q W S m)"
proof (induction n arbitrary: m)
  case 0
  have "mc_version (machine_at Q W S m) = getProgramVersion (core Q)" by (cases m) simp_all
  then show ?case by (auto simp: same_machine_def same_upto_def)
next
  case (Suc n)
  then obtain m' where m: "m = Suc m'" "n \<le> m'" by (cases m) auto
  have l: "fg.lawful_machine (machine_at Q W S j)" for j by (rule fg.machine_lawful [OF lawful_always])
  have "same_submitter (int n) (submitter_for Q W S (machine_at Q W S n)) (submitter_for Q W S (machine_at Q W S m'))"
    by (rule same_submitter_for [OF Suc.IH [OF m(2)] l])
  moreover have "fe.lawful (submitter_for Q W S (machine_at Q W S j))" for j
    by (rule fg.submitter_lawful [OF l lawful_always])
  ultimately show ?case using same_run by (simp add: m(1) same_machine_def)
qed

lemma lawful_levels: "fg.lawful_machine (machine_at Q W S n)"
  by (rule fg.machine_lawful [OF lawful_always])

lemma group_levels: "same_upto 256 (processTransactions Q (machine_at Q W S (257 + n)) S' sts defs lsigs)
    (processTransactions Q (the_machine Q W S) S' sts defs lsigs)"
proof -
  have "same_machine 256 (machine_at Q W S 257) (machine_at Q W S (257 + n))"
    using levels_agree [of 257 "257 + n" Q W S] by simp
  then have m: "same_machine 256 (machine_at Q W S (257 + n)) (the_machine Q W S)"
    by (auto simp: same_machine_def same_upto_def the_machine_def)
  then have "same_machine (256 - 1) (machine_at Q W S (257 + n)) (the_machine Q W S)"
    by (auto simp: same_machine_def same_upto_def)
  then show ?thesis using m lawful_levels by (intro same_group disjI2)
qed

section \<open>Counting transactions\<close>

lemma process_counted:
  assumes "fg.lawful_machine M" "process_tx Q M S defs lsigs i st r c = (Inr r', c')" "0 \<le> c_remainingTxns c"
  shows "0 \<le> c_remainingTxns c' \<and> c_remainingTxns c' + 1 \<le> c_remainingTxns c"
proof -
  let ?t = "st_txn st"
  obtain u c1 r1 c2 u2 c3 c4 auth u4 c5 u5
    where d: "deductFee (getTxFromAddress (core Q) ?t) i (getTxFlags (core Q) ?t) (c\<lparr>c_txnType := Some (t_type ?t)\<rparr>) = (Inr u, c1)"
    and sg: "check_signature Q M S lsigs i st r c1 = (Inr r1, c2)" and us: "useTransaction c2 = (Inr u2, c3)"
    and ap: "apply_tx Q M defs i ?t r1 c3 = (Inr r', c4)"
    and rk: "ctx_rekeyTo (core Q) ?t auth c4 = (Inr u4, c5)" and pp: "popInnerCallStack c5 = (Inr u5, c')"
    using assms(2) by (rule process_tx_Inr)
  have "0 \<le> c_remainingTxns c2 \<and> c_remainingTxns c2 \<le> c_remainingTxns c"
    using fe.cx.holdsD [OF fg.pay_laws(2) d] fe.cx.holdsD [OF fg.cx_signature [OF assms(1)] sg] assms(3)
    by (simp add: fewer_def purse_def)
  moreover have "0 \<le> c_remainingTxns c3 \<and> c_remainingTxns c3 + 1 \<le> c_remainingTxns c2"
    using us by (auto simp: useTransaction_def exec_simps split: if_splits)
  moreover have "fewer (purse c3) (purse c')"
    using fe.cx.holdsD [OF fg.cx_apply [OF assms(1) fewer_tx refl] ap] fe.cx.holdsD [OF fg.cx_apps(3) rk]
      fe.cx.holdsD [OF fg.cx_setters(4) pp] by (auto intro: fe.trans_law)
  ultimately show ?thesis by (simp add: fewer_def purse_def)
qed

lemma all_counted:
  assumes "fg.lawful_machine M" "process_all Q M S defs lsigs i sts r c = (Inr rs, c')" "0 \<le> c_remainingTxns c"
  shows "0 \<le> c_remainingTxns c' \<and> c_remainingTxns c' + int (length sts) \<le> c_remainingTxns c"
  using assms(2,3)
proof (induction sts arbitrary: i r c rs)
  case (Cons st sts)
  then obtain r1 c1 rs1 where 1: "process_tx Q M S defs lsigs i st r c = (Inr r1, c1)"
    "process_all Q M S defs lsigs (Suc i) sts r1 c1 = (Inr rs1, c')"
    by (auto simp: bindM_Inr monad_apply)
  show ?case using process_counted [OF assms(1) 1(1) Cons.prems(2)] Cons.IH [OF 1(2)] by simp
qed (simp add: monad_apply)

section \<open>A platform for the witnesses\<close>

text \<open>The SDK makes payments, and refuses negative amounts.\<close>

definition no_maker :: "error + transaction" where
  "no_maker = Inl (JsError (PlainError ''not made''))"

definition sample_payment :: "string \<Rightarrow> string \<Rightarrow> int \<Rightarrow> string option \<Rightarrow> bytes option \<Rightarrow> suggested \<Rightarrow> string option \<Rightarrow>
    error + transaction" where
  "sample_payment src to n close nt sp rekey =
     (case (decodeAddress sample_sdk src, decodeAddress sample_sdk to) of
        (Inr a, Inr b) \<Rightarrow>
          if n < 0 then Inl (JsError (PlainError ''Amount must be a positive number''))
          else Inr ((sample_transaction ''pay'' a)\<lparr>t_to := Some b, t_amount := n, t_fee := sp_fee sp\<rparr>)
      | _ \<Rightarrow> no_maker)"

definition sample_makers :: makers where
  "sample_makers = \<lparr>makePayment = sample_payment, makeAssetTransfer = (\<lambda>_ _ _ _ _ _ _ _ _. no_maker),
     makeAssetConfig = (\<lambda>_ _ _ _ _ _. no_maker), makeAssetFreeze = (\<lambda>_ _ _ _ _ _ _. no_maker),
     makeAssetDestroy = (\<lambda>_ _ _ _ _. no_maker), makeAssetCreate = (\<lambda>_ _ _ _ _ _ _. no_maker),
     makeApplication = (\<lambda>_ _ _ _ _ _ _ _. no_maker), makeApplicationCreate = (\<lambda>_ _ _ _ _ _ _ _ _. no_maker),
     makeApplicationUpdate = (\<lambda>_ _ _ _ _ _ _ _ _. no_maker),
     makeKeyRegistration = (\<lambda>_ _ _ _ _ _ _ _ _ _. no_maker)\<rparr>"

lemma sample_amounts: "mkTransaction X sample_makers p sp = Inr t \<Longrightarrow> 0 \<le> t_amount t"
  by (auto simp: mkTransaction_def make_kind_def sample_makers_def sample_payment_def no_maker_def with_args_def
      only_bytes_def updateTxFee_def Let_def split: sum.splits exec_kind.splits option.splits program_source.splits if_splits)

abbreviation bank_payments :: "signed_tx list" where
  "bank_payments \<equiv> [payment 1 2 5000, payment 2 3 7000]"

lemma bank_payments_run:
  obtains rs rt' where "executeTx sample_platform M (Signed bank_payments) bank = (Inr rs, rt')"
proof -
  have "\<not> isl (fst (executeTx sample_platform M (Signed bank_payments) bank))" by code_simp
  then show thesis using that by (metis isl_def obj_sumE prod.collapse)
qed

lemma bank_supply: "assets_ok (rt_store bank)"
proof -
  have "no_assets (c_state rich_ctx)"
    using rich_wf by (auto simp: no_assets_def rich_ctx_def new_AccountStore_def split: if_splits)
  then have "assets_ok (c_state rich_ctx)" by (intro ledger_reach_ok [OF lr_start])
  then show ?thesis using keeps_deploy unfolding ai.keeps_def bank_def bank_store_def by simp
qed

section \<open>Properties\<close>

text \<open>
  C8: Programs, inner groups and the programs they call come to an end at a depth that does not matter. A
  group runs in the same way on a machine with 257 levels of nesting and on one with any more: every result, error and
  effect is the same. For each transaction that runs uses up one of the 256 that a context starts with,
  before its program is run.
\<close>

theorem levels_enough:
  "executeTx P (machine_at P W S (257 + n)) g rt = executeTx P (the_machine P W S) g rt"
proof -
  have e: "in_ctx (processTransactions P (machine_at P W S (257 + n)) S' sts defs lsigs) rt1 =
      in_ctx (processTransactions P (the_machine P W S) S' sts defs lsigs) rt1"
    if "c_remainingTxns (rt_ctx rt1) = 256" for S' sts defs lsigs rt1
    using group_levels [of P W S n S' sts defs lsigs] that by (simp add: in_ctx_def same_upto_def live_def)
  show ?thesis
  proof (cases "prepare rt g")
    case (Inr p)
    then show ?thesis
      by (cases p) (simp add: executeTx_def exec_simps Let_def start_ctx_def new_Ctx_def fresh_ctx_def e split: sum.split)
  qed (simp add: executeTx_def exec_simps)
qed



text \<open>
  C3: The supply of every asset, whatever programs do. If in the store the holdings of each asset add up to
  its total, then they do so in the store after any group, on the machine closed over itself, at any depth of inner
  groups, whether the group succeeds or fails: no opcode and no inner transaction makes or loses a unit of
  an asset. The hypotheses are that the functions of the SDK that make transactions refuse a negative amount, as they do, and that the
  group itself has no such amount and creates no application.
\<close>

theorem groups_keep_supply:
  assumes "assets_ok (rt_store rt)" "prepare rt g = Inr (sts, defs, lsigs)" "list_all (plain_tx P) sts"
    and "\<And>p sp t. mkTransaction (core P) W p sp = Inr t \<Longrightarrow> 0 \<le> t_amount t"
    and "executeTx P (machine_at P W S n) g rt = (r, rt')"
  shows "assets_ok (rt_store rt')"
  using assms(5)
proof (cases rule: executeTx_ends)
  case (committed rs2 sts2 defs2 lsigs2 c)
  have "sg.lawful_machine (machine_at P W S n)"
    using assms(4) by (intro sg.machine_lawful) (auto simp: sg.lawful_makers_def)
  moreover have "list_all (sg.lawful_tx P (Some defs)) sts"
    using assms(3) by (auto simp: list_all_iff plain_tx_def sg.lawful_tx_def)
  moreover have "processTransactions P (machine_at P W S n) (rt_store rt) sts (Some defs) lsigs
      (group_ctx rt (getEncodedGroupTxns P sts)) = (Inr rs2, c)"
    using committed assms(2) by simp
  ultimately have "supplied (purse (group_ctx rt (getEncodedGroupTxns P sts))) (purse c)"
    using su.cx.holdsD [OF sg.cx_group] by blast
  then show ?thesis
    using assms(1) committed by (simp add: supplied_def purse_def group_ctx_def new_Ctx_def fresh_ctx_def)
qed (use assms(1) in \<open>simp_all add: store_kept_def\<close>)

lemma groups_keep_supply_witness:
  "\<exists>rs rt'. executeTx sample_platform (machine_at sample_platform sample_makers (rt_store bank) 257) (Signed bank_payments) bank =
     (Inr rs, rt') \<and> assets_ok (rt_store rt')"
proof -
  obtain rs rt' where e: "executeTx sample_platform (machine_at sample_platform sample_makers (rt_store bank) 257)
      (Signed bank_payments) bank = (Inr rs, rt')"
    by (rule bank_payments_run)
  have p: "prepare bank (Signed bank_payments) = Inr (bank_payments, [], [])" by (simp add: prepare_def)
  have "list_all (plain_tx sample_platform) bank_payments" by code_simp
  from groups_keep_supply [OF bank_supply p this _ e] sample_amounts e show ?thesis by blast
qed

end
