(* ===== verification/Algob_Errors.thy ===== *)
theory Algob_Errors
  imports TEAL_Codec
begin

text \<open>
  The error descriptors of \<^verbatim>\<open>packages/web/src/errors/errors-list.ts\<close>: one datatype per category, one constructor
  per descriptor, with their numbers. A thrown \<^verbatim>\<open>BuilderError\<close> is its descriptor; the arguments of the message are
  not kept. The filling of templates (\<^verbatim>\<open>applyErrorMessageTemplate\<close> of \<^verbatim>\<open>errors.ts\<close>) is modelled on texts.
\<close>

datatype (plugins only: size code) web_general =
    NOT_INSIDE_PROJECT | INVALID_NODE_VERSION | UNSUPPORTED_OPERATION | CONTEXT_ALREADY_CREATED
  | CONTEXT_NOT_CREATED | CONTEXT_BRE_NOT_DEFINED | CONTEXT_BRE_ALREADY_DEFINED | INVALID_CONFIG
  | LIB_IMPORTED_FROM_THE_CONFIG | USER_CONFIG_MODIFIED | INIT_INSIDE_PROJECT
  | NO_DEFAULT_EXPORT_IN_SCRIPT | SCRIPT_LOAD_ERROR | ASSET_DELETED | APP_DELETED
  | TRANSACTION_TYPE_ERROR | PARAM_PARSE_ERROR | EXECPARAMS_LENGTH_ERROR | LSIG_NOT_FOUND_IN_CP
  | APP_NOT_FOUND_IN_CP | TRANSACTION_LENGTH_ERROR

datatype (plugins only: size code) web_network =
    CONFIG_NOT_FOUND | INVALID_GLOBAL_CHAIN_NAME | MISSING_TX_PARAM_TO_SIGN_LOCALLY
  | NO_KMD_ACCOUNT_AVAILABLE | INVALID_HD_PATH | INVALID_RPC_QUANTITY_VALUE | NODE_IS_NOT_RUNNING
  | NETWORK_TIMEOUT | INVALID_JSON_RESPONSE | CANT_DERIVE_KEY

datatype (plugins only: size code) task_def_error =
    PARAM_AFTER_VARIADIC | PARAM_ALREADY_DEFINED | PARAM_CLASHES_WITH_ALGOB_PARAM
  | MANDATORY_PARAM_AFTER_OPTIONAL | OVERRIDE_NO_PARAMS | OVERRIDE_NO_MANDATORY_PARAMS
  | OVERRIDE_NO_POSITIONAL_PARAMS | OVERRIDE_NO_VARIADIC_PARAMS | ACTION_NOT_SET
  | RUNSUPER_NOT_AVAILABLE | DEFAULT_VALUE_WRONG_TYPE | DEFAULT_IN_MANDATORY_PARAM
  | INVALID_PARAM_NAME_CASING

datatype (plugins only: size code) argument_error =
    INVALID_ENV_VAR_VALUE | INVALID_VALUE_FOR_TYPE | INVALID_POSITIVE_INT | INVALID_INPUT_FILE
  | UNRECOGNIZED_TASK | UNRECOGNIZED_COMMAND_LINE_ARG | UNRECOGNIZED_PARAM_NAME
  | MISSING_TASK_ARGUMENT | MISSING_POSITIONAL_ARG | UNRECOGNIZED_POSITIONAL_ARG | REPEATED_PARAM
  | PARAM_NAME_INVALID_CASING | INVALID_JSON_ARGUMENT | INVALID_TX_PARAM

datatype (plugins only: size code) builtin_error =
    RUN_FILES_NOT_FOUND | SCRIPT_EXECUTION_ERROR | SCRIPTS_DIRECTORY_NOT_FOUND
  | SCRIPTS_NO_FILES_FOUND | SCRIPTS_OUTSIDE_SCRIPTS_DIRECTORY | DEPLOYER_EDIT_OUTSIDE_DEPLOY
  | CHECKPOINT_ERROR_DUPLICATE_ASSET_DEFINITION | DEPLOYER_METADATA_ALREADY_PRESENT
  | DEPLOYER_ASSET_ALREADY_PRESENT | DEPLOY_SCRIPT_NON_DIRECT_CHILD | DEPLOYER_ASA_DEF_NOT_FOUND
  | DEPLOYER_ASA_NOT_DEFINED | ACCOUNT_NOT_FOUND | TESTS_DIRECTORY_NOT_FOUND
  | DEPLOYER_LSIG_ALREADY_PRESENT | DEPLOYER_APP_ALREADY_PRESENT
  | RUN_FILE_NOT_FOUND_WITH_SUGGESTION | RUN_ARGUMENT_INVALID

datatype (plugins only: size code) plugin_error =
    NOT_INSTALLED | MISSING_DEPENDENCY | DEPENDENCY_VERSION_MISMATCH | OLD_STYLE_IMPORT_DETECTED

datatype (plugins only: size code) account_error =
    MNEMONIC_ADDR_MISSMATCH | WRONG_MNEMONIC | HD_ACCOUNT | MALFORMED | FIELD_REQUIRED

datatype (plugins only: size code) node_error =
    BAD_REQUEST | NODE_INTERNAL_ERROR

datatype (plugins only: size code) kmd_error =
    CONNECTION | KMD_ERROR

datatype (plugins only: size code) script_error =
    ASA_OPT_IN_ACCOUNT_INSUFFICIENT_BALANCE | ASA_OPT_IN_ACCOUNT_NOT_FOUND
  | ASA_TRIED_TO_OPT_IN_CREATOR

datatype (plugins only: size code) pyteal_error =
    PYTEAL_FILE_ERROR

text \<open>\<^verbatim>\<open>ERRORS\<close>, by category; then an error of the platform or of the SDK, with its description.\<close>

datatype builder_error =
    WebGeneral web_general | Network web_network | TaskDefinition task_def_error | Arguments argument_error
  | BuiltinTasks builtin_error | Plugins plugin_error | AccountErr account_error | Algorand node_error
  | Kmd kmd_error | Script script_error | PyTeal pyteal_error

datatype failure = Builder builder_error | Other string

section \<open>Numbers\<close>

primrec web_general_number :: "web_general \<Rightarrow> nat" where
    "web_general_number NOT_INSIDE_PROJECT = 1"
  | "web_general_number INVALID_NODE_VERSION = 2"
  | "web_general_number UNSUPPORTED_OPERATION = 3"
  | "web_general_number CONTEXT_ALREADY_CREATED = 4"
  | "web_general_number CONTEXT_NOT_CREATED = 5"
  | "web_general_number CONTEXT_BRE_NOT_DEFINED = 6"
  | "web_general_number CONTEXT_BRE_ALREADY_DEFINED = 7"
  | "web_general_number INVALID_CONFIG = 8"
  | "web_general_number LIB_IMPORTED_FROM_THE_CONFIG = 9"
  | "web_general_number USER_CONFIG_MODIFIED = 10"
  | "web_general_number INIT_INSIDE_PROJECT = 11"
  | "web_general_number NO_DEFAULT_EXPORT_IN_SCRIPT = 12"
  | "web_general_number SCRIPT_LOAD_ERROR = 13"
  | "web_general_number ASSET_DELETED = 14"
  | "web_general_number APP_DELETED = 15"
  | "web_general_number TRANSACTION_TYPE_ERROR = 16"
  | "web_general_number PARAM_PARSE_ERROR = 17"
  | "web_general_number EXECPARAMS_LENGTH_ERROR = 18"
  | "web_general_number LSIG_NOT_FOUND_IN_CP = 19"
  | "web_general_number APP_NOT_FOUND_IN_CP = 20"
  | "web_general_number TRANSACTION_LENGTH_ERROR = 21"

primrec web_network_number :: "web_network \<Rightarrow> nat" where
    "web_network_number CONFIG_NOT_FOUND = 100"
  | "web_network_number INVALID_GLOBAL_CHAIN_NAME = 101"
  | "web_network_number MISSING_TX_PARAM_TO_SIGN_LOCALLY = 105"
  | "web_network_number NO_KMD_ACCOUNT_AVAILABLE = 106"
  | "web_network_number INVALID_HD_PATH = 107"
  | "web_network_number INVALID_RPC_QUANTITY_VALUE = 108"
  | "web_network_number NODE_IS_NOT_RUNNING = 109"
  | "web_network_number NETWORK_TIMEOUT = 110"
  | "web_network_number INVALID_JSON_RESPONSE = 111"
  | "web_network_number CANT_DERIVE_KEY = 112"

primrec task_def_error_number :: "task_def_error \<Rightarrow> nat" where
    "task_def_error_number PARAM_AFTER_VARIADIC = 200"
  | "task_def_error_number PARAM_ALREADY_DEFINED = 201"
  | "task_def_error_number PARAM_CLASHES_WITH_ALGOB_PARAM = 202"
  | "task_def_error_number MANDATORY_PARAM_AFTER_OPTIONAL = 203"
  | "task_def_error_number OVERRIDE_NO_PARAMS = 204"
  | "task_def_error_number OVERRIDE_NO_MANDATORY_PARAMS = 210"
  | "task_def_error_number OVERRIDE_NO_POSITIONAL_PARAMS = 211"
  | "task_def_error_number OVERRIDE_NO_VARIADIC_PARAMS = 212"
  | "task_def_error_number ACTION_NOT_SET = 205"
  | "task_def_error_number RUNSUPER_NOT_AVAILABLE = 206"
  | "task_def_error_number DEFAULT_VALUE_WRONG_TYPE = 207"
  | "task_def_error_number DEFAULT_IN_MANDATORY_PARAM = 208"
  | "task_def_error_number INVALID_PARAM_NAME_CASING = 209"

primrec argument_error_number :: "argument_error \<Rightarrow> nat" where
    "argument_error_number INVALID_ENV_VAR_VALUE = 300"
  | "argument_error_number INVALID_VALUE_FOR_TYPE = 320"
  | "argument_error_number INVALID_POSITIVE_INT = 301"
  | "argument_error_number INVALID_INPUT_FILE = 302"
  | "argument_error_number UNRECOGNIZED_TASK = 303"
  | "argument_error_number UNRECOGNIZED_COMMAND_LINE_ARG = 304"
  | "argument_error_number UNRECOGNIZED_PARAM_NAME = 305"
  | "argument_error_number MISSING_TASK_ARGUMENT = 306"
  | "argument_error_number MISSING_POSITIONAL_ARG = 307"
  | "argument_error_number UNRECOGNIZED_POSITIONAL_ARG = 308"
  | "argument_error_number REPEATED_PARAM = 309"
  | "argument_error_number PARAM_NAME_INVALID_CASING = 310"
  | "argument_error_number INVALID_JSON_ARGUMENT = 311"
  | "argument_error_number INVALID_TX_PARAM = 312"

primrec builtin_error_number :: "builtin_error \<Rightarrow> nat" where
    "builtin_error_number RUN_FILES_NOT_FOUND = 601"
  | "builtin_error_number SCRIPT_EXECUTION_ERROR = 602"
  | "builtin_error_number SCRIPTS_DIRECTORY_NOT_FOUND = 603"
  | "builtin_error_number SCRIPTS_NO_FILES_FOUND = 604"
  | "builtin_error_number SCRIPTS_OUTSIDE_SCRIPTS_DIRECTORY = 605"
  | "builtin_error_number DEPLOYER_EDIT_OUTSIDE_DEPLOY = 606"
  | "builtin_error_number CHECKPOINT_ERROR_DUPLICATE_ASSET_DEFINITION = 607"
  | "builtin_error_number DEPLOYER_METADATA_ALREADY_PRESENT = 608"
  | "builtin_error_number DEPLOYER_ASSET_ALREADY_PRESENT = 609"
  | "builtin_error_number DEPLOY_SCRIPT_NON_DIRECT_CHILD = 610"
  | "builtin_error_number DEPLOYER_ASA_DEF_NOT_FOUND = 611"
  | "builtin_error_number DEPLOYER_ASA_NOT_DEFINED = 612"
  | "builtin_error_number ACCOUNT_NOT_FOUND = 613"
  | "builtin_error_number TESTS_DIRECTORY_NOT_FOUND = 614"
  | "builtin_error_number DEPLOYER_LSIG_ALREADY_PRESENT = 615"
  | "builtin_error_number DEPLOYER_APP_ALREADY_PRESENT = 616"
  | "builtin_error_number RUN_FILE_NOT_FOUND_WITH_SUGGESTION = 617"
  | "builtin_error_number RUN_ARGUMENT_INVALID = 618"

primrec plugin_error_number :: "plugin_error \<Rightarrow> nat" where
    "plugin_error_number NOT_INSTALLED = 800"
  | "plugin_error_number MISSING_DEPENDENCY = 801"
  | "plugin_error_number DEPENDENCY_VERSION_MISMATCH = 802"
  | "plugin_error_number OLD_STYLE_IMPORT_DETECTED = 803"

primrec account_error_number :: "account_error \<Rightarrow> nat" where
    "account_error_number MNEMONIC_ADDR_MISSMATCH = 400"
  | "account_error_number WRONG_MNEMONIC = 401"
  | "account_error_number HD_ACCOUNT = 402"
  | "account_error_number MALFORMED = 403"
  | "account_error_number FIELD_REQUIRED = 404"

primrec node_error_number :: "node_error \<Rightarrow> nat" where
    "node_error_number BAD_REQUEST = 410"
  | "node_error_number NODE_INTERNAL_ERROR = 411"

primrec kmd_error_number :: "kmd_error \<Rightarrow> nat" where
    "kmd_error_number CONNECTION = 440"
  | "kmd_error_number KMD_ERROR = 448"

primrec script_error_number :: "script_error \<Rightarrow> nat" where
    "script_error_number ASA_OPT_IN_ACCOUNT_INSUFFICIENT_BALANCE = 900"
  | "script_error_number ASA_OPT_IN_ACCOUNT_NOT_FOUND = 901"
  | "script_error_number ASA_TRIED_TO_OPT_IN_CREATOR = 902"

primrec pyteal_error_number :: "pyteal_error \<Rightarrow> nat" where
    "pyteal_error_number PYTEAL_FILE_ERROR = 450"

fun builder_number :: "builder_error \<Rightarrow> nat" where
    "builder_number (WebGeneral e) = web_general_number e"
  | "builder_number (Network e) = web_network_number e"
  | "builder_number (TaskDefinition e) = task_def_error_number e"
  | "builder_number (Arguments e) = argument_error_number e"
  | "builder_number (BuiltinTasks e) = builtin_error_number e"
  | "builder_number (Plugins e) = plugin_error_number e"
  | "builder_number (AccountErr e) = account_error_number e"
  | "builder_number (Algorand e) = node_error_number e"
  | "builder_number (Kmd e) = kmd_error_number e"
  | "builder_number (Script e) = script_error_number e"
  | "builder_number (PyTeal e) = pyteal_error_number e"

fun builder_range :: "builder_error \<Rightarrow> nat \<times> nat" where
    "builder_range (WebGeneral _) = (0, 99)"
  | "builder_range (Network _) = (100, 199)"
  | "builder_range (TaskDefinition _) = (200, 299)"
  | "builder_range (Arguments _) = (300, 399)"
  | "builder_range (AccountErr _) = (400, 409)"
  | "builder_range (Algorand _) = (410, 429)"
  | "builder_range (Kmd _) = (440, 449)"
  | "builder_range (PyTeal _) = (450, 460)"
  | "builder_range (BuiltinTasks _) = (600, 699)"
  | "builder_range (Plugins _) = (800, 899)"
  | "builder_range (Script _) = (900, 999)"


section \<open>Codes\<close>

definition ERROR_PREFIX :: string where "ERROR_PREFIX = ''ABLDR''"

definition getErrorCode :: "nat \<Rightarrow> string" where
  "getErrorCode number = ERROR_PREFIX @ to_radix 10 number"

text \<open>What a failed request becomes, by the status of its response, when it has one; \<open>e\<close> is missing when the node is down.\<close>

definition parseAlgorandError :: "int option option \<Rightarrow> failure" where
  "parseAlgorandError e =
     (case e of
        None \<Rightarrow> Builder (Network NODE_IS_NOT_RUNNING)
      | Some (Some statusCode) \<Rightarrow>
          if statusCode \<ge> 400 \<and> statusCode < 500 then Builder (Algorand BAD_REQUEST)
          else Builder (Algorand NODE_INTERNAL_ERROR)
      | Some None \<Rightarrow> Other ''RequestError'')"

section \<open>Messages\<close>

fun join_with :: "string \<Rightarrow> string list \<Rightarrow> string" where
    "join_with x [] = []"
  | "join_with x [w] = w"
  | "join_with x (w # v # ws) = w @ x @ join_with x (v # ws)"

fun includes_text :: "string \<Rightarrow> string \<Rightarrow> bool" where
    "includes_text p [] = (p = [])"
  | "includes_text p (c # s) = (take (length p) (c # s) = p \<or> includes_text p s)"

text \<open>\<^verbatim>\<open>s.split(p)\<close> of a text \<open>p\<close> that is not empty; \<open>acc\<close> is the part that is being read.\<close>

function split_on :: "string \<Rightarrow> string \<Rightarrow> string \<Rightarrow> string list" where
  "split_on p acc s =
     (case s of
        [] \<Rightarrow> [acc]
      | c # t \<Rightarrow> if p \<noteq> [] \<and> take (length p) s = p then acc # split_on p [] (drop (length p) s)
                 else split_on p (acc @ [c]) t)"
  by pat_completeness auto
termination by (relation "measure (\<lambda>(p, acc, s). length s)") auto

declare split_on.simps [simp del]

lemma split_on_simps [simp]:
  "split_on p acc [] = [acc]"
  "split_on p acc (c # t) =
     (if p \<noteq> [] \<and> take (length p) (c # t) = p then acc # split_on p [] (drop (length p) (c # t))
      else split_on p (acc @ [c]) t)"
  by (simp_all only: split_on.simps [of p acc "[]"] split_on.simps [of p acc "c # t"] list.case)

definition replaceAll :: "string \<Rightarrow> string \<Rightarrow> string \<Rightarrow> string" where
  "replaceAll str toReplace replacement = join_with replacement (split_on toReplace [] str)"

datatype template_value = Undefined | Null | Shown string

primrec shown :: "template_value \<Rightarrow> string" where
    "shown Undefined = ''undefined''"
  | "shown Null = ''null''"
  | "shown (Shown s) = s"

definition replace_tags :: "(string \<times> template_value) list \<Rightarrow> string \<Rightarrow> string" where
  "replace_tags values template =
     fold (\<lambda>(variableName, v) t. replaceAll t (''%'' @ variableName @ ''%'') (shown v)) values template"

lemma split_on_length:
  "part \<in> set (split_on p acc s) \<Longrightarrow> length part \<le> length acc + length s"
proof (induction p acc s rule: split_on.induct)
  case (1 p acc s)
  show ?case
  proof (cases s)
    case Nil
    then show ?thesis using 1(3) by simp
  next
    case (Cons c t)
    show ?thesis
    proof (cases "p \<noteq> [] \<and> take (length p) s = p")
      case True
      then show ?thesis using 1(1) [OF Cons True] 1(3) Cons by auto
    next
      case False
      then show ?thesis using 1(2) [OF Cons False] 1(3) Cons by auto
    qed
  qed
qed

lemma split_on_shorter:
  "includes_text p s \<Longrightarrow> p \<noteq> [] \<Longrightarrow> part \<in> set (split_on p acc s) \<Longrightarrow> length part < length acc + length s"
proof (induction s arbitrary: acc)
  case (Cons c t)
  show ?case
  proof (cases "take (length p) (c # t) = p")
    case True
    have "split_on p acc (c # t) = acc # split_on p [] (drop (length p) (c # t))"
      using True Cons.prems by simp
    then consider "part = acc" | "part \<in> set (split_on p [] (drop (length p) (c # t)))"
      using Cons.prems(3) by auto
    then show ?thesis
    proof cases
      case 2
      from split_on_length [OF this] show ?thesis using Cons.prems(2) by (cases p) auto
    qed simp
  next
    case False
    have "split_on p acc (c # t) = split_on p (acc @ [c]) t"
      using False by simp
    then show ?thesis using Cons.IH [of "acc @ [c]"] Cons.prems False by simp
  qed
qed simp

function applyErrorMessageTemplate :: "string \<Rightarrow> (string \<times> template_value) list \<Rightarrow> string" where
  "applyErrorMessageTemplate template values =
     (if includes_text ''%%'' template
      then join_with ''%'' (List.map (\<lambda>part. applyErrorMessageTemplate part values) (split_on ''%%'' [] template))
      else replace_tags values template)"
  by pat_completeness auto
termination
proof (relation "measure (\<lambda>(template, vals). length template)")
  fix template :: string and vals :: "(string \<times> template_value) list" and part
  assume "includes_text ''%%'' template" "part \<in> set (split_on ''%%'' [] template)"
  from split_on_shorter [OF this(1) _ this(2)]
  show "((part, vals), template, vals) \<in> measure (\<lambda>(template, vals). length template)" by simp
qed simp

declare applyErrorMessageTemplate.simps [simp del]

text \<open>Tags that follow each other are read as an escaped percent sign, and stay; a value may hold a tag.\<close>

lemma adjacent_tags:
  "applyErrorMessageTemplate ''%a%%b%'' [(''a'', Shown ''1''), (''b'', Shown ''2'')] = ''%a%b%''"
  by code_simp

lemma tag_in_value:
  "applyErrorMessageTemplate ''%a%'' [(''a'', Shown ''%b%''), (''b'', Shown ''2'')] = ''2''"
  by code_simp

section \<open>Numbers and ranges\<close>

lemma builder_number_in_range:
  "fst (builder_range e) \<le> builder_number e \<and> builder_number e \<le> snd (builder_range e)"
  by (cases e; simp; rename_tac x; case_tac x; simp)

lemma category_numbers_distinct:
  "web_general_number a = web_general_number a' \<Longrightarrow> a = a'"
  "web_network_number b = web_network_number b' \<Longrightarrow> b = b'"
  "task_def_error_number c = task_def_error_number c' \<Longrightarrow> c = c'"
  "argument_error_number d = argument_error_number d' \<Longrightarrow> d = d'"
  "builtin_error_number e = builtin_error_number e' \<Longrightarrow> e = e'"
  "plugin_error_number f = plugin_error_number f' \<Longrightarrow> f = f'"
  "account_error_number g = account_error_number g' \<Longrightarrow> g = g'"
  "node_error_number h = node_error_number h' \<Longrightarrow> h = h'"
  "kmd_error_number i = kmd_error_number i' \<Longrightarrow> i = i'"
  "script_error_number j = script_error_number j' \<Longrightarrow> j = j'"
  "pyteal_error_number k = pyteal_error_number k' \<Longrightarrow> k = k'"
  by (cases a; cases a'; simp) (cases b; cases b'; simp | cases c; cases c'; simp | cases d; cases d'; simp
    | cases e; cases e'; simp | cases f; cases f'; simp | cases g; cases g'; simp | cases h; cases h'; simp
    | cases i; cases i'; simp | cases j; cases j'; simp | cases k; cases k'; simp)+

lemma builder_numbers_distinct: "builder_number x = builder_number y \<Longrightarrow> x = y"
proof -
  assume eq: "builder_number x = builder_number y"
  have "fst (builder_range x) \<le> snd (builder_range y)" "fst (builder_range y) \<le> snd (builder_range x)"
    using builder_number_in_range [of x] builder_number_in_range [of y] eq by linarith+
  then show "x = y" using eq by (cases x; cases y; simp add: category_numbers_distinct)
qed

end
