(* ===== verification/Algob_Arguments.thy ===== *)
theory Algob_Arguments
  imports TEAL_Codec Algob_Errors "HOL-Library.Char_ord"
begin

text \<open>
  The command line of \<^verbatim>\<open>algob\<close>: the names of parameters in their three spellings
  (\<^verbatim>\<open>internal/cli/arguments-parser.ts\<close>, \<^verbatim>\<open>internal/core/params/env-variables.ts\<close>), the argument types
  (\<^verbatim>\<open>argument-types.ts\<close>), the global parameters (\<^verbatim>\<open>builder-params.ts\<close>) and the parser of arguments. Texts are
  ASCII. An object that is used as a map answers for the names that every object inherits, too.
\<close>

section \<open>Letters\<close>

definition is_upper :: "char \<Rightarrow> bool" where
  "is_upper c \<longleftrightarrow> CHR ''A'' \<le> c \<and> c \<le> CHR ''Z''"

definition is_lower :: "char \<Rightarrow> bool" where
  "is_lower c \<longleftrightarrow> CHR ''a'' \<le> c \<and> c \<le> CHR ''z''"

definition is_num :: "char \<Rightarrow> bool" where
  "is_num c \<longleftrightarrow> CHR ''0'' \<le> c \<and> c \<le> CHR ''9''"

definition to_lower :: "char \<Rightarrow> char" where
  "to_lower c = (if is_upper c then char_of (of_char c + 32 :: nat) else c)"

definition to_upper :: "char \<Rightarrow> char" where
  "to_upper c = (if is_lower c then char_of (of_char c - 32 :: nat) else c)"

definition toLowerCase :: "string \<Rightarrow> string" where "toLowerCase s = List.map to_lower s"

definition toUpperCase :: "string \<Rightarrow> string" where "toUpperCase s = List.map to_upper s"

text \<open>\<^verbatim>\<open>split\<close> with a separator of one character, and \<^verbatim>\<open>join\<close>.\<close>

fun split_at :: "char \<Rightarrow> string \<Rightarrow> string list" where
    "split_at x [] = [[]]"
  | "split_at x (c # s) =
      (if c = x then [] # split_at x s
       else case split_at x s of [] \<Rightarrow> [[c]] | w # ws \<Rightarrow> (c # w) # ws)"

section \<open>Names of parameters\<close>

text \<open>\<^verbatim>\<open>split(/(?=[A-Z])/g)\<close>: before every capital but the first character.\<close>

fun split_caps :: "string \<Rightarrow> string list" where
    "split_caps [] = [[]]"
  | "split_caps [c] = [[c]]"
  | "split_caps (c # d # s) =
      (if is_upper d then [c] # split_caps (d # s)
       else case split_caps (d # s) of [] \<Rightarrow> [[c]] | w # ws \<Rightarrow> (c # w) # ws)"

definition paramNameToCLA :: "string \<Rightarrow> string" where
  "paramNameToCLA paramName = ''--'' @ join_with ''-'' (List.map toLowerCase (split_caps paramName))"

definition shortParamNameToCLA :: "string option \<Rightarrow> string" where
  "shortParamNameToCLA paramName =
     (case paramName of None \<Rightarrow> '''' | Some p \<Rightarrow> if p = '''' then '''' else ''-'' @ p)"

text \<open>\<^verbatim>\<open>s[0].toUpperCase() + s.slice(1)\<close>; an empty part has no \<^verbatim>\<open>s[0]\<close>.\<close>

fun capitalize :: "string \<Rightarrow> failure + string" where
    "capitalize [] = Inl (Other ''TypeError'')"
  | "capitalize (c # s) = Inr (to_upper c # s)"

fun capitalize_all :: "string list \<Rightarrow> failure + string" where
    "capitalize_all [] = Inr []"
  | "capitalize_all (w # ws) =
      (case capitalize w of
         Inl e \<Rightarrow> Inl e
       | Inr v \<Rightarrow> (case capitalize_all ws of Inl e \<Rightarrow> Inl e | Inr vs \<Rightarrow> Inr (v @ vs)))"

definition cLAToParamName :: "string \<Rightarrow> failure + string" where
  "cLAToParamName cLA =
     (if toLowerCase cLA \<noteq> cLA then Inl (Builder (Arguments PARAM_NAME_INVALID_CASING))
      else (let parts = split_at CHR ''-'' (drop 2 cLA)
            in case capitalize_all (tl parts) of Inl e \<Rightarrow> Inl e | Inr s \<Rightarrow> Inr (hd parts @ s)))"

definition paramNameToEnvVariable :: "string \<Rightarrow> string" where
  "paramNameToEnvVariable paramName =
     toUpperCase (List.map (\<lambda>c. if c = CHR ''-'' then CHR ''_'' else c) (''BUILDER_'' @ drop 2 (paramNameToCLA paramName)))"

section \<open>Types of arguments\<close>

text \<open>Numbers that are no integer do not come from the types below; they are kept by their text.\<close>

datatype js_num = Whole int | Infinite | OtherNum string

datatype arg_value = VUndefined | VNull | VString string | VBool bool | VNum js_num
  | VArray "arg_value list" | VObject "(string \<times> arg_value) list"

record arg_type =
  at_name :: string
  at_parse :: "string \<Rightarrow> failure + arg_value"
  at_validate :: "arg_value \<Rightarrow> failure + unit"

text \<open>The platform: whether a path is a readable file that is no directory, and \<^verbatim>\<open>JSON.parse\<close>.\<close>

record host =
  hs_readable :: "string \<Rightarrow> bool"
  hs_json :: "string \<Rightarrow> arg_value option"

definition invalid_value :: failure where
  "invalid_value = Builder (Arguments INVALID_VALUE_FOR_TYPE)"

definition string_type :: arg_type where
  "string_type = \<lparr>at_name = ''string'', at_parse = (\<lambda>s. Inr (VString s)),
     at_validate = (\<lambda>v. case v of VString _ \<Rightarrow> Inr () | _ \<Rightarrow> Inl invalid_value)\<rparr>"

definition boolean_type :: arg_type where
  "boolean_type = \<lparr>at_name = ''boolean'',
     at_parse = (\<lambda>s. if toLowerCase s = ''true'' then Inr (VBool True)
                     else if toLowerCase s = ''false'' then Inr (VBool False) else Inl invalid_value),
     at_validate = (\<lambda>v. case v of VBool _ \<Rightarrow> Inr () | _ \<Rightarrow> Inl invalid_value)\<rparr>"

text \<open>\<^verbatim>\<open>/^\d+(?:[eE]\d+)?$/\<close> and \<^verbatim>\<open>/^0[xX][\dABCDEabcde]+$/\<close>, where the digit F is missing.\<close>

definition exponent_mark :: "char \<Rightarrow> bool" where "exponent_mark c \<longleftrightarrow> c = CHR ''e'' \<or> c = CHR ''E''"

definition decimal_parts :: "string \<Rightarrow> string \<times> string option" where
  "decimal_parts s =
     (takeWhile (\<lambda>c. \<not> exponent_mark c) s,
      case dropWhile (\<lambda>c. \<not> exponent_mark c) s of [] \<Rightarrow> None | _ # e \<Rightarrow> Some e)"

definition digits :: "string \<Rightarrow> bool" where "digits s \<longleftrightarrow> s \<noteq> [] \<and> list_all is_num s"

definition decimalPattern :: "string \<Rightarrow> bool" where
  "decimalPattern s \<longleftrightarrow> (case decimal_parts s of (d, e) \<Rightarrow> digits d \<and> (case e of None \<Rightarrow> True | Some x \<Rightarrow> digits x))"

definition hexPattern :: "string \<Rightarrow> bool" where
  "hexPattern s \<longleftrightarrow> (take 2 s = ''0x'' \<or> take 2 s = ''0X'') \<and> drop 2 s \<noteq> [] \<and>
     list_all (\<lambda>c. is_num c \<or> c \<in> set ''ABCDEabcde'') (drop 2 s)"

text \<open>\<^verbatim>\<open>Number(s)\<close> of such a text: rounded, and infinite from the middle above the largest number.\<close>

definition number_of :: "int \<Rightarrow> js_num" where
  "number_of n = (if 2 ^ 1024 - 2 ^ 970 \<le> n then Infinite else Whole (js_Number n))"

definition int_value :: "string \<Rightarrow> js_num" where
  "int_value s =
     (if decimalPattern s
      then (case decimal_parts s of (d, e) \<Rightarrow>
              number_of (int (of_radix 10 d) * 10 ^ (case e of None \<Rightarrow> 0 | Some x \<Rightarrow> of_radix 10 x)))
      else number_of (int (of_radix 16 (drop 2 s))))"

definition int_type :: arg_type where
  "int_type = \<lparr>at_name = ''int'',
     at_parse = (\<lambda>s. if \<not> decimalPattern s \<and> \<not> hexPattern s then Inl invalid_value else Inr (VNum (int_value s))),
     at_validate = (\<lambda>v. case v of VNum (Whole _) \<Rightarrow> Inr () | _ \<Rightarrow> Inl invalid_value)\<rparr>"

definition inputFile_type :: "host \<Rightarrow> arg_type" where
  "inputFile_type H = \<lparr>at_name = ''inputFile'',
     at_parse = (\<lambda>s. if hs_readable H s then Inr (VString s) else Inl (Builder (Arguments INVALID_INPUT_FILE))),
     at_validate = (\<lambda>v. case v of VString s \<Rightarrow> if hs_readable H s then Inr () else Inl invalid_value
                              | _ \<Rightarrow> Inl invalid_value)\<rparr>"

definition json_type :: "host \<Rightarrow> arg_type" where
  "json_type H = \<lparr>at_name = ''json'',
     at_parse = (\<lambda>s. case hs_json H s of None \<Rightarrow> Inl (Builder (Arguments INVALID_JSON_ARGUMENT)) | Some v \<Rightarrow> Inr v),
     at_validate = (\<lambda>v. if v = VUndefined then Inl invalid_value else Inr ())\<rparr>"

section \<open>Definitions of parameters\<close>

record param_def =
  pd_name :: string
  pd_shortName :: "string option"
  pd_default :: arg_value
  pd_type :: arg_type
  pd_description :: "string option"
  pd_isOptional :: bool
  pd_isFlag :: bool
  pd_isVariadic :: bool

type_synonym param_defs = "(string, param_def) jsmap"
type_synonym arguments = "(string, arg_value) jsmap"

definition inherited_names :: "string list" where
  "inherited_names = [''constructor'', ''__defineGetter__'', ''__defineSetter__'', ''hasOwnProperty'',
     ''__lookupGetter__'', ''__lookupSetter__'', ''isPrototypeOf'', ''propertyIsEnumerable'', ''toString'',
     ''valueOf'', ''__proto__'', ''toLocaleString'']"

text \<open>\<^verbatim>\<open>o[name] !== undefined\<close> for definitions and for arguments.\<close>

definition has_def :: "param_defs \<Rightarrow> string \<Rightarrow> bool" where
  "has_def defs n \<longleftrightarrow> map_of defs n \<noteq> None \<or> n \<in> set inherited_names"

definition arg_of :: "arguments \<Rightarrow> string \<Rightarrow> arg_value" where
  "arg_of args n = (case map_of args n of None \<Rightarrow> VUndefined | Some v \<Rightarrow> v)"

definition has_arg :: "arguments \<Rightarrow> string \<Rightarrow> bool" where
  "has_arg args n \<longleftrightarrow> arg_of args n \<noteq> VUndefined \<or> map_of args n = None \<and> n \<in> set inherited_names"

definition flag_param :: "string \<Rightarrow> string option \<Rightarrow> string \<Rightarrow> param_def" where
  "flag_param n short d = \<lparr>pd_name = n, pd_shortName = short, pd_default = VBool False, pd_type = boolean_type,
     pd_description = Some d, pd_isOptional = True, pd_isFlag = True, pd_isVariadic = False\<rparr>"

definition ALGOB_PARAM_DEFINITIONS :: "host \<Rightarrow> param_defs" where
  "ALGOB_PARAM_DEFINITIONS H =
     [(''network'', \<lparr>pd_name = ''network'', pd_shortName = None, pd_default = VString ''default'', pd_type = string_type,
         pd_description = Some ''The network to connect to.'', pd_isOptional = True, pd_isFlag = False, pd_isVariadic = False\<rparr>),
      (''showStackTraces'', flag_param ''showStackTraces'' None ''Show stack traces.''),
      (''version'', flag_param ''version'' None ''Shows version and exit.''),
      (''help'', flag_param ''help'' (Some ''h'') ''Shows this message, or a task's help if its name is provided''),
      (''config'', \<lparr>pd_name = ''config'', pd_shortName = None, pd_default = VUndefined, pd_type = inputFile_type H,
         pd_description = Some ''Path to algob config file.'', pd_isOptional = True, pd_isFlag = False, pd_isVariadic = False\<rparr>),
      (''verbose'', flag_param ''verbose'' None ''Enables verbose logging'')]"

fun short_names :: "param_defs \<Rightarrow> (string, string) jsmap" where
    "short_names [] = []"
  | "short_names ((n, d) # ds) =
      (case pd_shortName d of None \<Rightarrow> short_names ds
       | Some s \<Rightarrow> if s = '''' then short_names ds else (s, n) # short_names ds)"

definition ALGOB_SHORT_PARAM_SUBSTITUTIONS :: "host \<Rightarrow> (string, string) jsmap" where
  "ALGOB_SHORT_PARAM_SUBSTITUTIONS H = short_names (ALGOB_PARAM_DEFINITIONS H)"

section \<open>The parser\<close>

definition hasCLAParamNameFormat :: "string \<Rightarrow> bool" where
  "hasCLAParamNameFormat s \<longleftrightarrow> take 2 s = ''--''"

definition hasShortParamNameFormat :: "string \<Rightarrow> bool" where
  "hasShortParamNameFormat s \<longleftrightarrow> take 1 s = ''-'' \<and> length s = 2"

definition substituteShortParam :: "string \<Rightarrow> (string, string) jsmap \<Rightarrow> string" where
  "substituteShortParam arg subs =
     (if hasShortParamNameFormat arg
      then (case map_of subs (drop 1 arg) of None \<Rightarrow> arg | Some s \<Rightarrow> if s = '''' then arg else ''--'' @ s)
      else arg)"

definition isCLAParamName :: "string \<Rightarrow> param_defs \<Rightarrow> failure + bool" where
  "isCLAParamName s defs =
     (if \<not> hasCLAParamNameFormat s then Inr False
      else case cLAToParamName s of Inl e \<Rightarrow> Inl e | Inr n \<Rightarrow> Inr (has_def defs n))"

text \<open>
  One argument, with the words after it: the arguments parsed and the words that are left. A name that every
  object inherits is taken for repeated, so its definition is never read.
\<close>

definition parseArgumentAt :: "param_defs \<Rightarrow> string \<Rightarrow> string list \<Rightarrow> arguments \<Rightarrow> failure + arguments \<times> string list" where
  "parseArgumentAt defs claArg rest parsed =
     (case cLAToParamName claArg of
        Inl e \<Rightarrow> Inl e
      | Inr n \<Rightarrow>
          if has_arg parsed n then Inl (Builder (Arguments REPEATED_PARAM))
          else (case map_of defs n of
              None \<Rightarrow> Inl (Other ''TypeError'')
            | Some d \<Rightarrow>
                if pd_isFlag d then Inr (AList.update n (VBool True) parsed, rest)
                else (case rest of
                    [] \<Rightarrow> Inl (Builder (Arguments MISSING_TASK_ARGUMENT))
                  | v # rest' \<Rightarrow> (case at_parse (pd_type d) v of
                        Inl e \<Rightarrow> Inl e
                      | Inr x \<Rightarrow> Inr (AList.update n x parsed, rest')))))"

lemma parseArgumentAt_rest: "parseArgumentAt defs a rest args = Inr (args', rest') \<Longrightarrow> length rest' \<le> length rest"
  by (auto simp: parseArgumentAt_def split: sum.splits if_splits option.splits list.splits)

text \<open>The loop of \<^verbatim>\<open>parseRuntimeArgs\<close>: words are shortened as the loop reaches them.\<close>

function runtime_loop :: "param_defs \<Rightarrow> (string, string) jsmap \<Rightarrow> string option \<Rightarrow> arguments \<Rightarrow> string list \<Rightarrow> string list \<Rightarrow>
    failure + arguments \<times> string option \<times> string list" where
  "runtime_loop defs subs task args unparsed words =
     (case words of
        [] \<Rightarrow> Inr (args, task, unparsed)
      | raw # rest \<Rightarrow>
          (let arg = substituteShortParam raw subs in
           if task = None \<and> \<not> hasCLAParamNameFormat arg then runtime_loop defs subs (Some arg) args unparsed rest
           else (case isCLAParamName arg defs of
               Inl e \<Rightarrow> Inl e
             | Inr known \<Rightarrow>
                 if \<not> known then
                   (if task = None then Inl (Builder (Arguments UNRECOGNIZED_COMMAND_LINE_ARG))
                    else runtime_loop defs subs task args (unparsed @ [arg]) rest)
                 else (case parseArgumentAt defs arg rest args of
                     Inl e \<Rightarrow> Inl e
                   | Inr (args', rest') \<Rightarrow> runtime_loop defs subs task args' unparsed rest'))))"
  by pat_completeness auto

termination
  by (relation "measure (\<lambda>(_, _, _, _, _, ws). length ws)") (auto dest!: parseArgumentAt_rest)

declare runtime_loop.simps [simp del]

text \<open>\<^verbatim>\<open>{...a, ...b}\<close>\<close>

definition overlay :: "('k, 'v) jsmap \<Rightarrow> ('k, 'v) jsmap \<Rightarrow> ('k, 'v) jsmap" where
  "overlay a b = fold (\<lambda>(k, v). AList.update k v) b a"

definition parseRuntimeArgs :: "param_defs \<Rightarrow> (string, string) jsmap \<Rightarrow> arguments \<Rightarrow> string list \<Rightarrow>
    failure + arguments \<times> string option \<times> string list" where
  "parseRuntimeArgs defs subs env words =
     (case runtime_loop defs subs None [] [] words of
        Inl e \<Rightarrow> Inl e
      | Inr (args, task, unparsed) \<Rightarrow> Inr (overlay env args, task, unparsed))"

function task_loop :: "param_defs \<Rightarrow> arguments \<Rightarrow> string list \<Rightarrow> string list \<Rightarrow> failure + arguments \<times> string list" where
  "task_loop defs args positional words =
     (case words of
        [] \<Rightarrow> Inr (args, positional)
      | arg # rest \<Rightarrow>
          if \<not> hasCLAParamNameFormat arg then task_loop defs args (positional @ [arg]) rest
          else (case isCLAParamName arg defs of
              Inl e \<Rightarrow> Inl e
            | Inr known \<Rightarrow>
                if \<not> known then Inl (Builder (Arguments UNRECOGNIZED_PARAM_NAME))
                else (case parseArgumentAt defs arg rest args of
                    Inl e \<Rightarrow> Inl e
                  | Inr (args', rest') \<Rightarrow> task_loop defs args' positional rest')))"
  by pat_completeness auto

termination
  by (relation "measure (\<lambda>(_, _, _, ws). length ws)") (auto dest!: parseArgumentAt_rest)

declare task_loop.simps [simp del]

fun addTaskDefaultArguments :: "param_defs \<Rightarrow> arguments \<Rightarrow> failure + arguments" where
    "addTaskDefaultArguments [] args = Inr args"
  | "addTaskDefaultArguments ((n, d) # ds) args =
      (if has_arg args n then addTaskDefaultArguments ds args
       else if \<not> pd_isOptional d then Inl (Builder (Arguments MISSING_TASK_ARGUMENT))
       else addTaskDefaultArguments ds (AList.update n (pd_default d) args))"

definition parseTaskParamArguments :: "param_defs \<Rightarrow> string list \<Rightarrow> failure + arguments \<times> string list" where
  "parseTaskParamArguments defs words =
     (case task_loop defs [] [] words of
        Inl e \<Rightarrow> Inl e
      | Inr (args, positional) \<Rightarrow> (case addTaskDefaultArguments defs args of
            Inl e \<Rightarrow> Inl e | Inr args' \<Rightarrow> Inr (args', positional)))"

fun parse_each :: "arg_type \<Rightarrow> string list \<Rightarrow> failure + arg_value list" where
    "parse_each t [] = Inr []"
  | "parse_each t (s # ss) =
      (case at_parse t s of
         Inl e \<Rightarrow> Inl e
       | Inr v \<Rightarrow> (case parse_each t ss of Inl e \<Rightarrow> Inl e | Inr vs \<Rightarrow> Inr (v # vs)))"

fun positional_args :: "param_def list \<Rightarrow> string list \<Rightarrow> arguments \<Rightarrow> failure + arguments" where
    "positional_args [] raw args = Inr args"
  | "positional_args (d # ds) [] args =
      (if \<not> pd_isOptional d then Inl (Builder (Arguments MISSING_POSITIONAL_ARG))
       else positional_args ds [] (AList.update (pd_name d) (pd_default d) args))"
  | "positional_args (d # ds) (r # raw) args =
      (case (if pd_isVariadic d
             then (case parse_each (pd_type d) (r # raw) of Inl e \<Rightarrow> Inl e | Inr vs \<Rightarrow> Inr (VArray vs))
             else at_parse (pd_type d) r) of
         Inl e \<Rightarrow> Inl e
       | Inr v \<Rightarrow> positional_args ds raw (AList.update (pd_name d) v args))"

definition parsePositionalParamArgs :: "string list \<Rightarrow> param_def list \<Rightarrow> failure + arguments" where
  "parsePositionalParamArgs raw ds =
     (case positional_args ds raw [] of
        Inl e \<Rightarrow> Inl e
      | Inr args \<Rightarrow>
          if \<not> (ds \<noteq> [] \<and> pd_isVariadic (last ds)) \<and> length ds < length raw
          then Inl (Builder (Arguments UNRECOGNIZED_POSITIONAL_ARG)) else Inr args)"

definition parseTaskArguments :: "param_defs \<Rightarrow> param_def list \<Rightarrow> string list \<Rightarrow> failure + arguments" where
  "parseTaskArguments defs pos words =
     (case parseTaskParamArguments defs words of
        Inl e \<Rightarrow> Inl e
      | Inr (args, raw) \<Rightarrow> (case parsePositionalParamArgs raw pos of
            Inl e \<Rightarrow> Inl e | Inr args' \<Rightarrow> Inr (overlay args args')))"

section \<open>Environment variables\<close>

text \<open>\<^verbatim>\<open>value.toString()\<close>; a null has no such method. Arrays and objects are no values of the global parameters.\<close>

fun value_text :: "arg_value \<Rightarrow> string option" where
    "value_text (VString s) = Some s"
  | "value_text (VBool b) = Some (if b then ''true'' else ''false'')"
  | "value_text (VNum (Whole n)) = Some (if n < 0 then CHR ''-'' # to_radix 10 (nat (- n)) else to_radix 10 (nat n))"
  | "value_text (VNum Infinite) = Some ''Infinity''"
  | "value_text (VNum (OtherNum t)) = Some t"
  | "value_text _ = None"

fun env_map :: "arguments \<Rightarrow> (string, string) jsmap \<Rightarrow> failure + (string, string) jsmap" where
    "env_map [] values = Inr values"
  | "env_map ((n, v) # args) values =
      (if v = VUndefined then env_map args values
       else (case value_text v of
           None \<Rightarrow> Inl (Other ''TypeError'')
         | Some t \<Rightarrow> env_map args (AList.update (paramNameToEnvVariable n) t values)))"

definition getEnvVariablesMap :: "arguments \<Rightarrow> failure + (string, string) jsmap" where
  "getEnvVariablesMap runtimeArgs = env_map runtimeArgs []"

fun env_args :: "param_defs \<Rightarrow> (string, string) jsmap \<Rightarrow> failure + arguments" where
    "env_args [] env = Inr []"
  | "env_args ((n, d) # ds) env =
      (case (case map_of env (paramNameToEnvVariable n) of
               None \<Rightarrow> Inr (pd_default d)
             | Some raw \<Rightarrow> (case at_parse (pd_type d) raw of
                   Inl e \<Rightarrow> Inl (Builder (Arguments INVALID_ENV_VAR_VALUE)) | Inr v \<Rightarrow> Inr v)) of
         Inl e \<Rightarrow> Inl e
       | Inr v \<Rightarrow> (case env_args ds env of Inl e \<Rightarrow> Inl e | Inr m \<Rightarrow> Inr ((n, v) # m)))"

definition getEnvRuntimeArgs :: "param_defs \<Rightarrow> (string, string) jsmap \<Rightarrow> failure + arguments" where
  "getEnvRuntimeArgs defs env =
     (case env_args defs env of Inl e \<Rightarrow> Inl e | Inr m \<Rightarrow> Inr (AList.delete ''config'' m))"


section \<open>The spellings agree\<close>

text \<open>\<^verbatim>\<open>/^[a-z]+([a-zA-Z0-9])*$/\<close>, which the definition of a task asks of a name.\<close>

definition is_alnum :: "char \<Rightarrow> bool" where
  "is_alnum c \<longleftrightarrow> is_upper c \<or> is_lower c \<or> is_num c"

definition valid_name :: "string \<Rightarrow> bool" where
  "valid_name s \<longleftrightarrow> s \<noteq> [] \<and> is_lower (hd s) \<and> list_all is_alnum s"

lemma letter_codes:
  "is_upper c \<longleftrightarrow> 65 \<le> (of_char c :: nat) \<and> (of_char c :: nat) \<le> 90"
  "is_lower c \<longleftrightarrow> 97 \<le> (of_char c :: nat) \<and> (of_char c :: nat) \<le> 122"
  "is_num c \<longleftrightarrow> 48 \<le> (of_char c :: nat) \<and> (of_char c :: nat) \<le> 57"
  by (simp_all add: is_upper_def is_lower_def is_num_def less_eq_char_def)

lemma of_to_lower: "(of_char (to_lower c) :: nat) = (if is_upper c then of_char c + 32 else of_char c)"
  by (auto simp: to_lower_def letter_codes)

lemma letters [simp]:
  "is_upper c \<Longrightarrow> to_upper (to_lower c) = c" "\<not> is_upper c \<Longrightarrow> to_lower c = c"
  "to_lower (to_lower c) = to_lower c" "to_lower CHR ''-'' = CHR ''-''"
  "is_alnum c \<Longrightarrow> c \<noteq> CHR ''-''" "is_alnum c \<Longrightarrow> to_lower c \<noteq> CHR ''-''" "is_lower c \<Longrightarrow> \<not> is_upper c"
proof -
  have dash: "(of_char CHR ''-'' :: nat) = 45" by simp
  show "is_upper c \<Longrightarrow> to_upper (to_lower c) = c"
    by (simp add: to_upper_def letter_codes of_to_lower)
  show "\<not> is_upper c \<Longrightarrow> to_lower c = c" "to_lower CHR ''-'' = CHR ''-''"
    by (auto simp: to_lower_def letter_codes)
  have "\<not> is_upper (to_lower c)" by (auto simp: letter_codes of_to_lower)
  then show "to_lower (to_lower c) = to_lower c" by (simp add: to_lower_def)
  have "is_alnum c \<Longrightarrow> (of_char c :: nat) \<noteq> 45" "is_alnum c \<Longrightarrow> (of_char (to_lower c) :: nat) \<noteq> 45"
    by (auto simp: is_alnum_def letter_codes of_to_lower)
  then show "is_alnum c \<Longrightarrow> c \<noteq> CHR ''-''" "is_alnum c \<Longrightarrow> to_lower c \<noteq> CHR ''-''"
    using dash by metis+
  show "is_lower c \<Longrightarrow> \<not> is_upper c" by (simp add: letter_codes)
qed

lemma split_at_ne [simp]: "split_at x s \<noteq> []"
  by (induction s) (auto split: list.splits)

lemma split_at_word: "x \<notin> set w \<Longrightarrow> split_at x w = [w]"
  by (induction w) auto

lemma split_at_append: "x \<notin> set w \<Longrightarrow> split_at x (w @ x # s) = w # split_at x s"
  by (induction w) auto

lemma split_at_join: "ws \<noteq> [] \<Longrightarrow> list_all (\<lambda>w. x \<notin> set w) ws \<Longrightarrow> split_at x (join_with [x] ws) = ws"
  by (induction "[x]" ws rule: join_with.induct) (auto simp: split_at_word split_at_append)

text \<open>A word of the split: a first character, and no capital after it.\<close>

definition cap_word :: "string \<Rightarrow> bool" where
  "cap_word w \<longleftrightarrow> w \<noteq> [] \<and> list_all (\<lambda>c. \<not> is_upper c) (tl w)"

lemma split_caps_shape:
  assumes "s \<noteq> []"
  shows "\<exists>w ws. split_caps s = w # ws \<and> cap_word w \<and> hd w = hd s \<and>
    list_all (\<lambda>v. cap_word v \<and> is_upper (hd v)) ws \<and> concat (w # ws) = s"
  using assms
proof (induction s rule: split_caps.induct)
  case (3 c d s)
  then obtain w ws where "split_caps (d # s) = w # ws" "cap_word w" "hd w = d"
    "list_all (\<lambda>v. cap_word v \<and> is_upper (hd v)) ws" "concat (w # ws) = d # s"
    by auto
  then show ?case by (cases w) (auto simp: cap_word_def)
qed (simp_all add: cap_word_def)

lemma capitalize_word: "cap_word w \<Longrightarrow> is_upper (hd w) \<Longrightarrow> capitalize (toLowerCase w) = Inr w"
  by (cases w) (auto simp: cap_word_def toLowerCase_def list_all_iff intro: map_idI)

lemma capitalize_words:
  "list_all (\<lambda>v. cap_word v \<and> is_upper (hd v)) ws \<Longrightarrow> capitalize_all (List.map toLowerCase ws) = Inr (concat ws)"
  by (induction ws) (auto simp: capitalize_word)

lemma toLowerCase_simps [simp]:
  "toLowerCase [] = []" "toLowerCase (c # s) = to_lower c # toLowerCase s"
  "toLowerCase (a @ b) = toLowerCase a @ toLowerCase b" "toLowerCase (toLowerCase s) = toLowerCase s"
  by (simp_all add: toLowerCase_def)

lemma toLowerCase_join:
  "toLowerCase x = x \<Longrightarrow> toLowerCase (join_with x (List.map toLowerCase ws)) = join_with x (List.map toLowerCase ws)"
  by (induction x ws rule: join_with.induct) simp_all

lemma no_dash: "list_all is_alnum w \<Longrightarrow> CHR ''-'' \<notin> set (toLowerCase w)"
proof (induction w)
  case (Cons c w)
  then have "to_lower c \<noteq> CHR ''-''" by simp
  then show ?case using Cons by (simp add: not_sym)
qed simp

lemma list_all_concat: "list_all P (concat ws) = list_all (list_all P) ws"
  by (induction ws) simp_all

lemma CLA_name: "valid_name s \<Longrightarrow> cLAToParamName (paramNameToCLA s) = Inr s"
proof -
  assume v: "valid_name s"
  then have "s \<noteq> []" by (simp add: valid_name_def)
  from split_caps_shape [OF this] obtain w ws where w: "split_caps s = w # ws" "cap_word w" "hd w = hd s"
    "list_all (\<lambda>v. cap_word v \<and> is_upper (hd v)) ws" "concat (w # ws) = s"
    by (elim exE conjE)
  have "list_all is_alnum (concat (w # ws))" using v w(5) by (simp add: valid_name_def)
  then have "list_all (\<lambda>u. CHR ''-'' \<notin> set u) (List.map toLowerCase (w # ws))"
    by (simp only: list_all_concat list.pred_map comp_def) (rule list.pred_mono_strong, assumption, erule no_dash)
  then have split: "split_at CHR ''-'' (join_with ''-'' (List.map toLowerCase (w # ws))) = List.map toLowerCase (w # ws)"
    by (intro split_at_join) simp_all
  have low: "toLowerCase w = w"
    using w(2,3) v by (cases w) (auto simp: cap_word_def valid_name_def toLowerCase_def list_all_iff intro: map_idI)
  have "drop 2 (paramNameToCLA s) = join_with ''-'' (List.map toLowerCase (w # ws))"
    by (simp add: paramNameToCLA_def w(1) del: join_with.simps)
  then have parts: "split_at CHR ''-'' (drop 2 (paramNameToCLA s)) = w # List.map toLowerCase ws"
    using split by (simp only: list.map low)
  have "toLowerCase (paramNameToCLA s) = paramNameToCLA s"
    by (simp add: paramNameToCLA_def toLowerCase_join)
  then have "cLAToParamName (paramNameToCLA s) = Inr (w @ concat ws)"
    by (simp add: cLAToParamName_def parts capitalize_words [OF w(4)])
  then show ?thesis using w(5) by simp
qed

section \<open>Writing a command line and reading it\<close>

datatype cla_item = Flag string | Param string string | Word string

fun item_words :: "cla_item \<Rightarrow> string list" where
    "item_words (Flag n) = [paramNameToCLA n]"
  | "item_words (Param n t) = [paramNameToCLA n, t]"
  | "item_words (Word w) = [w]"

fun item_ok :: "param_defs \<Rightarrow> cla_item \<Rightarrow> bool" where
    "item_ok defs (Flag n) \<longleftrightarrow> (case map_of defs n of None \<Rightarrow> False | Some d \<Rightarrow> pd_isFlag d)"
  | "item_ok defs (Param n t) \<longleftrightarrow> (case map_of defs n of None \<Rightarrow> False | Some d \<Rightarrow>
       \<not> pd_isFlag d \<and> (case at_parse (pd_type d) t of Inl e \<Rightarrow> False | Inr v \<Rightarrow> v \<noteq> VUndefined))"
  | "item_ok defs (Word w) \<longleftrightarrow> \<not> hasCLAParamNameFormat w"

fun item_args :: "param_defs \<Rightarrow> cla_item list \<Rightarrow> arguments" where
    "item_args defs [] = []"
  | "item_args defs (Flag n # is) = (n, VBool True) # item_args defs is"
  | "item_args defs (Param n t # is) =
       (n, case at_parse (pd_type (the (map_of defs n))) t of Inl e \<Rightarrow> VUndefined | Inr v \<Rightarrow> v) # item_args defs is"
  | "item_args defs (Word w # is) = item_args defs is"

fun item_positional :: "cla_item list \<Rightarrow> string list" where
    "item_positional [] = []"
  | "item_positional (Word w # is) = w # item_positional is"
  | "item_positional (_ # is) = item_positional is"

definition named_defs :: "param_defs \<Rightarrow> bool" where
  "named_defs defs \<longleftrightarrow> distinct (List.map fst defs) \<and>
     list_all (\<lambda>(n, d). valid_name n \<and> n \<notin> set inherited_names) defs"

lemma update_new: "k \<notin> set (List.map fst m) \<Longrightarrow> AList.update k v m = m @ [(k, v)]"
  by (induction m) auto

lemma named_defs_lookup: "named_defs defs \<Longrightarrow> map_of defs n = Some d \<Longrightarrow> valid_name n \<and> n \<notin> set inherited_names"
  by (auto simp: named_defs_def list_all_iff dest: map_of_SomeD)

lemma CLA_format: "hasCLAParamNameFormat (paramNameToCLA n)"
  by (simp add: hasCLAParamNameFormat_def paramNameToCLA_def)

lemma known_name:
  assumes "named_defs defs" "map_of defs n = Some d"
  shows "isCLAParamName (paramNameToCLA n) defs = Inr True"
  using named_defs_lookup [OF assms] assms(2) by (simp add: isCLAParamName_def CLA_format CLA_name has_def_def)

lemma has_arg_update: "m \<noteq> n \<Longrightarrow> has_arg (AList.update n v args) m = has_arg args m"
  by (simp add: has_arg_def arg_of_def update_conv')

lemma parse_option:
  assumes "named_defs defs" "map_of defs n = Some d" "\<not> has_arg args n"
  shows "pd_isFlag d \<Longrightarrow> parseArgumentAt defs (paramNameToCLA n) rest args = Inr (AList.update n (VBool True) args, rest)"
    and "\<not> pd_isFlag d \<Longrightarrow> at_parse (pd_type d) t = Inr v \<Longrightarrow>
      parseArgumentAt defs (paramNameToCLA n) (t # rest) args = Inr (AList.update n v args, rest)"
  using named_defs_lookup [OF assms(1,2)] assms(2,3) by (simp_all add: parseArgumentAt_def CLA_name)

lemma task_loop_items:
  assumes "named_defs defs"
  shows "list_all (item_ok defs) is \<Longrightarrow> distinct (List.map fst (item_args defs is)) \<Longrightarrow>
    \<forall>n\<in>set (List.map fst (item_args defs is)). \<not> has_arg args n \<Longrightarrow>
    task_loop defs args pos (concat (List.map item_words is)) = Inr (overlay args (item_args defs is), pos @ item_positional is)"
proof (induction "is" arbitrary: args pos)
  case Nil
  then show ?case by (simp add: task_loop.simps overlay_def)
next
  case (Cons i "is")
  have rest: "\<forall>m\<in>set (List.map fst (item_args defs is)). \<not> has_arg (AList.update n v args) m"
    if "item_args defs (i # is) = (n, v) # item_args defs is" for n v
  proof
    fix m
    assume m: "m \<in> set (List.map fst (item_args defs is))"
    then have "m \<noteq> n" using Cons.prems(2) that by auto
    moreover have "\<not> has_arg args m" using Cons.prems(3) that m by auto
    ultimately show "\<not> has_arg (AList.update n v args) m" by (simp add: has_arg_update)
  qed
  show ?case
  proof (cases i)
    case (Flag n)
    then obtain d where d: "map_of defs n = Some d" "pd_isFlag d" using Cons.prems(1) by (auto split: option.splits)
    have "\<not> has_arg args n" using Cons.prems(3) Flag by simp
    note p = parse_option(1) [OF assms d(1) this d(2)]
    show ?thesis using Cons.prems rest Flag
      by (subst task_loop.simps) (simp add: CLA_format known_name [OF assms d(1)] p Cons.IH overlay_def)
  next
    case (Param n t)
    then obtain d v where d: "map_of defs n = Some d" "\<not> pd_isFlag d" "at_parse (pd_type d) t = Inr v"
      using Cons.prems(1) by (auto split: option.splits sum.splits)
    have "\<not> has_arg args n" using Cons.prems(3) Param by simp
    note p = parse_option(2) [OF assms d(1) this d(2,3)]
    show ?thesis using Cons.prems rest Param d
      by (subst task_loop.simps) (simp add: CLA_format known_name [OF assms d(1)] p Cons.IH overlay_def)
  next
    case (Word w)
    then show ?thesis using Cons.prems
      by (subst task_loop.simps) (simp add: Cons.IH)
  qed
qed

lemma arg_of_Nil [simp]: "arg_of [] n = VUndefined"
  by (simp add: arg_of_def)

lemma arg_of_update [simp]: "arg_of (AList.update n v args) m = (if m = n then v else arg_of args m)"
  by (simp add: arg_of_def update_conv')

lemma defaults_added:
  assumes "list_all (\<lambda>(n, d). n \<notin> set inherited_names) defs" "distinct (List.map fst defs)"
    and "\<forall>(n, d)\<in>set defs. \<not> pd_isOptional d \<longrightarrow> arg_of args n \<noteq> VUndefined"
  shows "\<exists>args'. addTaskDefaultArguments defs args = Inr args' \<and> (\<forall>n. arg_of args' n =
    (if arg_of args n \<noteq> VUndefined then arg_of args n else case map_of defs n of Some d \<Rightarrow> pd_default d | None \<Rightarrow> VUndefined))"
  using assms
proof (induction defs arbitrary: args)
  case Nil
  then show ?case by simp
next
  case (Cons nd defs)
  obtain n d where nd: "nd = (n, d)" by (cases nd)
  have given: "has_arg args n \<longleftrightarrow> arg_of args n \<noteq> VUndefined" using Cons.prems(1) nd by (simp add: has_arg_def)
  have fresh: "map_of defs n = None" using Cons.prems(2) nd by (simp add: map_of_eq_None_iff)
  show ?case
  proof (cases "has_arg args n")
    case True
    then show ?thesis using Cons.IH [of args] Cons.prems nd given by (auto split: if_splits)
  next
    case False
    then have opt: "pd_isOptional d" using Cons.prems(3) nd given by auto
    let ?args = "AList.update n (pd_default d) args"
    have "\<forall>(m, e)\<in>set defs. \<not> pd_isOptional e \<longrightarrow> arg_of ?args m \<noteq> VUndefined"
    proof (intro ballI)
      fix x
      assume x: "x \<in> set defs"
      then have "fst x \<noteq> n" using Cons.prems(2) nd by auto
      then show "case x of (m, e) \<Rightarrow> \<not> pd_isOptional e \<longrightarrow> arg_of ?args m \<noteq> VUndefined"
        using Cons.prems(3) x by (cases x) auto
    qed
    then obtain args' where "addTaskDefaultArguments defs ?args = Inr args'" "\<And>m. arg_of args' m =
        (if arg_of ?args m \<noteq> VUndefined then arg_of ?args m else case map_of defs m of Some d \<Rightarrow> pd_default d | None \<Rightarrow> VUndefined)"
      using Cons.IH [of ?args] Cons.prems(1,2) nd by auto
    then show ?thesis using False opt fresh given nd by auto
  qed
qed

lemma overlay_simps [simp]: "overlay a [] = a" "overlay a ((k, v) # b) = overlay (AList.update k v a) b"
  by (simp_all add: overlay_def)

lemma arg_of_overlay:
  "distinct (List.map fst b) \<Longrightarrow> arg_of (overlay a b) n = (case map_of b n of Some v \<Rightarrow> v | None \<Rightarrow> arg_of a n)"
proof (induction b arbitrary: a)
  case (Cons kv b)
  then show ?case by (cases kv) (auto split: option.splits dest: map_of_SomeD simp: image_iff)
qed simp

lemma item_args_given:
  "list_all (item_ok defs) is \<Longrightarrow> map_of (item_args defs is) n = Some v \<Longrightarrow> v \<noteq> VUndefined"
  by (induction "is" rule: item_args.induct) (auto split: if_splits option.splits sum.splits)

lemma task_arguments_read:
  assumes "named_defs defs" "list_all (item_ok defs) is" "distinct (List.map fst (item_args defs is))"
    and "\<forall>(n, d)\<in>set defs. \<not> pd_isOptional d \<longrightarrow> n \<in> set (List.map fst (item_args defs is))"
  shows "\<exists>args. parseTaskParamArguments defs (concat (List.map item_words is)) = Inr (args, item_positional is) \<and>
    (\<forall>n. arg_of args n = (case map_of (item_args defs is) n of Some v \<Rightarrow> v
       | None \<Rightarrow> (case map_of defs n of Some d \<Rightarrow> pd_default d | None \<Rightarrow> VUndefined)))"
proof -
  let ?given = "item_args defs is"
  have "n \<notin> set inherited_names" if "n \<in> set (List.map fst ?given)" for n
  proof -
    have "list_all (item_ok defs) is \<Longrightarrow> n \<in> set (List.map fst ?given) \<Longrightarrow> map_of defs n \<noteq> None"
      by (induction "is" rule: item_args.induct) (auto split: option.splits)
    then show ?thesis using that assms(2) named_defs_lookup [OF assms(1)] by auto
  qed
  then have "\<forall>n\<in>set (List.map fst ?given). \<not> has_arg [] n" by (auto simp: has_arg_def arg_of_def)
  from task_loop_items [OF assms(1-3) this, of "[]"]
  have loop: "task_loop defs [] [] (concat (List.map item_words is)) = Inr (overlay [] ?given, item_positional is)" by simp
  have arg: "arg_of (overlay [] ?given) n = (case map_of ?given n of Some v \<Rightarrow> v | None \<Rightarrow> VUndefined)" for n
    by (simp add: arg_of_overlay [OF assms(3)] split: option.split)
  have "\<forall>(n, d)\<in>set defs. \<not> pd_isOptional d \<longrightarrow> arg_of (overlay [] ?given) n \<noteq> VUndefined"
  proof (intro ballI)
    fix x
    assume x: "x \<in> set defs"
    show "case x of (n, d) \<Rightarrow> \<not> pd_isOptional d \<longrightarrow> arg_of (overlay [] ?given) n \<noteq> VUndefined"
    proof (cases x)
      case (Pair n d)
      have "arg_of (overlay [] ?given) n \<noteq> VUndefined" if "\<not> pd_isOptional d"
      proof -
        have "map_of ?given n \<noteq> None" using assms(4) x Pair that by (auto simp: map_of_eq_None_iff)
        then show ?thesis using item_args_given [OF assms(2)] by (auto simp: arg)
      qed
      then show ?thesis using Pair by simp
    qed
  qed
  moreover have names: "list_all (\<lambda>(n, d). n \<notin> set inherited_names) defs" "distinct (List.map fst defs)"
    using assms(1) by (auto simp: named_defs_def list_all_iff)
  ultimately obtain args where "addTaskDefaultArguments defs (overlay [] ?given) = Inr args" "\<And>n. arg_of args n =
      (if arg_of (overlay [] ?given) n \<noteq> VUndefined then arg_of (overlay [] ?given) n
       else case map_of defs n of Some d \<Rightarrow> pd_default d | None \<Rightarrow> VUndefined)"
    using defaults_added [OF names] by blast
  then show ?thesis
    using item_args_given [OF assms(2)] by (auto simp: parseTaskParamArguments_def loop arg split: option.splits)
qed

text \<open>
  the spelling of a parameter on the command line is read back as its name, for every name that a task may
  give to a parameter.
\<close>

theorem CLA_roundtrip:
  assumes "valid_name s"
  shows "cLAToParamName (paramNameToCLA s) = Inr s"
  using assms by (rule CLA_name)

lemma CLA_roundtrip_witness:
  "cLAToParamName (paramNameToCLA ''showStackTraces2B'') = Inr ''showStackTraces2B''"
proof -
  have "valid_name ''showStackTraces2B''" by code_simp
  then show ?thesis by (rule CLA_roundtrip)
qed

text \<open>
  C15: a command line that is written of flags, parameters with their values and positional words, in any order,
  is read as exactly those: every parameter has the value its type parses, or its default when it is not
  written, and the positional words are left in their order.
\<close>

theorem task_arguments_roundtrip:
  assumes "named_defs defs" "list_all (item_ok defs) is" "distinct (List.map fst (item_args defs is))"
    and "\<forall>(n, d)\<in>set defs. \<not> pd_isOptional d \<longrightarrow> n \<in> set (List.map fst (item_args defs is))"
  shows "\<exists>args. parseTaskParamArguments defs (concat (List.map item_words is)) = Inr (args, item_positional is) \<and>
    (\<forall>n. arg_of args n = (case map_of (item_args defs is) n of Some v \<Rightarrow> v
       | None \<Rightarrow> (case map_of defs n of Some d \<Rightarrow> pd_default d | None \<Rightarrow> VUndefined)))"
  using assms by (rule task_arguments_read)

text \<open>The parameters of \<^verbatim>\<open>algob deploy\<close> and one with a value, for the witness.\<close>

definition sample_defs :: param_defs where
  "sample_defs = [(''force'', flag_param ''force'' None ''overwrite''),
     (''outFile'', \<lparr>pd_name = ''outFile'', pd_shortName = None, pd_default = VString ''out'', pd_type = string_type,
        pd_description = None, pd_isOptional = True, pd_isFlag = False, pd_isVariadic = False\<rparr>)]"

lemma task_arguments_roundtrip_witness:
  "\<exists>args. parseTaskParamArguments sample_defs [''a.js'', ''--out-file'', ''--x'', ''--force'', ''b.js''] = Inr (args, [''a.js'', ''b.js'']) \<and>
    arg_of args ''force'' = VBool True \<and> arg_of args ''outFile'' = VString ''--x''"
proof -
  let ?is = "[Word ''a.js'', Param ''outFile'' ''--x'', Flag ''force'', Word ''b.js'']"
  have "named_defs sample_defs" "list_all (item_ok sample_defs) ?is" "distinct (List.map fst (item_args sample_defs ?is))"
    by code_simp+
  moreover have "\<forall>(n, d)\<in>set sample_defs. \<not> pd_isOptional d \<longrightarrow> n \<in> set (List.map fst (item_args sample_defs ?is))"
    by (simp add: sample_defs_def flag_param_def)
  ultimately obtain args where "parseTaskParamArguments sample_defs (concat (List.map item_words ?is)) = Inr (args, item_positional ?is)"
    "\<And>n. arg_of args n = (case map_of (item_args sample_defs ?is) n of Some v \<Rightarrow> v
       | None \<Rightarrow> (case map_of sample_defs n of Some d \<Rightarrow> pd_default d | None \<Rightarrow> VUndefined))"
    using task_arguments_roundtrip by blast
  moreover have "concat (List.map item_words ?is) = [''a.js'', ''--out-file'', ''--x'', ''--force'', ''b.js'']"
    "map_of (item_args sample_defs ?is) ''force'' = Some (VBool True)"
    "map_of (item_args sample_defs ?is) ''outFile'' = Some (VString ''--x'')"
    by code_simp+
  ultimately show ?thesis by auto
qed

lemma map_of_overlay: "map_of (overlay a b) k = (case map_of (rev b) k of Some v \<Rightarrow> Some v | None \<Rightarrow> map_of a k)"
  by (induction b arbitrary: a rule: rev_induct) (auto simp: overlay_def update_conv' split: option.splits)

lemma env_names:
  "paramNameToEnvVariable ''network'' = ''BUILDER_NETWORK''"
  "paramNameToEnvVariable ''showStackTraces'' = ''BUILDER_SHOW_STACK_TRACES''"
  "paramNameToEnvVariable ''version'' = ''BUILDER_VERSION''" "paramNameToEnvVariable ''help'' = ''BUILDER_HELP''"
  "paramNameToEnvVariable ''config'' = ''BUILDER_CONFIG''" "paramNameToEnvVariable ''verbose'' = ''BUILDER_VERBOSE''"
  by code_simp+

lemma type_parse:
  "at_parse string_type s = Inr (VString s)"
  "hs_readable H s \<Longrightarrow> at_parse (inputFile_type H) s = Inr (VString s)"
  by (simp_all add: string_type_def inputFile_type_def)

lemma boolean_text: "at_parse boolean_type (if b then ''true'' else ''false'') = Inr (VBool b)"
proof -
  have "toLowerCase ''true'' = ''true''" "toLowerCase ''false'' = ''false''" by code_simp+
  then show ?thesis by (simp add: boolean_type_def del: toLowerCase_simps)
qed



end
