(* ===== verification/Algob_Tasks.thy ===== *)
theory Algob_Tasks
  imports Algob_Arguments
begin

text \<open>
  Tasks of \<^verbatim>\<open>algob\<close>: their definitions (\<^verbatim>\<open>internal/core/tasks/task-definitions.ts\<close>), the language in which a
  configuration declares them (\<^verbatim>\<open>dsl.ts\<close>), and what the environment does to run one
  (\<^verbatim>\<open>internal/core/runtime-environment.ts\<close>). An action is a function of the arguments and of the run of the task
  that was overridden; what a run yields is a type parameter. The global variables that the environment sets for
  the time of a run are left out.
\<close>

section \<open>Definitions of tasks\<close>

type_synonym 'r action = "arguments \<Rightarrow> (arguments option \<Rightarrow> 'r) \<Rightarrow> 'r"

record 'r simple_task =
  tk_name :: string
  tk_isInternal :: bool
  tk_description :: "string option"
  tk_action :: "'r action option"
  tk_params :: param_defs
  tk_positional :: "param_def list"
  tk_positionalNames :: "string list"
  tk_hasVariadic :: bool
  tk_hasOptional :: bool

definition new_task :: "string \<Rightarrow> bool \<Rightarrow> 'r simple_task" where
  "new_task name isInternal = \<lparr>tk_name = name, tk_isInternal = isInternal, tk_description = None, tk_action = None,
     tk_params = [], tk_positional = [], tk_positionalNames = [], tk_hasVariadic = False, tk_hasOptional = False\<rparr>"

definition task_failure :: "task_def_error \<Rightarrow> failure" where
  "task_failure e = Builder (TaskDefinition e)"

definition validateParamNameCasing :: "string \<Rightarrow> failure + unit" where
  "validateParamNameCasing name = (if valid_name name then Inr () else Inl (task_failure INVALID_PARAM_NAME_CASING))"

definition hasParamDefined :: "'r simple_task \<Rightarrow> string \<Rightarrow> bool" where
  "hasParamDefined t name \<longleftrightarrow> has_def (tk_params t) name \<or> name \<in> set (tk_positionalNames t)"

definition validateNameNotUsed :: "host \<Rightarrow> 'r simple_task \<Rightarrow> string \<Rightarrow> failure + unit" where
  "validateNameNotUsed H t name =
     (if hasParamDefined t name then Inl (task_failure PARAM_ALREADY_DEFINED)
      else if name \<in> set (List.map fst (ALGOB_PARAM_DEFINITIONS H))
      then Inl (task_failure PARAM_CLASHES_WITH_ALGOB_PARAM) else Inr ())"

definition validateNotAfterVariadicParam :: "'r simple_task \<Rightarrow> failure + unit" where
  "validateNotAfterVariadicParam t = (if tk_hasVariadic t then Inl (task_failure PARAM_AFTER_VARIADIC) else Inr ())"

definition validateNoMandatoryParamAfterOptionalOnes :: "'r simple_task \<Rightarrow> bool \<Rightarrow> failure + unit" where
  "validateNoMandatoryParamAfterOptionalOnes t isOptional =
     (if \<not> isOptional \<and> tk_hasOptional t then Inl (task_failure MANDATORY_PARAM_AFTER_OPTIONAL) else Inr ())"

definition validateNoDefaultValueForMandatoryParam :: "arg_value \<Rightarrow> bool \<Rightarrow> failure + unit" where
  "validateNoDefaultValueForMandatoryParam defaultValue isOptional =
     (if defaultValue \<noteq> VUndefined \<and> \<not> isOptional then Inl (task_failure DEFAULT_IN_MANDATORY_PARAM) else Inr ())"

definition andThen :: "failure + unit \<Rightarrow> failure + 'a \<Rightarrow> failure + 'a" where
  "andThen c r = (case c of Inl e \<Rightarrow> Inl e | Inr _ \<Rightarrow> r)"

text \<open>An optional parameter by its default, unless it is said; a missing type is that of texts, when the default is none.\<close>

definition optional_by :: "bool option \<Rightarrow> arg_value \<Rightarrow> bool" where
  "optional_by isOptional defaultValue = (case isOptional of None \<Rightarrow> defaultValue \<noteq> VUndefined | Some b \<Rightarrow> b)"

fun is_string :: "arg_value \<Rightarrow> bool" where
    "is_string (VString _) = True"
  | "is_string _ = False"

fun isStringArray :: "arg_value \<Rightarrow> bool" where
    "isStringArray (VArray vs) = list_all is_string vs"
  | "isStringArray _ = False"

definition default_type :: "(arg_value \<Rightarrow> bool) \<Rightarrow> arg_value \<Rightarrow> arg_type option \<Rightarrow> failure + arg_type" where
  "default_type textual defaultValue tp =
     (case tp of
        Some t \<Rightarrow> Inr t
      | None \<Rightarrow> if defaultValue = VUndefined \<or> textual defaultValue then Inr string_type
                else Inl (task_failure DEFAULT_VALUE_WRONG_TYPE))"

definition mk_param :: "string \<Rightarrow> string option \<Rightarrow> arg_value \<Rightarrow> arg_type \<Rightarrow> bool \<Rightarrow> bool \<Rightarrow> bool \<Rightarrow> param_def" where
  "mk_param name description defaultValue t isOptional isFlag isVariadic =
     \<lparr>pd_name = name, pd_shortName = None, pd_default = defaultValue, pd_type = t, pd_description = description,
      pd_isOptional = isOptional, pd_isFlag = isFlag, pd_isVariadic = isVariadic\<rparr>"

definition put_param :: "param_def \<Rightarrow> 'r simple_task \<Rightarrow> 'r simple_task" where
  "put_param d t = t\<lparr>tk_params := AList.update (pd_name d) d (tk_params t)\<rparr>"

definition addParam :: "host \<Rightarrow> string \<Rightarrow> string option \<Rightarrow> arg_value \<Rightarrow> arg_type option \<Rightarrow> bool option \<Rightarrow>
    'r simple_task \<Rightarrow> failure + 'r simple_task" where
  "addParam H name description defaultValue tp isOptional t =
     (case default_type is_string defaultValue tp of
        Inl e \<Rightarrow> Inl e
      | Inr ty \<Rightarrow>
          andThen (validateParamNameCasing name)
         (andThen (validateNameNotUsed H t name)
         (andThen (validateNoDefaultValueForMandatoryParam defaultValue (optional_by isOptional defaultValue))
           (Inr (put_param (mk_param name description defaultValue ty (optional_by isOptional defaultValue) False False) t)))))"

definition addOptionalParam :: "host \<Rightarrow> string \<Rightarrow> string option \<Rightarrow> arg_value \<Rightarrow> arg_type option \<Rightarrow>
    'r simple_task \<Rightarrow> failure + 'r simple_task" where
  "addOptionalParam H name description defaultValue tp t = addParam H name description defaultValue tp (Some True) t"

definition addFlag :: "host \<Rightarrow> string \<Rightarrow> string option \<Rightarrow> 'r simple_task \<Rightarrow> failure + 'r simple_task" where
  "addFlag H name description t =
     andThen (validateParamNameCasing name)
    (andThen (validateNameNotUsed H t name)
      (Inr (put_param (mk_param name description (VBool False) boolean_type True True False) t)))"

definition addPositionalParamDefinition :: "param_def \<Rightarrow> 'r simple_task \<Rightarrow> 'r simple_task" where
  "addPositionalParamDefinition d t = t\<lparr>tk_hasVariadic := tk_hasVariadic t \<or> pd_isVariadic d,
     tk_hasOptional := tk_hasOptional t \<or> pd_isOptional d,
     tk_positionalNames := tk_positionalNames t @ [pd_name d], tk_positional := tk_positional t @ [d]\<rparr>"

definition add_positional :: "host \<Rightarrow> param_def \<Rightarrow> 'r simple_task \<Rightarrow> failure + 'r simple_task" where
  "add_positional H d t =
     andThen (validateParamNameCasing (pd_name d))
    (andThen (validateNameNotUsed H t (pd_name d))
    (andThen (validateNotAfterVariadicParam t)
    (andThen (validateNoMandatoryParamAfterOptionalOnes t (pd_isOptional d))
    (andThen (validateNoDefaultValueForMandatoryParam (pd_default d) (pd_isOptional d))
      (Inr (addPositionalParamDefinition d t))))))"

definition addPositionalParam :: "host \<Rightarrow> string \<Rightarrow> string option \<Rightarrow> arg_value \<Rightarrow> arg_type option \<Rightarrow> bool option \<Rightarrow>
    'r simple_task \<Rightarrow> failure + 'r simple_task" where
  "addPositionalParam H name description defaultValue tp isOptional t =
     (case default_type is_string defaultValue tp of
        Inl e \<Rightarrow> Inl e
      | Inr ty \<Rightarrow> add_positional H (mk_param name description defaultValue ty (optional_by isOptional defaultValue) False False) t)"

definition addOptionalPositionalParam :: "host \<Rightarrow> string \<Rightarrow> string option \<Rightarrow> arg_value \<Rightarrow> arg_type option \<Rightarrow>
    'r simple_task \<Rightarrow> failure + 'r simple_task" where
  "addOptionalPositionalParam H name description defaultValue tp t =
     addPositionalParam H name description defaultValue tp (Some True) t"

text \<open>A default that is no array becomes one.\<close>

definition as_array :: "arg_value \<Rightarrow> arg_value" where
  "as_array v = (case v of VUndefined \<Rightarrow> VUndefined | VArray vs \<Rightarrow> VArray vs | _ \<Rightarrow> VArray [v])"

definition addVariadicPositionalParam :: "host \<Rightarrow> string \<Rightarrow> string option \<Rightarrow> arg_value \<Rightarrow> arg_type option \<Rightarrow> bool option \<Rightarrow>
    'r simple_task \<Rightarrow> failure + 'r simple_task" where
  "addVariadicPositionalParam H name description defaultValue tp isOptional t =
     (let dv = as_array defaultValue; opt = optional_by isOptional defaultValue
      in case default_type isStringArray dv tp of
           Inl e \<Rightarrow> Inl e
         | Inr ty \<Rightarrow> add_positional H (mk_param name description dv ty opt False True) t)"

definition addOptionalVariadicPositionalParam :: "host \<Rightarrow> string \<Rightarrow> string option \<Rightarrow> arg_value \<Rightarrow> arg_type option \<Rightarrow>
    'r simple_task \<Rightarrow> failure + 'r simple_task" where
  "addOptionalVariadicPositionalParam H name description defaultValue tp t =
     addVariadicPositionalParam H name description defaultValue tp (Some True) t"

section \<open>Overriding\<close>

datatype 'r task = Simple "'r simple_task" | Overridden "'r task" bool "string option" "'r action option"

fun task_name :: "'r task \<Rightarrow> string" where
    "task_name (Simple t) = tk_name t"
  | "task_name (Overridden p i d a) = task_name p"

fun task_description :: "'r task \<Rightarrow> string option" where
    "task_description (Simple t) = tk_description t"
  | "task_description (Overridden p i d a) =
      Some (case d of Some s \<Rightarrow> s | None \<Rightarrow> (case task_description p of None \<Rightarrow> '''' | Some s \<Rightarrow> s))"

fun task_params :: "'r task \<Rightarrow> param_defs" where
    "task_params (Simple t) = tk_params t"
  | "task_params (Overridden p i d a) = task_params p"

fun task_positional :: "'r task \<Rightarrow> param_def list" where
    "task_positional (Simple t) = tk_positional t"
  | "task_positional (Overridden p i d a) = task_positional p"

fun isInternal :: "'r task \<Rightarrow> bool" where
    "isInternal (Simple t) = tk_isInternal t"
  | "isInternal (Overridden p i d a) = i"

text \<open>\<open>fail\<close> is a run that throws; a task without action throws.\<close>

fun task_action :: "(failure \<Rightarrow> 'r) \<Rightarrow> 'r task \<Rightarrow> 'r action" where
    "task_action fail (Simple t) = (case tk_action t of None \<Rightarrow> (\<lambda>_ _. fail (task_failure ACTION_NOT_SET)) | Some a \<Rightarrow> a)"
  | "task_action fail (Overridden p i d a) = (case a of None \<Rightarrow> task_action fail p | Some b \<Rightarrow> b)"

fun setDescription :: "string \<Rightarrow> 'r task \<Rightarrow> 'r task" where
    "setDescription s (Simple t) = Simple (t\<lparr>tk_description := Some s\<rparr>)"
  | "setDescription s (Overridden p i d a) = Overridden p i (Some s) a"

fun setAction :: "'r action \<Rightarrow> 'r task \<Rightarrow> 'r task" where
    "setAction f (Simple t) = Simple (t\<lparr>tk_action := Some f\<rparr>)"
  | "setAction f (Overridden p i d a) = Overridden p i d (Some f)"

text \<open>An overriding task declares optional parameters and flags of its parent, and refuses all others.\<close>

definition in_simple :: "failure + 'r simple_task \<Rightarrow> failure + 'r task" where
  "in_simple r = (case r of Inl e \<Rightarrow> Inl e | Inr t \<Rightarrow> Inr (Simple t))"

definition in_parent :: "('r task \<Rightarrow> 'r task) \<Rightarrow> failure + 'r task \<Rightarrow> failure + 'r task" where
  "in_parent f r = (case r of Inl e \<Rightarrow> Inl e | Inr p \<Rightarrow> Inr (f p))"

fun task_addOptionalParam :: "host \<Rightarrow> string \<Rightarrow> string option \<Rightarrow> arg_value \<Rightarrow> arg_type option \<Rightarrow> 'r task \<Rightarrow> failure + 'r task" where
    "task_addOptionalParam H n ds dv tp (Simple t) = in_simple (addOptionalParam H n ds dv tp t)"
  | "task_addOptionalParam H n ds dv tp (Overridden p i d a) =
      in_parent (\<lambda>q. Overridden q i d a) (task_addOptionalParam H n ds dv tp p)"

fun task_addFlag :: "host \<Rightarrow> string \<Rightarrow> string option \<Rightarrow> 'r task \<Rightarrow> failure + 'r task" where
    "task_addFlag H n ds (Simple t) = in_simple (addFlag H n ds t)"
  | "task_addFlag H n ds (Overridden p i d a) = in_parent (\<lambda>q. Overridden q i d a) (task_addFlag H n ds p)"

fun task_addParam :: "host \<Rightarrow> string \<Rightarrow> string option \<Rightarrow> arg_value \<Rightarrow> arg_type option \<Rightarrow> bool option \<Rightarrow> 'r task \<Rightarrow>
    failure + 'r task" where
    "task_addParam H n ds dv tp opt (Simple t) = in_simple (addParam H n ds dv tp opt t)"
  | "task_addParam H n ds dv tp opt (Overridden p i d a) =
      (if opt = Some True then task_addOptionalParam H n ds dv tp (Overridden p i d a)
       else Inl (task_failure OVERRIDE_NO_MANDATORY_PARAMS))"

fun task_addPositionalParam :: "host \<Rightarrow> string \<Rightarrow> string option \<Rightarrow> arg_value \<Rightarrow> arg_type option \<Rightarrow> bool option \<Rightarrow> 'r task \<Rightarrow>
    failure + 'r task" where
    "task_addPositionalParam H n ds dv tp opt (Simple t) = in_simple (addPositionalParam H n ds dv tp opt t)"
  | "task_addPositionalParam H n ds dv tp opt (Overridden p i d a) = Inl (task_failure OVERRIDE_NO_POSITIONAL_PARAMS)"

fun task_addVariadicPositionalParam :: "host \<Rightarrow> string \<Rightarrow> string option \<Rightarrow> arg_value \<Rightarrow> arg_type option \<Rightarrow> bool option \<Rightarrow> 'r task \<Rightarrow>
    failure + 'r task" where
    "task_addVariadicPositionalParam H n ds dv tp opt (Simple t) = in_simple (addVariadicPositionalParam H n ds dv tp opt t)"
  | "task_addVariadicPositionalParam H n ds dv tp opt (Overridden p i d a) = Inl (task_failure OVERRIDE_NO_VARIADIC_PARAMS)"

fun task_addOptionalPositionalParam :: "host \<Rightarrow> string \<Rightarrow> string option \<Rightarrow> arg_value \<Rightarrow> arg_type option \<Rightarrow> 'r task \<Rightarrow>
    failure + 'r task" where
    "task_addOptionalPositionalParam H n ds dv tp (Simple t) = in_simple (addOptionalPositionalParam H n ds dv tp t)"
  | "task_addOptionalPositionalParam H n ds dv tp (Overridden p i d a) = Inl (task_failure OVERRIDE_NO_POSITIONAL_PARAMS)"

fun task_addOptionalVariadicPositionalParam :: "host \<Rightarrow> string \<Rightarrow> string option \<Rightarrow> arg_value \<Rightarrow> arg_type option \<Rightarrow> 'r task \<Rightarrow>
    failure + 'r task" where
    "task_addOptionalVariadicPositionalParam H n ds dv tp (Simple t) = in_simple (addOptionalVariadicPositionalParam H n ds dv tp t)"
  | "task_addOptionalVariadicPositionalParam H n ds dv tp (Overridden p i d a) =
      Inl (task_failure OVERRIDE_NO_VARIADIC_PARAMS)"

section \<open>Declaring tasks\<close>

text \<open>\<^verbatim>\<open>TasksDSL._addTask\<close>; names of tasks that every object inherits are left out.\<close>

type_synonym 'r tasks = "(string, 'r task) jsmap"

definition addTask :: "string \<Rightarrow> string option \<Rightarrow> 'r action option \<Rightarrow> bool \<Rightarrow> 'r tasks \<Rightarrow> 'r task \<times> 'r tasks" where
  "addTask name description action internal tasks =
     (let t0 = (case map_of tasks name of Some parent \<Rightarrow> Overridden parent internal None None
                | None \<Rightarrow> Simple (new_task name internal));
          t1 = (case description of None \<Rightarrow> t0 | Some s \<Rightarrow> setDescription s t0);
          t2 = (case action of None \<Rightarrow> t1 | Some a \<Rightarrow> setAction a t1)
      in (t2, AList.update name t2 tasks))"

section \<open>Running a task\<close>

text \<open>Iterating over the value of a variadic parameter: a text is its characters, and other values cannot be iterated.\<close>

fun iterated :: "arg_value \<Rightarrow> arg_value list option" where
    "iterated (VArray vs) = Some vs"
  | "iterated (VString s) = Some (List.map (\<lambda>c. VString [c]) s)"
  | "iterated _ = None"

fun validate_each :: "arg_type \<Rightarrow> arg_value list \<Rightarrow> failure + unit" where
    "validate_each t [] = Inr ()"
  | "validate_each t (v # vs) = (case at_validate t v of Inl e \<Rightarrow> Inl e | Inr _ \<Rightarrow> validate_each t vs)"

definition checkTypeValidation :: "param_def \<Rightarrow> arg_value \<Rightarrow> failure + unit" where
  "checkTypeValidation d v =
     (case (if pd_isVariadic d then iterated v else Some [v]) of
        None \<Rightarrow> Inl (Other ''TypeError'')
      | Some vs \<Rightarrow> validate_each (pd_type d) vs)"

definition resolveArgument :: "param_def \<Rightarrow> arg_value \<Rightarrow> failure + arg_value" where
  "resolveArgument d v =
     (if v = VUndefined
      then (if pd_isOptional d then Inr (pd_default d) else Inl (Builder (Arguments MISSING_TASK_ARGUMENT)))
      else (case checkTypeValidation d v of Inl e \<Rightarrow> Inl e | Inr _ \<Rightarrow> Inr v))"

text \<open>All errors are collected, those of the platform are dropped.\<close>

fun resolve_all :: "param_def list \<Rightarrow> arguments \<Rightarrow> builder_error list \<Rightarrow> arguments \<Rightarrow> builder_error list \<times> arguments" where
    "resolve_all [] args errors values = (errors, values)"
  | "resolve_all (d # ds) args errors values =
      (case resolveArgument d (arg_of args (pd_name d)) of
         Inl (Builder e) \<Rightarrow> resolve_all ds args (errors @ [e]) values
       | Inl (Other _) \<Rightarrow> resolve_all ds args errors values
       | Inr v \<Rightarrow> resolve_all ds args errors (if v = VUndefined then values else AList.update (pd_name d) v values))"

definition resolveValidTaskArguments :: "'r task \<Rightarrow> arguments \<Rightarrow> failure + arguments" where
  "resolveValidTaskArguments t args =
     (case resolve_all (List.map snd (task_params t) @ task_positional t) args [] [] of
        (e # _, _) \<Rightarrow> Inl (Builder e)
      | ([], values) \<Rightarrow> Inr (overlay args values))"

text \<open>\<^verbatim>\<open>runSuper\<close> without arguments runs the parent on the arguments of this run.\<close>

fun runTaskDefinition :: "(failure \<Rightarrow> 'r) \<Rightarrow> 'r task \<Rightarrow> arguments \<Rightarrow> 'r" where
    "runTaskDefinition fail (Simple t) args =
      task_action fail (Simple t) args (\<lambda>_. fail (task_failure RUNSUPER_NOT_AVAILABLE))"
  | "runTaskDefinition fail (Overridden p i d a) args =
      task_action fail (Overridden p i d a) args
        (\<lambda>given. runTaskDefinition fail p (case given of None \<Rightarrow> args | Some b \<Rightarrow> b))"

definition run_task :: "(failure \<Rightarrow> 'r) \<Rightarrow> 'r tasks \<Rightarrow> string \<Rightarrow> arguments \<Rightarrow> 'r" where
  "run_task fail tasks name args =
     (case map_of tasks name of
        None \<Rightarrow> fail (Builder (Arguments UNRECOGNIZED_TASK))
      | Some t \<Rightarrow> (case resolveValidTaskArguments t args of
            Inl e \<Rightarrow> fail e | Inr args' \<Rightarrow> runTaskDefinition fail t args'))"

section \<open>What a declared task satisfies\<close>

definition param_ok :: "param_def \<Rightarrow> bool" where
  "param_ok d \<longleftrightarrow> (pd_isOptional d \<or> pd_default d = VUndefined) \<and>
     (pd_isFlag d \<longrightarrow> pd_isOptional d \<and> pd_type d = boolean_type)"

definition mandatory_first :: "param_def list \<Rightarrow> bool" where
  "mandatory_first ds \<longleftrightarrow> list_all pd_isOptional (dropWhile (\<lambda>d. \<not> pd_isOptional d) ds)"

definition wf_params :: "host \<Rightarrow> param_defs \<Rightarrow> param_def list \<Rightarrow> bool" where
  "wf_params H defs pos \<longleftrightarrow>
     named_defs defs \<and> list_all (\<lambda>(n, d). pd_name d = n \<and> param_ok d \<and> \<not> pd_isVariadic d) defs \<and>
     list_all (\<lambda>d. param_ok d \<and> \<not> pd_isFlag d \<and> valid_name (pd_name d) \<and> pd_name d \<notin> set inherited_names) pos \<and>
     distinct (List.map pd_name pos) \<and> set (List.map fst defs) \<inter> set (List.map pd_name pos) = {} \<and>
     (set (List.map fst defs) \<union> set (List.map pd_name pos)) \<inter> set (List.map fst (ALGOB_PARAM_DEFINITIONS H)) = {} \<and>
     mandatory_first pos \<and> list_all (\<lambda>d. \<not> pd_isVariadic d) (butlast pos)"

fun wf_task :: "host \<Rightarrow> 'r task \<Rightarrow> bool" where
    "wf_task H (Simple t) \<longleftrightarrow> wf_params H (tk_params t) (tk_positional t) \<and>
       tk_positionalNames t = List.map pd_name (tk_positional t) \<and>
       tk_hasVariadic t = list_ex pd_isVariadic (tk_positional t) \<and>
       tk_hasOptional t = list_ex pd_isOptional (tk_positional t)"
  | "wf_task H (Overridden p i d a) \<longleftrightarrow> wf_task H p"

inductive declared :: "host \<Rightarrow> 'r task \<Rightarrow> bool" for H where
    declared_new: "declared H (Simple (new_task n i))"
  | declared_override: "declared H t \<Longrightarrow> declared H (Overridden t i None None)"
  | declared_description: "declared H t \<Longrightarrow> declared H (setDescription s t)"
  | declared_action: "declared H t \<Longrightarrow> declared H (setAction f t)"
  | declared_param: "declared H t \<Longrightarrow> task_addParam H n ds dv tp opt t = Inr u \<Longrightarrow> declared H u"
  | declared_flag: "declared H t \<Longrightarrow> task_addFlag H n ds t = Inr u \<Longrightarrow> declared H u"
  | declared_positional: "declared H t \<Longrightarrow> task_addPositionalParam H n ds dv tp opt t = Inr u \<Longrightarrow> declared H u"
  | declared_variadic: "declared H t \<Longrightarrow> task_addVariadicPositionalParam H n ds dv tp opt t = Inr u \<Longrightarrow> declared H u"

lemma andThen_Inr [simp]: "andThen c r = Inr x \<longleftrightarrow> c = Inr () \<and> r = Inr x"
  by (cases c) (simp_all add: andThen_def)

lemma validated [simp]:
  "validateParamNameCasing n = Inr () \<longleftrightarrow> valid_name n"
  "validateNameNotUsed H t n = Inr () \<longleftrightarrow>
     \<not> hasParamDefined t n \<and> n \<notin> set (List.map fst (ALGOB_PARAM_DEFINITIONS H))"
  "validateNotAfterVariadicParam t = Inr () \<longleftrightarrow> \<not> tk_hasVariadic t"
  "validateNoMandatoryParamAfterOptionalOnes t b = Inr () \<longleftrightarrow> (b \<or> \<not> tk_hasOptional t)"
  "validateNoDefaultValueForMandatoryParam v b = Inr () \<longleftrightarrow> (v = VUndefined \<or> b)"
  by (auto simp: validateParamNameCasing_def validateNameNotUsed_def validateNotAfterVariadicParam_def
      validateNoMandatoryParamAfterOptionalOnes_def validateNoDefaultValueForMandatoryParam_def)

lemma mk_param_simps [simp]:
  "pd_name (mk_param n ds dv ty opt fl va) = n" "pd_default (mk_param n ds dv ty opt fl va) = dv"
  "pd_type (mk_param n ds dv ty opt fl va) = ty" "pd_isOptional (mk_param n ds dv ty opt fl va) = opt"
  "pd_isFlag (mk_param n ds dv ty opt fl va) = fl" "pd_isVariadic (mk_param n ds dv ty opt fl va) = va"
  by (simp_all add: mk_param_def)

lemma wf_put_param:
  assumes "wf_task H (Simple t)" "valid_name (pd_name d)" "\<not> hasParamDefined t (pd_name d)"
    "pd_name d \<notin> set (List.map fst (ALGOB_PARAM_DEFINITIONS H))" "param_ok d" "\<not> pd_isVariadic d"
  shows "wf_task H (Simple (put_param d t))"
proof -
  have "pd_name d \<notin> set (List.map fst (tk_params t))" "pd_name d \<notin> set inherited_names"
    "pd_name d \<notin> set (tk_positionalNames t)"
    using assms(3) by (auto simp: hasParamDefined_def has_def_def map_of_eq_None_iff)
  then show ?thesis
    using assms by (auto simp: put_param_def update_new wf_params_def named_defs_def)
qed

lemma mandatory_first_snoc:
  assumes "mandatory_first ds" "pd_isOptional d \<or> \<not> list_ex pd_isOptional ds"
  shows "mandatory_first (ds @ [d])"
  using assms by (auto simp: mandatory_first_def dropWhile_append list_ex_iff)

lemma wf_add_positional:
  assumes "wf_task H (Simple t)" "add_positional H d t = Inr u" "\<not> pd_isFlag d"
  shows "wf_task H (Simple u)"
proof -
  have d: "valid_name (pd_name d)" "\<not> hasParamDefined t (pd_name d)" "\<not> tk_hasVariadic t"
    "pd_name d \<notin> set (List.map fst (ALGOB_PARAM_DEFINITIONS H))" "pd_isOptional d \<or> \<not> tk_hasOptional t"
    "pd_default d = VUndefined \<or> pd_isOptional d" "u = addPositionalParamDefinition d t"
    using assms(2) by (auto simp: add_positional_def)
  have new: "pd_name d \<notin> set (List.map fst (tk_params t))" "pd_name d \<notin> set inherited_names"
    "pd_name d \<notin> set (tk_positionalNames t)"
    using d(2) by (auto simp: hasParamDefined_def has_def_def map_of_eq_None_iff)
  have "mandatory_first (tk_positional t @ [d])"
    using assms(1) d(5) by (intro mandatory_first_snoc) (auto simp: wf_params_def)
  then show ?thesis
    using assms(1,3) d new by (auto simp: addPositionalParamDefinition_def wf_params_def param_ok_def list_ex_iff list_all_iff)
qed

lemma in_simple_Inr: "in_simple r = Inr u \<longleftrightarrow> (\<exists>t. r = Inr t \<and> u = Simple t)"
  by (cases r) (auto simp: in_simple_def)

lemma in_parent_Inr: "in_parent f r = Inr u \<longleftrightarrow> (\<exists>p. r = Inr p \<and> u = f p)"
  by (cases r) (auto simp: in_parent_def)

lemma wf_addParam:
  "addParam H n ds dv tp opt t = Inr u \<Longrightarrow> wf_task H (Simple t) \<Longrightarrow> wf_task H (Simple u)"
  by (auto simp: addParam_def param_ok_def simp del: wf_task.simps split: sum.splits intro!: wf_put_param)

lemma wf_addFlag:
  "addFlag H n ds t = Inr u \<Longrightarrow> wf_task H (Simple t) \<Longrightarrow> wf_task H (Simple u)"
  by (auto simp: addFlag_def param_ok_def simp del: wf_task.simps intro!: wf_put_param)

lemma wf_task_addOptionalParam: "task_addOptionalParam H n ds dv tp t = Inr u \<Longrightarrow> wf_task H t \<Longrightarrow> wf_task H u"
proof (induction t arbitrary: u)
  case (Simple t)
  then show ?case by (auto simp: in_simple_Inr addOptionalParam_def simp del: wf_task.simps(1) dest: wf_addParam)
qed (auto simp: in_parent_Inr)

lemma wf_task_addFlag: "task_addFlag H n ds t = Inr u \<Longrightarrow> wf_task H t \<Longrightarrow> wf_task H u"
proof (induction t arbitrary: u)
  case (Simple t)
  then show ?case by (auto simp: in_simple_Inr simp del: wf_task.simps(1) dest: wf_addFlag)
qed (auto simp: in_parent_Inr)

lemma wf_task_addParam: "task_addParam H n ds dv tp opt t = Inr u \<Longrightarrow> wf_task H t \<Longrightarrow> wf_task H u"
proof (cases t)
  case (Simple s)
  assume "task_addParam H n ds dv tp opt t = Inr u" "wf_task H t"
  then show ?thesis using Simple by (auto simp: in_simple_Inr simp del: wf_task.simps(1) dest: wf_addParam)
next
  case (Overridden p i d a)
  assume "task_addParam H n ds dv tp opt t = Inr u" "wf_task H t"
  then show ?thesis
    using Overridden wf_task_addOptionalParam [of H n ds dv tp t u]
    by (simp del: task_addOptionalParam.simps split: if_splits)
qed

lemma wf_task_addPositional:
  "task_addPositionalParam H n ds dv tp opt t = Inr u \<Longrightarrow> wf_task H t \<Longrightarrow> wf_task H u"
  "task_addVariadicPositionalParam H n ds dv tp opt t = Inr u \<Longrightarrow> wf_task H t \<Longrightarrow> wf_task H u"
proof -
  show "task_addPositionalParam H n ds dv tp opt t = Inr u \<Longrightarrow> wf_task H t \<Longrightarrow> wf_task H u"
    by (cases t) (auto simp: in_simple_Inr addPositionalParam_def simp del: wf_task.simps(1) split: sum.splits
        intro: wf_add_positional)
  show "task_addVariadicPositionalParam H n ds dv tp opt t = Inr u \<Longrightarrow> wf_task H t \<Longrightarrow> wf_task H u"
    by (cases t) (auto simp: in_simple_Inr addVariadicPositionalParam_def Let_def simp del: wf_task.simps(1) split: sum.splits
        intro: wf_add_positional)
qed

lemma wf_set: "wf_task H (setDescription s t) = wf_task H t" "wf_task H (setAction f t) = wf_task H t"
  by (cases t; simp)+

lemma declared_wf: "declared H t \<Longrightarrow> wf_task H t"
proof (induction rule: declared.induct)
  case (declared_new n i)
  then show ?case by (simp add: new_task_def wf_params_def named_defs_def mandatory_first_def)
qed (auto simp: wf_set simp del: wf_task.simps(1) dest: wf_task_addParam wf_task_addFlag wf_task_addPositional)

lemma wf_task_params: "wf_task H t \<Longrightarrow> wf_params H (task_params t) (task_positional t)"
  by (induction t) auto

section \<open>The contract of a type\<close>

text \<open>What a type parses, it validates.\<close>

locale parsed_type =
  fixes t :: arg_type
  assumes parse_valid: "at_parse t s = Inr v \<Longrightarrow> v \<noteq> VUndefined \<and> at_validate t v = Inr ()"
begin

lemma each_valid: "parse_each t ss = Inr vs \<Longrightarrow> validate_each t vs = Inr ()"
  by (induction ss arbitrary: vs) (auto split: sum.splits dest!: parse_valid)

lemma parsed_checked:
  assumes "pd_type d = t"
  shows "\<not> pd_isVariadic d \<Longrightarrow> at_parse t s = Inr v \<Longrightarrow> checkTypeValidation d v = Inr ()"
    and "pd_isVariadic d \<Longrightarrow> parse_each t ss = Inr vs \<Longrightarrow> checkTypeValidation d (VArray vs) = Inr ()"
  unfolding checkTypeValidation_def assms by (auto simp: each_valid dest: parse_valid)

end

interpretation texts: parsed_type string_type
  by unfold_locales (auto simp: string_type_def)

interpretation flags: parsed_type boolean_type
  by unfold_locales (auto simp: boolean_type_def split: if_splits)

interpretation files: parsed_type "inputFile_type H" for H
  by unfold_locales (auto simp: inputFile_type_def split: if_splits)

text \<open>An integer whose value overflows is parsed as infinite, and is no integer when the task runs.\<close>

lemma int_not_parsed_type: "\<not> parsed_type int_type"
proof
  assume "parsed_type int_type"
  moreover have "at_parse int_type ''1e309'' = Inr (VNum Infinite)" by code_simp
  ultimately have "at_validate int_type (VNum Infinite) = Inr ()" using parsed_type.parse_valid by blast
  then show False by (simp add: int_type_def invalid_value_def)
qed

section \<open>Arguments that were parsed pass the check of the run\<close>

definition typed_param :: "param_def \<Rightarrow> bool" where
  "typed_param d \<longleftrightarrow> parsed_type (pd_type d) \<and>
     (pd_default d = VUndefined \<or> checkTypeValidation d (pd_default d) = Inr ())"

text \<open>\<^const>\<open>resolveArgument\<close> gives the value itself.\<close>

lemma settled:
  "v \<noteq> VUndefined \<Longrightarrow> checkTypeValidation d v = Inr () \<Longrightarrow> resolveArgument d v = Inr v"
  "pd_isOptional d \<Longrightarrow> typed_param d \<Longrightarrow> resolveArgument d (pd_default d) = Inr (pd_default d)"
  by (auto simp: resolveArgument_def typed_param_def)

definition checked_args :: "param_defs \<Rightarrow> arguments \<Rightarrow> bool" where
  "checked_args defs args \<longleftrightarrow> (\<forall>n d. map_of defs n = Some d \<longrightarrow> arg_of args n \<noteq> VUndefined \<longrightarrow>
     checkTypeValidation d (arg_of args n) = Inr ())"

lemma checked_parseArgumentAt:
  assumes "\<forall>(n, d)\<in>set defs. typed_param d \<and> param_ok d \<and> \<not> pd_isVariadic d" "checked_args defs args"
    and "parseArgumentAt defs a rest args = Inr (args', rest')"
  shows "checked_args defs args'"
proof -
  obtain n d v where n: "map_of defs n = Some d" "args' = AList.update n v args"
    "pd_isFlag d \<and> v = VBool True \<or> (\<exists>s. at_parse (pd_type d) s = Inr v)"
    using assms(3) by (auto simp: parseArgumentAt_def split: sum.splits if_splits option.splits list.splits)
  have d: "typed_param d" "param_ok d" "\<not> pd_isVariadic d"
    using assms(1) map_of_SomeD [OF n(1)] by auto
  have "checkTypeValidation d v = Inr ()"
    using n(3)
  proof
    assume "pd_isFlag d \<and> v = VBool True"
    then show ?thesis using d by (simp add: checkTypeValidation_def param_ok_def boolean_type_def)
  next
    assume "\<exists>s. at_parse (pd_type d) s = Inr v"
    then show ?thesis using d parsed_type.parsed_checked(1) [OF _ refl] by (auto simp: typed_param_def)
  qed
  then show ?thesis using assms(2) n by (auto simp: checked_args_def)
qed

lemma checked_task_loop:
  "task_loop defs args pos words = Inr (args', pos') \<Longrightarrow>
    \<forall>(n, d)\<in>set defs. typed_param d \<and> param_ok d \<and> \<not> pd_isVariadic d \<Longrightarrow> checked_args defs args \<Longrightarrow> checked_args defs args'"
proof (induction defs args pos words rule: task_loop.induct)
  case (1 defs args pos words)
  show ?case
  proof (cases words)
    case Nil
    then show ?thesis using "1.prems" by (simp add: task_loop.simps)
  next
    case (Cons arg rest)
    show ?thesis
    proof (cases "hasCLAParamNameFormat arg")
      case False
      have "task_loop defs args (pos @ [arg]) rest = Inr (args', pos')"
        using "1.prems"(1) False Cons by (subst (asm) task_loop.simps) simp
      then show ?thesis using "1.IH"(1) [OF Cons] False "1.prems" by blast
    next
      case True
      obtain known args1 rest1 where step: "isCLAParamName arg defs = Inr known" "known"
        "parseArgumentAt defs arg rest args = Inr (args1, rest1)" "task_loop defs args1 pos rest1 = Inr (args', pos')"
        using "1.prems"(1) True Cons by (subst (asm) task_loop.simps) (auto split: sum.splits if_splits)
      then show ?thesis
        using "1.IH"(2) [OF Cons _ step(1) _ step(3) refl step(4) "1.prems"(2)] True
          checked_parseArgumentAt [OF "1.prems"(2,3) step(3)] by blast
    qed
  qed
qed

lemma defaults_settled:
  assumes "addTaskDefaultArguments ds args = Inr args'"
    and "\<forall>(n, d)\<in>set ds. n \<notin> set inherited_names" "distinct (List.map fst ds)"
  shows "(\<forall>n. n \<notin> set (List.map fst ds) \<longrightarrow> arg_of args' n = arg_of args n) \<and>
    (\<forall>(n, d)\<in>set ds. arg_of args n \<noteq> VUndefined \<and> arg_of args' n = arg_of args n \<or>
       pd_isOptional d \<and> arg_of args' n = pd_default d)"
  using assms
proof (induction ds arbitrary: args)
  case (Cons nd ds)
  obtain n d where nd: "nd = (n, d)" by (cases nd)
  have given: "has_arg args n \<longleftrightarrow> arg_of args n \<noteq> VUndefined" using Cons.prems(2) nd by (simp add: has_arg_def)
  have fresh: "n \<notin> set (List.map fst ds)" using Cons.prems(3) nd by simp
  show ?case
  proof (cases "has_arg args n")
    case True
    then show ?thesis using Cons.IH [of args] Cons.prems nd given fresh by auto
  next
    case False
    then have opt: "pd_isOptional d" and a: "addTaskDefaultArguments ds (AList.update n (pd_default d) args) = Inr args'"
      using Cons.prems(1) nd by (auto split: if_splits)
    from Cons.IH [OF a] Cons.prems(2,3) nd
    have rest: "\<forall>m. m \<notin> set (List.map fst ds) \<longrightarrow> arg_of args' m = arg_of (AList.update n (pd_default d) args) m"
      "\<forall>(m, e)\<in>set ds. arg_of (AList.update n (pd_default d) args) m \<noteq> VUndefined \<and>
         arg_of args' m = arg_of (AList.update n (pd_default d) args) m \<or> pd_isOptional e \<and> arg_of args' m = pd_default e"
      by auto
    have "arg_of args m \<noteq> VUndefined \<and> arg_of args' m = arg_of args m \<or> pd_isOptional e \<and> arg_of args' m = pd_default e"
      if "(m, e) \<in> set ds" for m e
    proof -
      have "m \<noteq> n" using that fresh by force
      then show ?thesis using rest(2) that by auto
    qed
    then show ?thesis using rest(1) fresh opt nd by auto
  qed
qed simp

lemma positional_settled:
  assumes "positional_args ds raw args = Inr args'" "list_all (\<lambda>d. typed_param d \<and> param_ok d) ds"
    and "distinct (List.map pd_name ds)"
  shows "set (List.map fst args') = set (List.map fst args) \<union> set (List.map pd_name ds)"
    and "\<forall>n. n \<notin> set (List.map pd_name ds) \<longrightarrow> map_of args' n = map_of args n"
    and "\<forall>d\<in>set ds. resolveArgument d (arg_of args' (pd_name d)) = Inr (arg_of args' (pd_name d))"
    and "distinct (List.map fst args) \<Longrightarrow> distinct (List.map fst args')"
proof -
  have "set (List.map fst args') = set (List.map fst args) \<union> set (List.map pd_name ds) \<and>
    (\<forall>n. n \<notin> set (List.map pd_name ds) \<longrightarrow> map_of args' n = map_of args n) \<and>
    (\<forall>d\<in>set ds. resolveArgument d (arg_of args' (pd_name d)) = Inr (arg_of args' (pd_name d))) \<and>
    (distinct (List.map fst args) \<longrightarrow> distinct (List.map fst args'))"
    using assms
  proof (induction ds raw args rule: positional_args.induct)
    case (2 d ds args)
    then have d: "pd_isOptional d" "typed_param d" "pd_name d \<notin> set (List.map pd_name ds)"
      "positional_args ds [] (AList.update (pd_name d) (pd_default d) args) = Inr args'"
      by (auto split: if_splits)
    note IH = "2.IH" [OF _ d(4)]
    from IH d(3) have "arg_of args' (pd_name d) = pd_default d"
      using "2.prems" d(1) by (auto simp: arg_of_def)
    then show ?case using IH "2.prems" d settled(2) [OF d(1,2)]
      by (auto simp: update_conv' dom_update distinct_update)
  next
    case (3 d ds r raw args)
    then obtain v where v: "(if pd_isVariadic d
             then (case parse_each (pd_type d) (r # raw) of Inl e \<Rightarrow> Inl e | Inr vs \<Rightarrow> Inr (VArray vs))
             else at_parse (pd_type d) r) = Inr v"
      "positional_args ds raw (AList.update (pd_name d) v args) = Inr args'"
      by (auto split: sum.splits)
    have d: "typed_param d" "pd_name d \<notin> set (List.map pd_name ds)" using "3.prems" by auto
    note IH = "3.IH" [OF v(1) v(2)]
    from IH d(2) have a: "arg_of args' (pd_name d) = v"
      using "3.prems" by (auto simp: arg_of_def)
    have "resolveArgument d v = Inr v"
      using v(1) d(1) parsed_type.parsed_checked [of "pd_type d" d] parsed_type.parse_valid [of "pd_type d" r v]
      by (intro settled(1)) (auto simp: typed_param_def split: if_splits sum.splits simp del: parse_each.simps)
    then show ?case using IH "3.prems" a by (auto simp: update_conv' dom_update distinct_update)
  qed simp
  then show "set (List.map fst args') = set (List.map fst args) \<union> set (List.map pd_name ds)"
    "\<forall>n. n \<notin> set (List.map pd_name ds) \<longrightarrow> map_of args' n = map_of args n"
    "\<forall>d\<in>set ds. resolveArgument d (arg_of args' (pd_name d)) = Inr (arg_of args' (pd_name d))"
    "distinct (List.map fst args) \<Longrightarrow> distinct (List.map fst args')" by blast+
qed

lemma resolve_all_settled:
  assumes "\<forall>d\<in>set ds. resolveArgument d (arg_of args (pd_name d)) = Inr (arg_of args (pd_name d))"
    and "\<forall>k v. map_of values k = Some v \<longrightarrow> v = arg_of args k" "distinct (List.map fst values)"
  shows "\<exists>values'. resolve_all ds args es values = (es, values') \<and> distinct (List.map fst values') \<and>
    (\<forall>k v. map_of values' k = Some v \<longrightarrow> v = arg_of args k)"
  using assms
proof (induction ds arbitrary: "values")
  case (Cons d ds)
  let ?v = "arg_of args (pd_name d)"
  let ?vals = "if ?v = VUndefined then values else AList.update (pd_name d) ?v values"
  have agree: "\<forall>k v. map_of ?vals k = Some v \<longrightarrow> v = arg_of args k"
    using Cons.prems(2) by (cases "?v = VUndefined") (simp_all only: if_True if_False update_conv' fun_upd_apply simp_thms, metis option.inject)
  have distinct: "distinct (List.map fst ?vals)" using Cons.prems(3) by (simp add: distinct_update)
  have rest: "\<forall>d\<in>set ds. resolveArgument d (arg_of args (pd_name d)) = Inr (arg_of args (pd_name d))"
    using Cons.prems(1) by simp
  have "resolveArgument d ?v = Inr ?v" using Cons.prems(1) by simp
  then have "resolve_all (d # ds) args es values = resolve_all ds args es ?vals"
    by (simp only: resolve_all.simps sum.case)
  then show ?case using Cons.IH [OF rest agree distinct] by (simp only:)
qed simp

lemma arguments_settled:
  assumes "wf_params H defs pos" "list_all typed_param (List.map snd defs @ pos)"
    and "parseTaskArguments defs pos words = Inr args"
  shows "\<forall>d\<in>set (List.map snd defs @ pos). resolveArgument d (arg_of args (pd_name d)) = Inr (arg_of args (pd_name d))"
proof -
  obtain args0 raw0 args1 args2 where parts: "task_loop defs [] [] words = Inr (args0, raw0)"
    "addTaskDefaultArguments defs args0 = Inr args1" "positional_args pos raw0 [] = Inr args2" "args = overlay args1 args2"
    using assms(3) by (auto simp: parseTaskArguments_def parseTaskParamArguments_def parsePositionalParamArgs_def
        split: sum.splits if_splits)
  have defs: "\<forall>(n, d)\<in>set defs. typed_param d \<and> param_ok d \<and> \<not> pd_isVariadic d"
    "\<forall>(n, d)\<in>set defs. n \<notin> set inherited_names" "distinct (List.map fst defs)" "\<forall>(n, d)\<in>set defs. pd_name d = n"
  proof -
    have wf: "named_defs defs" "list_all (\<lambda>(n, d). pd_name d = n \<and> param_ok d \<and> \<not> pd_isVariadic d) defs"
      using assms(1) by (simp_all add: wf_params_def)
    have "typed_param d" if "(n, d) \<in> set defs" for n d
      using assms(2) image_eqI [OF _ that, of d snd] by (simp add: list_all_iff)
    then show "\<forall>(n, d)\<in>set defs. typed_param d \<and> param_ok d \<and> \<not> pd_isVariadic d"
      using wf(2) unfolding list_all_iff by fast
    show "\<forall>(n, d)\<in>set defs. n \<notin> set inherited_names" "distinct (List.map fst defs)"
      using wf(1) unfolding named_defs_def list_all_iff by fast+
    show "\<forall>(n, d)\<in>set defs. pd_name d = n" using wf(2) unfolding list_all_iff by fast
  qed
  have pos: "list_all (\<lambda>d. typed_param d \<and> param_ok d) pos" "distinct (List.map pd_name pos)"
    "set (List.map fst defs) \<inter> set (List.map pd_name pos) = {}"
    using assms(1,2) by (auto simp: wf_params_def list_all_iff)
  note p = positional_settled [OF parts(3) pos(1,2)]
  have dist: "distinct (List.map fst args2)" using p(4) by simp
  have arg: "arg_of args n = (case map_of args2 n of Some v \<Rightarrow> v | None \<Rightarrow> arg_of args1 n)" for n
    unfolding parts(4) by (rule arg_of_overlay [OF dist])
  have checked: "checked_args defs args0"
    by (rule checked_task_loop [OF parts(1) defs(1)]) (simp add: checked_args_def)
  have "resolveArgument d (arg_of args (pd_name d)) = Inr (arg_of args (pd_name d))" if d: "(n, d) \<in> set defs" for n d
  proof -
    have n: "pd_name d = n" "typed_param d" "map_of defs n = Some d" using d defs by auto
    have "n \<notin> set (List.map pd_name pos)" using d pos(3) by force
    then have "map_of args2 n = None" using p(2) by simp
    then have a: "arg_of args (pd_name d) = arg_of args1 n" by (simp add: arg n(1))
    consider "arg_of args0 n \<noteq> VUndefined" "arg_of args1 n = arg_of args0 n" | "pd_isOptional d" "arg_of args1 n = pd_default d"
      using defaults_settled [OF parts(2) defs(2,3)] d by blast
    then show ?thesis
    proof cases
      case 1
      then have "checkTypeValidation d (arg_of args0 n) = Inr ()" using checked n(3) by (simp add: checked_args_def)
      then show ?thesis using 1 settled(1) a by simp
    next
      case 2
      then show ?thesis using settled(2) [OF _ n(2)] a by simp
    qed
  qed
  moreover have "resolveArgument d (arg_of args (pd_name d)) = Inr (arg_of args (pd_name d))" if d: "d \<in> set pos" for d
  proof -
    have "map_of args2 (pd_name d) \<noteq> None" using p(1) d by (simp add: map_of_eq_None_iff)
    then have "arg_of args (pd_name d) = arg_of args2 (pd_name d)"
      unfolding arg by (auto simp: arg_of_def)
    then show ?thesis using p(3) d by simp
  qed
  ultimately show ?thesis by auto
qed

lemma parsed_arguments_resolved:
  assumes "wf_task H t" "list_all typed_param (List.map snd (task_params t) @ task_positional t)"
    and "parseTaskArguments (task_params t) (task_positional t) words = Inr args"
  shows "\<exists>args'. resolveValidTaskArguments t args = Inr args' \<and> (\<forall>n. arg_of args' n = arg_of args n)"
proof -
  have "\<forall>d\<in>set (List.map snd (task_params t) @ task_positional t).
      resolveArgument d (arg_of args (pd_name d)) = Inr (arg_of args (pd_name d))"
    by (rule arguments_settled [OF wf_task_params [OF assms(1)] assms(2,3)])
  from resolve_all_settled [OF this, of "[]" "[]"]
  obtain vs where vs: "resolve_all (List.map snd (task_params t) @ task_positional t) args [] [] = ([], vs)"
    "distinct (List.map fst vs)" "\<forall>k v. map_of vs k = Some v \<longrightarrow> v = arg_of args k" by auto
  have "arg_of (overlay args vs) n = arg_of args n" for n
    using vs(3) by (simp add: arg_of_overlay [OF vs(2)] split: option.split)
  then show ?thesis by (simp add: resolveValidTaskArguments_def vs(1))
qed

section \<open>Properties\<close>

text \<open>
  C16: every task that is made by the operations of its definition, overridden or not, has well-named, distinct
  parameters that do not clash with the global ones, mandatory positional parameters before the optional ones,
  at most one variadic parameter, which is the last, and no default for a mandatory parameter.
\<close>

theorem declared_tasks_wf:
  assumes "declared H t"
  shows "wf_params H (task_params t) (task_positional t)"
  by (rule wf_task_params [OF declared_wf [OF assms]])

text \<open>\<^verbatim>\<open>algob deploy\<close>, as \<^verbatim>\<open>builtin-tasks/deploy.ts\<close> declares it.\<close>

definition no_host :: host where
  "no_host = \<lparr>hs_readable = (\<lambda>_. False), hs_json = (\<lambda>_. None)\<rparr>"

definition deploy_task :: "string simple_task" where
  "deploy_task = addPositionalParamDefinition
     (mk_param ''fileNames'' (Some ''A directory that contains js files'') (VArray []) string_type True False True)
     (put_param (mk_param ''force'' (Some ''Run the scripts'') (VBool False) boolean_type True True False) (new_task ''deploy'' False))"

lemma deploy_declared: "declared no_host (Simple deploy_task)"
proof -
  let ?t0 = "Simple (new_task ''deploy'' False) :: string task"
  let ?t1 = "Simple (put_param (mk_param ''force'' (Some ''Run the scripts'') (VBool False) boolean_type True True False) (new_task ''deploy'' False)) :: string task"
  have names: "valid_name ''force''" "valid_name ''fileNames''" by code_simp+
  have t1: "task_addFlag no_host ''force'' (Some ''Run the scripts'') ?t0 = Inr ?t1"
    by (simp add: addFlag_def andThen_def validateParamNameCasing_def names validateNameNotUsed_def hasParamDefined_def
        has_def_def new_task_def inherited_names_def ALGOB_PARAM_DEFINITIONS_def in_simple_def)
  have t2: "task_addVariadicPositionalParam no_host ''fileNames'' (Some ''A directory that contains js files'') (VArray []) None (Some True) ?t1 =
      Inr (Simple deploy_task)"
    by (simp add: addVariadicPositionalParam_def as_array_def default_type_def add_positional_def andThen_def
        validateParamNameCasing_def names validateNameNotUsed_def hasParamDefined_def optional_by_def
        has_def_def new_task_def inherited_names_def ALGOB_PARAM_DEFINITIONS_def in_simple_def put_param_def
        validateNotAfterVariadicParam_def validateNoMandatoryParamAfterOptionalOnes_def
        validateNoDefaultValueForMandatoryParam_def deploy_task_def)
  show ?thesis by (rule declared_variadic [OF declared_flag [OF declared_new t1] t2])
qed

lemma declared_tasks_wf_witness:
  "wf_params no_host (task_params (Simple deploy_task)) (task_positional (Simple deploy_task))"
  by (rule declared_tasks_wf [OF deploy_declared])

text \<open>
  C17: whatever the command line parser accepts for a task passes the type check of the run, and reaches the
  action unchanged: the types of the task parse only what they validate, and defaults are of their type.
\<close>

theorem parsed_arguments_resolve:
  assumes "declared H t" "list_all typed_param (List.map snd (task_params t) @ task_positional t)"
    and "parseTaskArguments (task_params t) (task_positional t) words = Inr args"
  shows "\<exists>args'. resolveValidTaskArguments t args = Inr args' \<and> (\<forall>n. arg_of args' n = arg_of args n)"
  by (rule parsed_arguments_resolved [OF declared_wf [OF assms(1)] assms(2,3)])

lemma parsed_arguments_resolve_witness:
  "\<exists>args args'. parseTaskArguments (task_params (Simple deploy_task)) (task_positional (Simple deploy_task)) [''a.js'', ''--force'', ''b.js''] = Inr args \<and>
    resolveValidTaskArguments (Simple deploy_task) args = Inr args' \<and> arg_of args' ''fileNames'' = VArray [VString ''a.js'', VString ''b.js'']"
proof -
  let ?args = "[(''force'', VBool True), (''fileNames'', VArray [VString ''a.js'', VString ''b.js''])]"
  have p: "parseTaskArguments (task_params (Simple deploy_task)) (task_positional (Simple deploy_task)) [''a.js'', ''--force'', ''b.js''] = Inr ?args"
    by code_simp
  have t: "list_all typed_param (List.map snd (task_params (Simple deploy_task)) @ task_positional (Simple deploy_task))"
    by (simp add: deploy_task_def addPositionalParamDefinition_def put_param_def new_task_def typed_param_def
        texts.parsed_type_axioms flags.parsed_type_axioms checkTypeValidation_def boolean_type_def [THEN arg_cong, of at_validate])
  from parsed_arguments_resolve [OF deploy_declared t p] show ?thesis using p by (auto simp: arg_of_def)
qed

end
