(* ===== verification/Algob_Checkpoint.thy ===== *)
theory Algob_Checkpoint
  imports Algob_Arguments
begin

text \<open>
  Checkpoints of deployments (\<^verbatim>\<open>packages/algob/src/lib/script-checkpoints.ts\<close>): what scripts deployed on each
  network, kept three times: of the current script, of it and those before it, and of all scripts. The three
  share parts of their maps, but every operation writes the same entry to all three, so they are values here.
  Writing a checkpoint to a file and reading it back is the YAML package's. An asset definition and a logic
  signature are opaque. A merge that throws ends the command, so the parts it has changed are not kept.
\<close>

section \<open>Data\<close>

record 'd asa_cp =
  ac_creator :: string
  ac_txID :: string
  ac_assetIndex :: int
  ac_confirmedRound :: int
  ac_assetDef :: 'd
  ac_deleted :: bool

record app_cp =
  pc_creator :: string
  pc_txID :: string
  pc_appID :: int
  pc_applicationAccount :: string
  pc_confirmedRound :: int
  pc_timestamp :: int
  pc_deleted :: bool
  pc_approvalFile :: string
  pc_clearFile :: string

record 'l lsig_cp =
  lc_creator :: string
  lc_contractAddress :: string
  lc_lsig :: 'l
  lc_file :: "string option"

text \<open>A timestamp as a key: a number, or the text of a number when it was read from a file.\<close>

datatype stamp = StampNum int | StampText int

type_synonym app_versions = "(stamp, app_cp) jsmap"

record ('d, 'l) checkpoint =
  cp_timestamp :: int
  cp_metadata :: "(string, string) jsmap"
  cp_asa :: "(string, 'd asa_cp) jsmap"
  cp_app :: "(string, app_versions) jsmap"
  cp_dLsig :: "(string, 'l lsig_cp) jsmap"

type_synonym ('d, 'l) checkpoints = "(string, ('d, 'l) checkpoint) jsmap"

definition new_Checkpoint :: "int \<Rightarrow> ('d, 'l) checkpoint" where
  "new_Checkpoint now = \<lparr>cp_timestamp = now, cp_metadata = [], cp_asa = [], cp_app = [], cp_dLsig = []\<rparr>"

text \<open>\<^verbatim>\<open>deepEqual\<close>, of entries that may be missing.\<close>

record 'd deep =
  eq_asa :: "'d asa_cp option \<Rightarrow> 'd asa_cp option \<Rightarrow> bool"
  eq_app :: "app_versions option \<Rightarrow> app_versions option \<Rightarrow> bool"

definition toCheckpointFileName :: "string \<Rightarrow> string" where
  "toCheckpointFileName scriptName = ''artifacts/'' @ scriptName @ ''.cp.yaml''"

text \<open>The first \<^verbatim>\<open>artifacts/\<close> of the name goes, wherever it is, then as many characters as the suffix has.\<close>

fun remove_first :: "string \<Rightarrow> string \<Rightarrow> string" where
    "remove_first p [] = []"
  | "remove_first p (c # s) =
      (if take (length p) (c # s) = p then drop (length p) (c # s) else c # remove_first p s)"

definition toScriptFileName :: "string \<Rightarrow> string" where
  "toScriptFileName filename =
     (let f = remove_first ''artifacts/'' filename in take (length f - length ''.cp.yaml'') f)"

section \<open>Merging\<close>

text \<open>\<open>a && !deepEqual(...) ?? b && !deepEqual(...)\<close>: the applications are looked at when no asset has the name.\<close>

definition conflict :: "'d deep \<Rightarrow> ('d, 'l) checkpoint \<Rightarrow> ('d, 'l) checkpoint \<Rightarrow> string \<Rightarrow> bool" where
  "conflict E orig added n =
     (case map_of (cp_asa orig) n of
        Some a \<Rightarrow> \<not> eq_asa E (Some a) (map_of (cp_asa added) n)
      | None \<Rightarrow> (case map_of (cp_app orig) n of
            Some m \<Rightarrow> \<not> eq_app E (Some m) (map_of (cp_app added) n)
          | None \<Rightarrow> False))"

definition duplicate_definition :: failure where
  "duplicate_definition = Builder (BuiltinTasks CHECKPOINT_ERROR_DUPLICATE_ASSET_DEFINITION)"

definition join_checkpoint :: "('d, 'l) checkpoint \<Rightarrow> ('d, 'l) checkpoint \<Rightarrow> ('d, 'l) checkpoint" where
  "join_checkpoint orig added = \<lparr>cp_timestamp = cp_timestamp added,
     cp_metadata = overlay (cp_metadata orig) (cp_metadata added), cp_asa = overlay (cp_asa orig) (cp_asa added),
     cp_app = overlay (cp_app orig) (cp_app added), cp_dLsig = overlay (cp_dLsig orig) (cp_dLsig added)\<rparr>"

definition appendToCheckpoint :: "'d deep \<Rightarrow> ('d, 'l) checkpoints \<Rightarrow> string \<Rightarrow> ('d, 'l) checkpoint \<Rightarrow>
    failure + ('d, 'l) checkpoints" where
  "appendToCheckpoint E cps net added =
     (case map_of cps net of
        None \<Rightarrow> Inr (AList.update net added cps)
      | Some orig \<Rightarrow>
          if list_ex (conflict E orig added) (List.map fst (cp_asa added) @ List.map fst (cp_app added))
          then Inl duplicate_definition
          else Inr (AList.update net (join_checkpoint orig added) cps))"

fun mergeTo :: "'d deep \<Rightarrow> ('d, 'l) checkpoints \<Rightarrow> ('d, 'l) checkpoints \<Rightarrow> failure + ('d, 'l) checkpoints" where
    "mergeTo E cps [] = Inr cps"
  | "mergeTo E cps ((net, cp) # rest) =
      (case appendToCheckpoint E cps net cp of Inl e \<Rightarrow> Inl e | Inr cps' \<Rightarrow> mergeTo E cps' rest)"

record ('d, 'l) repo =
  cr_stripped :: "('d, 'l) checkpoints"
  cr_preceding :: "('d, 'l) checkpoints"
  cr_all :: "('d, 'l) checkpoints"
  cr_scriptMap :: "(string, string) jsmap"

definition new_repo :: "('d, 'l) repo" where
  "new_repo = \<lparr>cr_stripped = [], cr_preceding = [], cr_all = [], cr_scriptMap = []\<rparr>"

text \<open>Every name belongs to one script; a name that every object inherits belongs to none.\<close>

fun claim_names :: "string \<Rightarrow> string list \<Rightarrow> (string, string) jsmap \<Rightarrow> failure + (string, string) jsmap" where
    "claim_names script [] m = Inr m"
  | "claim_names script (n # ns) m =
      (case map_of m n of
         Some s \<Rightarrow> if s = '''' then claim_names script ns (AList.update n script m)
                   else if s \<noteq> script then Inl duplicate_definition else claim_names script ns m
       | None \<Rightarrow> if n \<in> set inherited_names then Inl duplicate_definition
                 else claim_names script ns (AList.update n script m))"

definition cp_names :: "('d, 'l) checkpoint \<Rightarrow> string list" where
  "cp_names cp = List.map fst (cp_asa cp) @ List.map fst (cp_app cp) @ List.map fst (cp_dLsig cp)"

definition mergeToGlobal :: "'d deep \<Rightarrow> ('d, 'l) checkpoints \<Rightarrow> string \<Rightarrow> ('d, 'l) repo \<Rightarrow> failure + ('d, 'l) repo" where
  "mergeToGlobal E cp script r =
     (case claim_names script (concat (List.map (cp_names \<circ> snd) cp)) (cr_scriptMap r) of
        Inl e \<Rightarrow> Inl e
      | Inr m \<Rightarrow> (case mergeTo E (cr_all r) cp of
            Inl e \<Rightarrow> Inl e | Inr cps \<Rightarrow> Inr (r\<lparr>cr_scriptMap := m, cr_all := cps\<rparr>)))"

definition merge_cp :: "'d deep \<Rightarrow> ('d, 'l) checkpoints \<Rightarrow> string \<Rightarrow> ('d, 'l) repo \<Rightarrow> failure + ('d, 'l) repo" where
  "merge_cp E cp script r =
     (case mergeTo E (cr_preceding r) cp of
        Inl e \<Rightarrow> Inl e
      | Inr cps \<Rightarrow> mergeToGlobal E cp script (r\<lparr>cr_stripped := cp, cr_preceding := cps\<rparr>))"

section \<open>Writing and reading\<close>

text \<open>An entry is written to the network's checkpoint, which is made when there is none; \<open>now\<close> is the clock.\<close>

definition in_net :: "int \<Rightarrow> string \<Rightarrow> (('d, 'l) checkpoint \<Rightarrow> ('d, 'l) checkpoint) \<Rightarrow> ('d, 'l) checkpoints \<Rightarrow> ('d, 'l) checkpoints" where
  "in_net now net f cps =
     AList.update net (f (case map_of cps net of None \<Rightarrow> new_Checkpoint now | Some c \<Rightarrow> c)) cps"

definition in_all :: "int \<Rightarrow> string \<Rightarrow> (('d, 'l) checkpoint \<Rightarrow> ('d, 'l) checkpoint) \<Rightarrow> ('d, 'l) repo \<Rightarrow> ('d, 'l) repo" where
  "in_all now net f r = r\<lparr>cr_stripped := in_net now net f (cr_stripped r),
     cr_preceding := in_net now net f (cr_preceding r), cr_all := in_net now net f (cr_all r)\<rparr>"

definition putMetadata :: "int \<Rightarrow> string \<Rightarrow> string \<Rightarrow> string \<Rightarrow> ('d, 'l) repo \<Rightarrow> ('d, 'l) repo" where
  "putMetadata now net k v = in_all now net (\<lambda>c. c\<lparr>cp_metadata := AList.update k v (cp_metadata c)\<rparr>)"

definition getMetadata :: "string \<Rightarrow> string \<Rightarrow> ('d, 'l) repo \<Rightarrow> string option" where
  "getMetadata net k r = Option.bind (map_of (cr_preceding r) net) (\<lambda>c. map_of (cp_metadata c) k)"

definition registerASA :: "int \<Rightarrow> string \<Rightarrow> string \<Rightarrow> 'd asa_cp \<Rightarrow> ('d, 'l) repo \<Rightarrow> ('d, 'l) repo" where
  "registerASA now net name info = in_all now net (\<lambda>c. c\<lparr>cp_asa := AList.update name info (cp_asa c)\<rparr>)"

definition ensureRegister :: "string \<Rightarrow> app_cp \<Rightarrow> (string, app_versions) jsmap \<Rightarrow> (string, app_versions) jsmap" where
  "ensureRegister name info m =
     AList.update name (case map_of m name of
         Some nested \<Rightarrow> AList.update (StampNum (pc_timestamp info)) info nested
       | None \<Rightarrow> [(StampNum (pc_timestamp info), info)]) m"

definition registerSSC :: "int \<Rightarrow> string \<Rightarrow> string \<Rightarrow> app_cp \<Rightarrow> ('d, 'l) repo \<Rightarrow> ('d, 'l) repo" where
  "registerSSC now net name info = in_all now net (\<lambda>c. c\<lparr>cp_app := ensureRegister name info (cp_app c)\<rparr>)"

definition registerLsig :: "int \<Rightarrow> string \<Rightarrow> string \<Rightarrow> 'l lsig_cp \<Rightarrow> ('d, 'l) repo \<Rightarrow> ('d, 'l) repo" where
  "registerLsig now net name info = in_all now net (\<lambda>c. c\<lparr>cp_dLsig := AList.update name info (cp_dLsig c)\<rparr>)"

definition has_name :: "('d, 'l) checkpoints \<Rightarrow> string \<Rightarrow> string \<Rightarrow> bool" where
  "has_name cps net name \<longleftrightarrow> (case map_of cps net of None \<Rightarrow> False | Some c \<Rightarrow>
     map_of (cp_asa c) name \<noteq> None \<or> map_of (cp_app c) name \<noteq> None \<or> map_of (cp_dLsig c) name \<noteq> None)"

definition repo_isDefined :: "string \<Rightarrow> string \<Rightarrow> ('d, 'l) repo \<Rightarrow> bool" where
  "repo_isDefined net name r = has_name (cr_all r) net name"

definition networkExistsInCurrentCP :: "string \<Rightarrow> ('d, 'l) repo \<Rightarrow> bool" where
  "networkExistsInCurrentCP net r \<longleftrightarrow> map_of (cr_stripped r) net \<noteq> None"

text \<open>A checkpoint of a file: the keys of its objects become the keys of maps, timestamps as texts.\<close>

definition toSSCMap :: "(string, (int, app_cp) jsmap) jsmap \<Rightarrow> (string, app_versions) jsmap" where
  "toSSCMap obj = List.map (\<lambda>(k, nested). (k, List.map (\<lambda>(l, v). (StampText l, v)) nested)) obj"

section \<open>Queries\<close>

definition preceding_app :: "string \<Rightarrow> ('d, 'l) repo \<Rightarrow> (string, app_versions) jsmap" where
  "preceding_app net r = (case map_of (cr_preceding r) net of None \<Rightarrow> [] | Some c \<Rightarrow> cp_app c)"

definition preceding_asa :: "string \<Rightarrow> ('d, 'l) repo \<Rightarrow> (string, 'd asa_cp) jsmap" where
  "preceding_asa net r = (case map_of (cr_preceding r) net of None \<Rightarrow> [] | Some c \<Rightarrow> cp_asa c)"

definition preceding_lsig :: "string \<Rightarrow> ('d, 'l) repo \<Rightarrow> (string, 'l lsig_cp) jsmap" where
  "preceding_lsig net r = (case map_of (cr_preceding r) net of None \<Rightarrow> [] | Some c \<Rightarrow> cp_dLsig c)"

text \<open>The last version in the order of the map, which is that of insertion; an empty map has no last entry.\<close>

definition getAppfromCPKey :: "string \<Rightarrow> string \<Rightarrow> ('d, 'l) repo \<Rightarrow> failure + app_cp option" where
  "getAppfromCPKey net key r =
     (case map_of (preceding_app net r) key of
        None \<Rightarrow> Inr None
      | Some nested \<Rightarrow> if nested = [] then Inl (Other ''TypeError'') else Inr (Some (snd (last nested))))"

fun stamp_value :: "stamp \<Rightarrow> int" where
    "stamp_value (StampNum n) = n"
  | "stamp_value (StampText n) = n"

text \<open>The bound that a timestamp is compared with is never raised.\<close>

definition getLatestTimestampValue :: "app_versions \<Rightarrow> int" where
  "getLatestTimestampValue m = fold (\<lambda>(k, v) res. if -1 \<le> stamp_value k then pc_appID v else res) m (-1)"

fun key_where :: "('v \<Rightarrow> bool) \<Rightarrow> (string \<times> 'v) list \<Rightarrow> string option" where
    "key_where f [] = None"
  | "key_where f ((k, v) # m) = (if f v then Some k else key_where f m)"

definition getAppCheckpointKeyFromIndex :: "string \<Rightarrow> int \<Rightarrow> ('d, 'l) repo \<Rightarrow> string option" where
  "getAppCheckpointKeyFromIndex net i r = key_where (\<lambda>m. getLatestTimestampValue m = i) (preceding_app net r)"

definition getAssetCheckpointKeyFromIndex :: "string \<Rightarrow> int \<Rightarrow> ('d, 'l) repo \<Rightarrow> string option" where
  "getAssetCheckpointKeyFromIndex net i r = key_where (\<lambda>a. ac_assetIndex a = i) (preceding_asa net r)"

section \<open>What the maps say after an operation\<close>

lemma map_of_in_net:
  "map_of (in_net now net f cps) m =
     (if m = net then Some (f (case map_of cps net of None \<Rightarrow> new_Checkpoint now | Some c \<Rightarrow> c)) else map_of cps m)"
  by (simp add: in_net_def update_conv')

lemma in_all_simps [simp]:
  "cr_stripped (in_all now net f r) = in_net now net f (cr_stripped r)"
  "cr_preceding (in_all now net f r) = in_net now net f (cr_preceding r)"
  "cr_all (in_all now net f r) = in_net now net f (cr_all r)"
  "cr_scriptMap (in_all now net f r) = cr_scriptMap r"
  by (simp_all add: in_all_def)

definition named :: "('d, 'l) checkpoint \<Rightarrow> string \<Rightarrow> bool" where
  "named c n \<longleftrightarrow> map_of (cp_asa c) n \<noteq> None \<or> map_of (cp_app c) n \<noteq> None \<or> map_of (cp_dLsig c) n \<noteq> None"

lemma has_name_named: "has_name cps net n \<longleftrightarrow> (\<exists>c. map_of cps net = Some c \<and> named c n)"
  by (auto simp: has_name_def named_def split: option.splits)

lemma has_name_in_net:
  "has_name (in_net now net f cps) m n \<longleftrightarrow>
     (if m = net then named (f (case map_of cps net of None \<Rightarrow> new_Checkpoint now | Some c \<Rightarrow> c)) n else has_name cps m n)"
  by (simp add: has_name_named map_of_in_net)

lemma map_of_overlay_None: "map_of (overlay a b) n = None \<longleftrightarrow> map_of a n = None \<and> map_of b n = None"
proof -
  have "map_of (rev b) n = None \<longleftrightarrow> map_of b n = None" by (simp add: map_of_eq_None_iff)
  then show ?thesis by (auto simp: map_of_overlay split: option.splits)
qed

lemma named_join: "named (join_checkpoint a b) n \<longleftrightarrow> named a n \<or> named b n"
  by (auto simp: named_def join_checkpoint_def map_of_overlay_None simp del: not_None_eq)

lemma has_name_append:
  "appendToCheckpoint E cps net c = Inr cps' \<Longrightarrow> has_name cps' m n \<longleftrightarrow> has_name cps m n \<or> (m = net \<and> named c n)"
  by (auto simp: appendToCheckpoint_def has_name_named update_conv' named_join split: option.splits if_splits)

lemma has_name_mergeTo:
  "mergeTo E cps cp = Inr cps' \<Longrightarrow> has_name cps' m n \<longleftrightarrow> has_name cps m n \<or> (\<exists>c. (m, c) \<in> set cp \<and> named c n)"
proof (induction E cps cp arbitrary: cps' rule: mergeTo.induct)
  case (2 E cps net c rest)
  then obtain cps1 where "appendToCheckpoint E cps net c = Inr cps1" "mergeTo E cps1 rest = Inr cps'"
    by (auto split: sum.splits)
  with "2.IH" [OF this] has_name_append [OF this(1)] show ?case by auto
qed simp

section \<open>No script knows more than all scripts\<close>

definition covered :: "('d, 'l) repo \<Rightarrow> bool" where
  "covered r \<longleftrightarrow> (\<forall>net n. has_name (cr_preceding r) net n \<or> has_name (cr_stripped r) net n \<longrightarrow> has_name (cr_all r) net n)"

inductive reached :: "'d deep \<Rightarrow> ('d, 'l) repo \<Rightarrow> bool" for E where
    reached_new: "reached E new_repo"
  | reached_global: "reached E r \<Longrightarrow> mergeToGlobal E cp script r = Inr r' \<Longrightarrow> reached E r'"
  | reached_merge: "reached E r \<Longrightarrow> merge_cp E cp script r = Inr r' \<Longrightarrow> reached E r'"
  | reached_metadata: "reached E r \<Longrightarrow> reached E (putMetadata now net k v r)"
  | reached_asa: "reached E r \<Longrightarrow> reached E (registerASA now net name a r)"
  | reached_app: "reached E r \<Longrightarrow> reached E (registerSSC now net name p r)"
  | reached_lsig: "reached E r \<Longrightarrow> reached E (registerLsig now net name l r)"

lemma covered_in_all:
  assumes "covered r" "\<And>c n. named (f c) n \<longleftrightarrow> named c n \<or> P n"
  shows "covered (in_all now net f r)"
proof -
  have fresh: "\<not> named (new_Checkpoint now) n" for n by (simp add: named_def new_Checkpoint_def)
  have "has_name (in_net now net f cps) m n \<longleftrightarrow> has_name cps m n \<or> (m = net \<and> P n)" for cps m n
    by (auto simp: has_name_named map_of_in_net assms(2) fresh split: option.splits)
  then show ?thesis using assms(1) unfolding covered_def by auto
qed

lemma covered_global: "covered r \<Longrightarrow> mergeToGlobal E cp script r = Inr r' \<Longrightarrow> covered r'"
  by (auto simp: mergeToGlobal_def covered_def has_name_mergeTo split: sum.splits)

lemma covered_merge:
  assumes "covered r" "merge_cp E cp script r = Inr r'"
  shows "covered r'"
proof -
  obtain cps cps' m where m: "mergeTo E (cr_preceding r) cp = Inr cps" "mergeTo E (cr_all r) cp = Inr cps'"
    "r' = r\<lparr>cr_stripped := cp, cr_preceding := cps, cr_scriptMap := m, cr_all := cps'\<rparr>"
    using assms(2) by (auto simp: merge_cp_def mergeToGlobal_def split: sum.splits)
  have "has_name cps' net n" if "has_name cp net n" for net n
    using that has_name_mergeTo [OF m(2)] map_of_SomeD by (fastforce simp: has_name_named [of cp])
  then show ?thesis
    using assms(1) has_name_mergeTo [OF m(1)] has_name_mergeTo [OF m(2)] by (auto simp: m(3) covered_def)
qed

lemma reached_covered: "reached E r \<Longrightarrow> covered r"
proof (induction rule: reached.induct)
  case reached_new
  then show ?case by (simp add: covered_def new_repo_def has_name_def)
next
  case (reached_metadata r now net k v)
  then show ?case unfolding putMetadata_def by (intro covered_in_all [where P = "\<lambda>_. False"]) (simp_all add: named_def)
next
  case (reached_asa r now net name a)
  then show ?case unfolding registerASA_def
    by (intro covered_in_all [where P = "\<lambda>n. n = name"]) (auto simp: named_def update_conv')
next
  case (reached_app r now net name p)
  then show ?case unfolding registerSSC_def
    by (intro covered_in_all [where P = "\<lambda>n. n = name"]) (auto simp: named_def ensureRegister_def update_conv')
next
  case (reached_lsig r now net name l)
  then show ?case unfolding registerLsig_def
    by (intro covered_in_all [where P = "\<lambda>n. n = name"]) (auto simp: named_def update_conv')
qed (auto dest: covered_global covered_merge)

section \<open>A registered application is found\<close>

lemma preceding_registerSSC:
  "map_of (preceding_app net (registerSSC now net name info r)) k =
     (if k = name then Some (case map_of (preceding_app net r) name of
         Some nested \<Rightarrow> AList.update (StampNum (pc_timestamp info)) info nested
       | None \<Rightarrow> [(StampNum (pc_timestamp info), info)])
      else map_of (preceding_app net r) k)"
  by (auto simp: preceding_app_def registerSSC_def map_of_in_net ensureRegister_def update_conv' new_Checkpoint_def
      split: option.split)

lemma registered_found:
  assumes "\<And>nested. map_of (preceding_app net r) name = Some nested \<Longrightarrow> StampNum (pc_timestamp info) \<notin> set (List.map fst nested)"
  shows "getAppfromCPKey net name (registerSSC now net name info r) = Inr (Some info)"
proof (cases "map_of (preceding_app net r) name")
  case None
  then show ?thesis by (simp add: getAppfromCPKey_def preceding_registerSSC)
next
  case (Some nested)
  have "AList.update (StampNum (pc_timestamp info)) info nested = nested @ [(StampNum (pc_timestamp info), info)]"
    by (rule update_new [OF assms [OF Some]])
  then show ?thesis using Some by (simp add: getAppfromCPKey_def preceding_registerSSC)
qed

lemma registered_defined:
  "repo_isDefined net name (registerSSC now net name info r)"
  "repo_isDefined net name (registerASA now net name a r)"
  "repo_isDefined net name (registerLsig now net name l r)"
  by (simp_all add: repo_isDefined_def has_name_in_net registerSSC_def registerASA_def registerLsig_def named_def
      ensureRegister_def update_conv')

lemma undefined_not_preceding:
  assumes "covered r" "\<not> repo_isDefined net name r"
  shows "map_of (preceding_app net r) name = None"
proof -
  have "\<not> has_name (cr_preceding r) net name" using assms by (auto simp: covered_def repo_isDefined_def)
  then show ?thesis by (auto simp: has_name_def preceding_app_def split: option.splits)
qed

end
