(* ===== verification/Algob_Deployer.thy ===== *)
theory Algob_Deployer
  imports Algob_Checkpoint
begin

text \<open>
  The deployer that scripts are given (\<^verbatim>\<open>packages/algob/src/internal/deployer.ts\<close>), in its two modes, over the
  checkpoints; the registration of executed transactions (\<^verbatim>\<open>registerCheckpoints\<close> of
  \<^verbatim>\<open>lib/script-checkpoints.ts\<close>); and the order in which \<^verbatim>\<open>algob deploy\<close> and \<^verbatim>\<open>algob run\<close> load checkpoints
  and run scripts (\<^verbatim>\<open>builtin-tasks/run.ts\<close>, \<^verbatim>\<open>internal/util/lists.ts\<close>). What reaches the network, the compiler or
  the asset files goes through the record of the operator, over a state of its own.
\<close>

section \<open>State\<close>

record ('n, 'd, 'l) deployer =
  dp_node :: 'n
  dp_isDeployMode :: bool
  dp_network :: string
  dp_repo :: "('d, 'l) repo"
  dp_script :: string
  dp_files :: "(string, ('d, 'l) checkpoints) jsmap"
  dp_log :: "string list"

type_synonym ('s, 'a) run = "'s \<Rightarrow> (failure + 'a) \<times> 's"

type_synonym ('n, 'd, 'l, 'a) dpM = "('n, 'd, 'l) deployer \<Rightarrow> (failure + 'a) \<times> ('n, 'd, 'l) deployer"

definition retF :: "'a \<Rightarrow> ('s, 'a) run" where "retF a = (\<lambda>s. (Inr a, s))"

definition failF :: "failure \<Rightarrow> ('s, 'a) run" where "failF e = (\<lambda>s. (Inl e, s))"

definition bindF :: "('s, 'a) run \<Rightarrow> ('a \<Rightarrow> ('s, 'b) run) \<Rightarrow> ('s, 'b) run" where
  "bindF m f = (\<lambda>s. case m s of (Inl e, s') \<Rightarrow> (Inl e, s') | (Inr a, s') \<Rightarrow> f a s')"

definition thenF :: "('s, 'a) run \<Rightarrow> ('s, 'b) run \<Rightarrow> ('s, 'b) run" where "thenF m n = bindF m (\<lambda>_. n)"

definition readF :: "('s \<Rightarrow> failure + 'a) \<Rightarrow> ('s, 'a) run" where "readF f = (\<lambda>s. (f s, s))"

definition updF :: "('s \<Rightarrow> 's) \<Rightarrow> ('s, unit) run" where "updF f = (\<lambda>s. (Inr (), f s))"

fun eachF :: "('x \<Rightarrow> ('s, unit) run) \<Rightarrow> 'x list \<Rightarrow> ('s, unit) run" where
    "eachF f [] = retF ()"
  | "eachF f (x # xs) = thenF (f x) (eachF f xs)"

text \<open>
  The operator of the network: definitions of assets by name (with what overrides them), the check of a
  definition, deployments, opt-ins, compiled and signed logic signatures, and the clock.
\<close>

record ('n, 'd, 'l, 'p) operator =
  nd_asaDef :: "string \<Rightarrow> 'p option \<Rightarrow> ('n, 'd option) run"
  nd_checkDef :: "'d \<Rightarrow> failure + unit"
  nd_deployASA :: "string \<Rightarrow> 'd \<Rightarrow> ('n, 'd asa_cp) run"
  nd_optInMultiple :: "string \<Rightarrow> 'd \<Rightarrow> int \<Rightarrow> ('n, unit) run"
  nd_deployApp :: "string \<Rightarrow> 'p \<Rightarrow> ('n, app_cp) run"
  nd_updateApp :: "string \<Rightarrow> int \<Rightarrow> 'p \<Rightarrow> ('n, app_cp) run"
  nd_getLsig :: "string \<Rightarrow> ('n, 'l) run"
  nd_sign :: "string \<Rightarrow> 'l \<Rightarrow> ('n, 'l) run"
  nd_lsigAddress :: "'l \<Rightarrow> string"
  nd_now :: "'n \<Rightarrow> int"

definition on_node :: "('n, 'a) run \<Rightarrow> ('n, 'd, 'l, 'a) dpM" where
  "on_node m = (\<lambda>s. case m (dp_node s) of (r, n) \<Rightarrow> (r, s\<lparr>dp_node := n\<rparr>))"

definition on_repo :: "('n, 'd, 'l, 'p) operator \<Rightarrow> (int \<Rightarrow> string \<Rightarrow> ('d, 'l) repo \<Rightarrow> ('d, 'l) repo) \<Rightarrow> ('n, 'd, 'l, unit) dpM" where
  "on_repo N f = updF (\<lambda>s. s\<lparr>dp_repo := f (nd_now N (dp_node s)) (dp_network s) (dp_repo s)\<rparr>)"

definition edit_outside :: failure where
  "edit_outside = Builder (BuiltinTasks DEPLOYER_EDIT_OUTSIDE_DEPLOY)"

text \<open>An operation of the deploy mode; in the run mode it throws.\<close>

definition deploy_only :: "('n, 'd, 'l, 'a) dpM \<Rightarrow> ('n, 'd, 'l, 'a) dpM" where
  "deploy_only m = (\<lambda>s. if dp_isDeployMode s then m s else (Inl edit_outside, s))"

section \<open>Operations of both modes\<close>

definition getASAInfo :: "string \<Rightarrow> ('n, 'd, 'l) deployer \<Rightarrow> failure + 'd asa_cp" where
  "getASAInfo name s =
     (case map_of (preceding_asa (dp_network s) (dp_repo s)) name of
        None \<Rightarrow> Inl (Builder (BuiltinTasks DEPLOYER_ASA_NOT_DEFINED)) | Some a \<Rightarrow> Inr a)"

definition getCheckpointKV :: "string \<Rightarrow> ('n, 'd, 'l) deployer \<Rightarrow> string option" where
  "getCheckpointKV key s = getMetadata (dp_network s) key (dp_repo s)"

definition dp_isDefined :: "string \<Rightarrow> ('n, 'd, 'l) deployer \<Rightarrow> bool" where
  "dp_isDefined name s = repo_isDefined (dp_network s) name (dp_repo s)"

definition loadASADef :: "string \<Rightarrow> ('n, 'd, 'l) deployer \<Rightarrow> 'd option" where
  "loadASADef name s = map_option ac_assetDef (map_of (preceding_asa (dp_network s) (dp_repo s)) name)"

definition assertAppExistsInCP :: "string \<Rightarrow> ('n, 'd, 'l) deployer \<Rightarrow> failure + app_cp" where
  "assertAppExistsInCP key s =
     (case getAppfromCPKey (dp_network s) key (dp_repo s) of
        Inl e \<Rightarrow> Inl e
      | Inr None \<Rightarrow> Inl (Builder (WebGeneral APP_NOT_FOUND_IN_CP))
      | Inr (Some app) \<Rightarrow> Inr app)"

definition dp_getApp :: "string \<Rightarrow> ('n, 'd, 'l) deployer \<Rightarrow> failure + app_cp" where
  "dp_getApp appName s = assertAppExistsInCP appName s"

definition dp_getLsig :: "string \<Rightarrow> ('n, 'd, 'l) deployer \<Rightarrow> failure + 'l" where
  "dp_getLsig name s =
     (case map_of (preceding_lsig (dp_network s) (dp_repo s)) name of
        None \<Rightarrow> Inl (Builder (WebGeneral LSIG_NOT_FOUND_IN_CP)) | Some i \<Rightarrow> Inr (lc_lsig i))"

text \<open>An asset by its name or its index; an index that is a big integer is not looked up.\<close>

datatype asset_ref = ByName string | ById int | ByBigInt int

definition assertASAExist :: "asset_ref \<Rightarrow> ('n, 'd, 'l) deployer \<Rightarrow> failure + unit" where
  "assertASAExist asset s =
     (let asa = preceding_asa (dp_network s) (dp_repo s);
          res = (case asset of
             ByName n \<Rightarrow> map_of asa n
           | ById i \<Rightarrow> (case getAssetCheckpointKeyFromIndex (dp_network s) i (dp_repo s) of
                 None \<Rightarrow> None | Some key \<Rightarrow> if key = '''' then None else map_of asa key)
           | ByBigInt _ \<Rightarrow> None)
      in case res of None \<Rightarrow> Inr ()
         | Some a \<Rightarrow> if ac_deleted a then Inl (Builder (WebGeneral ASSET_DELETED)) else Inr ())"

definition assertAppExist :: "int \<Rightarrow> ('n, 'd, 'l) deployer \<Rightarrow> failure + unit" where
  "assertAppExist appID s =
     (case getAppCheckpointKeyFromIndex (dp_network s) appID (dp_repo s) of
        None \<Rightarrow> Inr ()
      | Some key \<Rightarrow> if key = '''' then Inr () else
          (case getAppfromCPKey (dp_network s) key (dp_repo s) of
             Inl e \<Rightarrow> Inl e
           | Inr None \<Rightarrow> Inr ()
           | Inr (Some app) \<Rightarrow> if pc_deleted app then Inl (Builder (WebGeneral APP_DELETED)) else Inr ()))"

text \<open>
  What a transaction is to the check: a use of an asset (modify, freeze, revoke, opt in, destroy), a transfer
  that may close the holding, a use of an application (delete, close, opt in, update, call), or another.
\<close>

datatype cp_use = UseAsset asset_ref | MoveAsset asset_ref bool | UseApp int | UseNone

fun assertCpNotDeleted1 :: "cp_use \<Rightarrow> ('n, 'd, 'l) deployer \<Rightarrow> failure + unit" where
    "assertCpNotDeleted1 (UseAsset a) s = assertASAExist a s"
  | "assertCpNotDeleted1 (MoveAsset a closes) s = (if closes then Inr () else assertASAExist a s)"
  | "assertCpNotDeleted1 (UseApp i) s = assertAppExist i s"
  | "assertCpNotDeleted1 UseNone s = Inr ()"

fun assertCPNotDeleted :: "cp_use list \<Rightarrow> ('n, 'd, 'l) deployer \<Rightarrow> failure + unit" where
    "assertCPNotDeleted [] s = Inr ()"
  | "assertCPNotDeleted (u # us) s = (case assertCpNotDeleted1 u s of Inl e \<Rightarrow> Inl e | Inr _ \<Rightarrow> assertCPNotDeleted us s)"

section \<open>Operations that write checkpoints\<close>

definition persist :: "('n, 'd, 'l) deployer \<Rightarrow> ('n, 'd, 'l) deployer" where
  "persist s = s\<lparr>dp_files := AList.update (dp_script s) (cr_stripped (dp_repo s)) (dp_files s)\<rparr>"

definition persistCP :: "('n, 'd, 'l, unit) dpM" where
  "persistCP = deploy_only (updF persist)"

text \<open>\<^verbatim>\<open>try { m } catch (error) { this.persistCP(); throw error; }\<close>\<close>

definition persisting :: "('n, 'd, 'l, 'a) dpM \<Rightarrow> ('n, 'd, 'l, 'a) dpM" where
  "persisting m = (\<lambda>s. case m s of (Inl e, s') \<Rightarrow> (Inl e, persist s') | (Inr a, s') \<Rightarrow> (Inr a, s'))"

definition assert_free :: "builtin_error \<Rightarrow> string \<Rightarrow> ('n, 'd, 'l, unit) dpM" where
  "assert_free e name = (\<lambda>s.
     if dp_isDefined name s
     then (Inl (Builder (BuiltinTasks e)), if dp_isDeployMode s then persist s else s) else (Inr (), s))"

definition assertNoAsset :: "string \<Rightarrow> ('n, 'd, 'l, unit) dpM" where
  "assertNoAsset = assert_free DEPLOYER_ASSET_ALREADY_PRESENT"

definition assertNoLsig :: "string \<Rightarrow> ('n, 'd, 'l, unit) dpM" where
  "assertNoLsig = assert_free DEPLOYER_LSIG_ALREADY_PRESENT"

definition assertNoApp :: "string \<Rightarrow> ('n, 'd, 'l, unit) dpM" where
  "assertNoApp = assert_free DEPLOYER_APP_ALREADY_PRESENT"

definition registerASAInfo :: "('n, 'd, 'l, 'p) operator \<Rightarrow> string \<Rightarrow> 'd asa_cp \<Rightarrow> ('n, 'd, 'l, unit) dpM" where
  "registerASAInfo N name info = deploy_only (on_repo N (\<lambda>now net. registerASA now net name info))"

definition registerSSCInfo :: "('n, 'd, 'l, 'p) operator \<Rightarrow> string \<Rightarrow> app_cp \<Rightarrow> ('n, 'd, 'l, unit) dpM" where
  "registerSSCInfo N name info = deploy_only (on_repo N (\<lambda>now net. registerSSC now net name info))"

definition logTx :: "string \<Rightarrow> ('n, 'd, 'l, unit) dpM" where
  "logTx message = deploy_only (updF (\<lambda>s. s\<lparr>dp_log := dp_log s @ [message]\<rparr>))"

text \<open>An empty value counts as absent.\<close>

definition addCheckpointKV :: "('n, 'd, 'l, 'p) operator \<Rightarrow> string \<Rightarrow> string \<Rightarrow> ('n, 'd, 'l, unit) dpM" where
  "addCheckpointKV N key v = deploy_only (\<lambda>s.
     let found = getCheckpointKV key s in
     if found = Some v then (Inr (), s)
     else if found \<noteq> None \<and> found \<noteq> Some '''' then (Inl (Builder (BuiltinTasks DEPLOYER_METADATA_ALREADY_PRESENT)), s)
     else on_repo N (\<lambda>now net. putMetadata now net key v) s)"

definition deployASADef :: "('n, 'd, 'l, 'p) operator \<Rightarrow> string \<Rightarrow> 'd \<Rightarrow> ('n, 'd, 'l, 'd asa_cp) dpM" where
  "deployASADef N name asaDef = deploy_only
     (thenF (assertNoAsset name)
     (thenF (readF (\<lambda>_. nd_checkDef N asaDef))
     (bindF (persisting (on_node (nd_deployASA N name asaDef))) (\<lambda>info.
      thenF (registerASAInfo N name info)
     (thenF (persisting (on_node (nd_optInMultiple N name asaDef (ac_assetIndex info)))) (retF info))))))"

definition dp_deployASA :: "('n, 'd, 'l, 'p) operator \<Rightarrow> string \<Rightarrow> 'p option \<Rightarrow> ('n, 'd, 'l, 'd asa_cp) dpM" where
  "dp_deployASA N name asaParams = deploy_only
     (bindF (on_node (nd_asaDef N name asaParams)) (\<lambda>d.
        case d of
          None \<Rightarrow> (\<lambda>s. (Inl (Builder (BuiltinTasks DEPLOYER_ASA_DEF_NOT_FOUND)), persist s))
        | Some asaDef \<Rightarrow> deployASADef N name asaDef))"

definition mkLsig :: "('n, 'd, 'l, 'p) operator \<Rightarrow> string \<Rightarrow> string option \<Rightarrow> string option \<Rightarrow> ('n, 'd, 'l, 'l lsig_cp) dpM" where
  "mkLsig N fileName signer lsigName = deploy_only
     (let cpLsigName = (case lsigName of None \<Rightarrow> fileName | Some n \<Rightarrow> n)
      in thenF (assertNoLsig cpLsigName)
        (bindF (persisting (on_node (bindF (nd_getLsig N fileName) (\<lambda>lsig.
             case signer of
               None \<Rightarrow> retF \<lparr>lc_creator = nd_lsigAddress N lsig, lc_contractAddress = nd_lsigAddress N lsig, lc_lsig = lsig,
                         lc_file = Some fileName\<rparr>
             | Some addr \<Rightarrow> bindF (nd_sign N addr lsig) (\<lambda>signed.
                 retF \<lparr>lc_creator = addr, lc_contractAddress = nd_lsigAddress N signed, lc_lsig = signed,
                         lc_file = Some fileName\<rparr>))))) (\<lambda>info.
         thenF (on_repo N (\<lambda>now net. registerLsig now net cpLsigName info)) (retF info))))"

definition dp_deployApp :: "('n, 'd, 'l, 'p) operator \<Rightarrow> string \<Rightarrow> 'p \<Rightarrow> ('n, 'd, 'l, app_cp) dpM" where
  "dp_deployApp N name appDefinition = deploy_only
     (thenF (assertNoApp name)
     (bindF (persisting (on_node (nd_deployApp N name appDefinition))) (\<lambda>info.
      thenF (registerSSCInfo N name info) (retF info))))"

text \<open>The run mode updates the application too, but writes no checkpoint.\<close>

definition dp_updateApp :: "('n, 'd, 'l, 'p) operator \<Rightarrow> string \<Rightarrow> int \<Rightarrow> 'p \<Rightarrow> ('n, 'd, 'l, app_cp) dpM" where
  "dp_updateApp N appName appID newAppCode =
     thenF (readF (assertCPNotDeleted [UseApp appID])) (\<lambda>s.
       if dp_isDeployMode s
       then bindF (persisting (on_node (nd_updateApp N appName appID newAppCode))) (\<lambda>info.
              thenF (registerSSCInfo N appName info) (retF info)) s
       else on_node (nd_updateApp N appName appID newAppCode) s)"

section \<open>Registering executed transactions\<close>

text \<open>
  What is read of a transaction and its confirmation; \<open>cf_name\<close> is the entry that \<^verbatim>\<open>mkTx\<close> put under its index, for a
  deployment or an update.
\<close>

record 'd confirmed =
  cf_type :: string
  cf_from :: string
  cf_txID :: string
  cf_assetIndex :: int
  cf_isAssetDeletion :: bool
  cf_appIndex :: int
  cf_isAppDeletion :: bool
  cf_name :: "(string \<times> 'd) option"
  cf_confirmedAsset :: int
  cf_confirmedApp :: int
  cf_appAddress :: string
  cf_confirmedRound :: int
  cf_seconds :: int
  cf_approvalFile :: string
  cf_clearFile :: string

definition register_asset :: "('n, 'd, 'l, 'p) operator \<Rightarrow> 'd confirmed \<Rightarrow> ('n, 'd, 'l, unit) dpM" where
  "register_asset N c = (\<lambda>s.
     case getAssetCheckpointKeyFromIndex (dp_network s) (cf_assetIndex c) (dp_repo s) of
       Some key \<Rightarrow>
         if key \<noteq> '''' \<and> cf_isAssetDeletion c
         then bindF (readF (getASAInfo key)) (\<lambda>info. thenF (registerASAInfo N key (info\<lparr>ac_deleted := True\<rparr>))
                (logTx ''Deleting ASA'')) s
         else (case cf_name c of None \<Rightarrow> (Inr (), s) | Some (name, def) \<Rightarrow>
           thenF (registerASAInfo N name \<lparr>ac_creator = cf_from c, ac_txID = cf_txID c, ac_assetIndex = cf_confirmedAsset c,
             ac_confirmedRound = cf_confirmedRound c, ac_assetDef = def, ac_deleted = False\<rparr>) (logTx ''Deploying ASA'') s)
     | None \<Rightarrow> (case cf_name c of None \<Rightarrow> (Inr (), s) | Some (name, def) \<Rightarrow>
           thenF (registerASAInfo N name \<lparr>ac_creator = cf_from c, ac_txID = cf_txID c, ac_assetIndex = cf_confirmedAsset c,
             ac_confirmedRound = cf_confirmedRound c, ac_assetDef = def, ac_deleted = False\<rparr>) (logTx ''Deploying ASA'') s))"

definition register_new_app :: "('n, 'd, 'l, 'p) operator \<Rightarrow> 'd confirmed \<Rightarrow> ('n, 'd, 'l, unit) dpM" where
  "register_new_app N c =
     (case cf_name c of
        None \<Rightarrow> retF ()
      | Some (name, _) \<Rightarrow>
          bindF (readF (\<lambda>s. getAppfromCPKey (dp_network s) name (dp_repo s))) (\<lambda>known.
          thenF (logTx (if map_option pc_appID known = Some (cf_confirmedApp c) then ''Updating SSC'' else ''Deploying SSC''))
            (registerSSCInfo N name \<lparr>pc_creator = cf_from c, pc_txID = cf_txID c, pc_appID = cf_confirmedApp c,
               pc_applicationAccount = cf_appAddress c, pc_confirmedRound = cf_confirmedRound c, pc_timestamp = cf_seconds c,
               pc_deleted = False, pc_approvalFile = cf_approvalFile c, pc_clearFile = cf_clearFile c\<rparr>)))"

definition register_app :: "('n, 'd, 'l, 'p) operator \<Rightarrow> 'd confirmed \<Rightarrow> ('n, 'd, 'l, unit) dpM" where
  "register_app N c = (\<lambda>s.
     case getAppCheckpointKeyFromIndex (dp_network s) (cf_appIndex c) (dp_repo s) of
       None \<Rightarrow> register_new_app N c s
     | Some key \<Rightarrow>
         if key = '''' then register_new_app N c s
         else bindF (readF (\<lambda>s. getAppfromCPKey (dp_network s) key (dp_repo s))) (\<lambda>known.
           case known of
             Some info \<Rightarrow> if cf_isAppDeletion c
               then thenF (registerSSCInfo N key (info\<lparr>pc_deleted := True\<rparr>)) (logTx ''Deleting SSC'')
               else register_new_app N c
           | None \<Rightarrow> register_new_app N c) s)"

definition registerCheckpoint :: "('n, 'd, 'l, 'p) operator \<Rightarrow> 'd confirmed \<Rightarrow> ('n, 'd, 'l, unit) dpM" where
  "registerCheckpoint N c =
     (if cf_type c = ''acfg'' then register_asset N c
      else if cf_type c = ''appl'' then register_app N c else retF ())"

definition registerCheckpoints :: "('n, 'd, 'l, 'p) operator \<Rightarrow> 'd confirmed list \<Rightarrow> ('n, 'd, 'l, unit) dpM" where
  "registerCheckpoints N cs = eachF (registerCheckpoint N) cs"

section \<open>Running scripts\<close>

fun partition_loop :: "('x \<Rightarrow> 'x \<Rightarrow> bool) \<Rightarrow> 'x list list \<Rightarrow> 'x list \<Rightarrow> 'x \<Rightarrow> 'x list \<Rightarrow> 'x list list" where
    "partition_loop f out cur prev [] = out @ [cur]"
  | "partition_loop f out cur prev (x # xs) =
      (if f prev x then partition_loop f (out @ [cur]) [x] x xs else partition_loop f out (cur @ [x]) x xs)"

definition partitionByFn :: "('x \<Rightarrow> 'x \<Rightarrow> bool) \<Rightarrow> 'x list \<Rightarrow> 'x list list" where
  "partitionByFn f input = (case input of [] \<Rightarrow> [] | x # xs \<Rightarrow> partition_loop f [] [x] x xs)"

text \<open>\<open>cmp\<close> is \<^verbatim>\<open>localeCompare\<close>.\<close>

definition partitionIntoSorted :: "(string \<Rightarrow> string \<Rightarrow> int) \<Rightarrow> string list \<Rightarrow> string list list" where
  "partitionIntoSorted cmp unsorted = partitionByFn (\<lambda>a b. cmp a b = 1) unsorted"

text \<open>The scripts up to a given one, or all of them, and those that are left.\<close>

fun splitAfter :: "string list \<Rightarrow> string \<Rightarrow> string list \<times> string list" where
    "splitAfter [] script = ([], [])"
  | "splitAfter (s # ss) script =
      (if s = script then ([s], ss) else case splitAfter ss script of (a, b) \<Rightarrow> (s # a, b))"

text \<open>\<open>reload\<close> reads a written checkpoint from its file; a script without file has no checkpoint.\<close>

definition loadCheckpoint :: "(('d, 'l) checkpoints \<Rightarrow> ('d, 'l) checkpoints) \<Rightarrow> string \<Rightarrow> ('n, 'd, 'l) deployer \<Rightarrow> ('d, 'l) checkpoints" where
  "loadCheckpoint reload script s = (case map_of (dp_files s) script of None \<Rightarrow> [] | Some c \<Rightarrow> reload c)"

definition merge_script :: "'d deep \<Rightarrow> (('d, 'l) checkpoints \<Rightarrow> ('d, 'l) checkpoints) \<Rightarrow> string \<Rightarrow> ('n, 'd, 'l, unit) dpM" where
  "merge_script E reload script = (\<lambda>s.
     case merge_cp E (loadCheckpoint reload script s) script (dp_repo s) of
       Inl e \<Rightarrow> (Inl e, s) | Inr r \<Rightarrow> (Inr (), s\<lparr>dp_repo := r\<rparr>))"

definition global_script :: "'d deep \<Rightarrow> (('d, 'l) checkpoints \<Rightarrow> ('d, 'l) checkpoints) \<Rightarrow> string \<Rightarrow> ('n, 'd, 'l, unit) dpM" where
  "global_script E reload script = (\<lambda>s.
     case mergeToGlobal E (loadCheckpoint reload script s) script (dp_repo s) of
       Inl e \<Rightarrow> (Inl e, s) | Inr r \<Rightarrow> (Inr (), s\<lparr>dp_repo := r\<rparr>))"

definition loadCheckpointsRecursive :: "'d deep \<Rightarrow> (('d, 'l) checkpoints \<Rightarrow> ('d, 'l) checkpoints) \<Rightarrow> ('n, 'd, 'l, unit) dpM" where
  "loadCheckpointsRecursive E reload = (\<lambda>s.
     eachF (global_script E reload) (List.map fst (dp_files s)) (s\<lparr>dp_repo := new_repo\<rparr>))"

text \<open>
  One script: the checkpoints of those before it and its own are merged; it is skipped when its own has the
  network, unless forced. \<open>execute\<close> is the script, which works on the deployer.
\<close>

definition run_script :: "'d deep \<Rightarrow> (('d, 'l) checkpoints \<Rightarrow> ('d, 'l) checkpoints) \<Rightarrow> bool \<Rightarrow>
    (string \<Rightarrow> ('n, 'd, 'l, unit) dpM) \<Rightarrow> ('n, 'd, 'l, unit) dpM \<Rightarrow> string list \<Rightarrow> string \<Rightarrow> ('n, 'd, 'l, unit) dpM" where
  "run_script E reload force execute onSuccess prev script =
     thenF (eachF (merge_script E reload) prev)
    (thenF (if prev = [] \<or> last prev \<noteq> script then merge_script E reload script else retF ())
     (\<lambda>s. if \<not> force \<and> networkExistsInCurrentCP (dp_network s) (dp_repo s) then (Inr (), s)
          else thenF (execute script) onSuccess (s\<lparr>dp_script := script\<rparr>)))"

fun scripts_loop :: "'d deep \<Rightarrow> (('d, 'l) checkpoints \<Rightarrow> ('d, 'l) checkpoints) \<Rightarrow> bool \<Rightarrow>
    (string \<Rightarrow> ('n, 'd, 'l, unit) dpM) \<Rightarrow> ('n, 'd, 'l, unit) dpM \<Rightarrow> string list \<Rightarrow> string list \<Rightarrow> ('n, 'd, 'l, unit) dpM" where
    "scripts_loop E reload force execute onSuccess dir [] = retF ()"
  | "scripts_loop E reload force execute onSuccess dir (script # scripts) =
      (case splitAfter dir script of (prev, dir') \<Rightarrow>
        thenF (run_script E reload force execute onSuccess prev script)
          (scripts_loop E reload force execute onSuccess dir' scripts))"

definition runScripts :: "'d deep \<Rightarrow> (('d, 'l) checkpoints \<Rightarrow> ('d, 'l) checkpoints) \<Rightarrow> bool \<Rightarrow>
    (string \<Rightarrow> ('n, 'd, 'l, unit) dpM) \<Rightarrow> ('n, 'd, 'l, unit) dpM \<Rightarrow> bool \<Rightarrow> string list \<Rightarrow> string list \<Rightarrow> ('n, 'd, 'l, unit) dpM" where
  "runScripts E reload force execute onSuccess allowWrite dir scripts =
     thenF (loadCheckpointsRecursive E reload)
    (thenF (updF (\<lambda>s. s\<lparr>dp_isDeployMode := allowWrite, dp_script := ''''\<rparr>))
     (scripts_loop E reload force execute onSuccess dir scripts))"

definition runMultipleScripts :: "'d deep \<Rightarrow> (('d, 'l) checkpoints \<Rightarrow> ('d, 'l) checkpoints) \<Rightarrow> (string \<Rightarrow> string \<Rightarrow> int) \<Rightarrow> bool \<Rightarrow>
    (string \<Rightarrow> ('n, 'd, 'l, unit) dpM) \<Rightarrow> ('n, 'd, 'l, unit) dpM \<Rightarrow> bool \<Rightarrow> string list \<Rightarrow> string list \<Rightarrow> ('n, 'd, 'l, unit) dpM" where
  "runMultipleScripts E reload cmp force execute onSuccess allowWrite dir scriptNames =
     eachF (runScripts E reload force execute onSuccess allowWrite dir) (partitionIntoSorted cmp scriptNames)"

text \<open>
  \<^verbatim>\<open>algob deploy\<close> on scripts that were found in the scripts directory: a forced one forgets their checkpoint files
  first, and each script that ran is persisted.
\<close>

definition clearCheckpointFiles :: "string list \<Rightarrow> ('n, 'd, 'l) deployer \<Rightarrow> ('n, 'd, 'l) deployer" where
  "clearCheckpointFiles scripts s = s\<lparr>dp_files := filter (\<lambda>(k, v). k \<notin> set scripts) (dp_files s)\<rparr>"

definition executeDeployTask :: "'d deep \<Rightarrow> (('d, 'l) checkpoints \<Rightarrow> ('d, 'l) checkpoints) \<Rightarrow> (string \<Rightarrow> string \<Rightarrow> int) \<Rightarrow> bool \<Rightarrow>
    (string \<Rightarrow> ('n, 'd, 'l, unit) dpM) \<Rightarrow> string list \<Rightarrow> string list \<Rightarrow> ('n, 'd, 'l, unit) dpM" where
  "executeDeployTask E reload cmp force execute dir scriptNames =
     (if scriptNames = [] then failF (Builder (BuiltinTasks SCRIPTS_NO_FILES_FOUND))
      else thenF (updF (if force then clearCheckpointFiles scriptNames else (\<lambda>s. s)))
        (runMultipleScripts E reload cmp force execute (updF persist) True dir scriptNames))"

section \<open>What a run keeps\<close>

lemmas run_defs = retF_def failF_def bindF_def thenF_def readF_def updF_def

definition leaves :: "('s \<Rightarrow> 'b) \<Rightarrow> ('s, 'a) run \<Rightarrow> bool" where
  "leaves f m \<longleftrightarrow> (\<forall>s. f (snd (m s)) = f s)"

named_theorems leaving \<open>runs that leave a part of the state\<close>

lemma leavesD: "leaves f m \<Longrightarrow> f (snd (m s)) = f s" by (simp add: leaves_def)

lemma leaves_ret [leaving]: "leaves f (retF a)" by (simp add: leaves_def retF_def)

lemma leaves_fail [leaving]: "leaves f (failF e)" by (simp add: leaves_def failF_def)

lemma leaves_read [leaving]: "leaves f (readF g)" by (simp add: leaves_def readF_def)

lemma leaves_upd: "(\<And>s. f (g s) = f s) \<Longrightarrow> leaves f (updF g)" by (simp add: leaves_def updF_def)

lemma leaves_bind [leaving]:
  assumes "leaves f m" "\<And>a. leaves f (k a)"
  shows "leaves f (bindF m k)"
  unfolding leaves_def
proof
  fix s
  obtain r s' where m: "m s = (r, s')" by (cases "m s")
  show "f (snd (bindF m k s)) = f s"
    using leavesD [OF assms(1), of s] leavesD [OF assms(2)] m by (simp add: bindF_def split: sum.split)
qed

lemma leaves_then [leaving]: "leaves f m \<Longrightarrow> leaves f n \<Longrightarrow> leaves f (thenF m n)"
  unfolding thenF_def by (rule leaves_bind)

lemma leaves_each [leaving]: "(\<And>x. leaves f (g x)) \<Longrightarrow> leaves f (eachF g xs)"
  by (induction xs) (simp_all add: leaves_ret leaves_then)

text \<open>What of the deployer a merge leaves alone: everything but the checkpoints in memory.\<close>

definition outside :: "('n, 'd, 'l) deployer \<Rightarrow> 'n \<times> string \<times> (string, ('d, 'l) checkpoints) jsmap \<times> string list" where
  "outside s = (dp_node s, dp_network s, dp_files s, dp_log s)"

lemma leaves_merge_script [leaving]: "leaves outside (merge_script E reload script)"
  by (simp add: leaves_def merge_script_def outside_def split: sum.split)

lemma leaves_global_script [leaving]: "leaves outside (global_script E reload script)"
  by (simp add: leaves_def global_script_def outside_def split: sum.split)

lemma leaves_loadCheckpoints [leaving]: "leaves outside (loadCheckpointsRecursive E reload :: ('n, 'd, 'l, unit) dpM)"
  unfolding leaves_def
proof
  fix s :: "('n, 'd, 'l) deployer"
  have "leaves outside (eachF (global_script E reload) (List.map fst (dp_files s)))" by (intro leaving)
  from leavesD [OF this, of "s\<lparr>dp_repo := new_repo\<rparr>"]
  show "outside (snd (loadCheckpointsRecursive E reload s)) = outside s"
    by (simp add: loadCheckpointsRecursive_def outside_def)
qed

section \<open>A script whose checkpoint has the network is not run again\<close>

definition deployed_before :: "(('d, 'l) checkpoints \<Rightarrow> ('d, 'l) checkpoints) \<Rightarrow> ('n, 'd, 'l) deployer \<Rightarrow> string \<Rightarrow> bool" where
  "deployed_before reload s script \<longleftrightarrow> map_of (loadCheckpoint reload script s) (dp_network s) \<noteq> None"

lemma deployed_before_outside: "outside s' = outside s \<Longrightarrow> deployed_before reload s' = deployed_before reload s"
  by (simp add: outside_def deployed_before_def loadCheckpoint_def fun_eq_iff)

lemma merged_network:
  "merge_script E reload script s = (Inr (), s') \<Longrightarrow> deployed_before reload s script \<Longrightarrow>
    networkExistsInCurrentCP (dp_network s') (dp_repo s')"
  by (auto simp: merge_script_def merge_cp_def mergeToGlobal_def networkExistsInCurrentCP_def deployed_before_def
      split: sum.splits)

lemma each_last:
  "eachF g (xs @ [x]) s = (Inr (), s') \<Longrightarrow> \<exists>s1. eachF g xs s = (Inr (), s1) \<and> g x s1 = (Inr (), s')"
  by (induction xs arbitrary: s) (auto simp: run_defs split: prod.splits sum.splits)

lemma merged_before:
  assumes "eachF (merge_script E reload) prev s = (Inr (), s1)" "prev \<noteq> []" "last prev = script"
    "deployed_before reload s script"
  shows "networkExistsInCurrentCP (dp_network s1) (dp_repo s1)"
proof -
  have p: "prev = butlast prev @ [script]" using assms by (metis append_butlast_last_id)
  obtain s0 where s0: "eachF (merge_script E reload) (butlast prev) s = (Inr (), s0)"
    "merge_script E reload script s0 = (Inr (), s1)"
    using each_last [of "merge_script E reload" "butlast prev" script s s1] p assms(1) by auto
  have "leaves outside (eachF (merge_script E reload) (butlast prev))" by (intro leaving)
  then have "outside s0 = outside s" using s0(1) by (metis leavesD snd_conv)
  then have "deployed_before reload s0 script" using assms(4) deployed_before_outside [of s0 s] by simp
  then show ?thesis using merged_network [OF s0(2)] by simp
qed

lemma run_script_skips:
  assumes "deployed_before reload s script"
  shows "outside (snd (run_script E reload False execute onSuccess prev script s)) = outside s"
proof -
  let ?m = "eachF (merge_script E reload) prev"
  let ?n = "if prev = [] \<or> last prev \<noteq> script then merge_script E reload script else retF ()"
  obtain r1 s1 where m: "?m s = (r1, s1)" by (cases "?m s")
  obtain r2 s2 where n: "?n s1 = (r2, s2)" by (cases "?n s1")
  have k: "leaves outside ?m" "leaves outside ?n" by (simp_all add: leaving)
  have o1: "outside s1 = outside s" using leavesD [OF k(1), of s] m by simp
  have o2: "outside s2 = outside s" using leavesD [OF k(2), of s1] n o1 by simp
  have b: "deployed_before reload s1 script" using assms deployed_before_outside [OF o1] by simp
  have "networkExistsInCurrentCP (dp_network s2) (dp_repo s2)" if ok: "r1 = Inr ()" "r2 = Inr ()"
  proof (cases "prev = [] \<or> last prev \<noteq> script")
    case True
    then show ?thesis using n ok b merged_network [of E reload script s1 s2] by simp
  next
    case False
    then show ?thesis using n m ok merged_before [of E reload prev s s1 script] assms by (simp add: retF_def)
  qed
  then show ?thesis using m n o1 o2 by (auto simp: run_script_def thenF_def bindF_def split: sum.split)
qed

lemma scripts_loop_skips:
  "\<forall>script\<in>set scripts. deployed_before reload s script \<Longrightarrow>
    outside (snd (scripts_loop E reload False execute onSuccess dir scripts s)) = outside s"
proof (induction scripts arbitrary: dir s)
  case Nil
  then show ?case by (simp add: retF_def)
next
  case (Cons script scripts)
  obtain prev dir' where d: "splitAfter dir script = (prev, dir')" by (cases "splitAfter dir script")
  let ?m = "run_script E reload False execute onSuccess prev script"
  obtain r s' where m: "?m s = (r, s')" by (cases "?m s")
  have o1: "outside s' = outside s" using run_script_skips [of reload s script E execute onSuccess prev] Cons.prems m by simp
  have "\<forall>x\<in>set scripts. deployed_before reload s' x" using Cons.prems deployed_before_outside [OF o1] by simp
  from Cons.IH [OF this] show ?case using o1 m by (simp add: d thenF_def bindF_def split: sum.split)
qed

lemma runScripts_skips:
  assumes "\<forall>script\<in>set scripts. deployed_before reload s script"
  shows "outside (snd (runScripts E reload False execute onSuccess allowWrite dir scripts s)) = outside s"
proof -
  obtain r s1 where m: "loadCheckpointsRecursive E reload s = (r, s1)" by (cases "loadCheckpointsRecursive E reload s")
  have o1: "outside s1 = outside s" using leavesD [OF leaves_loadCheckpoints, of E reload s] m by simp
  let ?s2 = "s1\<lparr>dp_isDeployMode := allowWrite, dp_script := ''''\<rparr>"
  have o2: "outside ?s2 = outside s" using o1 by (simp add: outside_def)
  have "\<forall>x\<in>set scripts. deployed_before reload ?s2 x" using assms deployed_before_outside [OF o2] by simp
  from scripts_loop_skips [OF this] show ?thesis using o1 o2 m
    by (auto simp: runScripts_def thenF_def bindF_def updF_def split: sum.split)
qed

lemma each_runScripts_skips:
  "\<forall>script\<in>set (concat parts). deployed_before reload s script \<Longrightarrow>
    outside (snd (eachF (runScripts E reload False execute onSuccess allowWrite dir) parts s)) = outside s"
proof (induction parts arbitrary: s)
  case Nil
  then show ?case by (simp add: retF_def)
next
  case (Cons p parts)
  let ?m = "runScripts E reload False execute onSuccess allowWrite dir p"
  obtain r s' where m: "?m s = (r, s')" by (cases "?m s")
  have o1: "outside s' = outside s"
    using runScripts_skips [of p reload s E execute onSuccess allowWrite dir] Cons.prems m by simp
  have "\<forall>x\<in>set (concat parts). deployed_before reload s' x" using Cons.prems deployed_before_outside [OF o1] by simp
  from Cons.IH [OF this] show ?case using o1 m by (simp add: thenF_def bindF_def split: sum.split)
qed

section \<open>The parts that scripts are run in\<close>

fun chain :: "('x \<Rightarrow> 'x \<Rightarrow> bool) \<Rightarrow> 'x list \<Rightarrow> bool" where
    "chain f (x # y # xs) = (\<not> f x y \<and> chain f (y # xs))"
  | "chain f _ = True"

lemma chain_snoc: "chain f (xs @ [x, y]) = (chain f (xs @ [x]) \<and> \<not> f x y)"
  by (induction f xs rule: chain.induct) (auto simp: neq_Nil_conv)

lemma partition_loop_parts:
  "concat (partition_loop f out (cur @ [prev]) prev xs) = concat out @ cur @ prev # xs"
proof (induction xs arbitrary: out cur prev)
  case (Cons x xs)
  show ?case using Cons.IH [of "out @ [cur @ [prev]]" "[]" x] Cons.IH [of out "cur @ [prev]" x] by simp
qed simp

lemma partition_loop_chains:
  "chain f (cur @ [prev]) \<Longrightarrow> \<forall>p\<in>set out. chain f p \<and> p \<noteq> [] \<Longrightarrow>
    \<forall>p\<in>set (partition_loop f out (cur @ [prev]) prev xs). chain f p \<and> p \<noteq> []"
proof (induction xs arbitrary: out cur prev)
  case (Cons x xs)
  show ?case
    using Cons.IH [of "[]" x "out @ [cur @ [prev]]"] Cons.IH [of "cur @ [prev]" x out] Cons.prems
    by (auto simp: chain_snoc)
qed auto

lemma partitionByFn_parts: "concat (partitionByFn f xs) = xs"
  using partition_loop_parts [of f "[]" "[]"] by (auto simp: partitionByFn_def split: list.split)

lemma partitionByFn_chains: "\<forall>p\<in>set (partitionByFn f xs). chain f p \<and> p \<noteq> []"
  using partition_loop_chains [of f "[]" _ "[]"] by (auto simp: partitionByFn_def split: list.split)

text \<open>
  C14: A project that is deployed is left alone. When the checkpoint file of every script that \<^verbatim>\<open>algob deploy\<close> is
  given already has the network, an unforced deployment ends, whatever the scripts would do, with the node, the
  network's name, the checkpoint files and the log as they were.
\<close>

theorem deployed_project_left_alone:
  assumes "\<forall>script\<in>set scriptNames. deployed_before reload s script"
  shows "outside (snd (executeDeployTask E reload cmp False execute dir scriptNames s)) = outside s"
proof -
  have "\<forall>script\<in>set (concat (partitionIntoSorted cmp scriptNames)). deployed_before reload s script"
    using assms by (simp add: partitionIntoSorted_def partitionByFn_parts)
  from each_runScripts_skips [OF this] show ?thesis
    by (simp add: executeDeployTask_def runMultipleScripts_def failF_def thenF_def bindF_def updF_def)
qed

section \<open>A name is deployed once\<close>

lemma deployApp_ok:
  assumes "dp_deployApp N name p s = (Inr info, s')"
  shows "dp_isDeployMode s \<and> \<not> dp_isDefined name s \<and> dp_isDeployMode s' \<and> dp_network s' = dp_network s \<and>
    dp_repo s' = registerSSC (nd_now N (dp_node s')) (dp_network s) name info (dp_repo s)"
  using assms
  by (auto simp: dp_deployApp_def deploy_only_def assertNoApp_def assert_free_def persisting_def registerSSCInfo_def
      on_repo_def run_defs on_node_def split: if_splits prod.splits sum.splits)

lemma refused:
  assumes "dp_isDeployMode s" "dp_isDefined name s"
  shows "assert_free e name s = (Inl (Builder (BuiltinTasks e)), persist s)"
  using assms by (simp add: assert_free_def)


definition sample_app :: app_cp where
  "sample_app = \<lparr>pc_creator = ''A'', pc_txID = ''T'', pc_appID = 7, pc_applicationAccount = ''B'', pc_confirmedRound = 3,
     pc_timestamp = 100, pc_deleted = False, pc_approvalFile = ''a.teal'', pc_clearFile = ''c.teal''\<rparr>"

definition sample_deployer :: "(nat, unit, unit) deployer" where
  "sample_deployer = \<lparr>dp_node = 0, dp_isDeployMode = True, dp_network = ''default'', dp_repo = new_repo, dp_script = ''0.js'',
     dp_files = [], dp_log = []\<rparr>"

definition sample_operator :: "(nat, unit, unit, unit) operator" where
  "sample_operator = \<lparr>nd_asaDef = \<lambda>_ _. retF None, nd_checkDef = \<lambda>_. Inr (), nd_deployASA = \<lambda>_ _. failF (Other ''''),
     nd_optInMultiple = \<lambda>_ _ _. retF (), nd_deployApp = \<lambda>_ _ n. (Inr sample_app, n + 1),
     nd_updateApp = \<lambda>_ _ _ n. (Inr sample_app, n + 1), nd_getLsig = \<lambda>_. retF (), nd_sign = \<lambda>_ _. retF (),
     nd_lsigAddress = \<lambda>_. ''L'', nd_now = \<lambda>n. int n\<rparr>"

lemma sample_deploys:
  "fst (dp_deployApp sample_operator ''app'' () sample_deployer) = Inr sample_app"
  by (simp add: dp_deployApp_def deploy_only_def assertNoApp_def assert_free_def persisting_def registerSSCInfo_def
      on_repo_def run_defs on_node_def sample_operator_def sample_deployer_def dp_isDefined_def repo_isDefined_def has_name_def new_repo_def)


definition sample_deployed :: "(nat, unit, unit) deployer" where
  "sample_deployed = sample_deployer\<lparr>dp_files := [(''0.js'', [(''default'', new_Checkpoint 0)])]\<rparr>"

lemma deployed_project_left_alone_witness:
  "outside (snd (executeDeployTask \<lparr>eq_asa = \<lambda>_ _. True, eq_app = \<lambda>_ _. True\<rparr> (\<lambda>c. c) (\<lambda>_ _. 0) False
     (\<lambda>_. failF (Other ''not run'')) [''0.js''] [''0.js''] sample_deployed)) = outside sample_deployed"
  using deployed_project_left_alone [of "[''0.js'']" "\<lambda>c. c" sample_deployed]
  by (simp add: deployed_before_def loadCheckpoint_def sample_deployed_def sample_deployer_def)

end
