(* ===== verification/Spec2Isabelle.thy ===== *)
theory Spec2Isabelle
  imports TEAL_Bytes TEAL_StackOps TEAL_Flow TEAL_LedgerOps TEAL_Payments TEAL_Assets TEAL_Process TEAL_Parsed TEAL_Checked
    TEAL_Levels TEAL_Params Algob_Tasks Algob_Deployer
begin

text \<open>
  Verification of the Algorand simulator of \<^verbatim>\<open>packages/runtime\<close>, of the transaction parameters of
  \<^verbatim>\<open>packages/web\<close>, and of the task runner, the checkpoints and the deployer of \<^verbatim>\<open>packages/algob\<close>.

  The simulator keeps a ledger of accounts, assets and applications (\<^verbatim>\<open>State\<close>, \<^verbatim>\<open>AccountStore\<close>), executes
  groups of transactions on a copy of it (\<^verbatim>\<open>Ctx\<close>), and for the transactions that call an application or
  carry a logic signature parses and interprets a TEAL program over a stack machine (\<^verbatim>\<open>parser\<close>, \<^verbatim>\<open>Interpreter\<close>,
  \<^verbatim>\<open>Op\<close>). A program may build and submit inner groups, which run in the same context.

  Theories, in the order of the code's layers (files are under \<^verbatim>\<open>src/packages/runtime/src\<close> unless said
  otherwise):

  The ground.
    \<^item> \<^verbatim>\<open>TEAL_Errors\<close>: error kinds and numbers of \<^verbatim>\<open>errors/errors-list.ts\<close>, and the exceptions of the
      platform (\<^verbatim>\<open>TypeError\<close>, \<^verbatim>\<open>RangeError\<close>).
    \<^item> \<^verbatim>\<open>TEAL_Prelude\<close>: the state and exception monad \<^verbatim>\<open>exec\<close> every operation is written in (a run gives
      an error or a value, and the state it stopped in, for a throw in the code keeps the changes made before it),
      the insertion-ordered maps of the code as association lists, and their lemmas.
    \<^item> \<^verbatim>\<open>TEAL_Limits\<close>, \<^verbatim>\<open>TEAL_FieldTables\<close>: \<^verbatim>\<open>lib/constants.ts\<close>: limits and opcode costs; the tables of fields by version
      and the regular expressions.
    \<^item> \<^verbatim>\<open>TEAL_Values\<close>: \<^verbatim>\<open>StackElem\<close> and \<^verbatim>\<open>lib/stack.ts\<close>; a \<^verbatim>\<open>Uint8Array\<close> is a reference into a heap of byte lists,
      so the aliasing of byte arrays is that of the code.
    \<^item> \<^verbatim>\<open>TEAL_Math\<close>, \<^verbatim>\<open>TEAL_Codec\<close>: \<^verbatim>\<open>lib/math.ts\<close> (the square root, whose loop is a partial function proved to end)
      and the conversions of \<^verbatim>\<open>lib/parsing.ts\<close>.

  The interpreter.
    \<^item> \<^verbatim>\<open>TEAL_State\<close>: the records of \<^verbatim>\<open>Ctx\<close>, \<^verbatim>\<open>State\<close> and \<^verbatim>\<open>Interpreter\<close>, the instructions, and the primitives of
      \<^verbatim>\<open>interpreter/opcode.ts\<close>. The functions of third-party packages are the fields of the record \<^verbatim>\<open>sdk\<close>, an
      argument of every definition that uses them.
    \<^item> \<^verbatim>\<open>TEAL_Arith\<close>, \<^verbatim>\<open>TEAL_Bytes\<close>, \<^verbatim>\<open>TEAL_StackOps\<close>, \<^verbatim>\<open>TEAL_Flow\<close>, \<^verbatim>\<open>TEAL_LedgerOps\<close>, \<^verbatim>\<open>TEAL_FieldOps\<close>, \<^verbatim>\<open>TEAL_CryptoOps\<close>,
      \<^verbatim>\<open>TEAL_InnerOps\<close>: the opcodes of \<^verbatim>\<open>interpreter/opcode-list.ts\<close> by group, one definition \<^verbatim>\<open>X_execute\<close> per class \<^verbatim>\<open>X\<close>.
      The integer opcodes refine a specification of the virtual machine; the byte opcodes come with their
      functional behaviour, round trips and the effects of aliasing.
    \<^item> \<^verbatim>\<open>TEAL_Store\<close>: the lookups of \<^verbatim>\<open>ctx.ts\<close>, \<^verbatim>\<open>runtime.ts\<close> and \<^verbatim>\<open>interpreter.ts\<close> that the opcodes use, and
      the locale of the invariants that account operations keep.
    \<^item> \<^verbatim>\<open>TEAL_Frame\<close>, \<^verbatim>\<open>TEAL_Interp\<close>: \<^verbatim>\<open>executeWithResult\<close>, the loop of \<^verbatim>\<open>interpreter.ts\<close>, with its costs. The loop
      is a \<^theory_text>\<open>partial_function\<close> with the value \<^const>\<open>None\<close> for a run that does not end; there is no fuel. What each
      opcode leaves alone (program, counters, control) and costs is proved per group, and with it that
      the loop ends and stays within the budget.
    \<^item> \<^verbatim>\<open>TEAL_Parser\<close>, \<^verbatim>\<open>TEAL_Parsed\<close>, \<^verbatim>\<open>TEAL_Checked\<close>: \<^verbatim>\<open>parser/parser.ts\<close> and the constructors of the opcodes; how a line
      is split into words; what is known of every instruction of an accepted program, and that every
      program ends.

  The ledger and the groups.
    \<^item> \<^verbatim>\<open>TEAL_Account\<close>: \<^verbatim>\<open>account.ts\<close>, \<^verbatim>\<open>lib/stateful.ts\<close>, \<^verbatim>\<open>lib/asa.ts\<close>, with the invariant of the minimum balance.
    \<^item> \<^verbatim>\<open>TEAL_Txn\<close>: the transactions of the SDK and their kinds (\<^verbatim>\<open>packages/web/src/lib/txn.ts\<close>, \<^verbatim>\<open>lib/txn.ts\<close>).
    \<^item> \<^verbatim>\<open>TEAL_Ledger\<close>: the operations of \<^verbatim>\<open>ctx.ts\<close> on the ledger. \<^verbatim>\<open>TEAL_Payments\<close>: what a payment and a fee do to
      the balances. \<^verbatim>\<open>TEAL_Assets\<close>: the supply of an asset is what its holders hold.
    \<^item> \<^verbatim>\<open>TEAL_Logicsig\<close>: \<^verbatim>\<open>logicsig.ts\<close>: when a logic signature is valid, and that signing makes it so.
    \<^item> \<^verbatim>\<open>TEAL_Group\<close>: \<^verbatim>\<open>processTransactions\<close> of \<^verbatim>\<open>ctx.ts\<close> and the checks of signatures of \<^verbatim>\<open>runtime.ts\<close>. Running a
      program is reached through the record \<^verbatim>\<open>machine\<close>, which \<^verbatim>\<open>TEAL_Machine\<close> gives.
    \<^item> \<^verbatim>\<open>TEAL_Runtime\<close>: \<^verbatim>\<open>runtime.ts\<close>: store, context, blocks, groups, and the operations outside groups.
      \<^verbatim>\<open>TEAL_Atomic\<close>: a group is executed as a whole or not at all, and where a failed group is seen
      later. \<^verbatim>\<open>TEAL_Process\<close>: what every transaction keeps, the group keeps; the sum of the balances.

  The two together.
    \<^item> \<^verbatim>\<open>TEAL_Laws\<close>: what a program may do to the ledger, as a locale over a relation: every opcode, the parser and
      the loop stay within it, errors included. It is interpreted for the number of transactions
      a context may still run and for the supply of the assets.
    \<^item> \<^verbatim>\<open>TEAL_Machine\<close>: \<^verbatim>\<open>Runtime.run\<close> of \<^verbatim>\<open>runtime.ts\<close> and the submission of inner groups by \<^verbatim>\<open>ITxnSubmit\<close>: the
      record \<^verbatim>\<open>machine\<close> closed over itself, by recursion on the levels of nesting, and the laws of a group
      with everything its programs do. A context starts with 256 transactions, so 257 levels are enough.
    \<^item> \<^verbatim>\<open>TEAL_Levels\<close>: that more levels change nothing, that at most 256 transactions run, and that no program
      and no inner group changes the supply of an asset.

  Parameters and the tool \<^verbatim>\<open>algob\<close> (files are under \<^verbatim>\<open>src/packages/algob/src\<close> unless said otherwise).
    \<^item> \<^verbatim>\<open>TEAL_Params\<close>: \<^verbatim>\<open>ExecParams\<close> of \<^verbatim>\<open>packages/web/src/types.ts\<close>, how a transaction is made of them
      (\<^verbatim>\<open>mkTransaction\<close>, \<^verbatim>\<open>parseAppArgs\<close>), and how an inner transaction becomes parameters (\<^verbatim>\<open>encTxToExecParams\<close> of
      the runtime's \<^verbatim>\<open>lib/txn.ts\<close>): who sends it, and what its arguments are.
    \<^item> \<^verbatim>\<open>Algob_Errors\<close>: the descriptors of \<^verbatim>\<open>packages/web/src/errors\<close>, which identify themselves by their numbers.
    \<^item> \<^verbatim>\<open>Algob_Arguments\<close>: \<^verbatim>\<open>internal/cli/arguments-parser.ts\<close> and \<^verbatim>\<open>internal/core/params\<close>. What is printed as
      arguments or as environment variables is parsed to the same values. The loops over words are total
      functions, measured by the words left.
    \<^item> \<^verbatim>\<open>Algob_Tasks\<close>: \<^verbatim>\<open>internal/core/tasks\<close> and \<^verbatim>\<open>runtime-environment.ts\<close>: what every declared task satisfies, by rule
      induction on the declarations, and that parsed arguments are accepted when the task is run.
    \<^item> \<^verbatim>\<open>Algob_Checkpoint\<close>: \<^verbatim>\<open>lib/script-checkpoints.ts\<close>: the three copies of the checkpoints, with the invariant that no
      script knows a name that the checkpoints of all scripts do not know.
    \<^item> \<^verbatim>\<open>Algob_Deployer\<close>: \<^verbatim>\<open>internal/deployer.ts\<close>, \<^verbatim>\<open>builtin-tasks/run.ts\<close> and \<^verbatim>\<open>deploy.ts\<close>: a name is deployed once, and a
      project that is deployed is left alone. The node is reached through the record \<^verbatim>\<open>operator\<close>.

  Not modelled:
    \<^item> the packages of other makers (\<^verbatim>\<open>algosdk\<close>, \<^verbatim>\<open>tweetnacl\<close>, hashes, curves, JSON): parameters;
    \<^item> console output, file access, the compilers and loaders of \<^verbatim>\<open>lib/\<close>, and the loading of asset files:
      input and output only;
    \<^item> the message texts of errors: an error is its kind;
    \<^item> the aliasing of a byte array between the stack and a field of an inner transaction, which the model
      copies; the names that every object inherits where a field of a transaction is looked up; numerals
      that are no integers, where the code makes an opcode argument of them;
    \<^item> of \<^verbatim>\<open>packages/algob\<close>: the loading and checking of configuration files and plugins, the node and the
      indexer (\<^verbatim>\<open>lib/algo-operator.ts\<close>, \<^verbatim>\<open>lib/tx.ts\<close>), compilation, the help printer, the built-in tasks other than
      \<^verbatim>\<open>run\<close> and \<^verbatim>\<open>deploy\<close>, the injection of the environment into global variables, the argument type \<^verbatim>\<open>float\<close>,
      which no parameter has; of \<^verbatim>\<open>packages/web\<close>: the wallet sessions. All this is input and output.
\<close>

end
